(* ===== verification/Py_Base.thy ===== *)
theory Py_Base
  imports Main "HOL-Library.AList"
begin

text \<open>
  What every component shares: Python's exceptions as values, results that are a value or an
  exception, the string methods the code calls, decimal printing of integers, and Python's
  insertion-ordered dictionaries as association lists (\<open>AList.update\<close> overwrites in place and
  appends a new key, as assignment to a dictionary item does). The collections
  \<open>dict_simps\<close> and \<open>op_defs\<close> gather the rules that evaluate dictionary code and the
  definitions a component wants unfolded in its own proofs.
\<close>

named_theorems dict_simps "evaluation and framing of insertion-ordered dictionaries"
named_theorems op_defs "definitions of the operations of a component"

section \<open>Exceptions and results\<close>

datatype pyexc = TypeError | ValueError | KeyError | OverflowError | ZeroDivisionError | DatabaseError | OtherError

type_synonym 'a result = "pyexc + 'a"

abbreviation Raise :: "pyexc \<Rightarrow> 'a result" where
  "Raise e \<equiv> Inl e"

abbreviation Ret :: "'a \<Rightarrow> 'a result" where
  "Ret x \<equiv> Inr x"

definition rbind :: "'a result \<Rightarrow> ('a \<Rightarrow> 'b result) \<Rightarrow> 'b result" where
  "rbind r f = (case r of Inl e \<Rightarrow> Inl e | Inr x \<Rightarrow> f x)"

lemma rbind_simps [simp]: "rbind (Inl e) f = Inl e" "rbind (Inr x) f = f x"
  by (simp_all add: rbind_def)

lemma rbind_Ret: "rbind r f = Inr y \<longleftrightarrow> (\<exists>x. r = Inr x \<and> f x = Inr y)"
  by (cases r) auto

definition option_or :: "'a option \<Rightarrow> 'a option \<Rightarrow> 'a option" where
  "option_or a b = (case a of None \<Rightarrow> b | Some _ \<Rightarrow> a)"

lemma option_or_simps [simp]: "option_or None b = b" "option_or (Some x) b = Some x"
  by (simp_all add: option_or_def)

section \<open>Strings\<close>

definition lower_char :: "char \<Rightarrow> char" where
  "lower_char c =
     (let n = of_char c :: nat in if 65 \<le> n \<and> n \<le> 90 then char_of (n + 32) else c)"

definition upper_char :: "char \<Rightarrow> char" where
  "upper_char c =
     (let n = of_char c :: nat in if 97 \<le> n \<and> n \<le> 122 then char_of (n - 32) else c)"

definition str_lower :: "string \<Rightarrow> string" where
  "str_lower s = map lower_char s"

definition str_upper :: "string \<Rightarrow> string" where
  "str_upper s = map upper_char s"

definition is_space :: "char \<Rightarrow> bool" where
  "is_space c = (let n = of_char c :: nat in n = 32 \<or> 9 \<le> n \<and> n \<le> 13 \<or> 28 \<le> n \<and> n \<le> 31)"

definition str_strip :: "string \<Rightarrow> string" where
  "str_strip s = rev (dropWhile is_space (rev (dropWhile is_space s)))"

definition str_rstrip :: "char \<Rightarrow> string \<Rightarrow> string" where
  "str_rstrip c s = rev (dropWhile (\<lambda>x. x = c) (rev s))"

definition is_digit :: "char \<Rightarrow> bool" where
  "is_digit c = (let n = of_char c :: nat in 48 \<le> n \<and> n \<le> 57)"

definition digit_val :: "char \<Rightarrow> nat" where
  "digit_val c = (of_char c :: nat) - 48"

definition digit_char :: "nat \<Rightarrow> char" where
  "digit_char d = char_of (48 + d)"

fun nat_digits :: "nat \<Rightarrow> string" where
  "nat_digits n = (if n < 10 then [digit_char n] else nat_digits (n div 10) @ [digit_char (n mod 10)])"

declare nat_digits.simps [simp del]

definition str_of_int :: "int \<Rightarrow> string" where
  "str_of_int i = (if i < 0 then CHR ''-'' # nat_digits (nat (- i)) else nat_digits (nat i))"

fun digits_nat :: "string \<Rightarrow> nat \<Rightarrow> nat" where
  "digits_nat [] acc = acc"
| "digits_nat (c # cs) acc = digits_nat cs (10 * acc + digit_val c)"

lemma digit_char_simps [simp]:
  "digit_char 0 = CHR ''0''" "digit_char 1 = CHR ''1''" "digit_char (Suc 0) = CHR ''1''" "digit_char 2 = CHR ''2''" "digit_char 3 = CHR ''3''"
  "digit_char 4 = CHR ''4''" "digit_char 5 = CHR ''5''" "digit_char 6 = CHR ''6''" "digit_char 7 = CHR ''7''"
  "digit_char 8 = CHR ''8''" "digit_char 9 = CHR ''9''"
  by code_simp+

lemmas str_of_int_eval = str_of_int_def nat_digits.simps

text \<open>
  Printing an integer loses nothing: the digits read back to the number. Hence \<open>str\<close> of an
  integer is an injective key, which is what lets the code use \<open>str(leg_id)\<close> as a
  dictionary key.
\<close>

lemma digits_nat_append: "digits_nat (s @ t) acc = digits_nat t (digits_nat s acc)"
  by (induction s acc rule: digits_nat.induct) auto

lemma digit_val_char: "d < 10 \<Longrightarrow> digit_val (digit_char d) = d"
  by (simp add: digit_val_def digit_char_def)

lemma digits_nat_of_digits: "digits_nat (nat_digits n) 0 = n"
proof (induction n rule: nat_digits.induct)
  case (1 n)
  show ?case
  proof (cases "n < 10")
    case True
    then show ?thesis by (simp add: nat_digits.simps [of n] digit_val_char)
  next
    case False
    with 1 show ?thesis
      by (simp add: nat_digits.simps [of n] digits_nat_append digit_val_char)
  qed
qed

lemma nat_digits_are_digits: "c \<in> set (nat_digits n) \<Longrightarrow> is_digit c"
proof (induction n rule: nat_digits.induct)
  case (1 n)
  have d: "is_digit (digit_char k)" if "k < 10" for k
    using that by (simp add: is_digit_def digit_char_def)
  from 1 d show ?case by (auto simp: nat_digits.simps [of n] split: if_splits)
qed

lemma nat_digits_no_sign: "nat_digits n \<noteq> CHR ''-'' # s"
  using nat_digits_are_digits [of "CHR ''-''" n] by (auto simp: is_digit_def)

lemma str_of_int_inj: "str_of_int i = str_of_int j \<longleftrightarrow> i = j"
proof
  assume eq: "str_of_int i = str_of_int j"
  have inj: "nat_digits m = nat_digits n \<Longrightarrow> m = n" for m n
    by (metis digits_nat_of_digits)
  from eq show "i = j"
    by (auto simp: str_of_int_def dest: inj nat_digits_no_sign [THEN notE]
        nat_digits_no_sign [THEN notE, OF sym] split: if_splits)
qed auto

section \<open>Insertion-ordered dictionaries\<close>

type_synonym ('k, 'v) dict = "('k \<times> 'v) list"

abbreviation dget :: "('k, 'v) dict \<Rightarrow> 'k \<Rightarrow> 'v option" where
  "dget d k \<equiv> map_of d k"

abbreviation dset :: "'k \<Rightarrow> 'v \<Rightarrow> ('k, 'v) dict \<Rightarrow> ('k, 'v) dict" where
  "dset k v d \<equiv> AList.update k v d"

abbreviation dpop :: "'k \<Rightarrow> ('k, 'v) dict \<Rightarrow> ('k, 'v) dict" where
  "dpop k d \<equiv> AList.delete k d"

abbreviation dkeys :: "('k, 'v) dict \<Rightarrow> 'k list" where
  "dkeys d \<equiv> map fst d"

abbreviation dvalues :: "('k, 'v) dict \<Rightarrow> 'v list" where
  "dvalues d \<equiv> map snd d"

definition dict_ok :: "('k, 'v) dict \<Rightarrow> bool" where
  "dict_ok d = distinct (map fst d)"

definition dict_all :: "('v \<Rightarrow> bool) \<Rightarrow> ('k, 'v) dict \<Rightarrow> bool" where
  "dict_all P d = (\<forall>k v. map_of d k = Some v \<longrightarrow> P v)"

lemma dget_dset [dict_simps]: "dget (dset k v d) k' = (if k' = k then Some v else dget d k')"
  by (simp add: update_conv)

lemma dget_dpop [dict_simps]: "dget (dpop k d) k' = (if k' = k then None else dget d k')"
  by (simp add: delete_conv)

lemma dict_ok_empty [dict_simps]: "dict_ok []"
  by (simp add: dict_ok_def)

lemma dict_ok_dset [dict_simps]: "dict_ok d \<Longrightarrow> dict_ok (dset k v d)"
  by (simp add: dict_ok_def distinct_update)

lemma dict_ok_dpop [dict_simps]: "dict_ok d \<Longrightarrow> dict_ok (dpop k d)"
  by (simp add: dict_ok_def distinct_delete)

lemma dict_all_empty [dict_simps]: "dict_all P []"
  by (simp add: dict_all_def)

lemma dict_all_dset [dict_simps]: "dict_all P d \<Longrightarrow> P v \<Longrightarrow> dict_all P (dset k v d)"
  by (auto simp: dict_all_def dget_dset)

lemma dict_all_dpop [dict_simps]: "dict_all P d \<Longrightarrow> dict_all P (dpop k d)"
  by (auto simp: dict_all_def dget_dpop split: if_splits)

lemma dict_allD: "dict_all P d \<Longrightarrow> dget d k = Some v \<Longrightarrow> P v"
  by (auto simp: dict_all_def)

lemma dict_values_dget: "dict_ok d \<Longrightarrow> v \<in> set (dvalues d) \<longleftrightarrow> (\<exists>k. dget d k = Some v)"
  by (force simp: dict_ok_def map_of_eq_Some_iff)

lemma dict_all_values: "dict_ok d \<Longrightarrow> dict_all P d \<Longrightarrow> v \<in> set (dvalues d) \<Longrightarrow> P v"
  using dict_values_dget [of d v] by (auto dest: dict_allD)

end
