(* ===== verification/Py_Float.thy ===== *)
theory Py_Float
  imports Complex_Main "HOL-Library.Log_Nat"
begin

text \<open>
  Python's \<open>float\<close>: an IEEE 754 double. A finite value is the rational number it stands
  for; the infinities and NaN are constructors of their own. Every arithmetic operation
  computes the exact rational result and rounds it once to 53 significant bits, ties to even,
  with gradual underflow below \<open>2^-1022\<close> and overflow to an infinity from \<open>2^1024\<close> on. The
  comparisons are Python's: every comparison with NaN is false. Signed zero is not
  distinguished, since no modelled operation divides by a float or prints one.

  The library lemmas say what the components use: rounding is monotone, exact on integers of
  at most 53 bits, and odd.
\<close>

section \<open>Rounding a rational to a double\<close>

definition round_half_even :: "rat \<Rightarrow> int" where
  "round_half_even q =
     (let f = \<lfloor>q\<rfloor>; r = q - of_int f in
      if r < 1/2 then f
      else if 1/2 < r then f + 1
      else if even f then f else f + 1)"

definition ilog2 :: "rat \<Rightarrow> int" where
  "ilog2 x =
     (let (n, d) = quotient_of x; k = bitlen n - bitlen d in
      if 2 powi k \<le> x then k else k - 1)"

definition unit_exp :: "rat \<Rightarrow> int" where
  "unit_exp x = max (ilog2 x) (-1022) - 52"

definition round_pos :: "rat \<Rightarrow> rat" where
  "round_pos x = of_int (round_half_even (x / 2 powi unit_exp x)) * 2 powi unit_exp x"

definition round_double :: "rat \<Rightarrow> rat" where
  "round_double x =
     (if x = 0 then 0 else if 0 < x then round_pos x else - round_pos (- x))"

subsection \<open>Rounding to an integer\<close>

lemma round_half_even_of_int [simp]: "round_half_even (of_int n) = n"
  by (simp add: round_half_even_def)

lemma round_half_even_bounds: "\<lfloor>q\<rfloor> \<le> round_half_even q \<and> round_half_even q \<le> \<lfloor>q\<rfloor> + 1"
  by (simp add: round_half_even_def Let_def)

lemma round_half_even_mono:
  assumes "p \<le> q"
  shows "round_half_even p \<le> round_half_even q"
proof (cases "\<lfloor>p\<rfloor> = \<lfloor>q\<rfloor>")
  case True
  with assms show ?thesis by (auto simp: round_half_even_def Let_def)
next
  case False
  with assms have "\<lfloor>p\<rfloor> + 1 \<le> \<lfloor>q\<rfloor>" using floor_mono [OF assms] by linarith
  with round_half_even_bounds [of p] round_half_even_bounds [of q] show ?thesis by linarith
qed

lemma round_half_even_le: "q \<le> of_int n \<Longrightarrow> round_half_even q \<le> n"
  using round_half_even_mono [of q "of_int n"] by simp

lemma round_half_even_ge: "of_int n \<le> q \<Longrightarrow> n \<le> round_half_even q"
  using round_half_even_mono [of "of_int n" q] by simp

subsection \<open>The binary exponent\<close>

lemma bitlen_powi:
  assumes "0 < n"
  shows "(2::rat) powi (bitlen n - 1) \<le> of_int n" and "of_int n < (2::rat) powi bitlen n"
proof -
  have pos: "0 < bitlen n"
    using assms bitlen_nonneg [of n] bitlen_eq_zero_iff [of n] by linarith
  have b: "2 ^ nat (bitlen n - 1) \<le> n" "n < 2 ^ nat (bitlen n)"
    using bitlen_bounds [OF assms] by auto
  have "(2::rat) powi (bitlen n - 1) = of_int (2 ^ nat (bitlen n - 1))"
    using pos by (simp add: power_int_def)
  also have "\<dots> \<le> of_int n" using b(1) by (simp only: of_int_le_iff)
  finally show "(2::rat) powi (bitlen n - 1) \<le> of_int n" .
  have "of_int n < (of_int (2 ^ nat (bitlen n)) :: rat)" using b(2) by (simp only: of_int_less_iff)
  also have "\<dots> = 2 powi bitlen n" using pos by (simp add: power_int_def)
  finally show "of_int n < (2::rat) powi bitlen n" .
qed

lemma ilog2_bounds:
  assumes "0 < x"
  shows "2 powi ilog2 x \<le> x" and "x < 2 powi (ilog2 x + 1)"
proof -
  obtain n d where q: "quotient_of x = (n, d)" by fastforce
  have d: "0 < d" using quotient_of_denom_pos [OF q] .
  have x: "x = of_int n / of_int d" using quotient_of_div [OF q] .
  have n: "0 < n" using assms d x by (simp add: zero_less_divide_iff)
  let ?k = "bitlen n - bitlen d"
  have "2 powi (?k - 1) = (2::rat) powi (bitlen n - 1) / 2 powi bitlen d"
    by (simp add: power_int_diff [symmetric] algebra_simps)
  also have "\<dots> \<le> x"
    unfolding x using bitlen_powi [OF n] bitlen_powi [OF d] n d by (intro frac_le) auto
  finally have lo: "2 powi (?k - 1) \<le> x" .
  have "x \<le> of_int n / 2 powi (bitlen d - 1)"
    unfolding x using bitlen_powi [OF d] n by (intro divide_left_mono) (auto simp: d)
  also have "\<dots> < 2 powi bitlen n / 2 powi (bitlen d - 1)"
    using bitlen_powi [OF n] by (intro divide_strict_right_mono) auto
  also have "\<dots> = 2 powi (?k + 1)"
    by (simp add: power_int_diff [symmetric] algebra_simps)
  finally have hi: "x < 2 powi (?k + 1)" .
  from lo hi show "2 powi ilog2 x \<le> x" and "x < 2 powi (ilog2 x + 1)"
    by (auto simp: ilog2_def q not_le Let_def)
qed

lemma ilog2_mono:
  assumes "0 < x" "x \<le> y"
  shows "ilog2 x \<le> ilog2 y"
proof (rule ccontr)
  assume "\<not> ilog2 x \<le> ilog2 y"
  then have "(2::rat) powi (ilog2 y + 1) \<le> 2 powi ilog2 x"
    by (intro power_int_increasing) auto
  with ilog2_bounds [of x] ilog2_bounds [of y] assms show False by simp
qed

lemma ilog2_unique:
  assumes "2 powi k \<le> x" "x < 2 powi (k + 1)"
  shows "ilog2 x = k"
proof -
  have "0 < (2::rat) powi k" by simp
  with assms(1) have pos: "0 < x" by linarith
  have "\<not> k < ilog2 x"
  proof
    assume "k < ilog2 x"
    then have "(2::rat) powi (k + 1) \<le> 2 powi ilog2 x" by (intro power_int_increasing) auto
    with ilog2_bounds(1) [OF pos] assms(2) show False by simp
  qed
  moreover have "\<not> ilog2 x < k"
  proof
    assume "ilog2 x < k"
    then have "(2::rat) powi (ilog2 x + 1) \<le> 2 powi k" by (intro power_int_increasing) auto
    with ilog2_bounds(2) [OF pos] assms(1) show False by simp
  qed
  ultimately show ?thesis by simp
qed

subsection \<open>Rounding to a double is monotone\<close>

lemma round_pos_upper:
  assumes "0 < x" and "unit_exp x < e"
  shows "round_pos x \<le> 2 powi (e + 52)"
proof -
  let ?u = "unit_exp x"
  have "x < 2 powi (ilog2 x + 1)" using ilog2_bounds(2) [OF assms(1)] .
  also have "\<dots> \<le> 2 powi (?u + 53)" by (intro power_int_increasing) (auto simp: unit_exp_def)
  finally have "x / 2 powi ?u \<le> 2 powi (?u + 53) / 2 powi ?u"
    by (intro divide_right_mono) auto
  also have "\<dots> = of_int (2 ^ 53)"
    by (simp add: power_int_diff [symmetric])
  finally have "round_half_even (x / 2 powi ?u) \<le> 2 ^ 53" by (rule round_half_even_le)
  then have "of_int (round_half_even (x / 2 powi ?u)) \<le> (of_int (2 ^ 53) :: rat)"
    by (simp only: of_int_le_iff)
  then have "round_pos x \<le> of_int (2 ^ 53) * 2 powi ?u"
    unfolding round_pos_def by (intro mult_right_mono) auto
  also have "\<dots> = 2 powi (?u + 53)" by (simp add: power_int_add)
  also have "\<dots> \<le> 2 powi (e + 52)" using assms(2) by (intro power_int_increasing) auto
  finally show ?thesis .
qed

lemma round_pos_lower:
  assumes "0 < x" and "-1074 < unit_exp x"
  shows "2 powi (unit_exp x + 52) \<le> round_pos x"
proof -
  let ?u = "unit_exp x"
  have u: "?u + 52 = ilog2 x" using assms(2) by (auto simp: unit_exp_def max_def split: if_splits)
  have "of_int (2 ^ 52) = (2::rat) powi (?u + 52) / 2 powi ?u"
    by (simp add: power_int_diff [symmetric])
  also have "\<dots> \<le> x / 2 powi ?u"
    using ilog2_bounds(1) [OF assms(1)] unfolding u by (intro divide_right_mono) auto
  finally have "2 ^ 52 \<le> round_half_even (x / 2 powi ?u)" by (rule round_half_even_ge)
  then have "(of_int (2 ^ 52) :: rat) \<le> of_int (round_half_even (x / 2 powi ?u))"
    by (simp only: of_int_le_iff)
  then have "of_int (2 ^ 52) * 2 powi ?u \<le> round_pos x"
    unfolding round_pos_def by (intro mult_right_mono) auto
  then show ?thesis by (simp add: power_int_add)
qed

lemma unit_exp_ge: "-1074 \<le> unit_exp x"
  by (simp add: unit_exp_def)

lemma unit_exp_mono: "0 < x \<Longrightarrow> x \<le> y \<Longrightarrow> unit_exp x \<le> unit_exp y"
  using ilog2_mono [of x y] by (simp add: unit_exp_def)

lemma round_pos_mono:
  assumes "0 < x" "x \<le> y"
  shows "round_pos x \<le> round_pos y"
proof (cases "unit_exp x = unit_exp y")
  case True
  have "x / 2 powi unit_exp y \<le> y / 2 powi unit_exp y" using assms(2) by (intro divide_right_mono) auto
  then show ?thesis
    using round_half_even_mono unfolding round_pos_def True by (intro mult_right_mono) auto
next
  case False
  with unit_exp_mono [OF assms] have lt: "unit_exp x < unit_exp y" by simp
  have "round_pos x \<le> 2 powi (unit_exp y + 52)" using round_pos_upper [OF assms(1) lt] .
  also have "\<dots> \<le> round_pos y"
    using lt unit_exp_ge [of x] assms by (intro round_pos_lower) auto
  finally show ?thesis .
qed

lemma round_pos_nonneg: "0 < x \<Longrightarrow> 0 \<le> round_pos x"
proof -
  assume "0 < x"
  then have "of_int 0 \<le> x / 2 powi unit_exp x" by simp
  then have "0 \<le> round_half_even (x / 2 powi unit_exp x)" by (rule round_half_even_ge)
  then show ?thesis by (simp add: round_pos_def)
qed

lemma round_double_zero [simp]: "round_double 0 = 0"
  by (simp add: round_double_def)

lemma round_double_minus [simp]: "round_double (- x) = - round_double x"
  by (simp add: round_double_def)

lemma round_double_nonneg: "0 \<le> x \<Longrightarrow> 0 \<le> round_double x"
  by (simp add: round_double_def round_pos_nonneg)

lemma round_double_mono:
  assumes "x \<le> y"
  shows "round_double x \<le> round_double y"
proof -
  consider "0 < x" | "x \<le> 0" "0 \<le> y" | "y < 0" by linarith
  then show ?thesis
  proof cases
    case 1
    with assms show ?thesis by (simp add: round_double_def round_pos_mono)
  next
    case 2
    then have "0 \<le> - round_double x" using round_double_nonneg [of "- x"] by simp
    with 2 round_double_nonneg [of y] show ?thesis by linarith
  next
    case 3
    with assms have "round_pos (- y) \<le> round_pos (- x)" by (intro round_pos_mono) auto
    with 3 assms show ?thesis by (simp add: round_double_def)
  qed
qed

text \<open>A rational with at most 53 significant bits is a double already, so rounding keeps it.\<close>

lemma round_pos_exact:
  assumes "0 < m" "m < 2 ^ 53" "-1074 \<le> e" and x: "x = of_int m * 2 powi e"
  shows "round_pos x = x"
proof -
  have pos: "0 < x" using assms by simp
  have "ilog2 x < e + 53"
  proof (rule ccontr)
    assume "\<not> ilog2 x < e + 53"
    then have "(2::rat) powi (e + 53) \<le> 2 powi ilog2 x" by (intro power_int_increasing) auto
    with ilog2_bounds(1) [OF pos] have "(2::rat) powi (e + 53) \<le> x" by linarith
    moreover have "x < of_int (2 ^ 53) * 2 powi e"
      unfolding x using assms(2) by (intro mult_strict_right_mono) (simp_all only: of_int_less_iff, simp)
    ultimately show False by (simp add: power_int_add)
  qed
  then have u: "unit_exp x \<le> e" using assms(3) by (auto simp: unit_exp_def)
  have "x / 2 powi unit_exp x = of_int m * (2 powi e / 2 powi unit_exp x)" by (simp add: x)
  also have "\<dots> = of_int m * 2 powi (e - unit_exp x)" by (simp add: power_int_diff)
  also have "\<dots> = of_int (m * 2 ^ nat (e - unit_exp x))" using u by (simp add: power_int_def)
  finally have eq: "x / 2 powi unit_exp x = of_int (m * 2 ^ nat (e - unit_exp x))" .
  show ?thesis
    unfolding round_pos_def eq round_half_even_of_int by (subst eq [symmetric]) simp
qed

definition representable :: "rat \<Rightarrow> bool" where
  "representable x = (\<exists>m e. \<bar>m\<bar> < 2 ^ 53 \<and> -1074 \<le> e \<and> x = of_int m * 2 powi e)"

lemma round_double_representable: "representable x \<Longrightarrow> round_double x = x"
proof -
  assume "representable x"
  then obtain m e where me: "\<bar>m\<bar> < 2 ^ 53" "-1074 \<le> e" "x = of_int m * 2 powi e"
    by (auto simp: representable_def)
  consider "0 < m" | "m = 0" | "m < 0" by linarith
  then show ?thesis
  proof cases
    case 1
    with me have "0 < x" by simp
    with round_pos_exact [of m e x] 1 me show ?thesis by (simp add: round_double_def)
  next
    case 2
    with me show ?thesis by simp
  next
    case 3
    then have "0 < (of_int (- m) :: rat)" by simp
    then have "0 < of_int (- m) * (2::rat) powi e" by (intro mult_pos_pos) auto
    then have "x < 0" using me(3) by simp
    with round_pos_exact [of "- m" e "- x"] 3 me show ?thesis by (simp add: round_double_def)
  qed
qed

lemma round_double_of_int: "\<bar>n\<bar> < 2 ^ 53 \<Longrightarrow> round_double (of_int n) = of_int n"
proof (rule round_double_representable)
  assume "\<bar>n\<bar> < 2 ^ 53"
  then have "\<bar>n\<bar> < 2 ^ 53 \<and> -1074 \<le> (0::int) \<and> of_int n = of_int n * (2::rat) powi 0" by simp
  then show "representable (of_int n)" unfolding representable_def by blast
qed

section \<open>The type and its operations\<close>

datatype pyfloat = Fin rat | PosInf | NegInf | NaN

definition max_double :: rat where
  "max_double = (2 ^ 53 - 1) * 2 ^ 971"

definition to_double :: "rat \<Rightarrow> pyfloat" where
  "to_double x =
     (let r = round_double x in
      if max_double < r then PosInf else if r < - max_double then NegInf else Fin r)"

definition isfinite :: "pyfloat \<Rightarrow> bool" where
  "isfinite x = (case x of Fin _ \<Rightarrow> True | _ \<Rightarrow> False)"

instantiation pyfloat :: "{plus, minus, times, uminus, zero, ord, abs}"
begin

definition zero_pyfloat :: pyfloat where
  "zero_pyfloat = Fin 0"

fun uminus_pyfloat :: "pyfloat \<Rightarrow> pyfloat" where
  "uminus_pyfloat (Fin a) = Fin (- a)"
| "uminus_pyfloat PosInf = NegInf"
| "uminus_pyfloat NegInf = PosInf"
| "uminus_pyfloat NaN = NaN"

fun abs_pyfloat :: "pyfloat \<Rightarrow> pyfloat" where
  "abs_pyfloat (Fin a) = Fin \<bar>a\<bar>"
| "abs_pyfloat NaN = NaN"
| "abs_pyfloat _ = PosInf"

fun plus_pyfloat :: "pyfloat \<Rightarrow> pyfloat \<Rightarrow> pyfloat" where
  "plus_pyfloat (Fin a) (Fin b) = to_double (a + b)"
| "plus_pyfloat NaN _ = NaN"
| "plus_pyfloat _ NaN = NaN"
| "plus_pyfloat PosInf NegInf = NaN"
| "plus_pyfloat NegInf PosInf = NaN"
| "plus_pyfloat PosInf _ = PosInf"
| "plus_pyfloat _ PosInf = PosInf"
| "plus_pyfloat NegInf _ = NegInf"
| "plus_pyfloat _ NegInf = NegInf"

definition minus_pyfloat :: "pyfloat \<Rightarrow> pyfloat \<Rightarrow> pyfloat" where
  "minus_pyfloat a b = a + (- b)"

fun times_pyfloat :: "pyfloat \<Rightarrow> pyfloat \<Rightarrow> pyfloat" where
  "times_pyfloat (Fin a) (Fin b) = to_double (a * b)"
| "times_pyfloat NaN _ = NaN"
| "times_pyfloat _ NaN = NaN"
| "times_pyfloat (Fin a) PosInf = (if a = 0 then NaN else if 0 < a then PosInf else NegInf)"
| "times_pyfloat (Fin a) NegInf = (if a = 0 then NaN else if 0 < a then NegInf else PosInf)"
| "times_pyfloat PosInf (Fin a) = (if a = 0 then NaN else if 0 < a then PosInf else NegInf)"
| "times_pyfloat NegInf (Fin a) = (if a = 0 then NaN else if 0 < a then NegInf else PosInf)"
| "times_pyfloat PosInf PosInf = PosInf"
| "times_pyfloat PosInf NegInf = NegInf"
| "times_pyfloat NegInf PosInf = NegInf"
| "times_pyfloat NegInf NegInf = PosInf"

fun less_eq_pyfloat :: "pyfloat \<Rightarrow> pyfloat \<Rightarrow> bool" where
  "less_eq_pyfloat (Fin a) (Fin b) = (a \<le> b)"
| "less_eq_pyfloat NaN _ = False"
| "less_eq_pyfloat _ NaN = False"
| "less_eq_pyfloat NegInf _ = True"
| "less_eq_pyfloat _ PosInf = True"
| "less_eq_pyfloat _ _ = False"

fun less_pyfloat :: "pyfloat \<Rightarrow> pyfloat \<Rightarrow> bool" where
  "less_pyfloat (Fin a) (Fin b) = (a < b)"
| "less_pyfloat NegInf (Fin _) = True"
| "less_pyfloat NegInf PosInf = True"
| "less_pyfloat (Fin _) PosInf = True"
| "less_pyfloat _ _ = False"

instance ..

end

text \<open>
  Python's \<open>==\<close> on floats: NaN differs from everything. \<open>max(a, b)\<close> and \<open>min(a, b)\<close> keep
  their first argument unless the second is strictly better, which decides what they do with
  NaN. Truthiness is "not equal to zero", so NaN is true.
\<close>

definition feq :: "pyfloat \<Rightarrow> pyfloat \<Rightarrow> bool" where
  "feq a b = (a = b \<and> a \<noteq> NaN)"

definition py_max :: "pyfloat \<Rightarrow> pyfloat \<Rightarrow> pyfloat" where
  "py_max a b = (if b > a then b else a)"

definition py_min :: "pyfloat \<Rightarrow> pyfloat \<Rightarrow> pyfloat" where
  "py_min a b = (if b < a then b else a)"

definition ftruthy :: "pyfloat \<Rightarrow> bool" where
  "ftruthy a = (a \<noteq> 0)"

text \<open>Division where the divisor has been tested to be a non-zero finite number.\<close>

fun fdiv :: "pyfloat \<Rightarrow> pyfloat \<Rightarrow> pyfloat" where
  "fdiv (Fin a) (Fin b) = to_double (a / b)"
| "fdiv NaN _ = NaN"
| "fdiv _ NaN = NaN"
| "fdiv (Fin a) _ = Fin 0"
| "fdiv PosInf (Fin b) = (if 0 \<le> b then PosInf else NegInf)"
| "fdiv NegInf (Fin b) = (if 0 \<le> b then NegInf else PosInf)"
| "fdiv PosInf _ = NaN"
| "fdiv NegInf _ = NaN"

section \<open>Facts the components use\<close>

lemma pyfloat_refl: "a \<noteq> NaN \<Longrightarrow> a \<le> (a::pyfloat)"
  by (cases a) auto

lemma pyfloat_le_trans: "a \<le> b \<Longrightarrow> b \<le> c \<Longrightarrow> a \<le> (c::pyfloat)"
  by (cases a; cases b; cases c) auto

lemma pyfloat_less_le_trans: "a < b \<Longrightarrow> b \<le> c \<Longrightarrow> a < (c::pyfloat)"
  by (cases a; cases b; cases c) auto

lemma pyfloat_le_less_trans: "a \<le> b \<Longrightarrow> b < c \<Longrightarrow> a < (c::pyfloat)"
  by (cases a; cases b; cases c) auto

lemma pyfloat_less_imp_le: "a < b \<Longrightarrow> a \<le> (b::pyfloat)"
  by (cases a; cases b) auto

lemma pyfloat_not_less: "a \<noteq> NaN \<Longrightarrow> b \<noteq> NaN \<Longrightarrow> \<not> a < b \<longleftrightarrow> b \<le> (a::pyfloat)"
  by (cases a; cases b) auto

lemma pyfloat_le_not_NaN: "a \<le> b \<Longrightarrow> a \<noteq> NaN \<and> b \<noteq> (NaN::pyfloat)"
  by (cases a; cases b) auto

lemma pyfloat_antisym: "a \<le> b \<Longrightarrow> b \<le> a \<Longrightarrow> a = (b::pyfloat)"
  by (cases a; cases b) auto

lemma max_double_pos: "0 < max_double"
  by (simp add: max_double_def)

lemma to_double_zero [simp]: "to_double 0 = Fin 0"
  using max_double_pos by (simp add: to_double_def)

lemma to_double_Fin: "to_double x = Fin y \<Longrightarrow> y = round_double x"
  by (auto simp: to_double_def Let_def split: if_splits)

lemma to_double_not_NaN [simp]: "to_double x \<noteq> NaN"
  by (simp add: to_double_def Let_def)

lemma to_double_mono: "x \<le> y \<Longrightarrow> to_double x \<le> to_double y"
  using round_double_mono [of x y] max_double_pos by (auto simp: to_double_def Let_def)

lemma to_double_pos: "0 < to_double x \<Longrightarrow> 0 < x"
proof (rule ccontr)
  assume pos: "0 < to_double x" and "\<not> 0 < x"
  then have "to_double x \<le> Fin 0" using to_double_mono [of x 0] by simp
  from pyfloat_less_le_trans [OF pos this] show False by (simp add: zero_pyfloat_def)
qed

lemma to_double_minus: "to_double (- x) = - to_double x"
  using max_double_pos by (auto simp: to_double_def Let_def)

lemma to_double_of_int: "\<bar>n\<bar> < 2 ^ 53 \<Longrightarrow> to_double (of_int n) = Fin (of_int n)"
proof -
  assume n: "\<bar>n\<bar> < 2 ^ 53"
  have "(2 ^ 53 :: rat) \<le> max_double" by (simp add: max_double_def)
  moreover have "of_int \<bar>n\<bar> < (of_int (2 ^ 53) :: rat)" using n by (simp only: of_int_less_iff)
  ultimately have "of_int \<bar>n\<bar> < max_double" by simp
  then show ?thesis using n by (auto simp: to_double_def round_double_of_int Let_def)
qed

lemma py_max_ge1: "a \<noteq> NaN \<Longrightarrow> a \<le> py_max a b"
  by (cases a; cases b) (auto simp: py_max_def)

lemma py_max_ge2: "a \<noteq> NaN \<Longrightarrow> b \<noteq> NaN \<Longrightarrow> b \<le> py_max a b"
  by (cases a; cases b) (auto simp: py_max_def)

lemma py_min_le1: "a \<noteq> NaN \<Longrightarrow> py_min a b \<le> a"
  by (cases a; cases b) (auto simp: py_min_def)

lemma py_min_le2: "a \<noteq> NaN \<Longrightarrow> b \<noteq> NaN \<Longrightarrow> py_min a b \<le> b"
  by (cases a; cases b) (auto simp: py_min_def)

lemma minus_Fin: "Fin a - Fin b = to_double (a - b)"
  by (simp add: minus_pyfloat_def)

lemma diff_pos: "0 < Fin a - Fin b \<Longrightarrow> b < a"
  using to_double_pos [of "a - b"] by (simp add: minus_Fin)

lemma diff_nonneg: "b \<le> a \<Longrightarrow> 0 \<le> Fin a - Fin b"
  using to_double_mono [of 0 "a - b"] by (simp add: minus_Fin zero_pyfloat_def)

text \<open>Rules that evaluate integer arithmetic below \<open>2^53\<close>, for concrete instances.\<close>

lemma to_double_numeral [simp]:
  "(numeral n :: int) < 2 ^ 53 \<Longrightarrow> to_double (numeral n) = Fin (numeral n)"
  using to_double_of_int [of "numeral n"] by simp

lemma to_double_neg_numeral [simp]:
  "(numeral n :: int) < 2 ^ 53 \<Longrightarrow> to_double (- numeral n) = Fin (- numeral n)"
  by (simp add: to_double_minus)

lemma to_double_one [simp]: "to_double 1 = Fin 1" "to_double (- 1) = Fin (- 1)"
  using to_double_of_int [of 1] to_double_of_int [of "-1"] by simp_all

end
