(* ===== verification/Py_Value.thy ===== *)
theory Py_Value
  imports Py_Base Py_Float
begin

text \<open>
  Untyped Python values, as they reach the code in a REST body or a state dictionary, and the
  conversions the code applies to them: truth, \<open>str\<close>, \<open>float\<close> with its string grammar, and
  the fixed-point formatting of a float. A value of a type the model has no constructor for
  (a list, a Decimal) carries its truth value, its text and what \<open>float\<close> makes of it. The
  shortest round-trip text of a float is the parameter \<open>frepr\<close> of \<open>py_str\<close>.
\<close>

datatype pyval =
    VNone
  | VBool bool
  | VInt int
  | VFloat pyfloat
  | VStr string
  | VOther bool string "pyfloat result"

type_synonym pydict = "string \<rightharpoonup> pyval"

definition get_val :: "pydict \<Rightarrow> string \<Rightarrow> pyval" where
  "get_val m k = (case m k of None \<Rightarrow> VNone | Some v \<Rightarrow> v)"

fun py_truthy :: "pyval \<Rightarrow> bool" where
  "py_truthy VNone = False"
| "py_truthy (VBool b) = b"
| "py_truthy (VInt i) = (i \<noteq> 0)"
| "py_truthy (VFloat f) = ftruthy f"
| "py_truthy (VStr s) = (s \<noteq> [])"
| "py_truthy (VOther b s f) = b"

definition py_or :: "pyval \<Rightarrow> pyval \<Rightarrow> pyval" where
  "py_or a b = (if py_truthy a then a else b)"

fun py_str :: "(pyfloat \<Rightarrow> string) \<Rightarrow> pyval \<Rightarrow> string" where
  "py_str frepr VNone = ''None''"
| "py_str frepr (VBool b) = (if b then ''True'' else ''False'')"
| "py_str frepr (VInt i) = str_of_int i"
| "py_str frepr (VFloat f) = frepr f"
| "py_str frepr (VStr s) = s"
| "py_str frepr (VOther b s f) = s"

section \<open>\<open>float\<close> of a value\<close>

text \<open>Underscores may stand between two digits only; they are dropped.\<close>

fun drop_underscores :: "char \<Rightarrow> string \<Rightarrow> string option" where
  "drop_underscores prev [] = (if prev = CHR ''_'' then None else Some [])"
| "drop_underscores prev (c # cs) =
     (if c = CHR ''_'' then (if is_digit prev then drop_underscores c cs else None)
      else if prev = CHR ''_'' \<and> \<not> is_digit c then None
      else map_option (Cons c) (drop_underscores c cs))"

definition parse_exponent :: "string \<Rightarrow> int option" where
  "parse_exponent t =
     (let (neg, ds) = (case t of CHR ''-'' # u \<Rightarrow> (True, u) | CHR ''+'' # u \<Rightarrow> (False, u) | _ \<Rightarrow> (False, t)) in
      if ds \<noteq> [] \<and> list_all is_digit ds
      then Some (if neg then - int (digits_nat ds 0) else int (digits_nat ds 0)) else None)"

definition parse_unsigned :: "string \<Rightarrow> pyfloat option" where
  "parse_unsigned s =
     (if s = ''inf'' \<or> s = ''infinity'' then Some PosInf
      else if s = ''nan'' then Some NaN
      else
        let ip = takeWhile is_digit s; r = dropWhile is_digit s;
            fp = (case r of CHR ''.'' # t \<Rightarrow> takeWhile is_digit t | _ \<Rightarrow> []);
            r2 = (case r of CHR ''.'' # t \<Rightarrow> dropWhile is_digit t | _ \<Rightarrow> r);
            m = digits_nat (ip @ fp) 0 in
        if ip @ fp = [] then None
        else case r2 of
            [] \<Rightarrow> Some (to_double (of_nat m * 10 powi (- int (length fp))))
          | CHR ''e'' # t \<Rightarrow>
              map_option (\<lambda>e. to_double (of_nat m * 10 powi (e - int (length fp)))) (parse_exponent t)
          | _ \<Rightarrow> None)"

definition parse_float :: "string \<Rightarrow> pyfloat option" where
  "parse_float s =
     (case drop_underscores CHR '' '' (str_lower (str_strip s)) of
        None \<Rightarrow> None
      | Some (CHR ''-'' # u) \<Rightarrow> map_option uminus (parse_unsigned u)
      | Some (CHR ''+'' # u) \<Rightarrow> parse_unsigned u
      | Some u \<Rightarrow> parse_unsigned u)"

fun py_float :: "pyval \<Rightarrow> pyfloat result" where
  "py_float VNone = Raise TypeError"
| "py_float (VBool b) = Ret (Fin (if b then 1 else 0))"
| "py_float (VInt i) = (let f = to_double (of_int i) in if isfinite f then Ret f else Raise OverflowError)"
| "py_float (VFloat f) = Ret f"
| "py_float (VStr s) = (case parse_float s of None \<Rightarrow> Raise ValueError | Some f \<Rightarrow> Ret f)"
| "py_float (VOther b s f) = f"

text \<open>\<open>int\<close> truncates towards zero; NaN is a \<open>ValueError\<close>, an infinity an \<open>OverflowError\<close>.\<close>

fun trunc_int :: "pyfloat \<Rightarrow> int result" where
  "trunc_int (Fin r) = Ret (if 0 \<le> r then \<lfloor>r\<rfloor> else \<lceil>r\<rceil>)"
| "trunc_int NaN = Raise ValueError"
| "trunc_int _ = Raise OverflowError"

text \<open>\<open>int(x)\<close>, of a text and of any value.\<close>

definition digits_value :: "string \<Rightarrow> int result" where
  "digits_value t =
     (case t of
        [] \<Rightarrow> Raise ValueError
      | c # cs \<Rightarrow>
          case drop_underscores CHR ''_'' t of
            None \<Rightarrow> Raise ValueError
          | Some ds \<Rightarrow> if list_all is_digit ds then Ret (int (digits_nat ds 0)) else Raise ValueError)"

definition int_of_str :: "string \<Rightarrow> int result" where
  "int_of_str s =
     (case str_strip s of
        [] \<Rightarrow> Raise ValueError
      | c # cs \<Rightarrow>
          if c = CHR ''-'' then rbind (digits_value cs) (\<lambda>n. Ret (- n))
          else if c = CHR ''+'' then digits_value cs
          else digits_value (c # cs))"

fun py_int :: "pyval \<Rightarrow> int result" where
  "py_int VNone = Raise TypeError"
| "py_int (VBool b) = Ret (if b then 1 else 0)"
| "py_int (VInt n) = Ret n"
| "py_int (VFloat x) = trunc_int x"
| "py_int (VStr s) = int_of_str s"
| "py_int (VOther b s f) = rbind f trunc_int"

text \<open>Microseconds in a day.\<close>

definition day_length :: int where
  "day_length = 86400000000"

section \<open>Fixed-point formatting\<close>

fun pad_digits :: "nat \<Rightarrow> string \<Rightarrow> string" where
  "pad_digits n s = replicate (n - length s) (CHR ''0'') @ s"

text \<open>\<open>f''{x:.4f}''\<close>: the exact value rounded half-even to four decimals.\<close>

definition format_fixed4 :: "pyfloat \<Rightarrow> string" where
  "format_fixed4 x =
     (case x of
        NaN \<Rightarrow> ''nan''
      | PosInf \<Rightarrow> ''inf''
      | NegInf \<Rightarrow> ''-inf''
      | Fin r \<Rightarrow>
          (let k = nat \<bar>round_half_even (r * 10000)\<bar>;
               body = nat_digits (k div 10000) @ ''.'' @ pad_digits 4 (nat_digits (k mod 10000)) in
           if r < 0 then CHR ''-'' # body else body))"

lemma isfinite_Fin [simp]: "isfinite (Fin r)" "\<not> isfinite PosInf" "\<not> isfinite NegInf" "\<not> isfinite NaN"
  by (simp_all add: isfinite_def)

lemma isfinite_iff: "isfinite x \<longleftrightarrow> (\<exists>r. x = Fin r)"
  by (cases x) auto

end
