(* ===== verification/Risk_Models.thy ===== *)
theory Risk_Models
  imports Py_Value
begin

text \<open>
  The value types of the shared risk core, \<open>services/risk/models.py\<close>: sides, trail modes,
  breach reasons, the frozen dataclasses as records, and the normalisation of untrusted input
  (\<open>is_price\<close>, \<open>as_float\<close>, \<open>as_price\<close>, the \<open>from_state\<close> constructors). Untrusted input is a
  \<open>pyval\<close>. \<open>float\<close> of an integer beyond the range of a double raises \<open>OverflowError\<close>,
  which the code's \<open>except (TypeError, ValueError)\<close> lets through, so the conversions return a
  result. A field that is a float already goes through the total variants (\<open>price_ok\<close>,
  \<open>as_price_num\<close>); \<open>is_price_VFloat\<close> and \<open>as_price_VFloat\<close> say they agree.
\<close>

section \<open>Enumerations\<close>

datatype side = BUY | SELL

datatype trail_mode = CONTINUOUS | STEPPED

datatype breach_reason = STOP | TARGET | COMBINED_STOP | COMBINED_TARGET | LOCK_PROFIT

fun reason_value :: "breach_reason \<Rightarrow> string" where
  "reason_value STOP = ''sl''"
| "reason_value TARGET = ''target''"
| "reason_value COMBINED_STOP = ''combined_sl''"
| "reason_value COMBINED_TARGET = ''combined_target''"
| "reason_value LOCK_PROFIT = ''lock_profit''"

section \<open>Normalising untrusted values\<close>

definition price_ok :: "pyfloat \<Rightarrow> bool" where
  "price_ok x = (isfinite x \<and> x > 0)"

definition is_price :: "pyval \<Rightarrow> bool result" where
  "is_price value =
     (case value of
        VNone \<Rightarrow> Ret False
      | VBool _ \<Rightarrow> Ret False
      | _ \<Rightarrow>
         (case py_float value of
            Inl TypeError \<Rightarrow> Ret False
          | Inl ValueError \<Rightarrow> Ret False
          | Inl e \<Rightarrow> Raise e
          | Inr number \<Rightarrow> Ret (isfinite number \<and> number > 0)))"

definition as_float :: "pyval \<Rightarrow> pyfloat \<Rightarrow> pyfloat result" where
  "as_float value dflt =
     (case value of
        VNone \<Rightarrow> Ret dflt
      | VBool _ \<Rightarrow> Ret dflt
      | _ \<Rightarrow>
         (case py_float value of
            Inl TypeError \<Rightarrow> Ret dflt
          | Inl ValueError \<Rightarrow> Ret dflt
          | Inl e \<Rightarrow> Raise e
          | Inr number \<Rightarrow> Ret (if isfinite number then number else dflt)))"

definition as_price :: "pyval \<Rightarrow> pyfloat option result" where
  "as_price value =
     rbind (is_price value) (\<lambda>ok. if ok then rbind (py_float value) (\<lambda>x. Ret (Some x)) else Ret None)"

definition as_price_num :: "pyfloat option \<Rightarrow> pyfloat option" where
  "as_price_num v = (case v of None \<Rightarrow> None | Some x \<Rightarrow> if price_ok x then Some x else None)"

definition optional_float :: "pyval \<Rightarrow> pyfloat option result" where
  "optional_float value =
     (case value of
        VNone \<Rightarrow> Ret None
      | VBool _ \<Rightarrow> Ret None
      | _ \<Rightarrow>
         (case py_float value of
            Inl TypeError \<Rightarrow> Ret None
          | Inl ValueError \<Rightarrow> Ret None
          | Inl e \<Rightarrow> Raise e
          | Inr number \<Rightarrow> Ret (if isfinite number then Some number else None)))"

text \<open>
  The text of a float is never one of the four words that mean a sale, whatever its digits
  (it has a decimal point, an exponent, or is one of the words inf and nan).
\<close>

definition normalise_side :: "pyval \<Rightarrow> side" where
  "normalise_side value =
     (case value of
        VFloat _ \<Rightarrow> BUY
      | _ \<Rightarrow>
         (let text = str_upper (str_strip (py_str (\<lambda>_. []) (py_or value (VStr [])))) in
          if text \<in> {''SELL'', ''S'', ''SHORT'', ''-1''} then SELL else BUY))"

definition normalise_trail_mode :: "pyval \<Rightarrow> trail_mode" where
  "normalise_trail_mode value =
     (case value of
        VFloat _ \<Rightarrow> CONTINUOUS
      | _ \<Rightarrow>
         (let text = str_lower (str_strip (py_str (\<lambda>_. []) (py_or value (VStr [])))) in
          if text \<in> {''stepped'', ''step'', ''staircase''} then STEPPED else CONTINUOUS))"

definition stop_from_points :: "side \<Rightarrow> pyfloat \<Rightarrow> pyfloat \<Rightarrow> pyfloat option" where
  "stop_from_points sd entry_price points =
     (if \<not> price_ok entry_price \<or> \<not> price_ok points then None
      else
        let price = (if sd = BUY then entry_price - points else entry_price + points) in
        if price > 0 then Some price else None)"

definition target_from_points :: "side \<Rightarrow> pyfloat \<Rightarrow> pyfloat \<Rightarrow> pyfloat option" where
  "target_from_points sd entry_price points =
     (if \<not> price_ok entry_price \<or> \<not> price_ok points then None
      else
        let price = (if sd = BUY then entry_price + points else entry_price - points) in
        if price > 0 then Some price else None)"

definition side_from_quantity :: "pyfloat \<Rightarrow> side" where
  "side_from_quantity net_quantity =
     (if (if isfinite net_quantity then net_quantity else 0) < 0 then SELL else BUY)"

definition format_price :: "pyfloat \<Rightarrow> string" where
  "format_price value =
     (let text = str_rstrip (CHR ''.'') (str_rstrip (CHR ''0'') (format_fixed4 value)) in
      if text = [] then ''0'' else text)"

section \<open>One position\<close>

definition DEFAULT_TRAIL_TRIGGER :: pyfloat where
  "DEFAULT_TRAIL_TRIGGER = Fin 1"

record position_risk =
  pos_id :: string
  pside :: side
  entry_price :: pyfloat
  quantity :: pyfloat
  stop_price :: "pyfloat option"
  initial_stop_price :: "pyfloat option"
  target_price :: "pyfloat option"
  trailing_enabled :: bool
  trail_step :: pyfloat
  trail_trigger :: pyfloat
  tmode :: trail_mode
  highest_price :: "pyfloat option"
  lowest_price :: "pyfloat option"

definition is_long :: "position_risk \<Rightarrow> bool" where
  "is_long r = (pside r = BUY)"

definition effective_stop :: "position_risk \<Rightarrow> pyfloat option" where
  "effective_stop r = option_or (as_price_num (stop_price r)) (as_price_num (initial_stop_price r))"

fun first_val :: "pydict \<Rightarrow> string list \<Rightarrow> pyval" where
  "first_val m [] = VNone"
| "first_val m (n # ns) = (if get_val m n \<noteq> VNone then get_val m n else first_val m ns)"

definition risk_from_state :: "(pyfloat \<Rightarrow> string) \<Rightarrow> pydict \<Rightarrow> position_risk result" where
  "risk_from_state frepr state =
     (let fst_of = first_val state;
          sd = normalise_side (fst_of [''side'', ''action'', ''position'']) in
      rbind (as_float (fst_of [''entry_price'', ''entry'', ''entry_avg'', ''average_price'']) 0) (\<lambda>entry.
      rbind (as_price (fst_of [''stop_price'', ''current_sl'', ''currentSl''])) (\<lambda>stop.
      rbind (as_price (fst_of [''initial_stop_price'', ''initial_sl'', ''initialSl''])) (\<lambda>istop0.
      rbind (as_price (fst_of [''target_price'', ''target'', ''targetPrice''])) (\<lambda>target0.
      rbind (if stop = None \<and> istop0 = None
             then rbind (as_float (fst_of [''sl_points'', ''sl_pts'']) 0) (\<lambda>p. Ret (stop_from_points sd entry p))
             else Ret istop0) (\<lambda>istop.
      rbind (if target0 = None
             then rbind (as_float (fst_of [''target_points'', ''target_pts'']) 0) (\<lambda>p. Ret (target_from_points sd entry p))
             else Ret target0) (\<lambda>target.
      rbind (as_float (fst_of [''quantity'', ''qty'']) 0) (\<lambda>qty.
      rbind (as_float (fst_of [''trail_step'', ''trailing_step'', ''trailingStep'', ''trail_y'']) 0) (\<lambda>step.
      rbind (let trigger = fst_of [''trail_trigger'', ''trailing_trigger'', ''trail_x''] in
             if trigger \<noteq> VNone then as_float trigger DEFAULT_TRAIL_TRIGGER else Ret DEFAULT_TRAIL_TRIGGER) (\<lambda>trig.
      rbind (as_price (fst_of [''highest_price'', ''highestPrice''])) (\<lambda>hi.
      rbind (as_price (fst_of [''lowest_price'', ''lowestPrice''])) (\<lambda>lo.
      Ret \<lparr> pos_id = py_str frepr (py_or (fst_of [''identifier'', ''id'', ''symbol'']) (VStr [])),
            pside = sd, entry_price = entry, quantity = \<bar>qty\<bar>,
            stop_price = stop, initial_stop_price = istop, target_price = target,
            trailing_enabled = py_truthy (fst_of [''trailing_enabled'', ''trailingEnabled'']),
            trail_step = step, trail_trigger = trig,
            tmode = normalise_trail_mode (fst_of [''trail_mode'', ''trailMode'']),
            highest_price = hi, lowest_price = lo \<rparr>))))))))))))"

record position_decision =
  d_identifier :: string
  evaluated :: bool
  d_stop :: "pyfloat option"
  d_target :: "pyfloat option"
  d_highest :: "pyfloat option"
  d_lowest :: "pyfloat option"
  d_pnl :: pyfloat
  breached :: bool
  reason :: "breach_reason option"
  detail :: string
  stop_moved :: bool
  trail_armed :: bool

fun opt_float_val :: "pyfloat option \<Rightarrow> pyval" where
  "opt_float_val None = VNone"
| "opt_float_val (Some x) = VFloat x"

fun opt_reason_val :: "breach_reason option \<Rightarrow> pyval" where
  "opt_reason_val None = VNone"
| "opt_reason_val (Some r) = VStr (reason_value r)"

definition to_trail_state :: "position_decision \<Rightarrow> (string, pyval) dict" where
  "to_trail_state d =
     [(''highest_price'', opt_float_val (d_highest d)),
      (''lowest_price'', opt_float_val (d_lowest d)),
      (''current_sl'', opt_float_val (d_stop d)),
      (''breached'', VBool (breached d)),
      (''reason'', opt_reason_val (reason d))]"

definition decision_as_dict :: "position_decision \<Rightarrow> (string, pyval) dict" where
  "decision_as_dict d =
     [(''identifier'', VStr (d_identifier d)),
      (''evaluated'', VBool (evaluated d)),
      (''stop_price'', opt_float_val (d_stop d)),
      (''target_price'', opt_float_val (d_target d)),
      (''highest_price'', opt_float_val (d_highest d)),
      (''lowest_price'', opt_float_val (d_lowest d)),
      (''pnl'', VFloat (d_pnl d)),
      (''breached'', VBool (breached d)),
      (''reason'', opt_reason_val (reason d)),
      (''detail'', VStr (detail d)),
      (''stop_moved'', VBool (stop_moved d)),
      (''trail_armed'', VBool (trail_armed d))]"

section \<open>A set of positions\<close>

record position_pnl_in =
  pp_identifier :: string
  pp_side :: side
  pp_entry :: pyfloat
  pp_quantity :: pyfloat
  pp_last :: "pyfloat option"
  pp_closed :: bool
  pp_realized :: pyfloat

definition not_none_or :: "pydict \<Rightarrow> string \<Rightarrow> string \<Rightarrow> pyval" where
  "not_none_or m a b = (if get_val m a \<noteq> VNone then get_val m a else get_val m b)"

definition pnl_from_state :: "(pyfloat \<Rightarrow> string) \<Rightarrow> pydict \<Rightarrow> position_pnl_in result" where
  "pnl_from_state frepr state =
     (let get = get_val state; side_value = not_none_or state ''side'' ''action'' in
      rbind (as_float (not_none_or state ''quantity'' ''qty'') 0) (\<lambda>qty.
      rbind (as_float (not_none_or state ''entry_price'' ''average_price'') 0) (\<lambda>entry.
      rbind (as_price (not_none_or state ''last_price'' ''ltp'')) (\<lambda>last.
      rbind (as_float (not_none_or state ''realized_pnl'' ''realized'') 0) (\<lambda>realized.
      Ret \<lparr> pp_identifier = py_str frepr (py_or (py_or (get ''identifier'') (get ''symbol'')) (VStr [])),
            pp_side = (if py_truthy side_value then normalise_side side_value else side_from_quantity qty),
            pp_entry = entry, pp_quantity = \<bar>qty\<bar>, pp_last = last,
            pp_closed = (py_truthy (get ''closed'') \<or>
                         str_lower (py_str frepr (py_or (get ''status'') (VStr []))) = ''closed''),
            pp_realized = realized \<rparr>)))))"

record pnl_summary =
  s_realized :: pyfloat
  s_unrealized :: pyfloat
  s_total :: pyfloat
  s_priced :: int
  s_unpriced :: int

definition summary_as_dict :: "pnl_summary \<Rightarrow> (string, pyval) dict" where
  "summary_as_dict s =
     [(''realized'', VFloat (s_realized s)), (''unrealized'', VFloat (s_unrealized s)),
      (''total'', VFloat (s_total s)), (''priced'', VInt (s_priced s)), (''unpriced'', VInt (s_unpriced s))]"

record aggregate_risk =
  combined_stoploss :: "pyfloat option"
  combined_target :: "pyfloat option"
  lock_profit_at :: "pyfloat option"
  lock_profit_floor :: "pyfloat option"
  lock_trail_step :: "pyfloat option"
  lock_armed :: bool
  lock_floor :: "pyfloat option"
  peak_pnl :: pyfloat
  trough_pnl :: pyfloat
  stop_bypassed :: bool

definition aggregate_from_state :: "pydict \<Rightarrow> aggregate_risk result" where
  "aggregate_from_state state =
     (let fst_of = first_val state in
      rbind (optional_float (fst_of [''combined_stoploss'', ''overall_sl_mtm'', ''max_loss''])) (\<lambda>sl.
      rbind (optional_float (fst_of [''combined_target'', ''overall_target_mtm'', ''max_profit''])) (\<lambda>tg.
      rbind (optional_float (fst_of [''lock_profit_at'', ''if_profit_reaches''])) (\<lambda>lpa.
      rbind (optional_float (fst_of [''lock_profit_floor'', ''lock_profit''])) (\<lambda>lpf.
      rbind (optional_float (fst_of [''lock_trail_step'', ''trail_step''])) (\<lambda>lts.
      rbind (optional_float (fst_of [''lock_floor''])) (\<lambda>lf.
      rbind (as_float (fst_of [''peak_pnl'', ''pnl_peak'']) 0) (\<lambda>pk.
      rbind (as_float (fst_of [''trough_pnl'', ''pnl_trough'']) 0) (\<lambda>tr.
      Ret \<lparr> combined_stoploss = sl, combined_target = tg, lock_profit_at = lpa,
            lock_profit_floor = lpf, lock_trail_step = lts,
            lock_armed = py_truthy (fst_of [''lock_armed'']), lock_floor = lf,
            peak_pnl = pk, trough_pnl = tr,
            stop_bypassed = py_truthy (fst_of [''stop_bypassed'', ''trail_to_entry_active'']) \<rparr>)))))))))"

record aggregate_decision =
  a_total :: pyfloat
  a_realized :: pyfloat
  a_unrealized :: pyfloat
  a_peak :: pyfloat
  a_trough :: pyfloat
  a_lock_armed :: bool
  a_lock_floor :: "pyfloat option"
  a_armed_now :: bool
  a_floor_raised :: bool
  a_breached :: bool
  a_reason :: "breach_reason option"
  a_detail :: string

definition aggregate_as_dict :: "aggregate_decision \<Rightarrow> (string, pyval) dict" where
  "aggregate_as_dict d =
     [(''total_pnl'', VFloat (a_total d)),
      (''realized_pnl'', VFloat (a_realized d)),
      (''unrealized_pnl'', VFloat (a_unrealized d)),
      (''peak_pnl'', VFloat (a_peak d)),
      (''trough_pnl'', VFloat (a_trough d)),
      (''lock_armed'', VBool (a_lock_armed d)),
      (''lock_floor'', opt_float_val (a_lock_floor d)),
      (''lock_armed_now'', VBool (a_armed_now d)),
      (''lock_floor_raised'', VBool (a_floor_raised d)),
      (''breached'', VBool (a_breached d)),
      (''reason'', opt_reason_val (a_reason d)),
      (''detail'', VStr (a_detail d))]"

record stop_move =
  m_identifier :: string
  previous_stop :: "pyfloat option"
  new_stop :: pyfloat

definition move_as_dict :: "stop_move \<Rightarrow> (string, pyval) dict" where
  "move_as_dict m =
     [(''identifier'', VStr (m_identifier m)),
      (''previous_stop'', opt_float_val (previous_stop m)),
      (''new_stop'', VFloat (new_stop m))]"

record trail_to_entry_decision =
  moves :: "stop_move list"
  skipped_not_improving :: "string list"
  skipped_through_price :: "string list"
  skipped_no_entry :: "string list"
  t_detail :: string

definition moved :: "trail_to_entry_decision \<Rightarrow> nat" where
  "moved t = length (moves t)"

section \<open>Facts about the conversions\<close>

lemma price_okE [elim?]: "price_ok x \<Longrightarrow> (\<And>r. x = Fin r \<Longrightarrow> 0 < r \<Longrightarrow> P) \<Longrightarrow> P"
  by (cases x) (auto simp: price_ok_def zero_pyfloat_def)

lemma price_ok_Fin [simp]: "price_ok (Fin r) \<longleftrightarrow> 0 < r"
  by (simp add: price_ok_def zero_pyfloat_def)

lemma price_ok_iff: "price_ok x \<longleftrightarrow> (\<exists>r. x = Fin r \<and> 0 < r)"
  by (auto elim: price_okE)

lemma price_ok_not_NaN: "price_ok x \<Longrightarrow> x \<noteq> NaN"
  by (auto simp: price_ok_def)

lemma is_price_VFloat [simp]: "is_price (VFloat x) = Ret (price_ok x)"
  by (simp add: is_price_def price_ok_def)

lemma as_price_VFloat [simp]: "as_price (VFloat x) = Ret (as_price_num (Some x))"
  by (simp add: as_price_def as_price_num_def)

lemma is_price_VNone [simp]: "is_price VNone = Ret False"
  by (simp add: is_price_def)

lemma as_price_num_Some: "as_price_num v = Some x \<Longrightarrow> price_ok x \<and> v = Some x"
  by (auto simp: as_price_num_def split: option.splits if_splits)

lemma as_price_num_idem [simp]: "as_price_num (as_price_num v) = as_price_num v"
  by (auto simp: as_price_num_def split: option.splits)

lemma as_price_num_ok [simp]: "price_ok x \<Longrightarrow> as_price_num (Some x) = Some x"
  by (simp add: as_price_num_def)

lemma as_price_num_None [simp]: "as_price_num None = None"
  by (simp add: as_price_num_def)

lemma effective_stop_ok: "effective_stop r = Some s \<Longrightarrow> price_ok s"
  by (auto simp: effective_stop_def option_or_def split: option.splits dest: as_price_num_Some)

lemma is_price_float: "is_price v = Ret True \<Longrightarrow> \<exists>x. py_float v = Ret x \<and> price_ok x"
  by (cases v) (auto simp: is_price_def price_ok_def split: sum.splits pyexc.splits)

lemma stop_from_points_price: "stop_from_points sd e p = Some x \<Longrightarrow> x > 0"
  by (auto simp: stop_from_points_def Let_def split: if_splits)

lemma price_ok_not_le: "price_ok a \<Longrightarrow> price_ok b \<Longrightarrow> \<not> a \<le> b \<longleftrightarrow> b < a"
  by (auto simp: price_ok_iff)

lemma price_ok_not_less: "price_ok a \<Longrightarrow> price_ok b \<Longrightarrow> \<not> a < b \<longleftrightarrow> b \<le> a"
  by (auto simp: price_ok_iff)

end
