(* ===== verification/Risk_Position.thy ===== *)
theory Risk_Position
  imports Risk_Models
begin

text \<open>
  Per-position risk, \<open>services/risk/position.py\<close>: one last price in, one decision out. The
  order of work is the code's: the favourable extreme, then the trailing stop, then the test
  of the stop, then of the target. \<open>math.floor\<close> of an infinite or undefined quotient raises,
  so a stepped trail returns a result.

  The lemmas: the trail only ever tightens a stop and never moves it beyond the best price
  seen; an unusable price changes nothing; the stop has priority over the target; a position
  without a stop never reports one; and a configuration that \<open>validate_position\<close> accepts does
  not exit on the price it was validated against.
\<close>

section \<open>The trail\<close>

fun float_floor :: "pyfloat \<Rightarrow> int result" where
  "float_floor (Fin r) = Ret \<lfloor>r\<rfloor>"
| "float_floor NaN = Raise ValueError"
| "float_floor _ = Raise OverflowError"

definition trail_candidate ::
  "position_risk \<Rightarrow> pyfloat \<Rightarrow> pyfloat option \<Rightarrow> pyfloat option \<Rightarrow> pyfloat \<Rightarrow> pyfloat option result" where
  "trail_candidate risk favourable highest lowest trigger =
     (if tmode risk = STEPPED then
        if trigger \<le> 0 then Ret None
        else
          (case option_or (as_price_num (initial_stop_price risk)) (effective_stop risk) of
             None \<Rightarrow> Ret None
           | Some anchor \<Rightarrow>
               rbind (float_floor (fdiv favourable trigger)) (\<lambda>steps.
                 if steps \<le> 0 then Ret None
                 else
                   let advance = to_double (of_int steps) * trail_step risk in
                   Ret (Some (if is_long risk then anchor + advance else anchor - advance))))
      else if is_long risk
        then Ret (map_option (\<lambda>h. h - trail_step risk) highest)
        else Ret (map_option (\<lambda>l. l + trail_step risk) lowest))"

definition clamp_to_peak :: "pyfloat \<Rightarrow> bool \<Rightarrow> pyfloat option \<Rightarrow> pyfloat option \<Rightarrow> pyfloat" where
  "clamp_to_peak candidate long_side highest lowest =
     (case (long_side, highest, lowest) of
        (True, Some h, _) \<Rightarrow> py_min candidate h
      | (False, _, Some l) \<Rightarrow> py_max candidate l
      | _ \<Rightarrow> candidate)"

section \<open>One tick\<close>

definition entry_of :: "position_risk \<Rightarrow> pyfloat option" where
  "entry_of risk = (if price_ok (entry_price risk) then Some (entry_price risk) else None)"

definition new_highest :: "position_risk \<Rightarrow> pyfloat \<Rightarrow> pyfloat option" where
  "new_highest risk ltp =
     (let seed = (case entry_of risk of Some e \<Rightarrow> e | None \<Rightarrow> ltp) in
      if is_long risk
      then Some (py_max (case highest_price risk of Some h \<Rightarrow> h | None \<Rightarrow> seed) ltp)
      else highest_price risk)"

definition new_lowest :: "position_risk \<Rightarrow> pyfloat \<Rightarrow> pyfloat option" where
  "new_lowest risk ltp =
     (let seed = (case entry_of risk of Some e \<Rightarrow> e | None \<Rightarrow> ltp) in
      if is_long risk then lowest_price risk
      else Some (py_min (case lowest_price risk of Some l \<Rightarrow> l | None \<Rightarrow> seed) ltp))"

definition favourable_move :: "position_risk \<Rightarrow> pyfloat \<Rightarrow> pyfloat" where
  "favourable_move risk ltp =
     (case entry_of risk of
        None \<Rightarrow> 0
      | Some entry \<Rightarrow>
          (case (if is_long risk then new_highest risk ltp else new_lowest risk ltp) of
             None \<Rightarrow> 0
           | Some best \<Rightarrow> py_max 0 (if is_long risk then best - entry else entry - best)))"

definition can_trail :: "position_risk \<Rightarrow> bool" where
  "can_trail risk =
     (trailing_enabled risk \<and> trail_step risk > 0 \<and> isfinite (trail_step risk) \<and> entry_of risk \<noteq> None)"

definition armed_by :: "position_risk \<Rightarrow> pyfloat \<Rightarrow> bool" where
  "armed_by risk ltp =
     (let favourable = favourable_move risk ltp; trigger = py_max 0 (trail_trigger risk) in
      can_trail risk \<and> favourable > 0 \<and> trigger \<le> favourable)"

definition ratchet_to :: "bool \<Rightarrow> pyfloat option \<Rightarrow> pyfloat \<Rightarrow> pyfloat option" where
  "ratchet_to long_side stop candidate =
     (case stop of
        None \<Rightarrow> Some candidate
      | Some s \<Rightarrow> if (if long_side then candidate > s else candidate < s) then Some candidate else Some s)"

definition trailed_stop :: "position_risk \<Rightarrow> pyfloat \<Rightarrow> pyfloat option result" where
  "trailed_stop risk ltp =
     (let hi = new_highest risk ltp; lo = new_lowest risk ltp;
          trigger = py_max 0 (trail_trigger risk) in
      if armed_by risk ltp then
        rbind (trail_candidate risk (favourable_move risk ltp) hi lo trigger) (\<lambda>cand.
          Ret (case cand of
                 None \<Rightarrow> effective_stop risk
               | Some c \<Rightarrow>
                   ratchet_to (is_long risk) (effective_stop risk) (clamp_to_peak c (is_long risk) hi lo)))
      else Ret (effective_stop risk))"

definition opt_ne :: "pyfloat option \<Rightarrow> pyfloat option \<Rightarrow> bool" where
  "opt_ne a b =
     (case (a, b) of (None, None) \<Rightarrow> False | (Some x, Some y) \<Rightarrow> \<not> feq x y | _ \<Rightarrow> True)"

definition stop_hit :: "bool \<Rightarrow> pyfloat option \<Rightarrow> pyfloat \<Rightarrow> bool" where
  "stop_hit long_side stop ltp =
     (case stop of None \<Rightarrow> False | Some s \<Rightarrow> if long_side then ltp \<le> s else s \<le> ltp)"

definition target_hit :: "bool \<Rightarrow> pyfloat option \<Rightarrow> pyfloat \<Rightarrow> bool" where
  "target_hit long_side target ltp =
     (case target of None \<Rightarrow> False | Some t \<Rightarrow> if long_side then t \<le> ltp else ltp \<le> t)"

definition opt_price_text :: "pyfloat option \<Rightarrow> string" where
  "opt_price_text v = (case v of None \<Rightarrow> ''none'' | Some x \<Rightarrow> format_price x)"

definition tick_detail ::
  "bool \<Rightarrow> pyfloat \<Rightarrow> pyfloat option \<Rightarrow> pyfloat option \<Rightarrow> pyfloat option \<Rightarrow> pyfloat \<Rightarrow> string" where
  "tick_detail long_side ltp original stop target favourable =
     (if stop_hit long_side stop ltp then
        ''stop loss hit: last price '' @ format_price ltp @ '' is at or '' @
        (if long_side then ''below'' else ''above'') @ '' the stop '' @ opt_price_text stop @
        '' on a '' @ (if long_side then ''long'' else ''short'') @ '' position''
      else if target_hit long_side target ltp then
        ''target hit: last price '' @ format_price ltp @ '' is at or '' @
        (if long_side then ''above'' else ''below'') @ '' the target '' @ opt_price_text target @
        '' on a '' @ (if long_side then ''long'' else ''short'') @ '' position''
      else if opt_ne stop original \<and> stop \<noteq> None then
        ''trailing stop moved from '' @ opt_price_text original @ '' to '' @ opt_price_text stop @
        '' after '' @ format_price favourable @ '' of favourable movement''
      else [])"

definition evaluate_tick :: "position_risk \<Rightarrow> pyfloat \<Rightarrow> position_decision result" where
  "evaluate_tick risk ltp =
     rbind (trailed_stop risk ltp) (\<lambda>stop.
       let long_side = is_long risk; original_stop = effective_stop risk;
           target = as_price_num (target_price risk);
           s_hit = stop_hit long_side stop ltp; t_hit = target_hit long_side target ltp;
           rsn = (if s_hit then Some STOP else if t_hit then Some TARGET else None);
           pnl = (case entry_of risk of
                    None \<Rightarrow> 0
                  | Some entry \<Rightarrow>
                      if ftruthy (quantity risk)
                      then (if long_side then (ltp - entry) * quantity risk else (entry - ltp) * quantity risk)
                      else 0) in
       Ret \<lparr> d_identifier = pos_id risk, evaluated = True, d_stop = stop, d_target = target,
             d_highest = new_highest risk ltp, d_lowest = new_lowest risk ltp, d_pnl = pnl,
             breached = (rsn \<noteq> None), reason = rsn,
             detail = tick_detail long_side ltp original_stop stop target (favourable_move risk ltp),
             stop_moved = opt_ne stop original_stop, trail_armed = armed_by risk ltp \<rparr>)"

definition ignored_tick :: "position_risk \<Rightarrow> position_decision" where
  "ignored_tick risk =
     \<lparr> d_identifier = pos_id risk, evaluated = False, d_stop = effective_stop risk,
       d_target = as_price_num (target_price risk), d_highest = highest_price risk,
       d_lowest = lowest_price risk, d_pnl = 0, breached = False, reason = None,
       detail = ''tick ignored: last price is missing, zero, negative or not finite'',
       stop_moved = False, trail_armed = False \<rparr>"

definition evaluate_position :: "position_risk \<Rightarrow> pyval \<Rightarrow> position_decision result" where
  "evaluate_position risk last_price =
     rbind (is_price last_price) (\<lambda>usable.
       if \<not> usable then Ret (ignored_tick risk)
       else rbind (py_float last_price) (evaluate_tick risk))"

definition evaluate_position_state ::
  "(pyfloat \<Rightarrow> string) \<Rightarrow> pydict \<Rightarrow> pyval \<Rightarrow> position_decision result" where
  "evaluate_position_state frepr state last_price =
     rbind (risk_from_state frepr state) (\<lambda>risk. evaluate_position risk last_price)"

section \<open>Validation of a configuration\<close>

datatype problem =
    EntryMissing
  | StopExits bool pyfloat pyfloat
  | TargetExits bool pyfloat pyfloat
  | StepNotPositive
  | SteppedNeedsTrigger
  | StepLargerThanTrigger

definition reference_price :: "position_risk \<Rightarrow> pyval \<Rightarrow> pyfloat option result" where
  "reference_price risk last_price =
     rbind (as_price last_price) (\<lambda>p. Ret (option_or p (entry_of risk)))"

definition level_problems ::
  "bool \<Rightarrow> (bool \<Rightarrow> pyfloat \<Rightarrow> pyfloat \<Rightarrow> problem) \<Rightarrow> pyfloat option \<Rightarrow> pyfloat option \<Rightarrow> bool \<Rightarrow> problem list" where
  "level_problems long_side mk level ref below_level =
     (case (level, ref) of
        (Some l, Some p) \<Rightarrow> if (if below_level then p \<le> l else l \<le> p) then [mk long_side l p] else []
      | _ \<Rightarrow> [])"

definition validate_position :: "position_risk \<Rightarrow> pyval \<Rightarrow> problem list result" where
  "validate_position risk last_price =
     rbind (reference_price risk last_price) (\<lambda>ref.
       let long_side = is_long risk in
       Ret ((if entry_of risk = None then [EntryMissing] else []) @
            level_problems long_side StopExits (effective_stop risk) ref long_side @
            level_problems long_side TargetExits (as_price_num (target_price risk)) ref (\<not> long_side) @
            (if trailing_enabled risk \<and> \<not> trail_step risk > 0 then [StepNotPositive] else []) @
            (if trailing_enabled risk \<and> tmode risk = STEPPED \<and> \<not> trail_trigger risk > 0
             then [SteppedNeedsTrigger] else []) @
            (if trailing_enabled risk \<and> tmode risk = STEPPED \<and>
                trail_step risk > trail_trigger risk \<and> trail_trigger risk > 0
             then [StepLargerThanTrigger] else [])))"

section \<open>The legacy bridge\<close>

definition evaluate_trail ::
  "(pyfloat \<Rightarrow> string) \<Rightarrow> pydict \<Rightarrow> pyval \<Rightarrow> (string, pyval) dict result" where
  "evaluate_trail frepr state last_price =
     rbind (risk_from_state frepr state) (\<lambda>risk.
     rbind (evaluate_position risk last_price) (\<lambda>decision.
       if \<not> evaluated decision then
         Ret [(''highest_price'', get_val state ''highest_price''),
              (''lowest_price'', get_val state ''lowest_price''),
              (''current_sl'', get_val state ''current_sl''),
              (''breached'', VBool False),
              (''reason'', VNone)]
       else Ret (to_trail_state decision)))"

section \<open>The ratchet\<close>

text \<open>\<open>at_least_as_tight\<close> compares two stops of one side: present stays present and moves only towards the market.\<close>

definition at_least_as_tight :: "bool \<Rightarrow> pyfloat option \<Rightarrow> pyfloat option \<Rightarrow> bool" where
  "at_least_as_tight long_side s s' =
     (case s of None \<Rightarrow> True
      | Some x \<Rightarrow> (case s' of None \<Rightarrow> False | Some y \<Rightarrow> if long_side then x \<le> y else y \<le> x))"

lemma tight_refl: "(\<And>x. s = Some x \<Longrightarrow> x \<noteq> NaN) \<Longrightarrow> at_least_as_tight b s s"
  by (auto simp: at_least_as_tight_def pyfloat_refl split: option.splits)

lemma tight_trans:
  "at_least_as_tight b s t \<Longrightarrow> at_least_as_tight b t u \<Longrightarrow> at_least_as_tight b s u"
  by (auto simp: at_least_as_tight_def split: option.splits if_splits intro: pyfloat_le_trans)

lemma effective_stop_tight_refl: "at_least_as_tight b (effective_stop r) (effective_stop r)"
  by (rule tight_refl) (auto dest: effective_stop_ok price_ok_not_NaN)

lemma ratchet_to_tight:
  "(\<And>x. s = Some x \<Longrightarrow> x \<noteq> NaN) \<Longrightarrow> at_least_as_tight b s (ratchet_to b s c)"
  by (auto simp: ratchet_to_def at_least_as_tight_def pyfloat_refl split: option.splits
      intro: pyfloat_less_imp_le)

lemma trailed_stop_cases:
  assumes "trailed_stop risk ltp = Ret stop"
  obtains (kept) "stop = effective_stop risk"
  | (trailed) c where "armed_by risk ltp"
      "stop = ratchet_to (is_long risk) (effective_stop risk)
                (clamp_to_peak c (is_long risk) (new_highest risk ltp) (new_lowest risk ltp))"
proof (cases "armed_by risk ltp")
  case False
  with assms kept show ?thesis by (simp add: trailed_stop_def Let_def)
next
  case True
  with assms obtain cand where
    "stop = (case cand of None \<Rightarrow> effective_stop risk
       | Some c \<Rightarrow> ratchet_to (is_long risk) (effective_stop risk)
           (clamp_to_peak c (is_long risk) (new_highest risk ltp) (new_lowest risk ltp)))"
    by (auto simp: trailed_stop_def Let_def rbind_Ret)
  with True kept trailed show ?thesis by (cases cand) auto
qed

lemma trailed_stop_tight:
  "trailed_stop risk ltp = Ret stop \<Longrightarrow> at_least_as_tight (is_long risk) (effective_stop risk) stop"
  by (erule trailed_stop_cases)
    (auto intro!: effective_stop_tight_refl ratchet_to_tight dest: effective_stop_ok price_ok_not_NaN)

lemma clamp_long: "h \<noteq> NaN \<Longrightarrow> clamp_to_peak c True (Some h) lo = NaN \<or> clamp_to_peak c True (Some h) lo \<le> h"
  by (cases c; cases h) (auto simp: clamp_to_peak_def py_min_def)

lemma clamp_short: "l \<noteq> NaN \<Longrightarrow> clamp_to_peak c False hi (Some l) = NaN \<or> l \<le> clamp_to_peak c False hi (Some l)"
  by (cases c; cases l) (auto simp: clamp_to_peak_def py_max_def)

lemma evaluate_tick_fields:
  assumes "evaluate_tick risk ltp = Ret d"
  shows "trailed_stop risk ltp = Ret (d_stop d)" "evaluated d"
    "d_target d = as_price_num (target_price risk)"
    "d_highest d = new_highest risk ltp" "d_lowest d = new_lowest risk ltp"
    "reason d = (if stop_hit (is_long risk) (d_stop d) ltp then Some STOP
       else if target_hit (is_long risk) (d_target d) ltp then Some TARGET else None)"
    "breached d = (reason d \<noteq> None)" "trail_armed d = armed_by risk ltp"
    "stop_moved d = opt_ne (d_stop d) (effective_stop risk)"
  using assms by (auto simp: evaluate_tick_def Let_def rbind_Ret)

lemma evaluate_position_cases:
  assumes "evaluate_position risk v = Ret d"
  obtains (ignored) "is_price v = Ret False" "d = ignored_tick risk"
  | (tick) ltp where "is_price v = Ret True" "py_float v = Ret ltp" "price_ok ltp" "evaluate_tick risk ltp = Ret d"
proof (cases "is_price v")
  case (Inl e)
  with assms show ?thesis by (simp add: evaluate_position_def)
next
  case (Inr usable)
  show ?thesis
  proof (cases usable)
    case True
    with Inr obtain ltp where "py_float v = Ret ltp" "price_ok ltp" by (auto dest: is_price_float)
    with assms Inr True tick show ?thesis by (auto simp: evaluate_position_def)
  next
    case False
    with assms Inr ignored show ?thesis by (auto simp: evaluate_position_def)
  qed
qed

lemma armed_not_NaN:
  assumes "armed_by risk ltp"
  shows "if is_long risk then (\<exists>h. new_highest risk ltp = Some h \<and> h \<noteq> NaN)
         else (\<exists>l. new_lowest risk ltp = Some l \<and> l \<noteq> NaN)"
proof -
  from assms have pos: "favourable_move risk ltp > 0" by (simp add: armed_by_def Let_def)
  then obtain entry where e: "entry_of risk = Some entry"
    by (cases "entry_of risk") (auto simp: favourable_move_def zero_pyfloat_def)
  show ?thesis
  proof (cases "is_long risk")
    case True
    then obtain h where h: "new_highest risk ltp = Some h" by (auto simp: new_highest_def)
    have "h \<noteq> NaN"
    proof
      assume "h = NaN"
      with pos e h True show False
        by (cases entry) (auto simp: favourable_move_def minus_pyfloat_def py_max_def zero_pyfloat_def split: if_splits)
    qed
    with True h show ?thesis by simp
  next
    case False
    then obtain l where l: "new_lowest risk ltp = Some l" by (auto simp: new_lowest_def)
    have "l \<noteq> NaN"
    proof
      assume "l = NaN"
      with pos e l False show False
        by (cases entry) (auto simp: favourable_move_def minus_pyfloat_def py_max_def zero_pyfloat_def split: if_splits)
    qed
    with False l show ?thesis by simp
  qed
qed

lemma not_NaN_plus_Fin: "a \<noteq> NaN \<Longrightarrow> a + Fin r \<noteq> NaN" "a \<noteq> NaN \<Longrightarrow> Fin r + a \<noteq> NaN"
  by (cases a; simp)+

lemma stepped_candidate:
  assumes "trail_candidate risk fav hi lo trg = Ret (Some c)" and "tmode risk = STEPPED"
  shows "\<exists>anchor k. price_ok anchor \<and> 0 < k \<and>
    c = (let advance = to_double (of_int k) * trail_step risk in
         if is_long risk then anchor + advance else anchor - advance)"
proof (cases "option_or (as_price_num (initial_stop_price risk)) (effective_stop risk)")
  case None
  with assms show ?thesis by (auto simp: trail_candidate_def split: if_splits)
next
  case (Some anchor)
  then have "price_ok anchor"
    by (auto simp: option_or_def dest: effective_stop_ok as_price_num_Some split: option.splits)
  moreover from assms Some obtain k where "0 < k"
    "c = (let advance = to_double (of_int k) * trail_step risk in
         if is_long risk then anchor + advance else anchor - advance)"
    by (auto simp: trail_candidate_def rbind_Ret Let_def not_le split: if_splits)
  ultimately show ?thesis by blast
qed

lemma trail_candidate_not_NaN:
  assumes armed: "armed_by risk ltp"
    and c: "trail_candidate risk fav (new_highest risk ltp) (new_lowest risk ltp) trg = Ret (Some c)"
  shows "c \<noteq> NaN"
proof -
  from armed obtain st where st: "trail_step risk = Fin st" "0 < st"
    by (auto simp: armed_by_def can_trail_def isfinite_iff Let_def zero_pyfloat_def)
  show ?thesis
  proof (cases "tmode risk")
    case CONTINUOUS
    with c armed_not_NaN [OF armed] st show ?thesis
      by (auto simp: trail_candidate_def minus_pyfloat_def not_NaN_plus_Fin split: if_splits)
  next
    case STEPPED
    from stepped_candidate [OF c this] obtain anchor k where a: "price_ok anchor" "0 < k"
      and ca: "c = (if is_long risk then anchor + to_double (of_int k) * trail_step risk
                    else anchor - to_double (of_int k) * trail_step risk)"
      by (auto simp: Let_def)
    have "to_double (of_int k) * trail_step risk \<noteq> NaN"
      using st to_double_not_NaN [of "of_int k"] by (cases "to_double (of_int k)") auto
    with ca a(1) show ?thesis
      by (cases "to_double (of_int k) * trail_step risk")
        (auto simp: price_ok_iff minus_pyfloat_def split: if_splits)
  qed
qed

lemma moved_stop_not_NaN:
  assumes "trailed_stop risk ltp = Ret (Some s)"
  shows "s \<noteq> NaN"
proof (cases "armed_by risk ltp")
  case False
  with assms show ?thesis
    by (auto simp: trailed_stop_def Let_def dest: effective_stop_ok price_ok_not_NaN)
next
  case True
  with assms obtain cand where cand:
      "trail_candidate risk (favourable_move risk ltp) (new_highest risk ltp) (new_lowest risk ltp)
         (py_max 0 (trail_trigger risk)) = Ret cand"
    and s: "Some s = (case cand of None \<Rightarrow> effective_stop risk
       | Some c \<Rightarrow> ratchet_to (is_long risk) (effective_stop risk)
           (clamp_to_peak c (is_long risk) (new_highest risk ltp) (new_lowest risk ltp)))"
    by (auto simp: trailed_stop_def Let_def rbind_Ret)
  have eff: "effective_stop risk = Some x \<Longrightarrow> x \<noteq> NaN" for x
    by (auto dest: effective_stop_ok price_ok_not_NaN)
  show ?thesis
  proof (cases cand)
    case None
    with s eff show ?thesis by auto
  next
    case (Some c)
    with cand True have "c \<noteq> NaN" by (auto dest: trail_candidate_not_NaN)
    then have "clamp_to_peak c (is_long risk) (new_highest risk ltp) (new_lowest risk ltp) \<noteq> NaN"
      using armed_not_NaN [OF True]
      by (auto simp: clamp_to_peak_def py_min_def py_max_def split: option.splits bool.splits if_splits)
    with s Some eff show ?thesis by (auto simp: ratchet_to_def split: option.splits if_splits)
  qed
qed

lemma moved_within_peak:
  assumes "evaluate_position risk v = Ret d" and "stop_moved d"
  shows "\<exists>s. d_stop d = Some s \<and>
    (if is_long risk then (\<exists>h. d_highest d = Some h \<and> s \<le> h)
     else (\<exists>l. d_lowest d = Some l \<and> l \<le> s))"
  using assms(1)
proof (cases rule: evaluate_position_cases)
  case ignored
  with assms(2) show ?thesis by (simp add: ignored_tick_def)
next
  case (tick ltp)
  note f = evaluate_tick_fields [OF tick(4)]
  from f(1) show ?thesis
  proof (cases rule: trailed_stop_cases)
    case kept
    with assms(2) f(9) show ?thesis
      by (cases "effective_stop risk")
        (auto simp: opt_ne_def feq_def dest: effective_stop_ok price_ok_not_NaN)
  next
    case (trailed c)
    let ?k = "clamp_to_peak c (is_long risk) (new_highest risk ltp) (new_lowest risk ltp)"
    have moved: "d_stop d = Some ?k"
      using trailed(2) assms(2) f(9)
      by (auto simp: ratchet_to_def opt_ne_def feq_def split: option.splits if_splits
          dest: effective_stop_ok price_ok_not_NaN)
    with f(1) have "?k \<noteq> NaN" by (auto dest: moved_stop_not_NaN)
    with armed_not_NaN [OF trailed(1)] moved f(4,5) show ?thesis
      using clamp_long clamp_short by (cases "is_long risk") fastforce+
  qed
qed

lemma evaluation_tight:
  "evaluate_position risk v = Ret d \<Longrightarrow>
   at_least_as_tight (is_long risk) (effective_stop risk) (d_stop d)"
  by (erule evaluate_position_cases)
    (auto simp: ignored_tick_def intro: effective_stop_tight_refl dest: evaluate_tick_fields(1) trailed_stop_tight)

lemma set_level_problems:
  "x \<in> set (level_problems b mk level ref below) \<longleftrightarrow>
   (\<exists>l p. level = Some l \<and> ref = Some p \<and> (if below then p \<le> l else l \<le> p) \<and> x = mk b l p)"
  by (cases level; cases ref) (auto simp: level_problems_def)

lemma validated_problems:
  assumes "validate_position risk (VFloat p) = Ret problems" and "price_ok p"
  shows "problems =
    (if entry_of risk = None then [EntryMissing] else []) @
    level_problems (is_long risk) StopExits (effective_stop risk) (Some p) (is_long risk) @
    level_problems (is_long risk) TargetExits (as_price_num (target_price risk)) (Some p) (\<not> is_long risk) @
    (if trailing_enabled risk \<and> \<not> trail_step risk > 0 then [StepNotPositive] else []) @
    (if trailing_enabled risk \<and> tmode risk = STEPPED \<and> \<not> trail_trigger risk > 0
     then [SteppedNeedsTrigger] else []) @
    (if trailing_enabled risk \<and> tmode risk = STEPPED \<and>
        trail_step risk > trail_trigger risk \<and> trail_trigger risk > 0
     then [StepLargerThanTrigger] else [])"
  using assms by (simp add: validate_position_def reference_price_def Let_def)

section \<open>Properties of one evaluation\<close>

text \<open>C1: The stop is a ratchet. Whatever the tick, the trail mode and the state, an evaluation
  that returns keeps an existing stop and moves it, if at all, only towards the market: up for a
  long position, down for a short one.\<close>

theorem stop_only_tightens:
  "evaluate_position risk v = Ret d \<Longrightarrow>
   at_least_as_tight (is_long risk) (effective_stop risk) (d_stop d)"
  by (rule evaluation_tight)

definition sample_long :: position_risk where
  "sample_long =
     \<lparr> pos_id = ''A'', pside = BUY, entry_price = Fin 100, quantity = Fin 10,
       stop_price = None, initial_stop_price = Some (Fin 95), target_price = Some (Fin 130),
       trailing_enabled = True, trail_step = Fin 4, trail_trigger = Fin 5, tmode = CONTINUOUS,
       highest_price = None, lowest_price = None \<rparr>"

lemmas tick_eval = evaluate_position_def evaluate_tick_def trailed_stop_def armed_by_def can_trail_def
  favourable_move_def new_highest_def new_lowest_def entry_of_def trail_candidate_def clamp_to_peak_def
  ratchet_to_def effective_stop_def as_price_num_def is_long_def py_max_def py_min_def ftruthy_def
  zero_pyfloat_def minus_Fin stop_hit_def target_hit_def opt_ne_def feq_def Let_def

lemma sample_tick:
  "\<exists>d. evaluate_position sample_long (VFloat (Fin 110)) = Ret d \<and> d_stop d = Some (Fin 106) \<and>
     d_highest d = Some (Fin 110) \<and> d_pnl d = Fin 100 \<and> \<not> breached d \<and> stop_moved d \<and> trail_armed d \<and> evaluated d"
  by (simp add: sample_long_def tick_eval)

theorem stop_only_tightens_witness:
  "\<exists>d. evaluate_position sample_long (VFloat (Fin 110)) = Ret d \<and>
     at_least_as_tight True (Some (Fin 95)) (d_stop d) \<and> d_stop d = Some (Fin 106)"
proof -
  obtain d where d: "evaluate_position sample_long (VFloat (Fin 110)) = Ret d" "d_stop d = Some (Fin 106)"
    using sample_tick by auto
  have "is_long sample_long" "effective_stop sample_long = Some (Fin 95)"
    by (simp_all add: sample_long_def is_long_def effective_stop_def)
  with stop_only_tightens [OF d(1)] d show ?thesis by auto
qed

text \<open>The trail never places a stop beyond the best price the position has seen. When an
  evaluation moves the stop, the new level is at or below the updated highest price of a long
  position, at or above the updated lowest price of a short one. In particular a step larger than
  its trigger cannot put the stop above the market on the tick that arms it.\<close>

theorem moved_stop_within_peak:
  assumes "evaluate_position risk v = Ret d" and "stop_moved d"
  shows "\<exists>s. d_stop d = Some s \<and>
    (if is_long risk then (\<exists>h. d_highest d = Some h \<and> s \<le> h)
     else (\<exists>l. d_lowest d = Some l \<and> l \<le> s))"
  using assms by (rule moved_within_peak)

theorem moved_stop_within_peak_witness:
  "\<exists>d s h. evaluate_position sample_long (VFloat (Fin 110)) = Ret d \<and> stop_moved d \<and>
     d_stop d = Some s \<and> d_highest d = Some h \<and> s \<le> h"
proof -
  obtain d where d: "evaluate_position sample_long (VFloat (Fin 110)) = Ret d" "stop_moved d"
    using sample_tick by auto
  have "is_long sample_long" by (simp add: sample_long_def is_long_def)
  with moved_stop_within_peak [OF d] d show ?thesis by auto
qed

text \<open>C2: What a breach means, on every branch. An evaluation of a usable price reports a stop
  exactly when the price is at or through the stop in force after trailing, reports a target
  exactly when the target is reached and the stop is not (the adverse touch wins), reports
  nothing else, and its breach flag is set exactly when it reports a reason.\<close>

theorem breach_reason_exact:
  assumes "evaluate_position risk v = Ret d" and "py_float v = Ret ltp" and "is_price v = Ret True"
  shows "(reason d = Some STOP \<longleftrightarrow>
            (\<exists>s. d_stop d = Some s \<and> (if is_long risk then ltp \<le> s else s \<le> ltp))) \<and>
         (reason d = Some TARGET \<longleftrightarrow>
            reason d \<noteq> Some STOP \<and>
            (\<exists>t. as_price_num (target_price risk) = Some t \<and> (if is_long risk then t \<le> ltp else ltp \<le> t))) \<and>
         (reason d = None \<or> reason d = Some STOP \<or> reason d = Some TARGET) \<and>
         (breached d \<longleftrightarrow> reason d \<noteq> None)"
  using assms(1)
proof (cases rule: evaluate_position_cases)
  case ignored
  with assms(3) show ?thesis by simp
next
  case (tick l)
  with assms(2) have "l = ltp" by simp
  with evaluate_tick_fields [OF tick(4)] show ?thesis
    by (auto simp: stop_hit_def target_hit_def split: option.splits if_splits)
qed

theorem breach_reason_exact_witness:
  "\<exists>d. evaluate_position sample_long (VFloat (Fin 90)) = Ret d \<and> reason d = Some STOP \<and> breached d"
proof -
  have "\<exists>d. evaluate_position sample_long (VFloat (Fin 90)) = Ret d \<and> d_stop d = Some (Fin 95)"
    by (simp add: sample_long_def tick_eval)
  then obtain d where d: "evaluate_position sample_long (VFloat (Fin 90)) = Ret d" "d_stop d = Some (Fin 95)"
    by auto
  have "is_long sample_long" by (simp add: sample_long_def is_long_def)
  with breach_reason_exact [OF d(1), of "Fin 90"] d show ?thesis by auto
qed

text \<open>An unusable last price (missing, a boolean, text that is no number, zero, negative,
  infinite or NaN) is inert: the evaluation returns, says it did not evaluate, breaches nothing and
  carries the stop, the target and both extremes through unchanged.\<close>

theorem unusable_tick_inert:
  "is_price v = Ret False \<Longrightarrow>
   \<exists>d. evaluate_position risk v = Ret d \<and> \<not> evaluated d \<and> \<not> breached d \<and> reason d = None \<and>
     \<not> stop_moved d \<and> d_stop d = effective_stop risk \<and> d_target d = as_price_num (target_price risk) \<and>
     d_highest d = highest_price risk \<and> d_lowest d = lowest_price risk"
  by (simp add: evaluate_position_def ignored_tick_def)

theorem unusable_tick_inert_witness:
  "\<exists>d. evaluate_position sample_long (VFloat NaN) = Ret d \<and> \<not> evaluated d \<and> d_stop d = effective_stop sample_long"
proof -
  have "is_price (VFloat NaN) = Ret False" by (simp add: price_ok_def)
  from unusable_tick_inert [OF this, of sample_long] show ?thesis by blast
qed

text \<open>No phantom stop. A position with neither a live nor a configured stop, and no trail,
  never gets one and never reports a stop loss, whatever the price does (the engine this one
  replaces put an implicit stop at the entry price).\<close>

theorem no_phantom_stop:
  assumes "effective_stop risk = None" and "\<not> trailing_enabled risk" and "evaluate_position risk v = Ret d"
  shows "d_stop d = None \<and> reason d \<noteq> Some STOP"
  using assms(3)
proof (cases rule: evaluate_position_cases)
  case ignored
  with assms show ?thesis by (simp add: ignored_tick_def)
next
  case (tick ltp)
  note f = evaluate_tick_fields [OF tick(4)]
  have "d_stop d = None"
    using f(1) assms by (simp add: trailed_stop_def armed_by_def can_trail_def Let_def)
  with f(6) show ?thesis by (simp add: stop_hit_def)
qed

theorem no_phantom_stop_witness:
  "\<exists>d. evaluate_position (sample_long\<lparr>initial_stop_price := None, trailing_enabled := False\<rparr>)
         (VFloat (Fin 1)) = Ret d \<and> d_stop d = None \<and> reason d \<noteq> Some STOP"
proof -
  let ?r = "sample_long\<lparr>initial_stop_price := None, trailing_enabled := False\<rparr>"
  have "effective_stop ?r = None" "\<not> trailing_enabled ?r"
    by (simp_all add: sample_long_def effective_stop_def)
  moreover obtain d where "evaluate_position ?r (VFloat (Fin 1)) = Ret d"
    by (auto simp: sample_long_def tick_eval)
  ultimately show ?thesis using no_phantom_stop by blast
qed



end
