(* ===== verification/Risk_Aggregate.thy ===== *)
theory Risk_Aggregate
  imports Risk_Position
begin

text \<open>
  Aggregate risk, \<open>services/risk/aggregate.py\<close>: marking a set of positions, the lock-profit
  ratchet, the combined stop and target, and the move of every remaining stop to its entry.
  Positions and limits are the records of \<open>Risk_Models\<close>; a caller's loose dictionary goes
  through \<open>pnl_from_state\<close>, \<open>aggregate_from_state\<close> or \<open>risk_from_state\<close> first, as the code
  does. The order of the rules is the code's: lock profit, combined stop, combined target.
\<close>

section \<open>Mark to market\<close>

definition position_pnl :: "side \<Rightarrow> pyfloat \<Rightarrow> pyfloat \<Rightarrow> pyfloat option \<Rightarrow> pyfloat" where
  "position_pnl sd entry qty last_price =
     (case as_price_num last_price of
        None \<Rightarrow> 0
      | Some ltp \<Rightarrow>
          if \<not> price_ok entry \<or> \<not> ftruthy qty then 0
          else if sd = BUY then (ltp - entry) * \<bar>qty\<bar> else (entry - ltp) * \<bar>qty\<bar>)"

definition marked :: "position_pnl_in \<Rightarrow> bool" where
  "marked p = (as_price_num (pp_last p) \<noteq> None \<and> price_ok (pp_entry p))"

fun pnl_loop :: "position_pnl_in list \<Rightarrow> pyfloat \<Rightarrow> pyfloat \<Rightarrow> int \<Rightarrow> int \<Rightarrow> pnl_summary" where
  "pnl_loop [] realized unrealized priced unpriced =
     \<lparr> s_realized = realized, s_unrealized = unrealized, s_total = realized + unrealized,
       s_priced = priced, s_unpriced = unpriced \<rparr>"
| "pnl_loop (p # ps) realized unrealized priced unpriced =
     (let realized' = realized + pp_realized p in
      if pp_closed p then pnl_loop ps realized' unrealized priced unpriced
      else if \<not> marked p then pnl_loop ps realized' unrealized priced (unpriced + 1)
      else pnl_loop ps realized'
             (unrealized + position_pnl (pp_side p) (pp_entry p) (pp_quantity p) (pp_last p))
             (priced + 1) unpriced)"

definition aggregate_pnl :: "position_pnl_in list \<Rightarrow> pnl_summary" where
  "aggregate_pnl positions = pnl_loop positions 0 0 0 0"

section \<open>Combined limits and the profit lock\<close>

definition floor_candidates :: "aggregate_risk \<Rightarrow> pyfloat \<Rightarrow> pyfloat list" where
  "floor_candidates risk peak =
     [case lock_profit_floor risk of Some b \<Rightarrow> b | None \<Rightarrow> 0] @
     (case lock_floor risk of Some f \<Rightarrow> [f] | None \<Rightarrow> []) @
     (case lock_trail_step risk of Some st \<Rightarrow> if st > 0 then [peak - st] else [] | None \<Rightarrow> [])"

fun py_max_list :: "pyfloat list \<Rightarrow> pyfloat" where
  "py_max_list [] = 0"
| "py_max_list (x # xs) = foldl py_max x xs"

record lock_state =
  l_armed :: bool
  l_floor :: "pyfloat option"
  l_armed_now :: bool
  l_raised :: bool

definition lock_update :: "aggregate_risk \<Rightarrow> pyfloat \<Rightarrow> pyfloat \<Rightarrow> lock_state" where
  "lock_update risk mtm peak =
     (case lock_profit_at risk of
        None \<Rightarrow> \<lparr> l_armed = lock_armed risk, l_floor = lock_floor risk, l_armed_now = False, l_raised = False \<rparr>
      | Some thr \<Rightarrow>
          (let armed_now = (\<not> lock_armed risk \<and> thr \<le> mtm); armed = (lock_armed risk \<or> armed_now) in
           if \<not> armed
           then \<lparr> l_armed = False, l_floor = lock_floor risk, l_armed_now = False, l_raised = False \<rparr>
           else
             let new_floor = py_max_list (floor_candidates risk peak) in
             \<lparr> l_armed = True, l_floor = Some new_floor, l_armed_now = armed_now,
               l_raised = (\<not> armed_now \<and> (case lock_floor risk of Some f \<Rightarrow> new_floor > f | None \<Rightarrow> False)) \<rparr>))"

definition lock_breached :: "aggregate_risk \<Rightarrow> lock_state \<Rightarrow> pyfloat \<Rightarrow> bool" where
  "lock_breached risk l mtm =
     (lock_profit_at risk \<noteq> None \<and> l_armed l \<and> (case l_floor l of Some f \<Rightarrow> mtm \<le> f | None \<Rightarrow> False))"

definition stop_breached :: "aggregate_risk \<Rightarrow> pyfloat \<Rightarrow> bool" where
  "stop_breached risk mtm =
     (\<not> stop_bypassed risk \<and>
      (case combined_stoploss risk of None \<Rightarrow> False | Some limit \<Rightarrow> mtm \<le> - \<bar>limit\<bar>))"

definition target_reached :: "aggregate_risk \<Rightarrow> pyfloat \<Rightarrow> bool" where
  "target_reached risk mtm =
     (case combined_target risk of None \<Rightarrow> False | Some t \<Rightarrow> t \<le> mtm)"

definition aggregate_reason :: "aggregate_risk \<Rightarrow> lock_state \<Rightarrow> pyfloat \<Rightarrow> breach_reason option" where
  "aggregate_reason risk l mtm =
     (if lock_breached risk l mtm then Some LOCK_PROFIT
      else if stop_breached risk mtm then Some COMBINED_STOP
      else if target_reached risk mtm then Some COMBINED_TARGET
      else None)"

definition aggregate_detail :: "aggregate_risk \<Rightarrow> lock_state \<Rightarrow> pyfloat \<Rightarrow> pyfloat \<Rightarrow> string" where
  "aggregate_detail risk l mtm peak =
     (if lock_breached risk l mtm then
        (if l_armed_now l \<and>
            (case (l_floor l, lock_profit_at risk) of (Some f, Some thr) \<Rightarrow> f > thr | _ \<Rightarrow> False)
         then ''lock profit floor '' @ opt_price_text (l_floor l) @ '' is above its activation '' @
              ''threshold '' @ opt_price_text (lock_profit_at risk) @ '', so it triggered on '' @
              ''the tick it became active; the floor must be below the threshold''
         else ''lock profit triggered: mark to market '' @ format_price mtm @ '' fell to or '' @
              ''below the locked floor '' @ opt_price_text (l_floor l))
      else if stop_breached risk mtm then
        ''combined stop loss hit: mark to market '' @ format_price mtm @ '' fell to '' @
        ''or below the limit '' @ opt_price_text (map_option (\<lambda>s. - \<bar>s\<bar>) (combined_stoploss risk))
      else if target_reached risk mtm then
        ''combined target hit: mark to market '' @ format_price mtm @ '' reached the '' @
        ''target '' @ opt_price_text (combined_target risk)
      else if l_armed_now l then
        ''lock profit active at '' @ format_price mtm @ '', floor set to '' @ opt_price_text (l_floor l)
      else if l_raised l \<and> l_floor l \<noteq> None then
        ''lock profit floor raised to '' @ opt_price_text (l_floor l) @ '' on a peak of '' @ format_price peak
      else [])"

definition evaluate_aggregate :: "aggregate_risk \<Rightarrow> pyfloat \<Rightarrow> pyfloat \<Rightarrow> aggregate_decision" where
  "evaluate_aggregate risk realized unrealized =
     (let mtm = realized + unrealized;
          peak = py_max (peak_pnl risk) mtm;
          trough = py_min (trough_pnl risk) mtm;
          l = lock_update risk mtm peak;
          rsn = aggregate_reason risk l mtm in
      \<lparr> a_total = mtm, a_realized = realized, a_unrealized = unrealized,
        a_peak = peak, a_trough = trough,
        a_lock_armed = l_armed l, a_lock_floor = l_floor l,
        a_armed_now = l_armed_now l, a_floor_raised = l_raised l,
        a_breached = (rsn \<noteq> None), a_reason = rsn,
        a_detail = aggregate_detail risk l mtm peak \<rparr>)"

definition evaluate_aggregate_state :: "pydict \<Rightarrow> pyfloat \<Rightarrow> pyfloat \<Rightarrow> aggregate_decision result" where
  "evaluate_aggregate_state state realized unrealized =
     rbind (aggregate_from_state state) (\<lambda>risk. Ret (evaluate_aggregate risk realized unrealized))"

section \<open>Trail to entry\<close>

datatype trail_verdict = Excluded | NoEntry | NotImproving | ThroughPrice | Move "pyfloat option" pyfloat

definition trail_verdict :: "string list \<Rightarrow> (string \<Rightarrow> pyfloat option) \<Rightarrow> position_risk \<Rightarrow> trail_verdict" where
  "trail_verdict excluded prices risk =
     (if pos_id risk \<in> set excluded then Excluded
      else if \<not> price_ok (entry_price risk) then NoEntry
      else
        let entry = entry_price risk; current = effective_stop risk; long_side = is_long risk in
        if (case current of None \<Rightarrow> False | Some c \<Rightarrow> if long_side then entry \<le> c else c \<le> entry)
        then NotImproving
        else if (case as_price_num (prices (pos_id risk)) of None \<Rightarrow> False
                 | Some p \<Rightarrow> if long_side then p \<le> entry else entry \<le> p)
        then ThroughPrice
        else Move current entry)"

fun trail_loop ::
  "string list \<Rightarrow> (string \<Rightarrow> pyfloat option) \<Rightarrow> position_risk list \<Rightarrow> trail_to_entry_decision \<Rightarrow> trail_to_entry_decision" where
  "trail_loop excluded prices [] acc = acc"
| "trail_loop excluded prices (r # rs) acc =
     trail_loop excluded prices rs
       (case trail_verdict excluded prices r of
          Excluded \<Rightarrow> acc
        | NoEntry \<Rightarrow> acc\<lparr>skipped_no_entry := skipped_no_entry acc @ [pos_id r]\<rparr>
        | NotImproving \<Rightarrow> acc\<lparr>skipped_not_improving := skipped_not_improving acc @ [pos_id r]\<rparr>
        | ThroughPrice \<Rightarrow> acc\<lparr>skipped_through_price := skipped_through_price acc @ [pos_id r]\<rparr>
        | Move prev new \<Rightarrow>
            acc\<lparr>moves := moves acc @ [\<lparr>m_identifier = pos_id r, previous_stop = prev, new_stop = new\<rparr>]\<rparr>)"

definition trail_detail :: "trail_to_entry_decision \<Rightarrow> string" where
  "trail_detail t =
     (if moves t \<noteq> [] then
        ''moved '' @ str_of_int (int (length (moves t))) @ '' stop(s) to entry'' @
        (if skipped_through_price t \<noteq> []
         then ''; left '' @ str_of_int (int (length (skipped_through_price t))) @
              '' alone because entry is already through the market''
         else [])
      else if skipped_through_price t \<noteq> [] \<or> skipped_not_improving t \<noteq> [] \<or> skipped_no_entry t \<noteq> []
        then ''no stop moved to entry''
      else [])"

definition trail_stops_to_entry ::
  "position_risk list \<Rightarrow> string list \<Rightarrow> (string \<Rightarrow> pyfloat option) \<Rightarrow> trail_to_entry_decision" where
  "trail_stops_to_entry positions exclude last_prices =
     (let t = trail_loop exclude last_prices positions
                \<lparr>moves = [], skipped_not_improving = [], skipped_through_price = [],
                 skipped_no_entry = [], t_detail = []\<rparr> in
      t\<lparr>t_detail := trail_detail t\<rparr>)"

section \<open>Library lemmas\<close>

lemma foldl_py_max_ge:
  "x \<noteq> NaN \<Longrightarrow> (\<forall>y \<in> set xs. y \<noteq> NaN) \<Longrightarrow>
   foldl py_max x xs \<noteq> NaN \<and> x \<le> foldl py_max x xs \<and> (\<forall>y \<in> set xs. y \<le> foldl py_max x xs)"
proof (induction xs arbitrary: x)
  case Nil
  then show ?case by (simp add: pyfloat_refl)
next
  case (Cons a xs)
  then have nn: "a \<noteq> NaN" "py_max x a \<noteq> NaN" by (auto simp: py_max_def)
  from Cons.IH [OF nn(2)] Cons.prems have
    ih: "foldl py_max (py_max x a) xs \<noteq> NaN" "py_max x a \<le> foldl py_max (py_max x a) xs"
      "\<forall>y \<in> set xs. y \<le> foldl py_max (py_max x a) xs" by auto
  from py_max_ge1 [of x a] py_max_ge2 [of x a] Cons.prems nn have "x \<le> py_max x a" "a \<le> py_max x a" by auto
  with ih show ?case by (auto intro: pyfloat_le_trans)
qed

lemma py_max_list_ge:
  "xs \<noteq> [] \<Longrightarrow> (\<forall>y \<in> set xs. y \<noteq> NaN) \<Longrightarrow> z \<in> set xs \<Longrightarrow> z \<le> py_max_list xs"
  by (cases xs) (auto dest: foldl_py_max_ge)

lemma py_max_list_in: "xs \<noteq> [] \<Longrightarrow> py_max_list xs \<in> set xs"
proof -
  have "foldl py_max x ys \<in> insert x (set ys)" for x ys
    by (induction ys arbitrary: x) (auto simp: py_max_def split: if_splits)
  then show "xs \<noteq> [] \<Longrightarrow> ?thesis" by (cases xs) auto
qed

lemma pnl_loop_counts:
  "s_priced (pnl_loop ps r u n m) + s_unpriced (pnl_loop ps r u n m) =
     n + m + int (length (filter (\<lambda>p. \<not> pp_closed p) ps))"
  by (induction ps r u n m rule: pnl_loop.induct) (auto simp: Let_def)

lemma pnl_loop_realized:
  "s_realized (pnl_loop ps r u n m) = foldl (\<lambda>acc p. acc + pp_realized p) r ps"
  by (induction ps r u n m rule: pnl_loop.induct) (auto simp: Let_def)

lemma pnl_loop_unrealized:
  "s_unrealized (pnl_loop ps r u n m) =
     foldl (\<lambda>acc p. acc + position_pnl (pp_side p) (pp_entry p) (pp_quantity p) (pp_last p)) u
       (filter (\<lambda>p. \<not> pp_closed p \<and> marked p) ps)"
  by (induction ps r u n m rule: pnl_loop.induct) (auto simp: Let_def)

lemma pnl_loop_total: "s_total (pnl_loop ps r u n m) = s_realized (pnl_loop ps r u n m) + s_unrealized (pnl_loop ps r u n m)"
  by (induction ps r u n m rule: pnl_loop.induct) (auto simp: Let_def)

lemma trail_loop_partition:
  "length (moves (trail_loop ex pr rs acc)) + length (skipped_not_improving (trail_loop ex pr rs acc)) +
   length (skipped_through_price (trail_loop ex pr rs acc)) + length (skipped_no_entry (trail_loop ex pr rs acc)) =
   length (moves acc) + length (skipped_not_improving acc) + length (skipped_through_price acc) +
   length (skipped_no_entry acc) + length (filter (\<lambda>r. pos_id r \<notin> set ex) rs)"
proof (induction rs arbitrary: acc)
  case Nil
  then show ?case by simp
next
  case (Cons r rs)
  have "trail_verdict ex pr r = Excluded \<longleftrightarrow> pos_id r \<in> set ex"
    by (auto simp: trail_verdict_def Let_def)
  with Cons show ?case by (cases "trail_verdict ex pr r") auto
qed

lemma trail_loop_moves:
  "moves (trail_loop ex pr rs acc) = moves acc @
     concat (map (\<lambda>r. case trail_verdict ex pr r of
        Move prev new \<Rightarrow> [\<lparr>m_identifier = pos_id r, previous_stop = prev, new_stop = new\<rparr>] | _ \<Rightarrow> []) rs)"
  by (induction rs arbitrary: acc) (auto split: trail_verdict.splits)

lemma trail_verdict_Move:
  "trail_verdict ex pr r = Move prev new \<Longrightarrow>
     prev = effective_stop r \<and> new = entry_price r \<and> price_ok new \<and> pos_id r \<notin> set ex \<and>
     at_least_as_tight (is_long r) prev (Some new) \<and>
     (\<forall>p. as_price_num (pr (pos_id r)) = Some p \<longrightarrow> (if is_long r then new < p else p < new))"
proof -
  assume mv: "trail_verdict ex pr r = Move prev new"
  then have basic: "pos_id r \<notin> set ex" "price_ok (entry_price r)" "prev = effective_stop r" "new = entry_price r"
    by (auto simp: trail_verdict_def Let_def split: if_splits)
  have better: "if is_long r then c < entry_price r else entry_price r < c" if "effective_stop r = Some c" for c
    using mv basic that effective_stop_ok [OF that]
    by (auto simp: trail_verdict_def Let_def price_ok_not_le split: if_splits)
  have clear: "if is_long r then entry_price r < p else p < entry_price r"
    if "as_price_num (pr (pos_id r)) = Some p" for p
    using mv basic that as_price_num_Some [OF that]
    by (auto simp: trail_verdict_def Let_def price_ok_not_le split: if_splits)
  have "at_least_as_tight (is_long r) prev (Some new)"
    using better basic by (auto simp: at_least_as_tight_def split: option.splits if_splits intro: pyfloat_less_imp_le)
  with basic clear show ?thesis by auto
qed

section \<open>Properties of the aggregate\<close>

text \<open>The profit lock is a ratchet. While a lock is configured, an armed lock stays armed, and
  an existing floor never falls; a trailing lock's floor is also never further below the peak than
  the give-back, and the peak and the trough of the run only widen.\<close>

theorem lock_floor_ratchet:
  assumes "lock_profit_at risk = Some thr" and "lock_armed risk" and "lock_floor risk = Some f"
    and "\<forall>c \<in> set (floor_candidates risk (py_max (peak_pnl risk) (realized + unrealized))). c \<noteq> NaN"
  shows "\<exists>f'. a_lock_floor (evaluate_aggregate risk realized unrealized) = Some f' \<and> f \<le> f' \<and>
           a_lock_armed (evaluate_aggregate risk realized unrealized) \<and>
           (\<forall>st. lock_trail_step risk = Some st \<and> st > 0 \<longrightarrow>
              a_peak (evaluate_aggregate risk realized unrealized) - st \<le> f')"
proof -
  let ?pk = "py_max (peak_pnl risk) (realized + unrealized)"
  let ?cs = "floor_candidates risk ?pk"
  have ne: "?cs \<noteq> []" by (simp add: floor_candidates_def)
  have "f \<in> set ?cs" using assms(3) by (simp add: floor_candidates_def)
  then have "f \<le> py_max_list ?cs" using py_max_list_ge [OF ne assms(4)] by blast
  moreover have "?pk - st \<le> py_max_list ?cs" if "lock_trail_step risk = Some st" "st > 0" for st
    using that py_max_list_ge [OF ne assms(4)] by (simp add: floor_candidates_def)
  ultimately show ?thesis
    using assms(1-3) by (simp add: evaluate_aggregate_def lock_update_def Let_def)
qed

definition sample_lock :: aggregate_risk where
  "sample_lock =
     \<lparr> combined_stoploss = Some (Fin 50), combined_target = Some (Fin 500), lock_profit_at = Some (Fin 100),
       lock_profit_floor = Some (Fin 60), lock_trail_step = Some (Fin 30), lock_armed = True,
       lock_floor = Some (Fin 80), peak_pnl = Fin 110, trough_pnl = Fin 0, stop_bypassed = False \<rparr>"

theorem lock_floor_ratchet_witness:
  "\<exists>f'. a_lock_floor (evaluate_aggregate sample_lock (Fin 20) (Fin 130)) = Some f' \<and> Fin 80 \<le> f' \<and>
     Fin 150 - Fin 30 \<le> f'"
proof -
  have c: "\<forall>c \<in> set (floor_candidates sample_lock (py_max (peak_pnl sample_lock) (Fin 20 + Fin 130))). c \<noteq> NaN"
    by (simp add: sample_lock_def floor_candidates_def py_max_def minus_Fin zero_pyfloat_def)
  have pk: "a_peak (evaluate_aggregate sample_lock (Fin 20) (Fin 130)) = Fin 150"
    by (simp add: evaluate_aggregate_def sample_lock_def py_max_def Let_def)
  from lock_floor_ratchet [OF _ _ _ c, of "Fin 100" "Fin 80"] show ?thesis
    unfolding pk by (auto simp: sample_lock_def zero_pyfloat_def)
qed

text \<open>The precedence of the combined rules, on every branch: a locked floor that is reached
  closes first, then the combined stop unless it is bypassed, then the combined target, and the
  bypass of the stop never disables the target. A lock that is no longer configured closes nothing,
  even if a persisted flag says it is armed.\<close>

theorem aggregate_precedence:
  "let d = evaluate_aggregate risk realized unrealized; mtm = realized + unrealized in
   (a_breached d \<longleftrightarrow> a_reason d \<noteq> None) \<and>
   (a_reason d = Some LOCK_PROFIT \<longleftrightarrow>
      lock_profit_at risk \<noteq> None \<and> a_lock_armed d \<and> (\<exists>f. a_lock_floor d = Some f \<and> mtm \<le> f)) \<and>
   (a_reason d = Some COMBINED_STOP \<longleftrightarrow>
      a_reason d \<noteq> Some LOCK_PROFIT \<and> \<not> stop_bypassed risk \<and>
      (\<exists>s. combined_stoploss risk = Some s \<and> mtm \<le> - \<bar>s\<bar>)) \<and>
   (a_reason d = Some COMBINED_TARGET \<longleftrightarrow>
      a_reason d \<noteq> Some LOCK_PROFIT \<and> a_reason d \<noteq> Some COMBINED_STOP \<and>
      (\<exists>t. combined_target risk = Some t \<and> t \<le> mtm))"
  by (auto simp: evaluate_aggregate_def Let_def aggregate_reason_def lock_breached_def
      stop_breached_def target_reached_def split: option.splits if_splits)

text \<open>The aggregate mark loses no position. Every position that is not closed is counted
  exactly once, as priced or as unpriced; the realized figure sums over all positions, open ones
  included; and the unrealized figure sums over exactly the open positions that can be marked.\<close>

theorem aggregate_pnl_accounts_for_all:
  "s_priced (aggregate_pnl ps) + s_unpriced (aggregate_pnl ps) =
     int (length (filter (\<lambda>p. \<not> pp_closed p) ps)) \<and>
   s_realized (aggregate_pnl ps) = foldl (\<lambda>acc p. acc + pp_realized p) 0 ps \<and>
   s_unrealized (aggregate_pnl ps) =
     foldl (\<lambda>acc p. acc + position_pnl (pp_side p) (pp_entry p) (pp_quantity p) (pp_last p)) 0
       (filter (\<lambda>p. \<not> pp_closed p \<and> marked p) ps) \<and>
   s_total (aggregate_pnl ps) = s_realized (aggregate_pnl ps) + s_unrealized (aggregate_pnl ps)"
  using pnl_loop_counts [of ps 0 0 0 0]
  by (simp add: aggregate_pnl_def pnl_loop_realized pnl_loop_unrealized pnl_loop_total)

text \<open>Trail to entry is safe and complete. Every position that is not excluded ends in exactly
  one of the four lists, and every move it proposes is for such a position, goes to that position's
  own usable entry price, tightens the stop in force, and is not through a known last price.\<close>

theorem trail_to_entry_moves_tighten:
  "length (moves (trail_stops_to_entry ps ex prices)) + length (skipped_not_improving (trail_stops_to_entry ps ex prices)) +
     length (skipped_through_price (trail_stops_to_entry ps ex prices)) +
     length (skipped_no_entry (trail_stops_to_entry ps ex prices)) =
     length (filter (\<lambda>r. pos_id r \<notin> set ex) ps) \<and>
   (\<forall>m \<in> set (moves (trail_stops_to_entry ps ex prices)). \<exists>r \<in> set ps.
      m_identifier m = pos_id r \<and> pos_id r \<notin> set ex \<and> new_stop m = entry_price r \<and> price_ok (new_stop m) \<and>
      previous_stop m = effective_stop r \<and>
      at_least_as_tight (is_long r) (previous_stop m) (Some (new_stop m)) \<and>
      (\<forall>p. as_price_num (prices (pos_id r)) = Some p \<longrightarrow>
         (if is_long r then new_stop m < p else p < new_stop m)))"
proof -
  have "\<forall>m \<in> set (moves (trail_stops_to_entry ps ex prices)). \<exists>r \<in> set ps. \<exists>prev new.
      trail_verdict ex prices r = Move prev new \<and>
      m = \<lparr>m_identifier = pos_id r, previous_stop = prev, new_stop = new\<rparr>"
    by (auto simp: trail_stops_to_entry_def trail_loop_moves Let_def split: trail_verdict.splits)
  moreover note trail_loop_partition [of ex prices ps]
  ultimately show ?thesis
    by (fastforce simp: trail_stops_to_entry_def Let_def dest!: trail_verdict_Move)
qed

definition sample_short :: position_risk where
  "sample_short = sample_long\<lparr>pos_id := ''B'', pside := SELL, initial_stop_price := Some (Fin 105)\<rparr>"

theorem trail_to_entry_moves_tighten_witness:
  "moves (trail_stops_to_entry [sample_long, sample_short] [''A''] (\<lambda>_. None)) =
     [\<lparr>m_identifier = ''B'', previous_stop = Some (Fin 105), new_stop = Fin 100\<rparr>] \<and>
   (\<exists>r \<in> {sample_long, sample_short}. pos_id r = ''B'' \<and> at_least_as_tight (is_long r) (Some (Fin 105)) (Some (Fin 100)))"
proof -
  have m: "moves (trail_stops_to_entry [sample_long, sample_short] [''A''] (\<lambda>_. None)) =
     [\<lparr>m_identifier = ''B'', previous_stop = Some (Fin 105), new_stop = Fin 100\<rparr>]"
    by (simp add: trail_stops_to_entry_def trail_loop_moves trail_verdict_def sample_short_def
        sample_long_def effective_stop_def is_long_def Let_def)
  show ?thesis
    using trail_to_entry_moves_tighten [of "[sample_long, sample_short]" "[''A'']" "\<lambda>_. None"] m
    by auto
qed

end
