(* ===== verification/Run_State.thy ===== *)
theory Run_State
  imports Py_Value
begin

text \<open>
  The in-process state of strategy runs, \<open>services/strategy_module/state.py\<close>. The module's two
  dictionaries (\<open>_run_state\<close> and \<open>_state_locks\<close>) are the record \<open>registry\<close>; every function
  of the module holds one run's lock for its whole body and does no I/O, so it is one atomic
  function on the registry, and an execution of the module is a sequence of such functions.
  \<open>uuid4().hex\<close> is the supply \<open>uu\<close> indexed by a counter in the registry; that it never repeats
  is the hypothesis \<open>inj uu\<close> where a property needs it. Identifiers that the code compares
  across types (a claim token is text, an order row is a number) are the type \<open>pyid\<close>.
\<close>

section \<open>Data\<close>

datatype pyid = IdInt int | IdStr string

fun id_str :: "pyid \<Rightarrow> string" where
  "id_str (IdInt i) = str_of_int i"
| "id_str (IdStr s) = s"

datatype leg_status = Configured | Open | Rejected | Closed

datatype entry_state = EPending | EOpen | EComplete | ERejected | ECancelled

record superseded_pos =
  sp_exit_order_id :: "int option"
  sp_exit_claim_token :: "string option"
  sp_exit_kind :: "string option"
  sp_entry_order_id :: "int option"
  sp_position_ref :: "string option"
  sp_position :: string
  sp_entry_avg :: pyfloat
  sp_qty :: int

record leg =
  leg_id :: pyid
  position :: string
  symbol :: string
  exchange :: string
  lots :: int
  qty :: int
  position_ref :: "string option"
  entry_order_id :: "int option"
  entry_status :: entry_state
  entry_filled_qty :: int
  entry_avg :: pyfloat
  exit_order_id :: "int option"
  exit_claim_token :: "string option"
  exit_kind :: "string option"
  exit_avg :: "pyfloat option"
  leg_ltp :: "pyfloat option"
  mtm :: pyfloat
  realized_pnl :: pyfloat
  status :: leg_status
  tick_source :: string
  risk_unit :: string
  sl_pts :: pyval
  target_pts :: pyval
  trail_x :: pyval
  trail_y :: pyval
  effective_sl :: "pyfloat option"
  effective_target :: "pyfloat option"
  trail_active :: bool
  leg_highest :: "pyfloat option"
  leg_lowest :: "pyfloat option"
  superseded :: "superseded_pos option"

record leg_cfg =
  c_leg_id :: pyid
  c_position :: "string option"
  c_symbol :: string
  c_exchange :: string
  c_lots :: "int option"
  c_quantity :: int
  c_position_ref :: "string option"
  c_risk_unit :: "string option"
  c_sl_pts :: pyval
  c_target_pts :: pyval
  c_trail :: "(pyval \<times> pyval) option"

record entry_claim =
  claim_token :: string
  claim_position_ref :: string
  claim_position :: string
  held_position :: "string option"
  expected_position_ref :: "string option"

record run =
  run_id :: int
  strategy_id :: int
  pnl_realized :: pyfloat
  pnl_unrealized :: pyfloat
  pnl_total :: pyfloat
  pnl_peak :: pyfloat
  pnl_trough :: pyfloat
  run_lock_armed :: bool
  run_lock_floor :: "pyfloat option"
  trail_to_entry_active :: bool
  tick_source_degraded :: bool
  stopping :: bool
  signal_entry_claims :: "(string, entry_claim) dict"
  legs :: "(string, leg) dict"

record registry =
  runs :: "(int, run) dict"
  locks :: "int set"
  next_uuid :: nat

definition empty_registry :: registry where
  "empty_registry = \<lparr>runs = [], locks = {}, next_uuid = 0\<rparr>"

section \<open>The registry\<close>

definition lock_for :: "int \<Rightarrow> bool \<Rightarrow> registry \<Rightarrow> bool \<times> registry" where
  "lock_for rid create reg =
     (if rid \<in> locks reg then (True, reg)
      else if create then (True, reg\<lparr>locks := insert rid (locks reg)\<rparr>)
      else (False, reg))"

definition get_state_lock :: "int \<Rightarrow> registry \<Rightarrow> registry" where
  "get_state_lock rid reg = snd (lock_for rid True reg)"

text \<open>\<open>run_state\<close>: the state yielded under the lock, or its absence, without minting a lock.\<close>

definition run_state :: "registry \<Rightarrow> int \<Rightarrow> run option" where
  "run_state reg rid = (if fst (lock_for rid False reg) then dget (runs reg) rid else None)"

definition put_run :: "int \<Rightarrow> run \<Rightarrow> registry \<Rightarrow> registry" where
  "put_run rid r reg = reg\<lparr>runs := dset rid r (runs reg)\<rparr>"

definition put_leg :: "int \<Rightarrow> run \<Rightarrow> string \<Rightarrow> leg \<Rightarrow> registry \<Rightarrow> registry" where
  "put_leg rid r key l reg = put_run rid (r\<lparr>legs := dset key l (legs r)\<rparr>) reg"

definition find_leg :: "registry \<Rightarrow> int \<Rightarrow> pyid \<Rightarrow> (run \<times> leg) option" where
  "find_leg reg rid lid =
     (case run_state reg rid of
        None \<Rightarrow> None
      | Some r \<Rightarrow> (case dget (legs r) (id_str lid) of None \<Rightarrow> None | Some l \<Rightarrow> Some (r, l)))"

definition new_position_ref :: "(nat \<Rightarrow> string) \<Rightarrow> registry \<Rightarrow> string \<times> registry" where
  "new_position_ref uu reg = (uu (next_uuid reg), reg\<lparr>next_uuid := Suc (next_uuid reg)\<rparr>)"

definition new_leg_state :: "leg_cfg \<Rightarrow> leg result" where
  "new_leg_state c =
     (let pos = str_upper (case c_position c of None \<Rightarrow> [] | Some p \<Rightarrow> p) in
      if pos \<notin> {''B'', ''S''} then Raise ValueError
      else Ret
        \<lparr> leg_id = c_leg_id c, position = pos, symbol = c_symbol c, exchange = c_exchange c,
          lots = (case c_lots c of None \<Rightarrow> 1 | Some n \<Rightarrow> n), qty = c_quantity c,
          position_ref = c_position_ref c, entry_order_id = None, entry_status = EPending,
          entry_filled_qty = 0, entry_avg = 0, exit_order_id = None, exit_claim_token = None,
          exit_kind = None, exit_avg = None, leg_ltp = None, mtm = 0, realized_pnl = 0,
          status = Configured, tick_source = ''ws'',
          risk_unit = (case c_risk_unit c of None \<Rightarrow> ''points'' | Some u \<Rightarrow> if u = [] then ''points'' else u),
          sl_pts = c_sl_pts c, target_pts = c_target_pts c,
          trail_x = (case c_trail c of None \<Rightarrow> VInt 0 | Some (x, y) \<Rightarrow> py_or x (VInt 0)),
          trail_y = (case c_trail c of None \<Rightarrow> VInt 0 | Some (x, y) \<Rightarrow> py_or y (VInt 0)),
          effective_sl = None, effective_target = None, trail_active = False,
          leg_highest = None, leg_lowest = None, superseded = None \<rparr>)"

fun init_legs :: "leg_cfg list \<Rightarrow> (string, leg) dict \<Rightarrow> (string, leg) dict result" where
  "init_legs [] acc = Ret acc"
| "init_legs (c # cs) acc =
     rbind (new_leg_state c) (\<lambda>l. init_legs cs (dset (id_str (c_leg_id c)) l acc))"

definition init_run_state :: "int \<Rightarrow> int \<Rightarrow> leg_cfg list \<Rightarrow> registry \<Rightarrow> run result \<times> registry" where
  "init_run_state rid sid cfgs reg =
     (case init_legs cfgs [] of
        Inl e \<Rightarrow> (Raise e, reg)
      | Inr ls \<Rightarrow>
          (let r = \<lparr> run_id = rid, strategy_id = sid, pnl_realized = 0, pnl_unrealized = 0, pnl_total = 0,
                     pnl_peak = 0, pnl_trough = 0, run_lock_armed = False, run_lock_floor = None,
                     trail_to_entry_active = False, tick_source_degraded = False, stopping = False,
                     signal_entry_claims = [], legs = ls \<rparr> in
           (Ret r, put_run rid r (get_state_lock rid reg))))"

section \<open>Exit claims\<close>

definition exit_in_flight :: "leg \<Rightarrow> bool" where
  "exit_in_flight l = (exit_kind l \<noteq> None \<or> exit_claim_token l \<noteq> None \<or> exit_order_id l \<noteq> None)"

definition claim_leg_exit ::
  "(nat \<Rightarrow> string) \<Rightarrow> int \<Rightarrow> pyid \<Rightarrow> string \<Rightarrow> registry \<Rightarrow> leg option \<times> registry" where
  "claim_leg_exit uu rid lid kind reg =
     (case find_leg reg rid lid of
        None \<Rightarrow> (None, reg)
      | Some (r, l) \<Rightarrow>
          if status l \<noteq> Open then (None, reg)
          else if entry_status l \<noteq> EComplete then (None, reg)
          else if exit_in_flight l then (None, reg)
          else
            let (tok, reg') = new_position_ref uu reg;
                l' = l\<lparr>exit_kind := Some kind, exit_claim_token := Some tok\<rparr> in
            (Some l', put_leg rid r (id_str lid) l' reg'))"

fun claim_pass ::
  "(nat \<Rightarrow> string) \<Rightarrow> int \<Rightarrow> pyid list \<Rightarrow> string \<Rightarrow> leg list \<Rightarrow> leg list \<Rightarrow> registry \<Rightarrow> (leg list \<times> leg list) \<times> registry" where
  "claim_pass uu rid [] kind claimed unfilled reg = ((claimed, unfilled), reg)"
| "claim_pass uu rid (lid # lids) kind claimed unfilled reg =
     (case find_leg reg rid lid of
        None \<Rightarrow> claim_pass uu rid lids kind claimed unfilled reg
      | Some (r, l) \<Rightarrow>
          if status l \<noteq> Open \<or> exit_in_flight l then claim_pass uu rid lids kind claimed unfilled reg
          else if entry_status l \<noteq> EComplete then claim_pass uu rid lids kind claimed (unfilled @ [l]) reg
          else
            let (tok, reg') = new_position_ref uu reg;
                l' = l\<lparr>exit_kind := Some kind, exit_claim_token := Some tok\<rparr> in
            claim_pass uu rid lids kind (claimed @ [l']) unfilled (put_leg rid r (id_str lid) l' reg'))"

definition claim_legs_for_exit ::
  "(nat \<Rightarrow> string) \<Rightarrow> int \<Rightarrow> pyid list \<Rightarrow> string \<Rightarrow> registry \<Rightarrow> (leg list \<times> leg list) \<times> registry" where
  "claim_legs_for_exit uu rid lids kind reg =
     (if run_state reg rid = None then (([], []), reg)
      else claim_pass uu rid lids kind [] [] reg)"

definition clear_exit :: "leg \<Rightarrow> leg" where
  "clear_exit l = l\<lparr>exit_kind := None, exit_claim_token := None, exit_order_id := None\<rparr>"

definition clear_sp_exit :: "superseded_pos \<Rightarrow> superseded_pos" where
  "clear_sp_exit s = s\<lparr>sp_exit_order_id := None, sp_exit_claim_token := None, sp_exit_kind := None\<rparr>"

definition release_leg_exit :: "int \<Rightarrow> pyid \<Rightarrow> pyid option \<Rightarrow> registry \<Rightarrow> bool \<times> registry" where
  "release_leg_exit rid lid claim_id reg =
     (case claim_id of
        None \<Rightarrow> (False, reg)
      | Some c \<Rightarrow>
          (case find_leg reg rid lid of
             None \<Rightarrow> (False, reg)
           | Some (r, l) \<Rightarrow>
               if c \<in> set_option (map_option IdStr (exit_claim_token l)) \<union>
                      set_option (map_option IdInt (exit_order_id l))
               then (True, put_leg rid r (id_str lid) (clear_exit l) reg)
               else (False, reg)))"

definition bind_live_exit ::
  "int \<Rightarrow> pyid \<Rightarrow> string option \<Rightarrow> int \<Rightarrow> string option \<Rightarrow> registry \<Rightarrow> bool \<times> registry" where
  "bind_live_exit rid lid token row_id pref reg =
     (case find_leg reg rid lid of
        None \<Rightarrow> (False, reg)
      | Some (r, l) \<Rightarrow>
          if token = None \<or> exit_claim_token l \<noteq> token \<or> exit_order_id l \<noteq> None \<or>
             (pref \<noteq> None \<and> position_ref l \<noteq> pref)
          then (False, reg)
          else (True, put_leg rid r (id_str lid) (l\<lparr>exit_order_id := Some row_id\<rparr>) reg))"

section \<open>The outgoing side of a flip\<close>

definition release_superseded_exit :: "int \<Rightarrow> pyid \<Rightarrow> pyid option \<Rightarrow> registry \<Rightarrow> bool \<times> registry" where
  "release_superseded_exit rid lid eid reg =
     (case eid of
        None \<Rightarrow> (False, reg)
      | Some c \<Rightarrow>
          (case find_leg reg rid lid of
             None \<Rightarrow> (False, reg)
           | Some (r, l) \<Rightarrow>
               (case superseded l of
                  None \<Rightarrow> (False, reg)
                | Some s \<Rightarrow>
                    if c \<in> set_option (map_option IdStr (sp_exit_claim_token s)) \<union>
                           set_option (map_option IdInt (sp_exit_order_id s))
                    then (True, put_leg rid r (id_str lid) (l\<lparr>superseded := Some (clear_sp_exit s)\<rparr>) reg)
                    else (False, reg))))"

datatype exit_owner = OwnerSuperseded | OwnerLive

definition release_order_exit ::
  "int \<Rightarrow> pyid \<Rightarrow> int \<Rightarrow> string option \<Rightarrow> registry \<Rightarrow> exit_owner option \<times> registry" where
  "release_order_exit rid lid row_id pref reg =
     (case find_leg reg rid lid of
        None \<Rightarrow> (None, reg)
      | Some (r, l) \<Rightarrow>
          (case superseded l of
             Some s \<Rightarrow>
               if sp_exit_order_id s = Some row_id \<and> (pref = None \<or> sp_position_ref s = pref)
               then (Some OwnerSuperseded,
                     put_leg rid r (id_str lid) (l\<lparr>superseded := Some (clear_sp_exit s)\<rparr>) reg)
               else if exit_order_id l = Some row_id \<and> (pref = None \<or> position_ref l = pref)
               then (Some OwnerLive, put_leg rid r (id_str lid) (clear_exit l) reg)
               else (None, reg)
           | None \<Rightarrow>
               if exit_order_id l = Some row_id \<and> (pref = None \<or> position_ref l = pref)
               then (Some OwnerLive, put_leg rid r (id_str lid) (clear_exit l) reg)
               else (None, reg)))"

definition bind_superseded_exit ::
  "int \<Rightarrow> pyid \<Rightarrow> string option \<Rightarrow> int \<Rightarrow> registry \<Rightarrow> bool \<times> registry" where
  "bind_superseded_exit rid lid token row_id reg =
     (case find_leg reg rid lid of
        None \<Rightarrow> (False, reg)
      | Some (r, l) \<Rightarrow>
          (case superseded l of
             None \<Rightarrow> (False, reg)
           | Some s \<Rightarrow>
               if token = None \<or> sp_exit_claim_token s \<noteq> token then (False, reg)
               else (True, put_leg rid r (id_str lid)
                       (l\<lparr>superseded := Some (s\<lparr>sp_exit_order_id := Some row_id\<rparr>)\<rparr>) reg)))"

record superseded_claim =
  sc_leg_id :: pyid
  sc_position :: string
  sc_position_ref :: "string option"
  sc_entry_order_id :: "int option"
  sc_claim_token :: string
  sc_symbol :: string
  sc_exchange :: string
  sc_quantity :: int
  sc_entry_avg :: pyfloat

definition claim_superseded_exit ::
  "(nat \<Rightarrow> string) \<Rightarrow> int \<Rightarrow> pyid \<Rightarrow> string option \<Rightarrow> registry \<Rightarrow> superseded_claim option \<times> registry" where
  "claim_superseded_exit uu rid lid pos reg =
     (case find_leg reg rid lid of
        None \<Rightarrow> (None, reg)
      | Some (r, l) \<Rightarrow>
          (case superseded l of
             None \<Rightarrow> (None, reg)
           | Some s \<Rightarrow>
               if sp_exit_claim_token s \<noteq> None \<or> sp_exit_order_id s \<noteq> None then (None, reg)
               else if str_upper (sp_position s) \<noteq> str_upper (case pos of None \<Rightarrow> [] | Some p \<Rightarrow> p) then (None, reg)
               else
                 let (tok, reg') = new_position_ref uu reg in
                 (Some \<lparr> sc_leg_id = leg_id l, sc_position = sp_position s, sc_position_ref = sp_position_ref s,
                         sc_entry_order_id = sp_entry_order_id s, sc_claim_token = tok, sc_symbol = symbol l,
                         sc_exchange = exchange l, sc_quantity = sp_qty s, sc_entry_avg = sp_entry_avg s \<rparr>,
                  put_leg rid r (id_str lid) (l\<lparr>superseded := Some (s\<lparr>sp_exit_claim_token := Some tok\<rparr>)\<rparr>) reg')))"

section \<open>Signal entries\<close>

datatype entry_answer = EntryNote string | EntryClaimed entry_claim

definition already_note :: "string \<Rightarrow> string" where
  "already_note requested = (if requested = ''B'' then ''already_long'' else ''already_short'')"

definition claim_signal_entry ::
  "(nat \<Rightarrow> string) \<Rightarrow> int \<Rightarrow> pyid \<Rightarrow> string option \<Rightarrow> registry \<Rightarrow> entry_answer option \<times> registry" where
  "claim_signal_entry uu rid lid pos reg =
     (case run_state reg rid of
        None \<Rightarrow> (None, reg)
      | Some r \<Rightarrow>
          if stopping r then (Some (EntryNote ''run_stopping''), reg)
          else
            let key = id_str lid in
            if dget (signal_entry_claims r) key \<noteq> None then (Some (EntryNote ''flip_pending''), reg)
            else
              let l = dget (legs r) key;
                  requested = str_upper (case pos of None \<Rightarrow> [] | Some p \<Rightarrow> p);
                  live_position = (case l of None \<Rightarrow> None
                                   | Some x \<Rightarrow> if status x = Open then Some (position x) else None);
                  sup = (case l of None \<Rightarrow> None | Some x \<Rightarrow> superseded x) in
              if live_position = Some requested then (Some (EntryNote (already_note requested)), reg)
              else if live_position \<noteq> None \<and> sup \<noteq> None then (Some (EntryNote ''flip_pending''), reg)
              else if (case sup of None \<Rightarrow> False | Some s \<Rightarrow> sp_position s = requested)
                then (Some (EntryNote (already_note requested)), reg)
              else if sup \<noteq> None then (Some (EntryNote ''flip_pending''), reg)
              else if live_position \<noteq> None \<and> (case l of None \<Rightarrow> False | Some x \<Rightarrow> exit_in_flight x)
                then (Some (EntryNote ''flip_pending''), reg)
              else
                let (tok, reg1) = new_position_ref uu reg;
                    (pref, reg2) = new_position_ref uu reg1;
                    claim = \<lparr> claim_token = tok, claim_position_ref = pref, claim_position = requested,
                              held_position = live_position,
                              expected_position_ref = (case l of None \<Rightarrow> None | Some x \<Rightarrow> position_ref x) \<rparr> in
                (Some (EntryClaimed claim),
                 put_run rid (r\<lparr>signal_entry_claims := dset key claim (signal_entry_claims r)\<rparr>) reg2))"

definition release_signal_entry_claim :: "int \<Rightarrow> pyid \<Rightarrow> string option \<Rightarrow> registry \<Rightarrow> bool \<times> registry" where
  "release_signal_entry_claim rid lid token reg =
     (case run_state reg rid of
        None \<Rightarrow> (False, reg)
      | Some r \<Rightarrow>
          (case dget (signal_entry_claims r) (id_str lid) of
             None \<Rightarrow> (False, reg)
           | Some c \<Rightarrow>
               if Some (claim_token c) \<noteq> token then (False, reg)
               else (True, put_run rid
                       (r\<lparr>signal_entry_claims := dpop (id_str lid) (signal_entry_claims r)\<rparr>) reg)))"

definition mark_stopping :: "int \<Rightarrow> registry \<Rightarrow> bool \<times> registry" where
  "mark_stopping rid reg =
     (case run_state reg rid of
        None \<Rightarrow> (False, reg)
      | Some r \<Rightarrow> (True, put_run rid (r\<lparr>stopping := True\<rparr>) reg))"

definition as_superseded :: "leg \<Rightarrow> superseded_pos" where
  "as_superseded l =
     \<lparr> sp_exit_order_id = exit_order_id l, sp_exit_claim_token = exit_claim_token l,
       sp_exit_kind = exit_kind l, sp_entry_order_id = entry_order_id l,
       sp_position_ref = position_ref l, sp_position = position l,
       sp_entry_avg = entry_avg l, sp_qty = qty l \<rparr>"

definition claim_matches :: "entry_claim option \<Rightarrow> string option \<Rightarrow> string option \<Rightarrow> string option \<Rightarrow> bool" where
  "claim_matches c token pref expected =
     (case c of
        None \<Rightarrow> False
      | Some c \<Rightarrow> Some (claim_token c) = token \<and> Some (claim_position_ref c) = pref \<and>
          expected_position_ref c = expected)"

definition installed_leg :: "leg \<Rightarrow> entry_claim \<Rightarrow> leg option \<Rightarrow> leg" where
  "installed_leg l0 c previous =
     (case previous of
        None \<Rightarrow> l0
      | Some p \<Rightarrow>
          (let l1 = (if held_position c \<noteq> None \<and> status p = Open
                     then l0\<lparr>superseded := Some (as_superseded p)\<rparr> else l0) in
           l1\<lparr>realized_pnl := realized_pnl p\<rparr>))"

definition add_leg ::
  "int \<Rightarrow> leg_cfg \<Rightarrow> string option \<Rightarrow> string option \<Rightarrow> int \<Rightarrow> registry \<Rightarrow> leg option result \<times> registry" where
  "add_leg rid cfg token expected order_id reg =
     (case run_state reg rid of
        None \<Rightarrow> (Ret None, reg)
      | Some r \<Rightarrow>
          if stopping r then (Ret None, reg)
          else
            let key = id_str (c_leg_id cfg);
                claim = dget (signal_entry_claims r) key;
                previous = dget (legs r) key in
            if \<not> claim_matches claim token (c_position_ref cfg) expected then (Ret None, reg)
            else if (case previous of None \<Rightarrow> None | Some p \<Rightarrow> position_ref p) \<noteq> expected then (Ret None, reg)
            else if (case previous of None \<Rightarrow> False | Some p \<Rightarrow> superseded p \<noteq> None) then (Ret None, reg)
            else
              (case new_leg_state cfg of
                 Inl e \<Rightarrow> (Raise e, reg)
               | Inr l0 \<Rightarrow>
                   if held_position (the claim) \<noteq> None \<and>
                      (case previous of None \<Rightarrow> False
                       | Some p \<Rightarrow> status p = Open \<and> (exit_kind p = None \<or> exit_claim_token p = None))
                   then (Ret None, reg)
                   else
                     let l = installed_leg (l0\<lparr>entry_order_id := Some order_id\<rparr>) (the claim) previous in
                     (Ret (Some l), put_leg rid r key l reg)))"

definition finish_signal_entry ::
  "int \<Rightarrow> pyid \<Rightarrow> string \<Rightarrow> string option \<Rightarrow> bool \<Rightarrow> registry \<Rightarrow> bool \<times> registry" where
  "finish_signal_entry rid lid pref token accepted reg =
     (case find_leg reg rid lid of
        None \<Rightarrow> (False, reg)
      | Some (r, l) \<Rightarrow>
          (case dget (signal_entry_claims r) (id_str lid) of
             None \<Rightarrow> (False, reg)
           | Some c \<Rightarrow>
               if position_ref l \<noteq> Some pref \<or> Some (claim_token c) \<noteq> token then (False, reg)
               else
                 let l' = (if entry_status l = EPending
                           then l\<lparr>entry_status := (if accepted then EOpen else ERejected),
                                  status := (if accepted then Open else Rejected)\<rparr>
                           else l) in
                 (True, put_leg rid
                    (r\<lparr>signal_entry_claims := dpop (id_str lid) (signal_entry_claims r)\<rparr>)
                    (id_str lid) l' reg)))"

definition reject_entry_intent :: "int \<Rightarrow> pyid \<Rightarrow> string option \<Rightarrow> registry \<Rightarrow> bool \<times> registry" where
  "reject_entry_intent rid lid pref reg =
     (case find_leg reg rid lid of
        None \<Rightarrow> (False, reg)
      | Some (r, l) \<Rightarrow>
          if position_ref l \<noteq> pref then (False, reg)
          else if entry_status l = EComplete then (False, reg)
          else (True, put_leg rid r (id_str lid)
                  (l\<lparr>entry_order_id := None, entry_status := ERejected, status := Rejected\<rparr>) reg))"

section \<open>Installing, dropping and reading\<close>

definition get_run_state :: "registry \<Rightarrow> int \<Rightarrow> run option" where
  "get_run_state reg rid = run_state reg rid"

definition hydrate_run_state :: "int \<Rightarrow> run \<Rightarrow> registry \<Rightarrow> registry" where
  "hydrate_run_state rid r reg = put_run rid r (get_state_lock rid reg)"

definition clear_run_state :: "int \<Rightarrow> registry \<Rightarrow> registry" where
  "clear_run_state rid reg = reg\<lparr>runs := dpop rid (runs reg), locks := locks reg - {rid}\<rparr>"

definition active_run_ids :: "registry \<Rightarrow> int list" where
  "active_run_ids reg = dkeys (runs reg)"

definition open_legs :: "run \<Rightarrow> leg list" where
  "open_legs r = filter (\<lambda>l. status l = Open) (dvalues (legs r))"

definition legs_for_symbol :: "run \<Rightarrow> string \<Rightarrow> string \<Rightarrow> leg list" where
  "legs_for_symbol r tick_symbol exch =
     filter (\<lambda>l. status l = Open \<and> symbol l = tick_symbol \<and> exchange l = exch) (dvalues (legs r))"

definition subscribed_symbols :: "run \<Rightarrow> (string \<times> string) set" where
  "subscribed_symbols r =
     (\<lambda>l. (symbol l, exchange l)) ` set (filter (\<lambda>l. status l = Configured \<or> status l = Open) (dvalues (legs r)))"

definition favorable_peak_points :: "leg \<Rightarrow> pyfloat" where
  "favorable_peak_points l =
     (let entry = entry_avg l in
      if \<not> ftruthy entry then 0
      else if position l = ''B'' then
        (case leg_highest l of None \<Rightarrow> 0 | Some p \<Rightarrow> if ftruthy p then py_max 0 (p - entry) else 0)
      else
        (case leg_lowest l of None \<Rightarrow> 0 | Some t \<Rightarrow> if ftruthy t then py_max 0 (entry - t) else 0))"

record checkpoint =
  ck_realized :: pyfloat
  ck_unrealized :: pyfloat
  ck_total :: pyfloat
  ck_peak :: pyfloat
  ck_trough :: pyfloat
  ck_lock_floor :: "pyfloat option"
  ck_trail_to_entry :: bool
  ck_legs :: "(string, leg) dict"

definition snapshot_for_checkpoint :: "run \<Rightarrow> checkpoint" where
  "snapshot_for_checkpoint r =
     \<lparr> ck_realized = pnl_realized r, ck_unrealized = pnl_unrealized r, ck_total = pnl_total r,
       ck_peak = pnl_peak r, ck_trough = pnl_trough r, ck_lock_floor = run_lock_floor r,
       ck_trail_to_entry = trail_to_entry_active r, ck_legs = legs r \<rparr>"

end
