(* ===== verification/Ratchet.thy ===== *)
theory Ratchet
  imports Main
begin

text \<open>
  Two interfaces that several components share.

  \<open>ratchet\<close>: a state that absorbs events one at a time and only ever gets tighter. The trailing
  stop of a leg and the profit lock of a run are instances. The client gets that a whole
  sequence of events tightens, and that more events never undo what fewer achieved.

  \<open>latch\<close>: a state with operations of which only a known few can undo a fact. The in-flight
  marker of an exit, the stopping flag of a run and the kill switch are instances. The client
  gets that the fact survives every sequence of the other operations.
\<close>

locale ratchet =
  fixes step :: "'s \<Rightarrow> 'e \<Rightarrow> 's"
    and ok :: "'s \<Rightarrow> bool"
    and tighter :: "'s \<Rightarrow> 's \<Rightarrow> bool"
  assumes ok_step: "ok s \<Longrightarrow> ok (step s e)"
    and tighter_refl: "ok s \<Longrightarrow> tighter s s"
    and tighter_trans: "tighter s t \<Longrightarrow> tighter t u \<Longrightarrow> tighter s u"
    and step_tighter: "ok s \<Longrightarrow> tighter s (step s e)"
begin

lemma ok_run: "ok s \<Longrightarrow> ok (foldl step s es)"
  by (induction es arbitrary: s) (auto simp: ok_step)

lemma run_tighter: "ok s \<Longrightarrow> tighter s (foldl step s es)"
proof (induction es arbitrary: s)
  case Nil
  then show ?case by (simp add: tighter_refl)
next
  case (Cons e es)
  then have "tighter s (step s e)" "tighter (step s e) (foldl step (step s e) es)"
    by (auto intro: step_tighter ok_step)
  then show ?case by (auto intro: tighter_trans)
qed

lemma run_extends: "ok s \<Longrightarrow> tighter (foldl step s es) (foldl step s (es @ fs))"
  by (simp add: run_tighter ok_run)

end

locale latch =
  fixes exec :: "'o \<Rightarrow> 's \<Rightarrow> 's"
    and held :: "'s \<Rightarrow> bool"
    and resets :: "'o \<Rightarrow> bool"
  assumes keeps: "held s \<Longrightarrow> \<not> resets x \<Longrightarrow> held (exec x s)"
begin

lemma held_run: "held s \<Longrightarrow> list_all (\<lambda>x. \<not> resets x) xs \<Longrightarrow> held (fold exec xs s)"
  by (induction xs arbitrary: s) (auto simp: keeps)

lemma released_by_reset:
  "held s \<Longrightarrow> \<not> held (fold exec xs s) \<Longrightarrow> \<exists>x \<in> set xs. resets x"
  using held_run [of s xs] by (auto simp: list_all_iff)

end

end
