(* ===== verification/Risk_Adapter.thy ===== *)
theory Risk_Adapter
  imports Risk_Aggregate Run_State Ratchet
begin

text \<open>
  The bridge between a run's state and the risk core, \<open>services/strategy_module/risk_adapter.py\<close>:
  a leg becomes a \<open>position_risk\<close>, a decision is written back onto the leg; a run and its
  strategy become an \<open>aggregate_risk\<close>, and that decision is written back onto the run. The
  configured levels of a leg are untyped values in points or percent of the entry, and are
  converted here and nowhere else.
\<close>

section \<open>A leg and its risk\<close>

definition side_of_position :: "string \<Rightarrow> side result" where
  "side_of_position pos =
     (let p = str_upper pos in
      if p = ''B'' then Ret BUY else if p = ''S'' then Ret SELL else Raise ValueError)"

definition points_per_unit :: "leg \<Rightarrow> pyfloat \<Rightarrow> pyfloat" where
  "points_per_unit l entry =
     (if str_lower (if risk_unit l = [] then ''points'' else risk_unit l) \<noteq> ''percent'' then Fin 1
      else if entry > 0 then fdiv entry (Fin 100) else 0)"

definition in_points :: "pyval \<Rightarrow> pyfloat \<Rightarrow> pyfloat option result" where
  "in_points value scale =
     (if value = VNone then Ret None
      else
        (case py_float value of
           Inl TypeError \<Rightarrow> Ret None
         | Inl ValueError \<Rightarrow> Ret None
         | Inl e \<Rightarrow> Raise e
         | Inr x \<Rightarrow> (let converted = x * scale in Ret (if converted > 0 then Some converted else None))))"

definition leg_to_position_risk :: "leg \<Rightarrow> position_risk result" where
  "leg_to_position_risk l =
     rbind (side_of_position (position l)) (\<lambda>sd.
     let entry = entry_avg l; scale = points_per_unit l entry in
     rbind (in_points (sl_pts l) scale) (\<lambda>slp.
     rbind (in_points (target_pts l) scale) (\<lambda>tgp.
     rbind (in_points (trail_x l) scale) (\<lambda>tx.
     rbind (in_points (trail_y l) scale) (\<lambda>ty.
     rbind (py_float (VInt (qty l))) (\<lambda>q.
     let initial_stop = (case slp of None \<Rightarrow> None | Some p \<Rightarrow> stop_from_points sd entry p);
         configured_target = (case tgp of None \<Rightarrow> None | Some p \<Rightarrow> target_from_points sd entry p);
         x = (case tx of None \<Rightarrow> 0 | Some v \<Rightarrow> v);
         y = (case ty of None \<Rightarrow> 0 | Some v \<Rightarrow> v) in
     Ret \<lparr> pos_id = id_str (leg_id l), pside = sd, entry_price = entry, quantity = q,
           stop_price = (if effective_sl l \<noteq> None then effective_sl l else initial_stop),
           initial_stop_price = initial_stop,
           target_price = (if effective_target l \<noteq> None then effective_target l else configured_target),
           trailing_enabled = (x > 0), trail_step = (if y > 0 then y else x), trail_trigger = x,
           tmode = (if y > 0 then STEPPED else CONTINUOUS),
           highest_price = leg_highest l, lowest_price = leg_lowest l \<rparr>))))))"

definition apply_leg_decision :: "leg \<Rightarrow> position_decision \<Rightarrow> leg" where
  "apply_leg_decision l d =
     l\<lparr>effective_sl := d_stop d, effective_target := d_target d, leg_highest := d_highest d,
       leg_lowest := d_lowest d, mtm := d_pnl d,
       trail_active := (trail_armed d \<or> trail_active l)\<rparr>"

definition evaluate_leg :: "leg \<Rightarrow> pyval \<Rightarrow> (position_decision \<times> leg) result" where
  "evaluate_leg l last_price =
     rbind (leg_to_position_risk l) (\<lambda>risk.
     rbind (evaluate_position risk last_price) (\<lambda>d.
     rbind (if evaluated d then rbind (py_float last_price) (\<lambda>x. Ret (l\<lparr>leg_ltp := Some x\<rparr>)) else Ret l) (\<lambda>l'.
     Ret (d, apply_leg_decision l' d))))"

section \<open>A run and its limits\<close>

definition leg_pnl_state :: "leg \<Rightarrow> pydict" where
  "leg_pnl_state l =
     [''identifier'' \<mapsto> VStr (id_str (leg_id l)),
      ''side'' \<mapsto> VStr (position l),
      ''entry_price'' \<mapsto> VFloat (entry_avg l),
      ''quantity'' \<mapsto> py_or (VInt (qty l)) (VFloat 0),
      ''last_price'' \<mapsto> opt_float_val (leg_ltp l),
      ''closed'' \<mapsto> VBool (status l \<noteq> Open),
      ''realized_pnl'' \<mapsto> VFloat (realized_pnl l)]"

fun map_result :: "('a \<Rightarrow> 'b result) \<Rightarrow> 'a list \<Rightarrow> 'b list result" where
  "map_result f [] = Ret []"
| "map_result f (x # xs) = rbind (f x) (\<lambda>y. rbind (map_result f xs) (\<lambda>ys. Ret (y # ys)))"

definition pnl_legs :: "run \<Rightarrow> leg list" where
  "pnl_legs r = filter (\<lambda>l. status l = Open \<or> ftruthy (realized_pnl l)) (dvalues (legs r))"

definition run_pnl :: "run \<Rightarrow> (pyfloat \<times> pyfloat) result" where
  "run_pnl r =
     rbind (map_result (\<lambda>l. pnl_from_state (\<lambda>_. []) (leg_pnl_state l)) (pnl_legs r)) (\<lambda>ps.
     let summary = aggregate_pnl ps in Ret (s_realized summary, s_unrealized summary))"

record lock_profit_cfg =
  lp_mode :: string
  lp_if_profit_reaches :: "pyfloat option"
  lp_lock_profit :: "pyfloat option"
  lp_trail_step :: "pyfloat option"

record strategy =
  overall_sl_mtm :: "pyfloat option"
  overall_target_mtm :: "pyfloat option"
  lock_profit :: "lock_profit_cfg option"
  trail_sl_to_entry :: bool

definition run_to_aggregate_risk :: "run \<Rightarrow> strategy \<Rightarrow> aggregate_risk" where
  "run_to_aggregate_risk r s =
     \<lparr> combined_stoploss = overall_sl_mtm s, combined_target = overall_target_mtm s,
       lock_profit_at = Option.bind (lock_profit s) lp_if_profit_reaches,
       lock_profit_floor = Option.bind (lock_profit s) lp_lock_profit,
       lock_trail_step = (case lock_profit s of None \<Rightarrow> None
         | Some c \<Rightarrow> if lp_mode c = ''lock_and_trail'' then lp_trail_step c else None),
       lock_armed = run_lock_armed r, lock_floor = run_lock_floor r,
       peak_pnl = pnl_peak r, trough_pnl = pnl_trough r,
       stop_bypassed = trail_to_entry_active r \<rparr>"

definition apply_run_decision :: "run \<Rightarrow> aggregate_decision \<Rightarrow> run" where
  "apply_run_decision r d =
     r\<lparr>pnl_realized := a_realized d, pnl_unrealized := a_unrealized d, pnl_total := a_total d,
       pnl_peak := a_peak d, pnl_trough := a_trough d,
       run_lock_armed := a_lock_armed d, run_lock_floor := a_lock_floor d\<rparr>"

definition evaluate_run :: "run \<Rightarrow> strategy \<Rightarrow> (aggregate_decision \<times> run) result" where
  "evaluate_run r s =
     rbind (run_pnl r) (\<lambda>(realized, unrealized).
     let d = evaluate_aggregate (run_to_aggregate_risk r s) realized unrealized in
     Ret (d, apply_run_decision r d))"

text \<open>Every key of a run's legs is the text of its leg's id, so a move reaches the one leg it names.\<close>

definition set_leg_stop :: "stop_move \<Rightarrow> run \<Rightarrow> run" where
  "set_leg_stop m r =
     r\<lparr>legs := map (\<lambda>(k, l). if status l = Open \<and> id_str (leg_id l) = m_identifier m
                            then (k, l\<lparr>effective_sl := Some (new_stop m)\<rparr>) else (k, l)) (legs r)\<rparr>"

definition trail_open_legs_to_entry :: "run \<Rightarrow> pyid \<Rightarrow> (string list \<times> run) result" where
  "trail_open_legs_to_entry r triggering =
     (let ls = open_legs r in
      rbind (map_result leg_to_position_risk ls) (\<lambda>risks.
      let decision = trail_stops_to_entry risks [id_str triggering]
                       (\<lambda>i. Option.bind (map_of (rev (map (\<lambda>l. (id_str (leg_id l), leg_ltp l)) ls)) i) id);
          mvs = filter (\<lambda>m. m_identifier m \<in> set (map (\<lambda>l. id_str (leg_id l)) ls)) (moves decision);
          r' = fold set_leg_stop mvs r;
          moved_ids = map m_identifier mvs in
      Ret (moved_ids, if moved_ids \<noteq> [] then r'\<lparr>trail_to_entry_active := True\<rparr> else r')))"

section \<open>Library lemmas\<close>

lemma map_result_length: "map_result f xs = Ret ys \<Longrightarrow> length ys = length xs"
  by (induction xs arbitrary: ys) (auto simp: rbind_Ret)

lemma map_result_nth: "map_result f xs = Ret ys \<Longrightarrow> i < length xs \<Longrightarrow> f (xs ! i) = Ret (ys ! i)"
  by (induction xs arbitrary: ys i) (auto simp: rbind_Ret nth_Cons split: nat.splits)

lemma leg_to_position_risk_fields:
  assumes "leg_to_position_risk l = Ret r"
  shows "side_of_position (position l) = Ret (pside r)"
    "stop_price r = (if effective_sl l \<noteq> None then effective_sl l else initial_stop_price r)"
    "highest_price r = leg_highest l" "lowest_price r = leg_lowest l"
    "entry_price r = entry_avg l" "pos_id r = id_str (leg_id l)"
  using assms by (auto simp: leg_to_position_risk_def rbind_Ret Let_def)

text \<open>What a decision changes of the leg's risk: the live levels and the extremes, nothing else.\<close>

lemma leg_risk_after:
  assumes "leg_to_position_risk l = Ret r"
    and same: "position l' = position l" "risk_unit l' = risk_unit l" "entry_avg l' = entry_avg l"
      "sl_pts l' = sl_pts l" "target_pts l' = target_pts l" "trail_x l' = trail_x l" "trail_y l' = trail_y l"
      "qty l' = qty l" "leg_id l' = leg_id l"
  shows "\<exists>r'. leg_to_position_risk l' = Ret r' \<and> is_long r' = is_long r \<and>
    initial_stop_price r' = initial_stop_price r \<and>
    stop_price r' = (if effective_sl l' \<noteq> None then effective_sl l' else initial_stop_price r) \<and>
    highest_price r' = leg_highest l' \<and> lowest_price r' = leg_lowest l'"
proof -
  let ?s = "points_per_unit l (entry_avg l)"
  have scale: "points_per_unit l' e = points_per_unit l e" for e
    by (simp add: points_per_unit_def same(2))
  from assms(1) obtain sd slp tgp tx ty q where parts:
      "side_of_position (position l) = Ret sd" "in_points (sl_pts l) ?s = Ret slp"
      "in_points (target_pts l) ?s = Ret tgp" "in_points (trail_x l) ?s = Ret tx"
      "in_points (trail_y l) ?s = Ret ty" "py_float (VInt (qty l)) = Ret q"
    by (auto simp only: leg_to_position_risk_def rbind_Ret Let_def)
  show ?thesis
    using assms(1)
    unfolding leg_to_position_risk_def Let_def same scale parts rbind_simps
    by (auto simp only: sum.inject position_risk.simps is_long_def)
qed

definition leg_tick :: "leg \<Rightarrow> pyval \<Rightarrow> leg" where
  "leg_tick l v = (case evaluate_leg l v of Inl e \<Rightarrow> l | Inr (d, l') \<Rightarrow> l')"

definition leg_stop :: "leg \<Rightarrow> pyfloat option" where
  "leg_stop l = (case leg_to_position_risk l of Inl e \<Rightarrow> None | Inr r \<Rightarrow> effective_stop r)"

definition leg_long :: "leg \<Rightarrow> bool" where
  "leg_long l = (str_upper (position l) = ''B'')"

definition extremes_ok :: "leg \<Rightarrow> bool" where
  "extremes_ok l =
     ((\<forall>h. leg_highest l = Some h \<longrightarrow> price_ok h) \<and> (\<forall>h. leg_lowest l = Some h \<longrightarrow> price_ok h))"

definition stop_tighter :: "leg \<Rightarrow> leg \<Rightarrow> bool" where
  "stop_tighter l l' = (position l' = position l \<and> at_least_as_tight (leg_long l) (leg_stop l) (leg_stop l'))"

lemma is_long_leg: "leg_to_position_risk l = Ret r \<Longrightarrow> is_long r = leg_long l"
  by (drule leg_to_position_risk_fields(1))
    (auto simp: is_long_def leg_long_def side_of_position_def Let_def split: if_splits)

lemma evaluate_leg_cases:
  assumes "evaluate_leg l v = Ret (d, l')"
  obtains r where "leg_to_position_risk l = Ret r" "evaluate_position r v = Ret d"
    "effective_sl l' = d_stop d" "leg_highest l' = d_highest d" "leg_lowest l' = d_lowest d"
    "position l' = position l" "risk_unit l' = risk_unit l" "entry_avg l' = entry_avg l"
    "sl_pts l' = sl_pts l" "target_pts l' = target_pts l" "trail_x l' = trail_x l" "trail_y l' = trail_y l"
    "qty l' = qty l" "leg_id l' = leg_id l" "status l' = status l" "superseded l' = superseded l"
    "exit_claim_token l' = exit_claim_token l" "exit_kind l' = exit_kind l"
    "exit_order_id l' = exit_order_id l" "exit_in_flight l' = exit_in_flight l" "entry_status l' = entry_status l" "position_ref l' = position_ref l"
proof -
  from assms obtain r l1 where r: "leg_to_position_risk l = Ret r" "evaluate_position r v = Ret d"
      "l1 = l \<or> (\<exists>x. l1 = l\<lparr>leg_ltp := Some x\<rparr>)" "l' = apply_leg_decision l1 d"
    by (auto simp only: evaluate_leg_def rbind_Ret sum.inject prod.inject split: if_splits)
  from r(3,4) show ?thesis
    by (intro that [OF r(1,2)]) (auto simp: apply_leg_decision_def exit_in_flight_def)
qed

lemma price_ok_py_max: "price_ok a \<Longrightarrow> price_ok b \<Longrightarrow> price_ok (py_max a b)"
  by (simp add: py_max_def)

lemma price_ok_py_min: "price_ok a \<Longrightarrow> price_ok b \<Longrightarrow> price_ok (py_min a b)"
  by (simp add: py_min_def)

lemma new_extremes_ok:
  assumes "\<forall>h. highest_price r = Some h \<longrightarrow> price_ok h" "\<forall>h. lowest_price r = Some h \<longrightarrow> price_ok h"
    and "price_ok ltp"
  shows "\<forall>h. new_highest r ltp = Some h \<longrightarrow> price_ok h" "\<forall>h. new_lowest r ltp = Some h \<longrightarrow> price_ok h"
proof -
  have e: "price_ok (case entry_of r of Some e \<Rightarrow> e | None \<Rightarrow> ltp)"
    using assms(3) by (simp add: entry_of_def)
  show "\<forall>h. new_highest r ltp = Some h \<longrightarrow> price_ok h"
    using assms(1,3) e by (cases "highest_price r") (auto simp: new_highest_def Let_def intro: price_ok_py_max)
  show "\<forall>h. new_lowest r ltp = Some h \<longrightarrow> price_ok h"
    using assms(2,3) e by (cases "lowest_price r") (auto simp: new_lowest_def Let_def intro: price_ok_py_min)
qed

lemma decision_extremes_ok:
  assumes "evaluate_position r v = Ret d"
    and "\<forall>h. highest_price r = Some h \<longrightarrow> price_ok h" "\<forall>h. lowest_price r = Some h \<longrightarrow> price_ok h"
  shows "\<forall>h. d_highest d = Some h \<longrightarrow> price_ok h" "\<forall>h. d_lowest d = Some h \<longrightarrow> price_ok h"
proof -
  have "(\<forall>h. d_highest d = Some h \<longrightarrow> price_ok h) \<and> (\<forall>h. d_lowest d = Some h \<longrightarrow> price_ok h)"
    using assms(1)
  proof (cases rule: evaluate_position_cases)
    case ignored
    with assms(2,3) show ?thesis by (simp add: ignored_tick_def)
  next
    case (tick ltp)
    from new_extremes_ok [OF assms(2,3) tick(3)] show ?thesis
      unfolding evaluate_tick_fields(4,5) [OF tick(4)] by blast
  qed
  then show "\<forall>h. d_highest d = Some h \<longrightarrow> price_ok h" "\<forall>h. d_lowest d = Some h \<longrightarrow> price_ok h" by auto
qed

text \<open>With usable extremes a stop that is in force after a tick is itself a usable price.\<close>

lemma decision_stop_ok:
  assumes "evaluate_position r v = Ret d" and "effective_stop r = Some s" and "d_stop d = Some s'"
    and "\<forall>h. highest_price r = Some h \<longrightarrow> price_ok h" "\<forall>h. lowest_price r = Some h \<longrightarrow> price_ok h"
  shows "price_ok s'"
  using assms(1)
proof (cases rule: evaluate_position_cases)
  case ignored
  with assms(2,3) show ?thesis by (auto simp: ignored_tick_def dest: effective_stop_ok)
next
  case (tick ltp)
  note hi = new_extremes_ok [OF assms(4,5) tick(3)]
  have ts: "trailed_stop r ltp = Ret (Some s')" using evaluate_tick_fields(1) [OF tick(4)] assms(3) by simp
  have s: "price_ok s" using assms(2) by (rule effective_stop_ok)
  have tight: "at_least_as_tight (is_long r) (Some s) (Some s')"
    using trailed_stop_tight [OF ts] assms(2) by simp
  show ?thesis
  proof (cases "stop_moved d")
    case True
    from moved_within_peak [OF assms(1) this] assms(3)
    have "if is_long r then \<exists>h. d_highest d = Some h \<and> s' \<le> h else \<exists>l. d_lowest d = Some l \<and> l \<le> s'"
      by simp
    with hi evaluate_tick_fields(4,5) [OF tick(4)] tight s show ?thesis
      by (cases s') (auto simp: price_ok_iff at_least_as_tight_def split: if_splits)
  next
    case False
    with evaluate_tick_fields(9) [OF tick(4)] assms(2,3) s show ?thesis
      by (auto simp: opt_ne_def feq_def split: if_splits)
  qed
qed

lemma leg_tick_cases:
  obtains "leg_tick l v = l" | d l' where "evaluate_leg l v = Ret (d, l')" "leg_tick l v = l'"
  by (cases "evaluate_leg l v") (auto simp: leg_tick_def)

lemma leg_tick_extremes_ok: "extremes_ok l \<Longrightarrow> extremes_ok (leg_tick l v)"
proof (rule leg_tick_cases [of l v])
  fix d l'
  assume ok: "extremes_ok l" and ev: "evaluate_leg l v = Ret (d, l')" and t: "leg_tick l v = l'"
  from ev obtain r where r: "leg_to_position_risk l = Ret r" "evaluate_position r v = Ret d"
      "leg_highest l' = d_highest d" "leg_lowest l' = d_lowest d"
    by (rule evaluate_leg_cases)
  have "\<forall>h. highest_price r = Some h \<longrightarrow> price_ok h" "\<forall>h. lowest_price r = Some h \<longrightarrow> price_ok h"
    using ok leg_to_position_risk_fields(3,4) [OF r(1)] by (auto simp: extremes_ok_def)
  from decision_extremes_ok [OF r(2) this] show ?thesis by (simp add: t extremes_ok_def r(3,4))
qed simp

lemma leg_tick_tighter: "extremes_ok l \<Longrightarrow> stop_tighter l (leg_tick l v)"
proof (rule leg_tick_cases [of l v])
  assume "leg_tick l v = l"
  then show ?thesis
    by (auto simp: stop_tighter_def leg_stop_def at_least_as_tight_def split: sum.splits option.splits
        dest!: effective_stop_ok intro!: pyfloat_refl price_ok_not_NaN)
next
  fix d l'
  assume ok: "extremes_ok l" and ev: "evaluate_leg l v = Ret (d, l')" and t: "leg_tick l v = l'"
  from ev obtain r where r: "leg_to_position_risk l = Ret r" "evaluate_position r v = Ret d"
    and l': "effective_sl l' = d_stop d" "position l' = position l" "risk_unit l' = risk_unit l"
      "entry_avg l' = entry_avg l" "sl_pts l' = sl_pts l" "target_pts l' = target_pts l"
      "trail_x l' = trail_x l" "trail_y l' = trail_y l" "qty l' = qty l" "leg_id l' = leg_id l"
    by (rule evaluate_leg_cases)
  have ex: "\<forall>h. highest_price r = Some h \<longrightarrow> price_ok h" "\<forall>h. lowest_price r = Some h \<longrightarrow> price_ok h"
    using ok leg_to_position_risk_fields(3,4) [OF r(1)] by (auto simp: extremes_ok_def)
  from leg_risk_after [OF r(1) l'(2-10)] obtain r' where r': "leg_to_position_risk l' = Ret r'"
      "stop_price r' = (if effective_sl l' \<noteq> None then effective_sl l' else initial_stop_price r)" by blast
  have tight: "at_least_as_tight (is_long r) (effective_stop r) (d_stop d)"
    using r(2) by (rule evaluation_tight)
  have "at_least_as_tight (leg_long l) (effective_stop r) (effective_stop r')"
  proof (cases "effective_stop r")
    case None
    then show ?thesis by (simp add: at_least_as_tight_def)
  next
    case (Some s)
    with tight obtain s' where s': "d_stop d = Some s'" by (auto simp: at_least_as_tight_def split: option.splits)
    from decision_stop_ok [OF r(2) Some s' ex] have "effective_stop r' = Some s'"
      using r'(2) l'(1) s' by (simp add: effective_stop_def)
    with tight s' show ?thesis by (simp add: is_long_leg [OF r(1)])
  qed
  then show ?thesis by (simp add: t stop_tighter_def leg_stop_def r(1) r'(1) l'(2))
qed

interpretation leg_ratchet: ratchet leg_tick extremes_ok stop_tighter
proof unfold_locales
  fix l v
  show "extremes_ok l \<Longrightarrow> extremes_ok (leg_tick l v)" by (rule leg_tick_extremes_ok)
  show "extremes_ok l \<Longrightarrow> stop_tighter l (leg_tick l v)" by (rule leg_tick_tighter)
next
  fix l :: leg
  show "stop_tighter l l"
    by (auto simp: stop_tighter_def leg_stop_def at_least_as_tight_def split: sum.splits option.splits
        dest!: effective_stop_ok intro!: pyfloat_refl price_ok_not_NaN)
next
  fix l m n
  assume "stop_tighter l m" "stop_tighter m n"
  then show "stop_tighter l n"
    by (auto simp: stop_tighter_def leg_long_def intro: tight_trans)
qed

text \<open>
  The same for a run: between two evaluations the legs may become anything (they are ticked,
  filled, closed), which is the event; the lock, the peak and the trough only ever tighten.
\<close>

definition run_tick :: "strategy \<Rightarrow> run \<Rightarrow> (string, leg) dict \<Rightarrow> run" where
  "run_tick s r ls = (case evaluate_run (r\<lparr>legs := ls\<rparr>) s of Inl e \<Rightarrow> r\<lparr>legs := ls\<rparr> | Inr (d, r') \<Rightarrow> r')"

definition lock_levels_ok :: "strategy \<Rightarrow> run \<Rightarrow> bool" where
  "lock_levels_ok s r =
     (pnl_peak r \<noteq> NaN \<and> pnl_trough r \<noteq> NaN \<and> run_lock_floor r \<noteq> Some NaN \<and>
      (case lock_profit s of None \<Rightarrow> True
       | Some c \<Rightarrow> lp_lock_profit c \<noteq> Some NaN \<and>
           (case lp_trail_step c of None \<Rightarrow> True | Some st \<Rightarrow> isfinite st)))"

definition lock_tighter :: "run \<Rightarrow> run \<Rightarrow> bool" where
  "lock_tighter r r' =
     ((run_lock_armed r \<longrightarrow> run_lock_armed r') \<and> at_least_as_tight True (run_lock_floor r) (run_lock_floor r') \<and>
      pnl_peak r \<le> pnl_peak r' \<and> pnl_trough r' \<le> pnl_trough r)"

lemma minus_isfinite_not_NaN: "a \<noteq> NaN \<Longrightarrow> isfinite b \<Longrightarrow> a - b \<noteq> NaN"
  by (cases a; cases b) (auto simp: minus_pyfloat_def)

lemma floor_candidates_not_NaN:
  assumes "lock_profit_floor risk \<noteq> Some NaN" "lock_floor risk \<noteq> Some NaN" "peak \<noteq> NaN"
    and "\<forall>st. lock_trail_step risk = Some st \<longrightarrow> isfinite st"
  shows "\<forall>c \<in> set (floor_candidates risk peak). c \<noteq> NaN"
proof -
  have "peak - st \<noteq> NaN" if "lock_trail_step risk = Some st" for st
    using that assms(3,4) by (simp add: minus_isfinite_not_NaN)
  with assms(1,2) show ?thesis
    by (cases "lock_trail_step risk")
      (auto simp: floor_candidates_def zero_pyfloat_def eq_commute [of NaN] split: option.splits if_splits)
qed

lemma py_max_not_NaN: "a \<noteq> NaN \<Longrightarrow> py_max a b \<noteq> NaN"
  by (cases a; cases b) (auto simp: py_max_def)

lemma py_min_not_NaN: "a \<noteq> NaN \<Longrightarrow> py_min a b \<noteq> NaN"
  by (cases a; cases b) (auto simp: py_min_def)

lemma lock_update_tighter:
  assumes "\<forall>c \<in> set (floor_candidates risk peak). c \<noteq> NaN" and "lock_floor risk \<noteq> Some NaN"
  shows "lock_armed risk \<Longrightarrow> l_armed (lock_update risk m peak)"
    and "at_least_as_tight True (lock_floor risk) (l_floor (lock_update risk m peak))"
    and "l_floor (lock_update risk m peak) \<noteq> Some NaN"
proof -
  have ne: "floor_candidates risk peak \<noteq> []" by (simp add: floor_candidates_def)
  have "py_max_list (floor_candidates risk peak) \<noteq> NaN" using assms(1) py_max_list_in [OF ne] by blast
  moreover have "f \<le> py_max_list (floor_candidates risk peak)" if "lock_floor risk = Some f" for f
    using that by (intro py_max_list_ge [OF ne assms(1)]) (simp add: floor_candidates_def)
  ultimately show "lock_armed risk \<Longrightarrow> l_armed (lock_update risk m peak)"
      "at_least_as_tight True (lock_floor risk) (l_floor (lock_update risk m peak))"
      "l_floor (lock_update risk m peak) \<noteq> Some NaN"
    using assms(2)
    by (auto simp: lock_update_def Let_def at_least_as_tight_def pyfloat_refl split: option.splits)
qed

lemma evaluate_run_cases:
  assumes "evaluate_run r s = Ret (d, r')"
  obtains realized unrealized where "run_pnl r = Ret (realized, unrealized)"
    "d = evaluate_aggregate (run_to_aggregate_risk r s) realized unrealized" "r' = apply_run_decision r d"
  using assms by (auto simp: evaluate_run_def rbind_Ret Let_def split: prod.splits)

lemma evaluated_run_tighter:
  assumes ok: "lock_levels_ok s r" and ev: "evaluate_run r s = Ret (d, r')"
  shows "lock_levels_ok s r'" and "lock_tighter r r'"
proof -
  let ?risk = "run_to_aggregate_risk r s"
  from ev obtain re un where d: "d = evaluate_aggregate ?risk re un" "r' = apply_run_decision r d"
    by (rule evaluate_run_cases)
  let ?pk = "py_max (pnl_peak r) (re + un)"
  let ?l = "lock_update ?risk (re + un) ?pk"
  from ok have pk: "pnl_peak r \<noteq> NaN" "pnl_trough r \<noteq> NaN" by (auto simp: lock_levels_ok_def)
  have cs: "\<forall>c \<in> set (floor_candidates ?risk ?pk). c \<noteq> NaN"
    using ok by (intro floor_candidates_not_NaN)
      (auto simp: lock_levels_ok_def run_to_aggregate_risk_def py_max_not_NaN split: option.splits if_splits)
  have lf: "lock_floor ?risk = run_lock_floor r" "lock_armed ?risk = run_lock_armed r"
    by (simp_all add: run_to_aggregate_risk_def)
  have nf: "lock_floor ?risk \<noteq> Some NaN" using ok lf by (simp add: lock_levels_ok_def)
  have r': "pnl_peak r' = ?pk" "pnl_trough r' = py_min (pnl_trough r) (re + un)"
      "run_lock_armed r' = l_armed ?l" "run_lock_floor r' = l_floor ?l"
    using d by (simp_all add: apply_run_decision_def evaluate_aggregate_def Let_def)
      (simp_all add: run_to_aggregate_risk_def)
  note up = lock_update_tighter [OF cs nf]
  show "lock_levels_ok s r'"
    using ok up(3) pk unfolding lock_levels_ok_def r' by (simp add: py_max_not_NaN py_min_not_NaN)
  show "lock_tighter r r'"
    using up(1,2) pk unfolding lock_tighter_def r' lf by (simp add: py_max_ge1 py_min_le1)
qed

lemma lock_tighter_legs: "lock_levels_ok s r \<Longrightarrow> lock_tighter r (r\<lparr>legs := ls\<rparr>)"
  by (auto simp: lock_tighter_def lock_levels_ok_def pyfloat_refl intro!: tight_refl)

lemma lock_tighter_trans: "lock_tighter r r' \<Longrightarrow> lock_tighter r' r'' \<Longrightarrow> lock_tighter r r''"
  by (auto simp: lock_tighter_def intro: tight_trans pyfloat_le_trans)

lemma lock_levels_legs: "lock_levels_ok s (r\<lparr>legs := ls\<rparr>) = lock_levels_ok s r"
  by (simp add: lock_levels_ok_def)

interpretation run_ratchet: ratchet "run_tick s" "lock_levels_ok s" lock_tighter for s
proof unfold_locales
  fix r ls
  assume ok: "lock_levels_ok s r"
  then have ok': "lock_levels_ok s (r\<lparr>legs := ls\<rparr>)" by (simp add: lock_levels_legs)
  have base: "lock_tighter r (r\<lparr>legs := ls\<rparr>)" using ok by (rule lock_tighter_legs)
  show "lock_levels_ok s (run_tick s r ls)" "lock_tighter r (run_tick s r ls)"
    using ok' base evaluated_run_tighter [OF ok'] lock_tighter_trans [OF base]
    by (auto simp: run_tick_def split: sum.splits prod.splits)
next
  fix r
  assume "lock_levels_ok s r"
  from lock_tighter_legs [OF this, of "legs r"] show "lock_tighter r r" by simp
qed (rule lock_tighter_trans)

section \<open>Trail to entry on a run\<close>

text \<open>The legs dictionary is keyed by the text of each leg's id.\<close>

definition keyed_legs :: "(string, leg) dict \<Rightarrow> bool" where
  "keyed_legs d = (distinct (map fst d) \<and> (\<forall>k l. (k, l) \<in> set d \<longrightarrow> k = id_str (leg_id l)))"

lemma set_leg_stop_get:
  assumes "keyed_legs (legs r)"
  shows "dget (legs (set_leg_stop m r)) k =
    map_option (\<lambda>l. if status l = Open \<and> k = m_identifier m then l\<lparr>effective_sl := Some (new_stop m)\<rparr> else l)
      (dget (legs r) k)"
proof -
  have "\<forall>(k, l) \<in> set d. k = id_str (leg_id l) \<Longrightarrow>
      map_of (map (\<lambda>(k, l). if status l = Open \<and> id_str (leg_id l) = i
         then (k, l\<lparr>effective_sl := Some x\<rparr>) else (k, l)) d) k =
      map_option (\<lambda>l. if status l = Open \<and> k = i then l\<lparr>effective_sl := Some x\<rparr> else l) (map_of d k)" for d i x
    by (induction d) auto
  moreover have "\<forall>(k, l) \<in> set (legs r). k = id_str (leg_id l)"
    using assms by (auto simp: keyed_legs_def)
  ultimately show ?thesis by (simp add: set_leg_stop_def)
qed

lemma set_leg_stop_keyed: "keyed_legs (legs r) \<Longrightarrow> keyed_legs (legs (set_leg_stop m r))"
proof -
  assume k: "keyed_legs (legs r)"
  have "map fst (legs (set_leg_stop m r)) = map fst (legs r)"
    by (auto simp: set_leg_stop_def)
  then have "distinct (map fst (legs (set_leg_stop m r)))" using k by (simp only: keyed_legs_def)
  moreover have "\<forall>k l. (k, l) \<in> set (legs (set_leg_stop m r)) \<longrightarrow> k = id_str (leg_id l)"
    using k by (auto simp: keyed_legs_def set_leg_stop_def split: if_splits)
  ultimately show ?thesis by (simp only: keyed_legs_def)
qed

lemma set_leg_stops_get:
  assumes "keyed_legs (legs r)" and "dget (legs r) k = Some l"
  shows "\<exists>l'. dget (legs (fold set_leg_stop ms r)) k = Some l' \<and>
    (l' = l \<or> status l = Open \<and> (\<exists>m \<in> set ms. m_identifier m = k \<and> l' = l\<lparr>effective_sl := Some (new_stop m)\<rparr>))"
  using assms
proof (induction ms arbitrary: r l)
  case Nil
  then show ?case by simp
next
  case (Cons m ms)
  let ?l = "if status l = Open \<and> k = m_identifier m then l\<lparr>effective_sl := Some (new_stop m)\<rparr> else l"
  have "dget (legs (set_leg_stop m r)) k = Some ?l"
    using Cons.prems by (simp add: set_leg_stop_get)
  from Cons.IH [OF set_leg_stop_keyed [OF Cons.prems(1)] this]
  obtain l' where l': "dget (legs (fold set_leg_stop ms (set_leg_stop m r))) k = Some l'"
    "l' = ?l \<or> status ?l = Open \<and> (\<exists>m \<in> set ms. m_identifier m = k \<and> l' = ?l\<lparr>effective_sl := Some (new_stop m)\<rparr>)"
    by blast
  from l'(2) have "l' = l \<or> status l = Open \<and>
      (\<exists>m' \<in> set (m # ms). m_identifier m' = k \<and> l' = l\<lparr>effective_sl := Some (new_stop m')\<rparr>)"
    by (auto split: if_splits)
  with l'(1) show ?case by auto
qed

lemma trail_moves_spec:
  assumes "m \<in> set (moves (trail_stops_to_entry ps ex prices))"
  shows "\<exists>r \<in> set ps. m_identifier m = pos_id r \<and> pos_id r \<notin> set ex \<and> new_stop m = entry_price r \<and>
    at_least_as_tight (is_long r) (effective_stop r) (Some (new_stop m))"
proof -
  from assms obtain r prev new where "r \<in> set ps" "trail_verdict ex prices r = Move prev new"
      "m = \<lparr>m_identifier = pos_id r, previous_stop = prev, new_stop = new\<rparr>"
    by (auto simp: trail_stops_to_entry_def trail_loop_moves Let_def split: trail_verdict.splits)
  with trail_verdict_Move show ?thesis by fastforce
qed

lemma trail_open_legs_leg:
  assumes run: "trail_open_legs_to_entry r t = Ret (ids, r')" and keyed: "keyed_legs (legs r)"
    and l: "dget (legs r) k = Some l"
  shows "\<exists>l'. dget (legs r') k = Some l' \<and>
    (l' = l \<or> (l' = l\<lparr>effective_sl := Some (entry_avg l)\<rparr> \<and> status l = Open \<and> k \<noteq> id_str t \<and> k \<in> set ids \<and>
       at_least_as_tight (leg_long l) (leg_stop l) (Some (entry_avg l))))"
proof -
  let ?ls = "open_legs r"
  let ?prices = "\<lambda>i. Option.bind (map_of (rev (map (\<lambda>l. (id_str (leg_id l), leg_ltp l)) ?ls)) i) id"
  from run obtain risks where risks: "map_result leg_to_position_risk ?ls = Ret risks"
    by (auto simp only: trail_open_legs_to_entry_def rbind_Ret Let_def)
  define mvs where "mvs = filter (\<lambda>m. m_identifier m \<in> set (map (\<lambda>l. id_str (leg_id l)) ?ls))
    (moves (trail_stops_to_entry risks [id_str t] ?prices))"
  have "Ret (ids, r') = Ret (map m_identifier mvs, if map m_identifier mvs \<noteq> []
      then (fold set_leg_stop mvs r)\<lparr>trail_to_entry_active := True\<rparr> else fold set_leg_stop mvs r)"
    unfolding run [symmetric] trail_open_legs_to_entry_def Let_def risks rbind_simps mvs_def by (rule refl)
  then have parts: "map_result leg_to_position_risk ?ls = Ret risks"
      "set mvs \<subseteq> set (moves (trail_stops_to_entry risks [id_str t] ?prices))"
      "ids = map m_identifier mvs" "legs r' = legs (fold set_leg_stop mvs r)"
    using risks by (auto simp: mvs_def split: if_splits)
  from set_leg_stops_get [OF keyed l, of mvs] parts(4) obtain l' where l': "dget (legs r') k = Some l'"
    "l' = l \<or> status l = Open \<and> (\<exists>m \<in> set mvs. m_identifier m = k \<and> l' = l\<lparr>effective_sl := Some (new_stop m)\<rparr>)"
    by auto
  have key: "k = id_str (leg_id l)" using keyed l by (auto simp: keyed_legs_def dest: map_of_SomeD)
  have "status l = Open \<and> k \<noteq> id_str t \<and> k \<in> set ids \<and> new_stop m = entry_avg l \<and>
      at_least_as_tight (leg_long l) (leg_stop l) (Some (entry_avg l))"
    if m: "m \<in> set mvs" "m_identifier m = k" "status l = Open" for m
  proof -
    from trail_moves_spec m(1,2) parts(2) obtain q where q: "q \<in> set risks" "pos_id q = k" "pos_id q \<noteq> id_str t"
        "new_stop m = entry_price q" "at_least_as_tight (is_long q) (effective_stop q) (Some (new_stop m))"
      by fastforce
    from q(1) obtain i where i: "i < length risks" "q = risks ! i" by (auto simp: in_set_conv_nth)
    have "i < length (open_legs r)" using i map_result_length [OF parts(1)] by simp
    with map_result_nth [OF parts(1)] i(2)
    have "leg_to_position_risk (open_legs r ! i) = Ret q \<and> open_legs r ! i \<in> set (open_legs r)" by simp
    then obtain x where x: "leg_to_position_risk x = Ret q" "x \<in> set (dvalues (legs r))"
      by (auto simp: open_legs_def)
    from x(2) obtain k' where "(k', x) \<in> set (legs r)" by auto
    with keyed have "dget (legs r) (id_str (leg_id x)) = Some x"
      by (auto simp: keyed_legs_def)
    with leg_to_position_risk_fields(6) [OF x(1)] q(2) l have "x = l" by simp
    moreover have "k \<in> set ids" using m(1,2) by (auto simp: parts(3))
    ultimately show ?thesis
      using q m x(1) leg_to_position_risk_fields(5) [OF x(1)] is_long_leg [OF x(1)] by (auto simp: leg_stop_def)
  qed
  with l' show ?thesis by auto
qed

section \<open>Properties\<close>

definition sample_leg :: leg where
  "sample_leg =
     \<lparr> leg_id = IdInt 1, position = ''B'', symbol = ''NIFTY'', exchange = ''NFO'', lots = 1, qty = 10,
       position_ref = Some ''p'', entry_order_id = Some 7, entry_status = EComplete, entry_filled_qty = 10,
       entry_avg = Fin 100, exit_order_id = None, exit_claim_token = None, exit_kind = None, exit_avg = None,
       leg_ltp = None, mtm = 0, realized_pnl = 0, status = Open, tick_source = ''ws'', risk_unit = ''points'',
       sl_pts = VInt 5, target_pts = VNone, trail_x = VInt 4, trail_y = VInt 0, effective_sl = None,
       effective_target = None, trail_active = False, leg_highest = None, leg_lowest = None, superseded = None \<rparr>"

text \<open>A leg's stop is a ratchet over any sequence of ticks. From a leg whose recorded
  extremes are usable prices, whatever prices arrive (unusable ones included) and whichever trail is
  configured, the stop in force afterwards is at least as tight as at the start, and more ticks
  only tighten it further.\<close>

theorem leg_stop_ratchet:
  "extremes_ok l \<Longrightarrow>
   at_least_as_tight (leg_long l) (leg_stop l) (leg_stop (foldl leg_tick l vs)) \<and>
   at_least_as_tight (leg_long l) (leg_stop (foldl leg_tick l vs)) (leg_stop (foldl leg_tick l (vs @ ws)))"
  using leg_ratchet.run_tighter [of l vs] leg_ratchet.run_extends [of l vs ws]
  by (simp add: stop_tighter_def leg_long_def)

theorem leg_stop_ratchet_witness:
  "leg_stop sample_leg = Some (Fin 95) \<and>
   at_least_as_tight True (Some (Fin 95)) (leg_stop (foldl leg_tick sample_leg [VInt 110, VNone, VInt 104]))"
proof -
  have l: "leg_stop sample_leg = Some (Fin 95)" "leg_long sample_leg"
    by (simp_all add: leg_stop_def leg_to_position_risk_def sample_leg_def side_of_position_def str_upper_def
        upper_char_def points_per_unit_def str_lower_def lower_char_def in_points_def stop_from_points_def
        effective_stop_def zero_pyfloat_def minus_Fin Let_def leg_long_def)
  have "extremes_ok sample_leg" by (simp add: extremes_ok_def sample_leg_def)
  from leg_stop_ratchet [OF this, of "[VInt 110, VNone, VInt 104]" "[]"] l show ?thesis by simp
qed

text \<open>C4: The profit lock of a run is a ratchet over its whole life. However the legs change
  between two evaluations, once armed the lock stays armed, its floor never falls, the recorded
  peak never falls and the recorded trough never rises.\<close>

theorem run_lock_ratchet:
  assumes "lock_levels_ok s r"
  shows "(run_lock_armed r \<longrightarrow> run_lock_armed (foldl (run_tick s) r books)) \<and>
    at_least_as_tight True (run_lock_floor r) (run_lock_floor (foldl (run_tick s) r books)) \<and>
    pnl_peak r \<le> pnl_peak (foldl (run_tick s) r books) \<and> pnl_trough (foldl (run_tick s) r books) \<le> pnl_trough r"
  using run_ratchet.run_tighter [OF assms, of books] by (simp add: lock_tighter_def)

definition sample_run :: run where
  "sample_run =
     \<lparr> run_id = 1, strategy_id = 1, pnl_realized = 0, pnl_unrealized = 0, pnl_total = 0, pnl_peak = Fin 110,
       pnl_trough = 0, run_lock_armed = True, run_lock_floor = Some (Fin 80), trail_to_entry_active = False,
       tick_source_degraded = False, stopping = False, signal_entry_claims = [], legs = [(''1'', sample_leg)] \<rparr>"

definition sample_strategy :: strategy where
  "sample_strategy =
     \<lparr> overall_sl_mtm = None, overall_target_mtm = None,
       lock_profit = Some \<lparr> lp_mode = ''lock_and_trail'', lp_if_profit_reaches = Some (Fin 100),
         lp_lock_profit = Some (Fin 60), lp_trail_step = Some (Fin 30) \<rparr>, trail_sl_to_entry = False \<rparr>"

theorem run_lock_ratchet_witness:
  "run_lock_armed (foldl (run_tick sample_strategy) sample_run [[], [(''1'', sample_leg)]]) \<and>
   at_least_as_tight True (Some (Fin 80))
     (run_lock_floor (foldl (run_tick sample_strategy) sample_run [[], [(''1'', sample_leg)]]))"
proof -
  have "lock_levels_ok sample_strategy sample_run"
    by (simp add: lock_levels_ok_def sample_strategy_def sample_run_def zero_pyfloat_def)
  from run_lock_ratchet [OF this, of "[[], [(''1'', sample_leg)]]"] show ?thesis
    by (simp add: sample_run_def)
qed

text \<open>Trail to entry never loosens protection. On a run whose legs are keyed by their ids,
  every leg is still there afterwards and is either unchanged or is an open leg other than the
  triggering one, reported as moved, whose stop is now its own entry average, which is at least as
  tight as the stop that was in force.\<close>

theorem trail_open_legs_protects:
  assumes "trail_open_legs_to_entry r t = Ret (ids, r')" and "keyed_legs (legs r)" and "dget (legs r) k = Some l"
  shows "\<exists>l'. dget (legs r') k = Some l' \<and>
    (l' = l \<or> (l' = l\<lparr>effective_sl := Some (entry_avg l)\<rparr> \<and> status l = Open \<and> k \<noteq> id_str t \<and> k \<in> set ids \<and>
       at_least_as_tight (leg_long l) (leg_stop l) (Some (entry_avg l))))"
  using assms by (rule trail_open_legs_leg)

theorem trail_open_legs_protects_witness:
  "\<exists>ids r'. trail_open_legs_to_entry sample_run (IdInt 2) = Ret (ids, r') \<and> ids = [''1''] \<and>
     (\<exists>l'. dget (legs r') ''1'' = Some l' \<and> effective_sl l' \<in> {None, Some (Fin 100)})"
proof -
  have str: "str_of_int 1 = ''1''" "str_of_int 2 = ''2''"
    by (simp_all add: str_of_int_eval)
  have "\<exists>ids r'. trail_open_legs_to_entry sample_run (IdInt 2) = Ret (ids, r') \<and> ids = [''1'']"
    by (simp add: trail_open_legs_to_entry_def open_legs_def sample_run_def sample_leg_def str
        leg_to_position_risk_def side_of_position_def str_upper_def upper_char_def points_per_unit_def
        str_lower_def lower_char_def in_points_def stop_from_points_def effective_stop_def is_long_def
        trail_stops_to_entry_def trail_verdict_def zero_pyfloat_def minus_Fin Let_def)
  then obtain ids r' where r': "trail_open_legs_to_entry sample_run (IdInt 2) = Ret (ids, r')" "ids = [''1'']"
    by blast
  have "keyed_legs (legs sample_run)"
    by (simp add: keyed_legs_def sample_run_def sample_leg_def str)
  from trail_open_legs_protects [OF r'(1) this, of "''1''" sample_leg] r' show ?thesis
    by (auto simp: sample_run_def) (auto simp: sample_leg_def)
qed

end
