(* ===== verification/Order_Fold.thy ===== *)
theory Order_Fold
  imports Risk_Models Ratchet "HOL-Library.Multiset"
begin

text \<open>
  The durable order row and the fold of broker frames into it:
  \<open>fold_order_broker_frame\<close>, \<open>transition_order_terminal\<close> and \<open>OrderFactFold\<close> of
  \<open>database/strategy_module_db.py\<close>, and the normalisation of a frame in
  \<open>services/strategy_module/order_events.py\<close>. Broker updates arrive concurrently, repeatedly and
  out of order; the row is updated by compare-and-set on the status and quantity a worker saw.
  What another worker does between the read and the update is the parameter \<open>env\<close>: for
  each of the eight attempts, a database failure or the row that was read and the row the
  conditional update meets. How the price column stores a number is the parameter \<open>col\<close>.
\<close>

section \<open>The row and the frame\<close>

record order_row =
  or_id :: int
  or_status :: string
  or_qty :: int
  or_filled :: "int option"
  or_avg :: "pyfloat option"
  or_filled_at :: "int option"
  or_reject :: "string option"

record broker_frame =
  fr_status :: string
  fr_avg :: "pyfloat option"
  fr_qty :: "int option"
  fr_reject :: "string option"

definition terminal_statuses :: "string set" where
  "terminal_statuses = {''complete'', ''cancelled'', ''rejected''}"

record order_fact_fold =
  of_order :: int
  of_previous_status :: string
  of_status :: string
  of_previous_qty :: int
  of_cumulative :: int
  of_delta :: int
  of_previous_avg :: "pyfloat option"
  of_avg :: "pyfloat option"
  of_changed :: bool

definition fold_terminal :: "order_fact_fold \<Rightarrow> bool" where
  "fold_terminal f = (of_status f \<in> terminal_statuses)"

definition fold_was_terminal :: "order_fact_fold \<Rightarrow> bool" where
  "fold_was_terminal f = (of_previous_status f \<in> terminal_statuses)"

section \<open>Normalising a broker update\<close>

definition filled_words :: "string set" where
  "filled_words = {''complete'', ''completed'', ''filled'', ''executed'', ''traded''}"

definition cancelled_words :: "string set" where
  "cancelled_words = {''cancelled'', ''canceled''}"

definition dead_words :: "string set" where
  "dead_words = {''rejected'', ''cancelled'', ''canceled''}"

definition normalise_status :: "string \<Rightarrow> string" where
  "normalise_status s = map (\<lambda>c. if c = CHR ''_'' then CHR '' '' else c) (str_lower (str_strip s))"

definition canonical_status :: "string \<Rightarrow> string" where
  "canonical_status s =
     (let b = normalise_status s in
      if b \<in> filled_words then ''complete''
      else if b \<in> cancelled_words then ''cancelled''
      else if b \<in> dead_words then ''rejected''
      else ''open'')"

definition usable_price :: "pyval \<Rightarrow> pyfloat option result" where
  "usable_price value =
     (case py_float value of
        Inl TypeError \<Rightarrow> Ret None
      | Inl ValueError \<Rightarrow> Ret None
      | Inl e \<Rightarrow> Raise e
      | Inr price \<Rightarrow> Ret (if price_ok price then Some price else None))"

definition whole_qty :: "pyval \<Rightarrow> int option result" where
  "whole_qty value =
     (case rbind (py_float value) trunc_int of
        Inl TypeError \<Rightarrow> Ret None
      | Inl ValueError \<Rightarrow> Ret None
      | Inl e \<Rightarrow> Raise e
      | Inr q \<Rightarrow> Ret (if q > 0 then Some q else None))"

definition incremental_fill_price :: "order_fact_fold \<Rightarrow> pyfloat option" where
  "incremental_fill_price f =
     (if of_delta f \<le> 0 then None
      else
        case as_price_num (of_avg f) of
          None \<Rightarrow> None
        | Some cum \<Rightarrow>
            (case as_price_num (of_previous_avg f) of
               None \<Rightarrow> Some cum
             | Some prev \<Rightarrow>
                 if of_previous_qty f \<le> 0 then Some cum
                 else as_price_num (Some
                   (fdiv (cum * to_double (of_int (of_cumulative f)) - prev * to_double (of_int (of_previous_qty f)))
                         (to_double (of_int (of_delta f)))))))"

section \<open>One fold\<close>

definition incoming_status :: "broker_frame \<Rightarrow> string" where
  "incoming_status fr =
     (let s = str_lower (str_strip (fr_status fr)) in
      if s \<in> {''open'', ''complete'', ''cancelled'', ''rejected''} then s else ''open'')"

definition incoming_qty :: "broker_frame \<Rightarrow> int" where
  "incoming_qty fr = max 0 (case fr_qty fr of None \<Rightarrow> 0 | Some q \<Rightarrow> q)"

definition row_status :: "order_row \<Rightarrow> string" where
  "row_status row = str_lower (str_strip (if or_status row = [] then ''pending'' else or_status row))"

definition row_filled :: "order_row \<Rightarrow> int" where
  "row_filled row = max 0 (case or_filled row of None \<Rightarrow> 0 | Some q \<Rightarrow> q)"

definition evidence_qty :: "broker_frame \<Rightarrow> order_row \<Rightarrow> int" where
  "evidence_qty fr row =
     (if incoming_status fr = ''complete'' \<and> incoming_qty fr \<le> 0 then max 0 (or_qty row) else incoming_qty fr)"

definition next_status :: "string \<Rightarrow> string \<Rightarrow> int \<Rightarrow> string" where
  "next_status previous incoming delta =
     (if previous = ''complete'' then ''complete''
      else if previous \<in> {''cancelled'', ''rejected''} then
        (if incoming = ''complete'' \<and> delta > 0 then ''complete'' else previous)
      else if incoming \<in> terminal_statuses then incoming
      else ''open'')"

definition fold_decision :: "broker_frame \<Rightarrow> order_row \<Rightarrow> order_fact_fold" where
  "fold_decision fr row =
     (let previous = row_status row; previous_qty = row_filled row;
          cumulative = max previous_qty (evidence_qty fr row); delta = cumulative - previous_qty;
          nxt = next_status previous (incoming_status fr) delta in
      if nxt = previous \<and> \<not> delta > 0
      then \<lparr> of_order = or_id row, of_previous_status = previous, of_status = previous,
             of_previous_qty = previous_qty, of_cumulative = previous_qty, of_delta = 0,
             of_previous_avg = or_avg row, of_avg = or_avg row, of_changed = False \<rparr>
      else \<lparr> of_order = or_id row, of_previous_status = previous, of_status = nxt,
             of_previous_qty = previous_qty, of_cumulative = cumulative, of_delta = delta,
             of_previous_avg = or_avg row, of_avg = (if delta > 0 then fr_avg fr else or_avg row),
             of_changed = True \<rparr>)"

definition fold_fields :: "(pyfloat \<Rightarrow> pyfloat) \<Rightarrow> int \<Rightarrow> broker_frame \<Rightarrow> order_fact_fold \<Rightarrow> order_row \<Rightarrow> order_row" where
  "fold_fields col now fr f row =
     row\<lparr>or_status := of_status f,
         or_filled := (if of_delta f > 0 then Some (of_cumulative f) else or_filled row),
         or_avg := (if of_delta f > 0 then map_option col (fr_avg fr) else or_avg row),
         or_filled_at := (if of_status f = ''complete'' \<and> of_previous_status f \<noteq> ''complete'' then Some now
                          else or_filled_at row),
         or_reject := (if fr_reject fr \<noteq> None \<and> of_status f \<in> {''cancelled'', ''rejected''} then fr_reject fr
                       else or_reject row)\<rparr>"

text \<open>What one attempt meets: a failure of the database, no such row, or the row read and the row found by the update.\<close>

datatype attempt = DbFails | NoRow | Rows order_row order_row

definition cas_matches :: "order_row \<Rightarrow> order_row \<Rightarrow> bool" where
  "cas_matches seen current = (or_status current = or_status seen \<and> or_filled current = or_filled seen)"

fun fold_attempts ::
  "(pyfloat \<Rightarrow> pyfloat) \<Rightarrow> int \<Rightarrow> broker_frame \<Rightarrow> attempt list \<Rightarrow> order_fact_fold option \<times> order_row option" where
  "fold_attempts col now fr [] = (None, None)"
| "fold_attempts col now fr (DbFails # as) = (None, None)"
| "fold_attempts col now fr (NoRow # as) = (None, None)"
| "fold_attempts col now fr (Rows seen current # as) =
     (let f = fold_decision fr seen in
      if \<not> of_changed f then (Some f, None)
      else if cas_matches seen current then (Some f, Some (fold_fields col now fr f current))
      else fold_attempts col now fr as)"

definition fold_order_broker_frame ::
  "(pyfloat \<Rightarrow> pyfloat) \<Rightarrow> int \<Rightarrow> broker_frame \<Rightarrow> (nat \<Rightarrow> attempt) \<Rightarrow> order_fact_fold option \<times> order_row option" where
  "fold_order_broker_frame col now fr env = fold_attempts col now fr (map env [0..<8])"

text \<open>The other conditional update: a terminal status is written only over a row that is not terminal.\<close>

definition transition_order_terminal ::
  "(pyfloat \<Rightarrow> pyfloat) \<Rightarrow> int \<Rightarrow> string \<Rightarrow> pyfloat option \<Rightarrow> int option \<Rightarrow> string option \<Rightarrow> order_row \<Rightarrow> bool \<times> order_row" where
  "transition_order_terminal col now st avg filled rej row =
     (if st \<notin> terminal_statuses \<or> or_status row \<in> terminal_statuses then (False, row)
      else (True, row\<lparr>or_status := st,
              or_filled_at := (if st = ''complete'' then Some now else or_filled_at row),
              or_avg := (case avg of None \<Rightarrow> or_avg row | Some p \<Rightarrow> Some (col p)),
              or_filled := (case filled of None \<Rightarrow> or_filled row | Some q \<Rightarrow> Some q),
              or_reject := (case rej of None \<Rightarrow> or_reject row | Some r \<Rightarrow> Some r)\<rparr>))"

section \<open>The fold without contention\<close>

text \<open>\<open>apply_frame\<close>: the fold as one atomic step on the row.\<close>

definition apply_frame :: "(pyfloat \<Rightarrow> pyfloat) \<Rightarrow> int \<Rightarrow> broker_frame \<Rightarrow> order_row \<Rightarrow> order_row" where
  "apply_frame col now fr row =
     (let f = fold_decision fr row in if of_changed f then fold_fields col now fr f row else row)"

fun apply_frames :: "(pyfloat \<Rightarrow> pyfloat) \<Rightarrow> int \<Rightarrow> broker_frame list \<Rightarrow> order_row \<Rightarrow> int list \<times> order_row" where
  "apply_frames col now [] row = ([], row)"
| "apply_frames col now (fr # frs) row =
     (let (ds, row') = apply_frames col now frs (apply_frame col now fr row) in
      (of_delta (fold_decision fr row) # ds, row'))"

definition canonical_row :: "order_row \<Rightarrow> bool" where
  "canonical_row row = (or_status row \<in> {''pending'', ''open''} \<union> terminal_statuses)"

lemma word_norm:
  "str_lower (str_strip ''pending'') = ''pending''" "str_lower (str_strip ''open'') = ''open''"
  "str_lower (str_strip ''complete'') = ''complete''" "str_lower (str_strip ''cancelled'') = ''cancelled''"
  "str_lower (str_strip ''rejected'') = ''rejected''"
  by code_simp+

lemma row_status_canonical: "canonical_row row \<Longrightarrow> row_status row = or_status row"
  by (auto simp: canonical_row_def row_status_def terminal_statuses_def word_norm)

lemma row_filled_nonneg: "0 \<le> row_filled row"
  by (simp add: row_filled_def)

lemma next_status_cases: "next_status p i d \<in> {''open''} \<union> terminal_statuses"
  by (auto simp: next_status_def terminal_statuses_def)

lemma fold_delta: "of_delta (fold_decision fr row) = max (row_filled row) (evidence_qty fr row) - row_filled row"
  by (auto simp: fold_decision_def Let_def)

lemma fold_status: "of_status (fold_decision fr row) =
  next_status (row_status row) (incoming_status fr) (max (row_filled row) (evidence_qty fr row) - row_filled row)"
  by (auto simp: fold_decision_def Let_def)

lemma fold_previous [simp]:
  "of_previous_status (fold_decision fr row) = row_status row"
  "of_previous_qty (fold_decision fr row) = row_filled row"
  by (auto simp: fold_decision_def Let_def)

lemma fold_cumulative: "of_cumulative (fold_decision fr row) = max (row_filled row) (evidence_qty fr row)"
  by (auto simp: fold_decision_def Let_def)

lemma fold_changed: "of_changed (fold_decision fr row) \<longleftrightarrow>
  of_status (fold_decision fr row) \<noteq> row_status row \<or> 0 < of_delta (fold_decision fr row)"
  unfolding fold_status fold_delta by (simp add: fold_decision_def Let_def)

lemma apply_frame_qty [simp]: "or_qty (apply_frame col now fr row) = or_qty row"
  by (simp add: apply_frame_def fold_fields_def Let_def)

lemma apply_frame_filled: "row_filled (apply_frame col now fr row) = max (row_filled row) (evidence_qty fr row)"
proof -
  let ?f = "fold_decision fr row"
  have "row_filled (apply_frame col now fr row) = (if of_delta ?f > 0 then max 0 (of_cumulative ?f) else row_filled row)"
    using fold_changed [of fr row]
    by (auto simp: apply_frame_def fold_fields_def row_filled_def Let_def)
  then show ?thesis using row_filled_nonneg [of row] by (simp add: fold_delta fold_cumulative)
qed

lemma apply_frame_status:
  assumes "canonical_row row"
  shows "or_status (apply_frame col now fr row) = of_status (fold_decision fr row)"
  using row_status_canonical [OF assms]
  by (auto simp: apply_frame_def fold_fields_def fold_decision_def Let_def)

lemma apply_frame_canonical: "canonical_row row \<Longrightarrow> canonical_row (apply_frame col now fr row)"
  using next_status_cases by (simp add: canonical_row_def [of "apply_frame _ _ _ _"] apply_frame_status fold_status)

lemma evidence_qty_row: "or_qty row = or_qty row' \<Longrightarrow> evidence_qty fr row = evidence_qty fr row'"
  by (simp add: evidence_qty_def)

text \<open>An order row only ever advances: its cumulative fill never falls, a terminal status stays
  terminal, \<open>complete\<close> stays \<open>complete\<close>, and a dead order becomes \<open>complete\<close> only on a larger fill.\<close>

definition order_advances :: "order_row \<Rightarrow> order_row \<Rightarrow> bool" where
  "order_advances row row' =
     (row_filled row \<le> row_filled row' \<and>
      (or_status row \<in> terminal_statuses \<longrightarrow>
         or_status row' \<in> terminal_statuses \<and>
         (or_status row' \<noteq> or_status row \<longrightarrow>
            or_status row \<noteq> ''complete'' \<and> or_status row' = ''complete'' \<and> row_filled row < row_filled row')))"

lemma apply_frame_advances:
  assumes "canonical_row row"
  shows "order_advances row (apply_frame col now fr row)"
  using row_status_canonical [OF assms]
  by (auto simp: order_advances_def apply_frame_filled apply_frame_status [OF assms] fold_status
      next_status_def terminal_statuses_def split: if_splits)

interpretation order_ratchet: ratchet "\<lambda>row fr. apply_frame col now fr row" canonical_row order_advances for col now
proof unfold_locales
  fix row row' row'' fr
  show "canonical_row row \<Longrightarrow> canonical_row (apply_frame col now fr row)" by (rule apply_frame_canonical)
  show "canonical_row row \<Longrightarrow> order_advances row (apply_frame col now fr row)" by (rule apply_frame_advances)
  show "order_advances row row" by (simp add: order_advances_def)
  show "order_advances row row' \<Longrightarrow> order_advances row' row'' \<Longrightarrow> order_advances row row''"
    by (auto simp: order_advances_def)
qed

lemma apply_frames_row: "snd (apply_frames col now frs row) = foldl (\<lambda>row fr. apply_frame col now fr row) row frs"
  by (induction frs arbitrary: row) (auto simp: case_prod_beta)

lemma apply_frames_filled:
  "row_filled (snd (apply_frames col now frs row)) = foldl max (row_filled row) (map (\<lambda>fr. evidence_qty fr row) frs)"
proof (induction frs arbitrary: row)
  case Nil
  then show ?case by simp
next
  case (Cons fr frs)
  have "evidence_qty g (apply_frame col now fr row) = evidence_qty g row" for g
    by (rule evidence_qty_row) simp
  with Cons show ?case by (simp add: apply_frame_filled case_prod_beta)
qed

lemma apply_frames_deltas:
  "sum_list (fst (apply_frames col now frs row)) = row_filled (snd (apply_frames col now frs row)) - row_filled row"
  by (induction frs arbitrary: row) (auto simp: fold_delta apply_frame_filled case_prod_beta)

lemma apply_frames_nonneg: "\<forall>d \<in> set (fst (apply_frames col now frs row)). 0 \<le> d"
  by (induction frs arbitrary: row) (auto simp: fold_delta case_prod_beta)

lemma foldl_max_perm:
  fixes a :: int
  assumes "mset xs = mset ys"
  shows "foldl max a xs = foldl max a ys"
  unfolding foldl_conv_fold
  by (rule fun_cong [OF fold_multiset_equiv [OF _ assms]]) (auto simp: fun_eq_iff ac_simps)

lemma fold_attempts_update:
  assumes "fold_attempts col now fr as = (Some f, Some row')"
  shows "\<exists>seen current. Rows seen current \<in> set as \<and> cas_matches seen current \<and>
    f = fold_decision fr seen \<and> of_changed f \<and> row' = fold_fields col now fr f current"
  using assms by (induction col now fr as rule: fold_attempts.induct) (auto simp: Let_def split: if_splits)

section \<open>Properties\<close>

text \<open>C5: Every filled unit of an order is counted exactly once. Whatever frames arrive for a row,
  duplicated and in whatever order, the fill deltas handed to the engine are never negative and add
  up to the growth of the row's cumulative quantity, and that quantity ends at the largest
  evidence any frame carried.\<close>

theorem fills_counted_once:
  "list_all (\<lambda>d. 0 \<le> d) (fst (apply_frames col now frs row)) \<and>
   sum_list (fst (apply_frames col now frs row)) = row_filled (snd (apply_frames col now frs row)) - row_filled row \<and>
   row_filled (snd (apply_frames col now frs row)) = foldl max (row_filled row) (map (\<lambda>fr. evidence_qty fr row) frs)"
  by (simp add: apply_frames_deltas apply_frames_filled apply_frames_nonneg list_all_iff)

text \<open>The cumulative quantity of an order does not depend on the order in which its frames arrive.\<close>

theorem fold_order_independent:
  assumes "mset frs = mset frs'"
  shows "row_filled (snd (apply_frames col now frs row)) = row_filled (snd (apply_frames col now frs' row))"
  unfolding apply_frames_filled by (rule foldl_max_perm) (simp add: assms mset_map)

definition sample_row :: order_row where
  "sample_row = \<lparr>or_id = 7, or_status = ''open'', or_qty = 50, or_filled = None, or_avg = None,
                 or_filled_at = None, or_reject = None\<rparr>"

definition frame_of :: "string \<Rightarrow> int \<Rightarrow> broker_frame" where
  "frame_of st q = \<lparr>fr_status = st, fr_avg = Some (Fin 100), fr_qty = Some q, fr_reject = None\<rparr>"

theorem fold_order_independent_witness:
  "row_filled (snd (apply_frames id 0 [frame_of ''open'' 20, frame_of ''cancelled'' 30] sample_row)) =
   row_filled (snd (apply_frames id 0 [frame_of ''cancelled'' 30, frame_of ''open'' 20] sample_row))"
  by (rule fold_order_independent) simp

text \<open>C6: An order row only advances. From a row with one of the statuses the engine writes, any
  sequence of broker frames keeps the cumulative quantity from falling, never reopens a terminal
  order, never leaves \<open>complete\<close>, and upgrades a cancelled or rejected order to \<open>complete\<close>
  only together with a strictly larger fill.\<close>

theorem order_row_advances:
  assumes "canonical_row row"
  shows "order_advances row (snd (apply_frames col now frs row)) \<and> canonical_row (snd (apply_frames col now frs row))"
  unfolding apply_frames_row using order_ratchet.run_tighter [OF assms] order_ratchet.ok_run [OF assms] by simp

theorem order_row_advances_witness:
  "or_status (snd (apply_frames id 0 [frame_of ''open'' 60] (sample_row\<lparr>or_status := ''complete''\<rparr>))) = ''complete''"
proof -
  have "canonical_row (sample_row\<lparr>or_status := ''complete''\<rparr>)"
    by (simp add: canonical_row_def terminal_statuses_def)
  from order_row_advances [OF this, of id 0 "[frame_of ''open'' 60]"] show ?thesis
    by (simp add: order_advances_def terminal_statuses_def)
qed

text \<open>C7: Concurrent workers lose no fill. Whatever happens between a worker's read and its
  conditional update, over its eight attempts, a fold that reports a change made it over a row with
  the status and quantity it had read: the stored cumulative quantity grew by exactly the delta it
  reports, and the delta and status are those of folding the frame into the row it updated.\<close>

theorem cas_fold_loses_nothing:
  assumes "fold_order_broker_frame col now fr env = (Some f, Some row')"
    and "\<forall>i seen current. env i = Rows seen current \<longrightarrow> or_qty seen = or_qty current"
  shows "\<exists>i < 8. \<exists>seen current. env i = Rows seen current \<and>
    row_filled row' = row_filled current + of_delta f \<and>
    of_delta f = of_delta (fold_decision fr current) \<and>
    of_status f = of_status (fold_decision fr current) \<and> or_status row' = of_status f"
proof -
  from fold_attempts_update [OF assms(1) [unfolded fold_order_broker_frame_def]]
  obtain i seen current where i: "i < 8" "env i = Rows seen current" "cas_matches seen current"
      "f = fold_decision fr seen" "row' = fold_fields col now fr f current"
    by (auto simp: in_set_conv_nth) (metis add_0 nth_upt)
  from i(3) have same: "row_status seen = row_status current" "row_filled seen = row_filled current"
      "or_filled seen = or_filled current"
    by (auto simp: cas_matches_def row_status_def row_filled_def)
  have ev: "evidence_qty fr seen = evidence_qty fr current"
    using assms(2) i(2) by (intro evidence_qty_row) blast
  have "row_filled row' = (if of_delta f > 0 then max 0 (of_cumulative f) else row_filled current)"
    by (simp add: i(5) fold_fields_def row_filled_def)
  moreover have "or_status row' = of_status f" by (simp add: i(5) fold_fields_def)
  ultimately show ?thesis
    using i(1,2) row_filled_nonneg [of current]
    by (auto simp: i(4) fold_delta fold_status fold_cumulative same ev intro!: exI [of _ i])
qed

theorem cas_fold_loses_nothing_witness:
  "\<exists>f row'. fold_order_broker_frame id 0 (frame_of ''open'' 20)
      (\<lambda>i. if i = 0 then Rows sample_row (sample_row\<lparr>or_filled := Some 5\<rparr>)
           else Rows (sample_row\<lparr>or_filled := Some 5\<rparr>) (sample_row\<lparr>or_filled := Some 5\<rparr>)) = (Some f, Some row') \<and>
    of_delta f = 15 \<and> row_filled row' = 20"
proof -
  let ?env = "\<lambda>i::nat. if i = 0 then Rows sample_row (sample_row\<lparr>or_filled := Some 5\<rparr>)
           else Rows (sample_row\<lparr>or_filled := Some 5\<rparr>) (sample_row\<lparr>or_filled := Some 5\<rparr>)"
  have up: "[0..<8] = [0, 1, 2, 3, 4, 5, 6, 7::nat]" by (simp add: upt_conv_Cons)
  have n: "str_lower (str_strip ''open'') = ''open''" by (simp add: word_norm)
  have "\<exists>f row'. fold_order_broker_frame id 0 (frame_of ''open'' 20) ?env = (Some f, Some row') \<and> of_delta f = 15"
    by (simp add: fold_order_broker_frame_def up fold_decision_def row_status_def row_filled_def sample_row_def
        evidence_qty_def incoming_status_def incoming_qty_def frame_of_def next_status_def n terminal_statuses_def
        cas_matches_def Let_def)
  then obtain f row' where f: "fold_order_broker_frame id 0 (frame_of ''open'' 20) ?env = (Some f, Some row')"
      "of_delta f = 15" by blast
  have "\<forall>i seen current. ?env i = Rows seen current \<longrightarrow> or_qty seen = or_qty current" by auto
  from cas_fold_loses_nothing [OF f(1) this] f show ?thesis
    by (auto simp: row_filled_def split: if_splits)
qed

end
