(* ===== verification/Run_Fills.thy ===== *)
theory Run_Fills
  imports Risk_Adapter Order_Fold
begin

text \<open>
  What a broker's report does to the live state: \<open>apply_fill\<close> and \<open>_apply_fill\<close> of
  \<open>services/strategy_module/engine.py\<close>, the acknowledgement of an entry in \<open>_place_entries\<close>, and
  the dead-order branches of \<open>_apply_update\<close> in \<open>order_events.py\<close>. A fill is settled against the
  outgoing side of a flip or against the live position, then the run's totals are recomputed, all
  in one critical section; every early return is an outcome of its own, and the exception that
  \<open>float\<close> of an absurdly large integer raises leaves the state as far as the code got.
\<close>

section \<open>Quantities and ownership\<close>

definition held_units :: "int \<Rightarrow> int result" where
  "held_units held =
     (case rbind (py_float (VInt held)) trunc_int of
        Inl TypeError \<Rightarrow> Ret 0
      | Inl ValueError \<Rightarrow> Ret 0
      | Inl e \<Rightarrow> Raise e
      | Inr n \<Rightarrow> Ret (max 0 n))"

definition exit_fill_quantities :: "int option \<Rightarrow> int \<Rightarrow> (int \<times> int) result" where
  "exit_fill_quantities filled held_qty =
     rbind (held_units held_qty) (\<lambda>held.
     rbind (case filled of None \<Rightarrow> Ret held | Some q \<Rightarrow> rbind (held_units q) (\<lambda>a. Ret (min a held))) (\<lambda>applied.
     Ret (applied, held - applied)))"

definition leg_requires_management :: "leg \<Rightarrow> bool" where
  "leg_requires_management l =
     (superseded l \<noteq> None \<or> exit_order_id l \<noteq> None \<or> exit_claim_token l \<noteq> None \<or>
      status l = Open \<or> entry_status l = EPending \<or> entry_status l = EOpen)"

definition managed_leg_ids :: "run \<Rightarrow> pyid list" where
  "managed_leg_ids r = map leg_id (filter leg_requires_management (dvalues (legs r)))"

definition run_requires_management :: "run \<Rightarrow> bool" where
  "run_requires_management r =
     (signal_entry_claims r \<noteq> [] \<or> list_ex leg_requires_management (dvalues (legs r)))"

section \<open>A fill\<close>

record fill =
  f_price :: "pyfloat option"
  f_entry :: bool
  f_filled :: "int option"
  f_row :: "int option"
  f_ref :: "string option"
  f_cumulative :: "int option"
  f_terminal :: bool
  f_prior_ok :: bool

datatype fill_outcome =
    LateExitWithoutState
  | NoState
  | NoLeg
  | RefMismatch
  | StaleOrder
  | NoExitInFlight
  | FillRaised pyexc
  | Applied bool bool

definition settles_superseded :: "leg \<Rightarrow> superseded_pos \<Rightarrow> fill \<Rightarrow> bool" where
  "settles_superseded l s f =
     (\<not> f_entry f \<and>
      ((f_ref f \<noteq> None \<and> sp_position_ref s = f_ref f) \<or>
       (f_ref f = None \<and> sp_exit_order_id s = f_row f) \<or>
       (f_ref f = None \<and> f_row f = None \<and> exit_order_id l = None)))"

definition round_trip :: "string \<Rightarrow> pyfloat \<Rightarrow> pyfloat \<Rightarrow> int \<Rightarrow> pyfloat" where
  "round_trip pos entry exit applied =
     (exit - entry) * to_double (of_int applied) * (if pos = ''B'' then Fin 1 else Fin (- 1))"

definition settle_superseded :: "leg \<Rightarrow> superseded_pos \<Rightarrow> fill \<Rightarrow> leg result" where
  "settle_superseded l s f =
     rbind (exit_fill_quantities (f_filled f) (sp_qty s)) (\<lambda>(applied, remaining).
     let entry = sp_entry_avg s;
         booked = (case f_price f of
                     None \<Rightarrow> realized_pnl l
                   | Some p \<Rightarrow> if entry > 0 then realized_pnl l + round_trip (sp_position s) entry p applied
                               else realized_pnl l);
         owns = (f_row f = None \<or> sp_exit_order_id s = f_row f);
         release = (f_terminal f \<and> owns);
         s' = (if remaining > 0 \<or> \<not> release
               then Some (if release then clear_sp_exit (s\<lparr>sp_qty := remaining\<rparr>) else s\<lparr>sp_qty := remaining\<rparr>)
               else None) in
     Ret (l\<lparr>realized_pnl := booked, superseded := s'\<rparr>))"

definition fill_entry :: "leg \<Rightarrow> fill \<Rightarrow> leg" where
  "fill_entry l f =
     (let managed = (if f_cumulative f \<noteq> None then f_cumulative f else f_filled f) in
      l\<lparr>entry_avg := (case f_price f of None \<Rightarrow> entry_avg l | Some p \<Rightarrow> p),
        qty := (case managed of None \<Rightarrow> qty l | Some q \<Rightarrow> q),
        entry_filled_qty := (case f_cumulative f of None \<Rightarrow> entry_filled_qty l | Some q \<Rightarrow> q),
        entry_status := (if f_terminal f then EComplete else EOpen),
        status := Open\<rparr>)"

text \<open>The exit price is recorded before the quantities are read, so it stays when they raise.\<close>

definition fill_exit :: "leg \<Rightarrow> fill \<Rightarrow> pyexc option \<times> leg" where
  "fill_exit l0 f =
     (let l = l0\<lparr>exit_avg := (case f_price f of None \<Rightarrow> exit_avg l0 | Some p \<Rightarrow> Some p)\<rparr>; entry = entry_avg l in
      case exit_fill_quantities (f_filled f) (qty l) of
        Inl e \<Rightarrow> (Some e, l)
      | Inr (applied, remaining) \<Rightarrow>
          (let booked = (case f_price f of
                           None \<Rightarrow> realized_pnl l
                         | Some p \<Rightarrow> if applied > 0 \<and> entry > 0
                                     then realized_pnl l + round_trip (position l) entry p applied
                                     else realized_pnl l);
               owns = (f_row f = None \<or> exit_order_id l = f_row f);
               l' = (if remaining > 0
                     then l\<lparr>realized_pnl := booked, qty := remaining, status := Open\<rparr>
                     else l\<lparr>realized_pnl := booked, qty := 0, status := Closed, mtm := 0\<rparr>) in
           (None, if f_terminal f \<and> owns then clear_exit l' else l')))"

definition recompute_totals :: "run \<Rightarrow> run result" where
  "recompute_totals r =
     rbind (run_pnl r) (\<lambda>(realized, unrealized).
       let tot = realized + unrealized in
       Ret (r\<lparr>pnl_realized := realized, pnl_unrealized := unrealized, pnl_total := tot,
              pnl_peak := py_max (pnl_peak r) tot, pnl_trough := py_min (pnl_trough r) tot\<rparr>))"

definition live_guard :: "leg \<Rightarrow> fill \<Rightarrow> fill_outcome option" where
  "live_guard l f =
     (let expected = (if f_entry f then entry_order_id l else exit_order_id l) in
      if f_ref f \<noteq> None \<and> position_ref l \<noteq> f_ref f then Some RefMismatch
      else if f_row f \<noteq> None \<and> expected \<noteq> None \<and> expected \<noteq> f_row f \<and> \<not> f_prior_ok f then Some StaleOrder
      else if \<not> f_entry f \<and> f_row f \<noteq> None \<and> exit_kind l = None \<and> exit_order_id l = None \<and> \<not> f_prior_ok f
      then Some NoExitInFlight
      else None)"

definition fill_leg :: "leg \<Rightarrow> fill \<Rightarrow> fill_outcome option \<times> leg" where
  "fill_leg l f =
     (case superseded l of
        Some s \<Rightarrow>
          if settles_superseded l s f
          then (case settle_superseded l s f of Inl e \<Rightarrow> (Some (FillRaised e), l) | Inr l' \<Rightarrow> (None, l'))
          else (case live_guard l f of
                  Some oc \<Rightarrow> (Some oc, l)
                | None \<Rightarrow> if f_entry f then (None, fill_entry l f)
                          else (map_option FillRaised (fst (fill_exit l f)), snd (fill_exit l f)))
      | None \<Rightarrow>
          (case live_guard l f of
             Some oc \<Rightarrow> (Some oc, l)
           | None \<Rightarrow> if f_entry f then (None, fill_entry l f)
                     else (map_option FillRaised (fst (fill_exit l f)), snd (fill_exit l f))))"

definition apply_fill :: "int \<Rightarrow> pyid \<Rightarrow> fill \<Rightarrow> registry \<Rightarrow> fill_outcome \<times> registry" where
  "apply_fill rid lid f reg =
     (case run_state reg rid of
        None \<Rightarrow> (if f_entry f then NoState else LateExitWithoutState, reg)
      | Some r \<Rightarrow>
          (case dget (legs r) (id_str lid) of
             None \<Rightarrow> (NoLeg, reg)
           | Some l \<Rightarrow>
               (case fill_leg l f of
                  (Some oc, l') \<Rightarrow> (oc, put_leg rid r (id_str lid) l' reg)
                | (None, l') \<Rightarrow>
                    (let r' = r\<lparr>legs := dset (id_str lid) l' (legs r)\<rparr> in
                     case recompute_totals r' of
                       Inl e \<Rightarrow> (FillRaised e, put_run rid r' reg)
                     | Inr r'' \<Rightarrow>
                         (Applied (f_entry f \<and> f_terminal f) (\<not> run_requires_management r''),
                          put_run rid r'' reg)))))"

section \<open>After the lock\<close>

record run_row =
  rr_stopped :: bool
  rr_requested :: "string option"

datatype after_fill = NothingMore | ReconcilePnl | ReconcileStop | Finalise string string

definition after_fill :: "fill_outcome \<Rightarrow> run_row option \<Rightarrow> string option \<Rightarrow> bool \<times> after_fill" where
  "after_fill oc row kind =
     (case oc of
        LateExitWithoutState \<Rightarrow> (False, ReconcilePnl)
      | Applied entry_applied went_flat \<Rightarrow>
          if entry_applied then (False, ReconcileStop)
          else if \<not> went_flat then (False, NothingMore)
          else
            (case row of
               None \<Rightarrow> (True, NothingMore)
             | Some rr \<Rightarrow>
                 if rr_stopped rr then (True, NothingMore)
                 else if rr_requested rr = None \<and> kind = Some ''signal'' then (True, NothingMore)
                 else
                   (case rr_requested rr of
                      None \<Rightarrow> (True, Finalise ''manual'' ''All legs closed'')
                    | Some why \<Rightarrow>
                        (True, if why = [] then Finalise ''manual'' ''All legs closed''
                               else Finalise why (''Run stopped ('' @ why @ '')''))))
      | _ \<Rightarrow> (False, NothingMore))"

section \<open>Acknowledgements and dead orders\<close>

definition ack_entry :: "int \<Rightarrow> pyid \<Rightarrow> string option \<Rightarrow> int \<Rightarrow> bool \<Rightarrow> registry \<Rightarrow> registry" where
  "ack_entry rid lid pref row_id ok reg =
     (case find_leg reg rid lid of
        None \<Rightarrow> reg
      | Some (r, l) \<Rightarrow>
          if position_ref l = pref \<and> entry_status l = EPending
          then put_leg rid r (id_str lid)
                 (l\<lparr>entry_order_id := Some row_id, entry_status := (if ok then EOpen else ERejected),
                    status := (if ok then Open else Rejected)\<rparr>) reg
          else reg)"

definition dead_entry :: "int \<Rightarrow> pyid \<Rightarrow> string option \<Rightarrow> bool \<Rightarrow> registry \<Rightarrow> registry" where
  "dead_entry rid lid pref cancelled reg =
     (case find_leg reg rid lid of
        None \<Rightarrow> reg
      | Some (r, l) \<Rightarrow>
          if (pref = None \<or> position_ref l = pref) \<and> entry_status l \<noteq> EComplete
          then put_leg rid r (id_str lid)
                 (l\<lparr>entry_status := (if cancelled then ECancelled else ERejected), status := Rejected\<rparr>) reg
          else reg)"

definition exit_owner_for_row :: "int \<Rightarrow> pyid \<Rightarrow> int \<Rightarrow> string option \<Rightarrow> registry \<Rightarrow> exit_owner option" where
  "exit_owner_for_row rid lid row_id pref reg =
     (case find_leg reg rid lid of
        None \<Rightarrow> None
      | Some (r, l) \<Rightarrow>
          (if (case superseded l of None \<Rightarrow> False
               | Some s \<Rightarrow> sp_exit_order_id s = Some row_id \<and> (pref = None \<or> sp_position_ref s = pref))
           then Some OwnerSuperseded
           else if exit_order_id l = Some row_id \<and> (pref = None \<or> position_ref l = pref) then Some OwnerLive
           else None))"

definition exit_owner_still_held :: "int \<Rightarrow> pyid \<Rightarrow> exit_owner option \<Rightarrow> string option \<Rightarrow> registry \<Rightarrow> bool result" where
  "exit_owner_still_held rid lid owner pref reg =
     (case (owner, find_leg reg rid lid) of
        (None, _) \<Rightarrow> Ret False
      | (_, None) \<Rightarrow> Ret False
      | (Some OwnerLive, Some (r, l)) \<Rightarrow>
          if pref \<noteq> None \<and> position_ref l \<noteq> pref then Ret False
          else if status l \<noteq> Open then Ret False
          else rbind (held_units (qty l)) (\<lambda>n. Ret (n > 0))
      | (Some OwnerSuperseded, Some (r, l)) \<Rightarrow>
          (case superseded l of
             None \<Rightarrow> Ret False
           | Some s \<Rightarrow>
               if pref \<noteq> None \<and> sp_position_ref s \<noteq> pref then Ret False
               else rbind (held_units (sp_qty s)) (\<lambda>n. Ret (n > 0))))"

definition working_retry_for_position :: "int \<Rightarrow> pyid \<Rightarrow> string option \<Rightarrow> int \<Rightarrow> registry \<Rightarrow> int option" where
  "working_retry_for_position rid lid pref source reg =
     (if pref = None then None
      else
        case find_leg reg rid lid of
          None \<Rightarrow> None
        | Some (r, l) \<Rightarrow>
            (let live = (if position_ref l = pref then exit_order_id l else None);
                 out = (case superseded l of None \<Rightarrow> None
                        | Some s \<Rightarrow> if sp_position_ref s = pref then sp_exit_order_id s else None) in
             if live \<noteq> None \<and> live \<noteq> Some source then live
             else if out \<noteq> None \<and> out \<noteq> Some source then out
             else None))"

section \<open>One broker update\<close>

record order_ref =
  ob_run :: int
  ob_leg :: pyid
  ob_is_entry :: bool
  ob_row :: int
  ob_ref :: "string option"

definition should_apply :: "order_fact_fold \<Rightarrow> bool" where
  "should_apply f = (of_delta f > 0 \<or> (fold_terminal f \<and> of_cumulative f > 0))"

definition fill_of_fold :: "order_ref \<Rightarrow> order_fact_fold \<Rightarrow> fill" where
  "fill_of_fold ob f =
     \<lparr> f_price = (if ob_is_entry ob then as_price_num (of_avg f) else incremental_fill_price f),
       f_entry = ob_is_entry ob, f_filled = Some (of_delta f), f_row = Some (ob_row ob),
       f_ref = (case ob_ref ob of None \<Rightarrow> None | Some p \<Rightarrow> if p = [] then None else Some p),
       f_cumulative = (if ob_is_entry ob \<and> (\<not> fold_terminal f \<or> of_previous_qty f > 0)
                       then Some (of_cumulative f) else None),
       f_terminal = fold_terminal f, f_prior_ok = fold_was_terminal f \<rparr>"

datatype update_note = UnpricedFill | CancelRetry int | ReconcileStopNow | FlipExitRejected | StopExitFailed | StrandedExit | ManageLateEntry

text \<open>
  \<open>settle\<close> stands for what follows a fill outside the lock (a finalisation, a stop that is
  retried): it may change the registry in any way. The last component says whether an
  exception ended the update early.
\<close>

definition dead_exit ::
  "order_ref \<Rightarrow> order_fact_fold \<Rightarrow> exit_owner option \<Rightarrow> registry \<Rightarrow> (update_note list \<times> registry) result" where
  "dead_exit ob f owner0 reg =
     (let (owner, reg') = (if should_apply f then (owner0, reg)
                           else release_order_exit (ob_run ob) (ob_leg ob) (ob_row ob) (ob_ref ob) reg) in
      rbind (exit_owner_still_held (ob_run ob) (ob_leg ob) owner (ob_ref ob) reg') (\<lambda>held.
        Ret ((if owner = Some OwnerSuperseded \<and> held then [FlipExitRejected] else []) @
             (if held then [StopExitFailed] else []) @
             (if of_cumulative f \<le> 0 \<and> owner = None \<and> get_run_state reg' (ob_run ob) = None
              then [StrandedExit] else []), reg')))"

definition apply_folded_update ::
  "(fill_outcome \<Rightarrow> registry \<Rightarrow> registry) \<Rightarrow> bool \<Rightarrow> string \<Rightarrow> order_ref \<Rightarrow> order_fact_fold \<Rightarrow> registry \<Rightarrow>
     update_note list \<times> registry \<times> bool" where
  "apply_folded_update settle run_stopped incoming ob f reg =
     (if \<not> of_changed f then ([], reg, False)
      else
        let owner = (if ob_is_entry ob then None
                     else exit_owner_for_row (ob_run ob) (ob_leg ob) (ob_row ob) (ob_ref ob) reg);
            late = (ob_is_entry ob \<and> of_delta f > 0 \<and> run_stopped);
            fl = fill_of_fold ob f;
            (oc, reg1) = (if should_apply f \<and> \<not> late then apply_fill (ob_run ob) (ob_leg ob) fl reg else (NoState, reg));
            raised = (case oc of FillRaised e \<Rightarrow> True | _ \<Rightarrow> False);
            reg2 = (if should_apply f \<and> \<not> late \<and> \<not> raised then settle oc reg1 else reg1) in
        if raised then ([], reg2, True)
        else
          let notes1 = (if should_apply f \<and> late then [ManageLateEntry] else []) @
                       (if should_apply f \<and> of_delta f > 0 \<and> f_price fl = None then [UnpricedFill] else []) @
                       (if should_apply f \<and> \<not> ob_is_entry ob \<and> fold_was_terminal f \<and> of_delta f > 0
                        then (case working_retry_for_position (ob_run ob) (ob_leg ob) (ob_ref ob) (ob_row ob) reg2 of
                                None \<Rightarrow> [] | Some q \<Rightarrow> [CancelRetry q])
                        else []) in
          if incoming \<in> {''cancelled'', ''rejected''} \<and> \<not> fold_was_terminal f then
            (if ob_is_entry ob then
               (if of_cumulative f \<le> 0
                then (notes1 @ [ReconcileStopNow],
                      dead_entry (ob_run ob) (ob_leg ob) (ob_ref ob) (incoming = ''cancelled'') reg2, False)
                else (notes1, reg2, False))
             else
               (case dead_exit ob f owner reg2 of
                  Inl e \<Rightarrow> (notes1,
                    (if should_apply f then reg2
                     else snd (release_order_exit (ob_run ob) (ob_leg ob) (ob_row ob) (ob_ref ob) reg2)), True)
                | Inr (notes2, reg3) \<Rightarrow> (notes1 @ notes2, reg3, False)))
          else (notes1, reg2, False))"

end
