(* ===== verification/Order_Dispatch.thy ===== *)
theory Order_Dispatch
  imports Py_Value
begin

text \<open>
  The single place a strategy run turns a decision into an order,
  \<open>services/strategy_module/order_dispatch.py\<close>. The sandbox, the credential store and the broker
  modules are code outside the file: each is a parameter that answers or raises (\<open>Inl\<close>).
  A dispatch returns its result together with the list of calls it made on those services, so
  that "this run never reaches that pipe" is a statement about the list.
\<close>

section \<open>The payload\<close>

record order_payload =
  op_symbol :: string
  op_exchange :: string
  op_action :: string
  op_quantity :: string
  op_product :: string
  op_pricetype :: string
  op_price :: string
  op_trigger :: string
  op_strategy :: string

definition derivative_exchanges :: "string set" where
  "derivative_exchanges = {''NFO'', ''BFO'', ''MCX'', ''CDS'', ''BCD'', ''NCDEX'', ''NCO''}"

definition product_for_exchange :: "string \<Rightarrow> string \<Rightarrow> string" where
  "product_for_exchange product exch =
     (if str_upper product = ''MIS'' then ''MIS''
      else if str_upper exch \<in> derivative_exchanges then ''NRML''
      else ''CNC'')"

definition build_order :: "string \<Rightarrow> string \<Rightarrow> string \<Rightarrow> int \<Rightarrow> string \<Rightarrow> string \<Rightarrow> string \<Rightarrow> order_payload" where
  "build_order sym_name exch action quantity product strategy_name pricetype =
     \<lparr> op_symbol = sym_name, op_exchange = exch, op_action = str_upper action,
       op_quantity = str_of_int quantity, op_product = product_for_exchange product exch,
       op_pricetype = pricetype, op_price = ''0'', op_trigger = ''0'', op_strategy = strategy_name \<rparr>"

definition exit_action :: "string \<Rightarrow> string result" where
  "exit_action pos =
     (let p = str_upper pos in
      if p = ''B'' then Ret ''SELL'' else if p = ''S'' then Ret ''BUY'' else Raise ValueError)"

definition position_to_action :: "string \<Rightarrow> string" where
  "position_to_action pos = (if str_upper pos = ''B'' then ''BUY'' else ''SELL'')"

section \<open>The services a dispatch may call\<close>

record broker_reply =
  br_orderid :: "string option"
  br_message :: "string option"

type_synonym pipe_answer = "(bool \<times> broker_reply option) result"

datatype service_call =
    SandboxPlace order_payload
  | SandboxCancel string
  | ResolveAuth
  | LivePlace order_payload string string bool
  | LiveCancel string string string

record services =
  sv_sandbox_place :: "order_payload \<Rightarrow> pipe_answer"
  sv_sandbox_cancel :: "string \<Rightarrow> pipe_answer"
  sv_auth :: "(string option \<times> string option) result"
  sv_live_place :: "order_payload \<Rightarrow> string \<Rightarrow> string \<Rightarrow> pipe_answer"
  sv_cancel_module :: "string \<Rightarrow> bool"
  sv_live_cancel :: "string \<Rightarrow> string \<Rightarrow> string \<Rightarrow> (broker_reply option \<times> int) result"

record dispatch_result =
  dr_ok :: bool
  dr_orderid :: "string option"
  dr_error :: "string option"

definition failed :: "string option \<Rightarrow> string \<Rightarrow> dispatch_result" where
  "failed oid msg = \<lparr>dr_ok = False, dr_orderid = oid, dr_error = Some msg\<rparr>"

definition non_empty :: "string option \<Rightarrow> bool" where
  "non_empty s = (case s of None \<Rightarrow> False | Some t \<Rightarrow> t \<noteq> [])"

definition or_text :: "string option \<Rightarrow> string \<Rightarrow> string" where
  "or_text s dflt = (if non_empty s then the s else dflt)"

definition reply_orderid :: "broker_reply option \<Rightarrow> string option" where
  "reply_orderid r = Option.bind r br_orderid"

definition reply_message :: "broker_reply option \<Rightarrow> string option" where
  "reply_message r = Option.bind r br_message"

definition normalise_answer :: "bool \<Rightarrow> broker_reply option \<Rightarrow> dispatch_result" where
  "normalise_answer ok r =
     (if ok then \<lparr>dr_ok = True, dr_orderid = reply_orderid r, dr_error = None\<rparr>
      else failed (reply_orderid r) (or_text (reply_message r) ''Order rejected''))"

definition resolve_live_auth :: "services \<Rightarrow> (string \<times> string) option \<times> string" where
  "resolve_live_auth sv =
     (case sv_auth sv of
        Inl e \<Rightarrow> (None, ''Could not resolve broker authorisation'')
      | Inr (tok, brk) \<Rightarrow>
          if \<not> non_empty tok \<or> \<not> non_empty brk
          then (None, ''Broker session is not available or has expired'')
          else (Some (the tok, the brk), []))"

definition dispatch_sandbox :: "services \<Rightarrow> order_payload \<Rightarrow> service_call list \<times> dispatch_result" where
  "dispatch_sandbox sv order =
     ([SandboxPlace order],
      case sv_sandbox_place sv order of
        Inl e \<Rightarrow> failed None ''Sandbox order placement failed''
      | Inr (ok, r) \<Rightarrow> normalise_answer ok r)"

definition dispatch_live :: "services \<Rightarrow> order_payload \<Rightarrow> service_call list \<times> dispatch_result" where
  "dispatch_live sv order =
     (case resolve_live_auth sv of
        (None, err) \<Rightarrow> ([ResolveAuth], failed None err)
      | (Some (tok, brk), _) \<Rightarrow>
          ([ResolveAuth, LivePlace order tok brk True],
           case sv_live_place sv order tok brk of
             Inl e \<Rightarrow> failed None ''Live order placement failed''
           | Inr (ok, r) \<Rightarrow> normalise_answer ok r))"

definition unknown_mode :: "string \<Rightarrow> string" where
  "unknown_mode mode = ''Unknown run mode: '' @ [CHR 0x27] @ mode @ [CHR 0x27]"

definition dispatch_order :: "services \<Rightarrow> string \<Rightarrow> order_payload \<Rightarrow> service_call list \<times> dispatch_result" where
  "dispatch_order sv mode order =
     (if mode = ''sandbox'' then dispatch_sandbox sv order
      else if mode = ''live'' then dispatch_live sv order
      else ([], failed None (unknown_mode mode)))"

definition cancel_order :: "services \<Rightarrow> string \<Rightarrow> string \<Rightarrow> service_call list \<times> dispatch_result" where
  "cancel_order sv mode oid =
     (if oid = [] then ([], failed None ''Broker order id is unavailable'')
      else if mode = ''sandbox'' then
        ([SandboxCancel oid],
         case sv_sandbox_cancel sv oid of
           Inl e \<Rightarrow> failed (Some oid) ''Sandbox strategy cancellation failed''
         | Inr (ok, r) \<Rightarrow>
             (let n = normalise_answer ok r in n\<lparr>dr_orderid := Some (or_text (dr_orderid n) oid)\<rparr>))
      else if mode \<noteq> ''live'' then ([], failed None (unknown_mode mode))
      else
        case resolve_live_auth sv of
          (None, err) \<Rightarrow> ([ResolveAuth], failed (Some oid) err)
        | (Some (tok, brk), _) \<Rightarrow>
            if \<not> sv_cancel_module sv brk
            then ([ResolveAuth], failed (Some oid) ''Broker-specific cancellation module is unavailable'')
            else
              ([ResolveAuth, LiveCancel oid tok brk],
               case sv_live_cancel sv oid tok brk of
                 Inl e \<Rightarrow> failed (Some oid) ''Live strategy cancellation failed''
               | Inr (r, code) \<Rightarrow>
                   if code = 200 then \<lparr>dr_ok = True, dr_orderid = Some oid, dr_error = None\<rparr>
                   else failed (Some oid) (or_text (reply_message r) ''Broker refused strategy cancellation'')))"

definition cancel_exit_order :: "services \<Rightarrow> string \<Rightarrow> string \<Rightarrow> service_call list \<times> dispatch_result" where
  "cancel_exit_order sv mode oid = cancel_order sv mode oid"

section \<open>Properties\<close>

fun is_sandbox_call :: "service_call \<Rightarrow> bool" where
  "is_sandbox_call (SandboxPlace _) = True"
| "is_sandbox_call (SandboxCancel _) = True"
| "is_sandbox_call _ = False"

fun reaches_market :: "service_call \<Rightarrow> bool" where
  "reaches_market (LivePlace _ _ _ _) = True"
| "reaches_market (LiveCancel _ _ _) = True"
| "reaches_market _ = False"

lemmas dispatch_defs = dispatch_order_def dispatch_sandbox_def dispatch_live_def cancel_order_def
  resolve_live_auth_def

text \<open>C8: The mode of a run decides the pipe, and nothing else does. A dispatch or a cancellation
  calls the sandbox only in sandbox mode and the broker only in live mode, whatever the services
  answer; a live placement always carries the flag that the platform-wide toggle cannot divert, and
  is attempted only with a token and a broker that are not empty; and any other mode reaches nothing and
  reports failure.\<close>

theorem dispatch_respects_mode:
  "(list_ex is_sandbox_call (fst (dispatch_order sv mode order) @ fst (cancel_order sv mode oid)) \<longrightarrow> mode = ''sandbox'') \<and>
   (list_ex reaches_market (fst (dispatch_order sv mode order) @ fst (cancel_order sv mode oid)) \<longrightarrow> mode = ''live'') \<and>
   (LivePlace q tok brk flag \<in> set (fst (dispatch_order sv mode order)) \<longrightarrow>
      flag \<and> q = order \<and> tok \<noteq> [] \<and> brk \<noteq> [] \<and> sv_auth sv = Ret (Some tok, Some brk)) \<and>
   (mode \<noteq> ''live'' \<and> mode \<noteq> ''sandbox'' \<longrightarrow>
      fst (dispatch_order sv mode order) = [] \<and> \<not> dr_ok (snd (dispatch_order sv mode order)) \<and>
      fst (cancel_order sv mode oid) = [] \<and> \<not> dr_ok (snd (cancel_order sv mode oid)))"
  by (auto simp: dispatch_defs failed_def non_empty_def split: sum.splits prod.splits option.splits if_splits)

definition sample_services :: services where
  "sample_services =
     \<lparr> sv_sandbox_place = (\<lambda>_. Ret (True, Some \<lparr>br_orderid = Some ''S1'', br_message = None\<rparr>)),
       sv_sandbox_cancel = (\<lambda>_. Raise OtherError), sv_auth = Ret (Some ''tok'', Some ''zerodha''),
       sv_live_place = (\<lambda>_ _ _. Ret (True, Some \<lparr>br_orderid = Some ''L1'', br_message = None\<rparr>)),
       sv_cancel_module = (\<lambda>_. True), sv_live_cancel = (\<lambda>_ _ _. Ret (None, 200)) \<rparr>"

definition sample_order :: order_payload where
  "sample_order = build_order ''NIFTY'' ''NFO'' ''BUY'' 50 ''MIS'' ''desk'' ''MARKET''"

theorem dispatch_respects_mode_witness:
  "LivePlace sample_order ''tok'' ''zerodha'' True \<in> set (fst (dispatch_order sample_services ''live'' sample_order)) \<and>
   sv_auth sample_services = Ret (Some ''tok'', Some ''zerodha'')"
proof -
  have "LivePlace sample_order ''tok'' ''zerodha'' True
      \<in> set (fst (dispatch_order sample_services ''live'' sample_order))"
    by (simp add: dispatch_defs sample_services_def non_empty_def)
  with dispatch_respects_mode [of sample_services "''live''" sample_order "[]" sample_order "''tok''" "''zerodha''" True]
  show ?thesis by blast
qed

text \<open>A failure is never reported as success. A dispatch says \<open>ok\<close> only when the service of its
  mode was called, answered without raising, and answered yes; every refusal carries a reason.\<close>

theorem dispatch_ok_only_if_accepted:
  "dr_ok (snd (dispatch_order sv mode order)) =
     (mode = ''sandbox'' \<and> (\<exists>r. sv_sandbox_place sv order = Ret (True, r)) \<or>
      mode = ''live'' \<and> (\<exists>tok brk r. sv_auth sv = Ret (Some tok, Some brk) \<and> tok \<noteq> [] \<and> brk \<noteq> [] \<and>
         sv_live_place sv order tok brk = Ret (True, r))) \<and>
   (dr_ok (snd (dispatch_order sv mode order)) = (dr_error (snd (dispatch_order sv mode order)) = None))"
  by (auto simp: dispatch_defs failed_def non_empty_def normalise_answer_def
      split: sum.splits prod.splits option.splits if_splits)

end
