(* ===== verification/Run_Exits.thy ===== *)
theory Run_Exits
  imports Run_Fills Order_Dispatch
begin

text \<open>
  The paths that close positions, \<open>services/strategy_module/engine.py\<close>: \<open>_exit_legs\<close>,
  \<open>stop_run\<close>, \<open>_finalise\<close> and the evaluation of a tick. What is outside the module is a
  parameter: the order table and the broker answer each exit with \<open>exit_answer\<close>, and while
  an order is out of the lock any other operation may run, which is the function
  \<open>meanwhile\<close> of the answer.
\<close>

section \<open>Exits\<close>

record exit_answer =
  ea_row :: "int option"
  ea_ok :: bool
  ea_meanwhile :: "registry \<Rightarrow> registry"
  ea_replay :: "registry \<Rightarrow> registry"

record exit_outcome =
  eo_leg :: pyid
  eo_ok :: bool
  eo_ref :: "string option"
  eo_owner :: exit_owner
  eo_sent :: "order_payload option"

datatype exit_target = LiveTarget leg | OutgoingTarget superseded_claim

definition target_leg :: "exit_target \<Rightarrow> pyid" where
  "target_leg t = (case t of LiveTarget l \<Rightarrow> leg_id l | OutgoingTarget c \<Rightarrow> sc_leg_id c)"

definition target_ref :: "exit_target \<Rightarrow> string option" where
  "target_ref t = (case t of LiveTarget l \<Rightarrow> position_ref l | OutgoingTarget c \<Rightarrow> sc_position_ref c)"

definition target_token :: "exit_target \<Rightarrow> string option" where
  "target_token t = (case t of LiveTarget l \<Rightarrow> exit_claim_token l | OutgoingTarget c \<Rightarrow> Some (sc_claim_token c))"

definition target_owner :: "exit_target \<Rightarrow> exit_owner" where
  "target_owner t = (case t of LiveTarget _ \<Rightarrow> OwnerLive | OutgoingTarget _ \<Rightarrow> OwnerSuperseded)"

text \<open>
  The order of an exit. A side that is neither B nor S raises; so does a live leg of size zero, since
  the code then falls back to a key a leg does not have.
\<close>

definition target_order :: "string \<Rightarrow> string \<Rightarrow> exit_target \<Rightarrow> order_payload result" where
  "target_order product name t =
     (case t of
        LiveTarget l \<Rightarrow>
          rbind (exit_action (position l)) (\<lambda>act.
          if qty l = 0 then Raise TypeError
          else Ret (build_order (symbol l) (exchange l) act (qty l) product name ''MARKET''))
      | OutgoingTarget c \<Rightarrow>
          rbind (exit_action (sc_position c)) (\<lambda>act.
          Ret (build_order (sc_symbol c) (sc_exchange c) act (sc_quantity c) product name ''MARKET'')))"

definition bind_target :: "int \<Rightarrow> exit_target \<Rightarrow> int \<Rightarrow> registry \<Rightarrow> bool \<times> registry" where
  "bind_target rid t row_id reg =
     (case t of
        LiveTarget l \<Rightarrow> bind_live_exit rid (leg_id l) (target_token t) row_id (target_ref t) reg
      | OutgoingTarget c \<Rightarrow> bind_superseded_exit rid (sc_leg_id c) (target_token t) row_id reg)"

definition release_target :: "int \<Rightarrow> exit_target \<Rightarrow> pyid option \<Rightarrow> registry \<Rightarrow> bool \<times> registry" where
  "release_target rid t claim reg =
     (case t of
        LiveTarget l \<Rightarrow> release_leg_exit rid (leg_id l) claim reg
      | OutgoingTarget c \<Rightarrow> release_superseded_exit rid (sc_leg_id c) claim reg)"

definition outcome_of :: "exit_target \<Rightarrow> bool \<Rightarrow> order_payload option \<Rightarrow> exit_outcome" where
  "outcome_of t ok sent =
     \<lparr>eo_leg = target_leg t, eo_ok = ok, eo_ref = target_ref t, eo_owner = target_owner t, eo_sent = sent\<rparr>"

definition send_exit ::
  "int \<Rightarrow> exit_target \<Rightarrow> order_payload \<Rightarrow> pyid option \<Rightarrow> exit_answer \<Rightarrow> registry \<Rightarrow> exit_outcome \<times> registry" where
  "send_exit rid t order claim a reg =
     (let reg1 = ea_meanwhile a reg;
          reg2 = (if ea_ok a then reg1 else snd (release_target rid t claim reg1));
          reg3 = (if ea_ok a \<and> ea_row a \<noteq> None then ea_replay a reg2 else reg2) in
      (outcome_of t (ea_ok a) (Some order), reg3))"

definition exit_one ::
  "string \<Rightarrow> string \<Rightarrow> int \<Rightarrow> exit_target \<Rightarrow> exit_answer \<Rightarrow> registry \<Rightarrow> exit_outcome result \<times> registry" where
  "exit_one product name rid t a reg =
     (case target_order product name t of
        Inl e \<Rightarrow> (Raise e, reg)
      | Inr order \<Rightarrow>
          (case ea_row a of
             None \<Rightarrow>
               (let (oc, reg') = send_exit rid t order (map_option IdStr (target_token t)) a reg in (Ret oc, reg'))
           | Some row_id \<Rightarrow>
               (let (bound, reg') = bind_target rid t row_id reg in
                if \<not> bound
                then (Ret (outcome_of t False None),
                      snd (release_target rid t (map_option IdStr (target_token t)) reg'))
                else let (oc, reg'') = send_exit rid t order (Some (IdInt row_id)) a reg' in (Ret oc, reg''))))"

fun exit_each ::
  "string \<Rightarrow> string \<Rightarrow> int \<Rightarrow> exit_target list \<Rightarrow> exit_answer list \<Rightarrow> registry \<Rightarrow>
     exit_outcome list result \<times> registry" where
  "exit_each product name rid (t # ts) (a # as) reg =
     (case exit_one product name rid t a reg of
        (Inl e, reg1) \<Rightarrow> (Raise e, reg1)
      | (Inr oc, reg1) \<Rightarrow>
          (let (ocs, reg2) = exit_each product name rid ts as reg1 in
           (rbind ocs (\<lambda>os. Ret (oc # os)), reg2)))"
| "exit_each product name rid _ _ reg = (Ret [], reg)"

fun claim_outgoing ::
  "(nat \<Rightarrow> string) \<Rightarrow> int \<Rightarrow> pyid list \<Rightarrow> registry \<Rightarrow> superseded_claim list \<times> registry" where
  "claim_outgoing uu rid [] reg = ([], reg)"
| "claim_outgoing uu rid (lid # lids) reg =
     (case find_leg reg rid lid of
        None \<Rightarrow> claim_outgoing uu rid lids reg
      | Some (r, l) \<Rightarrow>
          (case superseded l of
             None \<Rightarrow> claim_outgoing uu rid lids reg
           | Some s \<Rightarrow>
               (case claim_superseded_exit uu rid lid (Some (sp_position s)) reg of
                  (None, reg') \<Rightarrow> claim_outgoing uu rid lids reg'
                | (Some c, reg') \<Rightarrow> (let (cs, reg'') = claim_outgoing uu rid lids reg' in (c # cs, reg'')))))"

definition unfilled_outcome :: "leg \<Rightarrow> exit_outcome" where
  "unfilled_outcome l =
     \<lparr>eo_leg = leg_id l, eo_ok = False, eo_ref = position_ref l, eo_owner = OwnerLive, eo_sent = None\<rparr>"

definition exit_legs ::
  "(nat \<Rightarrow> string) \<Rightarrow> string \<Rightarrow> string \<Rightarrow> int \<Rightarrow> pyid list \<Rightarrow> string \<Rightarrow> exit_answer list \<Rightarrow> registry \<Rightarrow>
     exit_outcome list result \<times> registry" where
  "exit_legs uu product name rid lids kind as reg =
     (let ((live, unfilled), reg1) = claim_legs_for_exit uu rid lids kind reg;
          (outgoing, reg2) = claim_outgoing uu rid lids reg1;
          (ocs, reg3) = exit_each product name rid (map LiveTarget live @ map OutgoingTarget outgoing) as reg2 in
      (rbind ocs (\<lambda>os. Ret (os @ map unfilled_outcome unfilled)), reg3))"

section \<open>Ending a run\<close>

record final_figures =
  ff_realized :: pyfloat
  ff_peak :: pyfloat
  ff_trough :: pyfloat

text \<open>
  The two durable updates a finalisation tries are \<open>released\<close> (the run and its strategy) and
  \<open>detached\<close> (the run alone); the answer is what they return for the figures captured under the lock.
\<close>

definition final_snapshot :: "run option \<Rightarrow> final_figures" where
  "final_snapshot r =
     (case r of
        None \<Rightarrow> \<lparr>ff_realized = 0, ff_peak = 0, ff_trough = 0\<rparr>
      | Some r \<Rightarrow> \<lparr>ff_realized = pnl_realized r, ff_peak = pnl_peak r, ff_trough = pnl_trough r\<rparr>)"

definition finalise ::
  "(final_figures \<Rightarrow> bool) \<Rightarrow> (final_figures \<Rightarrow> bool) \<Rightarrow> int \<Rightarrow> registry \<Rightarrow> bool \<times> registry" where
  "finalise released detached rid reg =
     (let live = run_state reg rid; snap = final_snapshot live in
      if (case live of None \<Rightarrow> False | Some r \<Rightarrow> run_requires_management r) then (False, reg)
      else if released snap \<or> detached snap then (True, clear_run_state rid reg)
      else (False, reg))"

section \<open>Stopping a run\<close>

datatype stop_error =
    NotActive | NoStrategy | StopNotPersisted | UnresolvedAck | StateUnavailable | NoApiKey
  | FinalNotPersisted | ExitsRefused nat nat

record stop_result =
  sr_ok :: bool
  sr_pending :: bool
  sr_error :: "stop_error option"
  sr_exits :: "exit_outcome list"

definition stop_failed :: "bool \<Rightarrow> stop_error \<Rightarrow> exit_outcome list \<Rightarrow> stop_result" where
  "stop_failed pending e exits = \<lparr>sr_ok = False, sr_pending = pending, sr_error = Some e, sr_exits = exits\<rparr>"

definition stop_done :: "bool \<Rightarrow> exit_outcome list \<Rightarrow> stop_result" where
  "stop_done pending exits = \<lparr>sr_ok = True, sr_pending = pending, sr_error = None, sr_exits = exits\<rparr>"

text \<open>
  What the durable store, the credential store and the broker answer during one stop. The four
  registry functions are the code that runs outside the lock between the steps (acknowledgement
  repair, polling of working orders, and whatever other threads do before the last check);
  \<open>se_stopped\<close> and \<open>se_stopped_after\<close> say whether the run row was found stopped before and after the exits.
\<close>

record stop_env =
  se_active :: bool
  se_strategy :: bool
  se_requested :: bool
  se_reason :: string
  se_unresolved :: bool
  se_ack :: "registry \<Rightarrow> registry"
  se_api_key :: bool
  se_poll :: "registry \<Rightarrow> registry"
  se_stopped :: bool
  se_answers :: "exit_answer list"
  se_between :: "registry \<Rightarrow> registry"
  se_stopped_after :: bool
  se_last :: "registry \<Rightarrow> registry"
  se_released :: "final_figures \<Rightarrow> bool"
  se_detached :: "final_figures \<Rightarrow> bool"
  se_product :: string
  se_name :: string

definition order_kinds :: "string set" where
  "order_kinds =
     {''entry'', ''exit_sl'', ''exit_target'', ''exit_trail'', ''exit_overall_sl'', ''exit_overall_target'',
      ''exit_lock_profit'', ''exit_eod'', ''exit_expiry'', ''exit_daily_loss_limit'', ''exit_close_all'',
      ''exit_leg_manual'', ''exit_recovery'', ''exit_signal''}"

definition exit_kind_of_reason :: "string \<Rightarrow> string" where
  "exit_kind_of_reason why =
     (let k = (if why = ''manual'' then ''exit_close_all'' else ''exit_'' @ why) in
      if k \<in> order_kinds then k else ''exit_close_all'')"

definition stop_tail ::
  "stop_env \<Rightarrow> int \<Rightarrow> exit_outcome list \<Rightarrow> registry \<Rightarrow> stop_result \<times> registry" where
  "stop_tail env rid exits reg =
     (if se_stopped_after env then (stop_done False exits, reg)
      else
        case get_run_state reg rid of
          None \<Rightarrow> (stop_failed True StateUnavailable exits, reg)
        | Some snapshot \<Rightarrow>
            let refused = filter (\<lambda>x. \<not> eo_ok x) exits; still_held = run_requires_management snapshot in
            if refused \<noteq> [] \<and> still_held
            then (stop_failed True (ExitsRefused (length refused) (length exits)) exits, reg)
            else if still_held then (stop_done True exits, reg)
            else
              let reg1 = se_last env reg in
              case run_state reg1 rid of
                None \<Rightarrow> (stop_failed True StateUnavailable exits, reg1)
              | Some live \<Rightarrow>
                  if run_requires_management live then (stop_done True exits, reg1)
                  else
                    let (done_ok, reg2) = finalise (se_released env) (se_detached env) rid reg1 in
                    (if done_ok then stop_done False exits else stop_failed True FinalNotPersisted exits, reg2))"

definition stop_with_key ::
  "(nat \<Rightarrow> string) \<Rightarrow> stop_env \<Rightarrow> int \<Rightarrow> registry \<Rightarrow> stop_result result \<times> registry" where
  "stop_with_key uu env rid reg =
     (let reg1 = se_poll env reg in
      if se_stopped env then (Ret (stop_done False []), reg1)
      else
        case get_run_state reg1 rid of
          None \<Rightarrow> (Ret (stop_failed True StateUnavailable []), reg1)
        | Some snapshot \<Rightarrow>
            (case exit_legs uu (se_product env) (se_name env) rid (managed_leg_ids snapshot)
                    (exit_kind_of_reason (se_reason env)) (se_answers env) reg1 of
               (Inl e, reg2) \<Rightarrow> (Raise e, reg2)
             | (Inr exits, reg2) \<Rightarrow>
                 (let (sr, reg3) = stop_tail env rid exits (se_between env reg2) in (Ret sr, reg3))))"

definition stop_run ::
  "(nat \<Rightarrow> string) \<Rightarrow> stop_env \<Rightarrow> int \<Rightarrow> registry \<Rightarrow> stop_result result \<times> registry" where
  "stop_run uu env rid reg =
     (if \<not> se_active env then (Ret (stop_failed False NotActive []), reg)
      else if \<not> se_strategy env then (Ret (stop_failed False NoStrategy []), reg)
      else if \<not> se_requested env then (Ret (stop_failed False StopNotPersisted []), reg)
      else
        let reg1 = se_ack env (snd (mark_stopping rid reg)) in
        if se_unresolved env then (Ret (stop_failed True UnresolvedAck []), reg1)
        else
          case get_run_state reg1 rid of
            None \<Rightarrow> (Ret (stop_failed True StateUnavailable []), reg1)
          | Some snapshot \<Rightarrow>
              if \<not> se_api_key env then
                (if \<not> run_requires_management snapshot then
                   let (done_ok, reg2) = finalise (se_released env) (se_detached env) rid reg1 in
                   (Ret (if done_ok then stop_done False [] else stop_failed True FinalNotPersisted []), reg2)
                 else (Ret (stop_failed True NoApiKey []), reg1))
              else stop_with_key uu env rid reg1)"

datatype close_error = CloseNotActive | CloseNoStrategy | CloseNoKey | LegNotOpen | CloseRefused

text \<open>\<open>close_leg\<close>: whether the run stopped, or why the leg was not closed.\<close>

definition close_leg ::
  "(nat \<Rightarrow> string) \<Rightarrow> stop_env \<Rightarrow> int \<Rightarrow> pyid \<Rightarrow> registry \<Rightarrow> (close_error + bool) result \<times> registry" where
  "close_leg uu env rid lid reg =
     (if \<not> se_active env then (Ret (Inl CloseNotActive), reg)
      else if \<not> se_strategy env then (Ret (Inl CloseNoStrategy), reg)
      else if \<not> se_api_key env then (Ret (Inl CloseNoKey), reg)
      else
        case exit_legs uu (se_product env) (se_name env) rid [lid] ''exit_leg_manual'' (se_answers env) reg of
          (Inl e, reg1) \<Rightarrow> (Raise e, reg1)
        | (Inr exits, reg1) \<Rightarrow>
            if exits = [] then (Ret (Inl LegNotOpen), reg1)
            else if \<not> list_all eo_ok exits then (Ret (Inl CloseRefused), reg1)
            else
              let reg2 = se_between env reg1;
                  still_open = (case run_state reg2 rid of None \<Rightarrow> False | Some r \<Rightarrow> open_legs r \<noteq> []) in
              if still_open then (Ret (Inr False), reg2)
              else (Ret (Inr True), snd (finalise (se_released env) (se_detached env) rid reg2)))"

section \<open>A tick\<close>

datatype tick_event =
    TrailArmed pyid "pyfloat option"
  | StopHit pyid string
  | TargetHit pyid string
  | TrailToEntry pyid nat
  | LockArmed "pyfloat option"
  | LockFloorAdvanced "pyfloat option"
  | DailyLossHit pyfloat pyfloat
  | OverallHit string string

fun exit_kind_for_reason :: "breach_reason \<Rightarrow> string" where
  "exit_kind_for_reason STOP = ''exit_sl''"
| "exit_kind_for_reason TARGET = ''exit_target''"
| "exit_kind_for_reason COMBINED_STOP = ''exit_overall_sl''"
| "exit_kind_for_reason COMBINED_TARGET = ''exit_overall_target''"
| "exit_kind_for_reason LOCK_PROFIT = ''exit_lock_profit''"

fun stop_reason_for_reason :: "breach_reason \<Rightarrow> string option" where
  "stop_reason_for_reason COMBINED_STOP = Some ''overall_sl''"
| "stop_reason_for_reason COMBINED_TARGET = Some ''overall_target''"
| "stop_reason_for_reason LOCK_PROFIT = Some ''lock_profit''"
| "stop_reason_for_reason _ = None"

definition leg_matches :: "string \<Rightarrow> string \<Rightarrow> leg \<Rightarrow> bool" where
  "leg_matches tick_symbol exch l = (status l = Open \<and> symbol l = tick_symbol \<and> exchange l = exch)"

definition leg_tick_exits :: "leg \<Rightarrow> position_decision \<Rightarrow> (pyid \<times> string) list" where
  "leg_tick_exits l d =
     (if breached d then (case reason d of None \<Rightarrow> [] | Some r \<Rightarrow> [(leg_id l, exit_kind_for_reason r)]) else [])"

definition leg_tick_events :: "leg \<Rightarrow> position_decision \<Rightarrow> tick_event list" where
  "leg_tick_events l d =
     (if trail_armed d then [TrailArmed (leg_id l) (d_stop d)] else []) @
     (if breached d then
        (case reason d of None \<Rightarrow> []
         | Some STOP \<Rightarrow> [StopHit (leg_id l) (detail d)]
         | Some _ \<Rightarrow> [TargetHit (leg_id l) (detail d)])
      else [])"

fun tick_legs ::
  "string \<Rightarrow> string \<Rightarrow> pyval \<Rightarrow> (string, leg) dict \<Rightarrow>
     (string, leg) dict \<times> (pyid \<times> string) list \<times> tick_event list \<times> pyexc option" where
  "tick_legs tick_symbol exch v [] = ([], [], [], None)"
| "tick_legs tick_symbol exch v ((k, l) # rest) =
     (if \<not> leg_matches tick_symbol exch l then
        (let (ls, xs, evs, ex) = tick_legs tick_symbol exch v rest in ((k, l) # ls, xs, evs, ex))
      else
        case evaluate_leg l v of
          Inl e \<Rightarrow> ((k, l) # rest, [], [], Some e)
        | Inr (d, l') \<Rightarrow>
            (let (ls, xs, evs, ex) = tick_legs tick_symbol exch v rest in
             ((k, l') # ls, leg_tick_exits l d @ xs, leg_tick_events l d @ evs, ex)))"

definition daily_loss_limit :: "pyval \<Rightarrow> pyfloat option result" where
  "daily_loss_limit limit =
     (if \<not> py_truthy limit then Ret None
      else
        case py_float limit of
          Inl TypeError \<Rightarrow> Ret None
        | Inl ValueError \<Rightarrow> Ret None
        | Inl e \<Rightarrow> Raise e
        | Inr x \<Rightarrow> Ret (if \<bar>x\<bar> > 0 then Some \<bar>x\<bar> else None))"

definition daily_loss_breached :: "pyfloat option \<Rightarrow> pyfloat option \<Rightarrow> run \<Rightarrow> tick_event option" where
  "daily_loss_breached limit banked r =
     (case (limit, banked) of
        (Some cap, Some b) \<Rightarrow>
          (let day_total = b + pnl_total r in
           if day_total > - cap then None else Some (DailyLossHit \<bar>day_total\<bar> cap))
      | _ \<Rightarrow> None)"

record tick_result =
  tk_exits :: "(pyid \<times> string) list"
  tk_stop :: "string option"
  tk_events :: "tick_event list"

definition lock_events :: "aggregate_decision \<Rightarrow> tick_event list" where
  "lock_events d =
     (if a_armed_now d then [LockArmed (a_lock_floor d)]
      else if a_floor_raised d then [LockFloorAdvanced (a_lock_floor d)] else [])"

definition stop_decision :: "pyfloat option \<Rightarrow> pyfloat option \<Rightarrow> run \<Rightarrow> aggregate_decision \<Rightarrow> string option \<times> tick_event list" where
  "stop_decision limit banked r d =
     (case daily_loss_breached limit banked r of
        Some ev \<Rightarrow> (Some ''daily_loss_limit'', [ev])
      | None \<Rightarrow>
          (case (if a_breached d then Option.bind (a_reason d) stop_reason_for_reason else None) of
             None \<Rightarrow> (None, [])
           | Some why \<Rightarrow> (Some why, [OverallHit why (a_detail d)])))"

definition tick_trail :: "strategy \<Rightarrow> (pyid \<times> string) list \<Rightarrow> run \<Rightarrow> (tick_event list \<times> run) result" where
  "tick_trail s exits r =
     (if \<not> trail_sl_to_entry s then Ret ([], r)
      else
        case List.find (\<lambda>x. snd x = ''exit_sl'') exits of
          None \<Rightarrow> Ret ([], r)
        | Some (lid, _) \<Rightarrow>
            rbind (trail_open_legs_to_entry r lid) (\<lambda>(ids, r').
              Ret (if ids \<noteq> [] then [TrailToEntry lid (length ids)] else [], r')))"

text \<open>The critical section of one tick: what it decides and the run it leaves, also when it raises.\<close>

definition tick_run ::
  "string \<Rightarrow> string \<Rightarrow> pyval \<Rightarrow> strategy \<Rightarrow> pyfloat option \<Rightarrow> pyfloat option \<Rightarrow> run \<Rightarrow> tick_result result \<times> run" where
  "tick_run tick_symbol exch v s limit banked r =
     (case tick_legs tick_symbol exch v (legs r) of
        (ls, exits, evs, Some e) \<Rightarrow> (Raise e, r\<lparr>legs := ls\<rparr>)
      | (ls, exits, evs, None) \<Rightarrow>
          (case tick_trail s exits (r\<lparr>legs := ls\<rparr>) of
             Inl e \<Rightarrow> (Raise e, r\<lparr>legs := ls\<rparr>)
           | Inr (evs2, r1) \<Rightarrow>
               (case evaluate_run r1 s of
                  Inl e \<Rightarrow> (Raise e, r1)
                | Inr (d, r2) \<Rightarrow>
                    (let (why, evs3) = stop_decision limit banked r2 d in
                     (Ret \<lparr>tk_exits = exits, tk_stop = why, tk_events = evs @ evs2 @ lock_events d @ evs3\<rparr>, r2)))))"

definition tick_one ::
  "string \<Rightarrow> string \<Rightarrow> pyval \<Rightarrow> strategy \<Rightarrow> pyfloat option \<Rightarrow> pyfloat option \<Rightarrow> int \<Rightarrow> registry \<Rightarrow>
     tick_result option result \<times> registry" where
  "tick_one tick_symbol exch v s limit banked rid reg =
     (case run_state reg rid of
        None \<Rightarrow> (Ret None, reg)
      | Some r \<Rightarrow>
          (let (res, r') = tick_run tick_symbol exch v s limit banked r in
           (rbind res (\<lambda>t. Ret (Some t)), put_run rid r' reg)))"

datatype tick_action = StopRun string | ExitLeg pyid string | Unactionable

definition tick_actions :: "bool \<Rightarrow> tick_result \<Rightarrow> tick_action list" where
  "tick_actions api_key t =
     (case tk_stop t of
        Some why \<Rightarrow> [StopRun why]
      | None \<Rightarrow> if \<not> api_key then [Unactionable] else map (\<lambda>(lid, k). ExitLeg lid k) (tk_exits t))"

text \<open>
  One price against every live run: what a run's row, strategy and banked figure are (\<open>ctx\<close>, \<open>None\<close>
  when the run is not active or its strategy is gone) comes from the store; a run that raises is
  logged and skipped; \<open>act\<close> is what the actions after the lock do.
\<close>

fun process_tick ::
  "(int \<Rightarrow> (strategy \<times> pyfloat option \<times> pyfloat option) option) \<Rightarrow> (int \<Rightarrow> tick_result \<Rightarrow> registry \<Rightarrow> registry) \<Rightarrow>
     string \<Rightarrow> string \<Rightarrow> pyval \<Rightarrow> int list \<Rightarrow> registry \<Rightarrow> registry" where
  "process_tick ctx act tick_symbol exch v [] reg = reg"
| "process_tick ctx act tick_symbol exch v (rid # rids) reg =
     process_tick ctx act tick_symbol exch v rids
       (case ctx rid of
          None \<Rightarrow> reg
        | Some (s, limit, banked) \<Rightarrow>
            (case tick_one tick_symbol exch v s limit banked rid reg of
               (Inr (Some t), reg') \<Rightarrow> act rid t reg'
             | (_, reg') \<Rightarrow> reg'))"

end
