(* ===== verification/Run_Lifecycle.thy ===== *)
theory Run_Lifecycle
  imports Run_Exits
begin

text \<open>
  The life of the run registry as a state machine. Every operation of \<open>state.py\<close> and every
  critical section of the engine is an \<open>action\<close>, executed atomically on one run; \<open>reachable\<close>
  is the set of registries some interleaving of them produces from the empty one. The type
  invariant \<open>reg_wf\<close> is proved for each action and lifted by rule induction.
\<close>

section \<open>Actions\<close>

datatype action =
    InitRun int "leg_cfg list"
  | ClaimExit pyid string
  | ClaimLegs "pyid list" string
  | ReleaseExit pyid "pyid option"
  | BindLive pyid "string option" int "string option"
  | ClaimOutgoing pyid "string option"
  | BindOutgoing pyid "string option" int
  | ReleaseOutgoing pyid "pyid option"
  | ReleaseOrder pyid int "string option"
  | ClaimEntry pyid "string option"
  | ReleaseEntry pyid "string option"
  | AddLeg leg_cfg "string option" "string option" int
  | FinishEntry pyid string "string option" bool
  | RejectIntent pyid "string option"
  | MarkStopping
  | AckEntry pyid "string option" int bool
  | DeadEntry pyid "string option" bool
  | Fill pyid fill
  | Tick string string pyval strategy "pyfloat option" "pyfloat option"
  | Hydrate run
  | ClearRun

fun exec :: "(nat \<Rightarrow> string) \<Rightarrow> int \<Rightarrow> action \<Rightarrow> registry \<Rightarrow> registry" where
  "exec uu rid (InitRun sid cfgs) reg = snd (init_run_state rid sid cfgs reg)"
| "exec uu rid (ClaimExit lid kind) reg = snd (claim_leg_exit uu rid lid kind reg)"
| "exec uu rid (ClaimLegs lids kind) reg = snd (claim_legs_for_exit uu rid lids kind reg)"
| "exec uu rid (ReleaseExit lid c) reg = snd (release_leg_exit rid lid c reg)"
| "exec uu rid (BindLive lid tok row pref) reg = snd (bind_live_exit rid lid tok row pref reg)"
| "exec uu rid (ClaimOutgoing lid pos) reg = snd (claim_superseded_exit uu rid lid pos reg)"
| "exec uu rid (BindOutgoing lid tok row) reg = snd (bind_superseded_exit rid lid tok row reg)"
| "exec uu rid (ReleaseOutgoing lid c) reg = snd (release_superseded_exit rid lid c reg)"
| "exec uu rid (ReleaseOrder lid row pref) reg = snd (release_order_exit rid lid row pref reg)"
| "exec uu rid (ClaimEntry lid pos) reg = snd (claim_signal_entry uu rid lid pos reg)"
| "exec uu rid (ReleaseEntry lid tok) reg = snd (release_signal_entry_claim rid lid tok reg)"
| "exec uu rid (AddLeg cfg tok expected oid) reg = snd (add_leg rid cfg tok expected oid reg)"
| "exec uu rid (FinishEntry lid pref tok ok) reg = snd (finish_signal_entry rid lid pref tok ok reg)"
| "exec uu rid (RejectIntent lid pref) reg = snd (reject_entry_intent rid lid pref reg)"
| "exec uu rid MarkStopping reg = snd (mark_stopping rid reg)"
| "exec uu rid (AckEntry lid pref row ok) reg = ack_entry rid lid pref row ok reg"
| "exec uu rid (DeadEntry lid pref c) reg = dead_entry rid lid pref c reg"
| "exec uu rid (Fill lid f) reg = snd (apply_fill rid lid f reg)"
| "exec uu rid (Tick tick_symbol exch v s limit banked) reg = snd (tick_one tick_symbol exch v s limit banked rid reg)"
| "exec uu rid (Hydrate r) reg = hydrate_run_state rid r reg"
| "exec uu rid ClearRun reg = clear_run_state rid reg"

section \<open>The type invariant\<close>

definition token_ok :: "(nat \<Rightarrow> string) \<Rightarrow> nat \<Rightarrow> string option \<Rightarrow> bool" where
  "token_ok uu n t = (case t of None \<Rightarrow> True | Some s \<Rightarrow> s \<in> uu ` {..<n})"

definition leg_wf :: "(nat \<Rightarrow> string) \<Rightarrow> nat \<Rightarrow> leg \<Rightarrow> bool" where
  "leg_wf uu n l =
     (position l \<in> {''B'', ''S''} \<and> token_ok uu n (exit_claim_token l) \<and>
      (case superseded l of None \<Rightarrow> True
       | Some s \<Rightarrow> sp_position s \<in> {''B'', ''S''} \<and> token_ok uu n (sp_exit_claim_token s)))"

definition run_wf :: "(nat \<Rightarrow> string) \<Rightarrow> nat \<Rightarrow> run \<Rightarrow> bool" where
  "run_wf uu n r = (keyed_legs (legs r) \<and> (\<forall>l \<in> snd ` set (legs r). leg_wf uu n l))"

definition reg_wf :: "(nat \<Rightarrow> string) \<Rightarrow> registry \<Rightarrow> bool" where
  "reg_wf uu reg =
     (dict_ok (runs reg) \<and> locks reg = set (dkeys (runs reg)) \<and>
      (\<forall>r \<in> snd ` set (runs reg). run_wf uu (next_uuid reg) r))"

lemma token_ok_mono: "token_ok uu m t \<Longrightarrow> m \<le> n \<Longrightarrow> token_ok uu n t"
  by (auto simp: token_ok_def split: option.splits)

lemma leg_wf_mono: "leg_wf uu m l \<Longrightarrow> m \<le> n \<Longrightarrow> leg_wf uu n l"
  by (auto simp: leg_wf_def split: option.splits intro: token_ok_mono)

lemma run_wf_mono: "run_wf uu m r \<Longrightarrow> m \<le> n \<Longrightarrow> run_wf uu n r"
  by (auto simp: run_wf_def intro: leg_wf_mono)

lemma token_ok_simps [simp]: "token_ok uu n None" "token_ok uu (Suc n) (Some (uu n))"
  by (auto simp: token_ok_def)

lemma set_update: "(k', v') \<in> set (AList.update k v d) \<Longrightarrow> (k', v') = (k, v) \<or> (k', v') \<in> set d"
  by (induction d) (auto split: if_splits)

lemma keyed_dset: "keyed_legs d \<Longrightarrow> k = id_str (leg_id l) \<Longrightarrow> keyed_legs (dset k l d)"
  by (auto simp: keyed_legs_def distinct_update dest!: set_update)

lemma run_wf_dset:
  "run_wf uu n r \<Longrightarrow> leg_wf uu n l \<Longrightarrow> k = id_str (leg_id l) \<Longrightarrow> run_wf uu n (r\<lparr>legs := dset k l (legs r)\<rparr>)"
  by (auto simp: run_wf_def keyed_dset dest!: set_update)

lemma run_state_iff: "reg_wf uu reg \<Longrightarrow> run_state reg rid = dget (runs reg) rid"
  by (auto simp: run_state_def lock_for_def reg_wf_def map_of_eq_None_iff [symmetric] eq_commute)

lemma run_state_wf: "reg_wf uu reg \<Longrightarrow> run_state reg rid = Some r \<Longrightarrow> run_wf uu (next_uuid reg) r"
  by (auto simp: run_state_iff reg_wf_def dest!: map_of_SomeD) force

lemma find_leg_wf:
  assumes "reg_wf uu reg" and "find_leg reg rid lid = Some (r, l)"
  shows "run_state reg rid = Some r" "run_wf uu (next_uuid reg) r" "leg_wf uu (next_uuid reg) l"
    "id_str (leg_id l) = id_str lid" "dget (legs r) (id_str lid) = Some l"
proof -
  show r: "run_state reg rid = Some r" and l: "dget (legs r) (id_str lid) = Some l"
    using assms(2) by (auto simp: find_leg_def split: option.splits)
  show wf: "run_wf uu (next_uuid reg) r" using assms(1) r by (rule run_state_wf)
  from l have "(id_str lid, l) \<in> set (legs r)" by (rule map_of_SomeD)
  with wf show "leg_wf uu (next_uuid reg) l" "id_str (leg_id l) = id_str lid"
    by (auto simp: run_wf_def keyed_legs_def)
qed

lemma reg_wf_put_run:
  assumes "reg_wf uu reg" and "run_state reg rid = Some r0" and "run_wf uu (next_uuid reg) r"
  shows "reg_wf uu (put_run rid r reg)"
proof -
  have "rid \<in> set (dkeys (runs reg))"
    using assms(1,2) by (force simp: run_state_iff dest: map_of_SomeD)
  then show ?thesis
    using assms(1,3)
    by (auto simp: reg_wf_def put_run_def dict_ok_dset update_keys dest!: set_update)
qed

lemma reg_wf_put_leg:
  assumes "reg_wf uu reg" and "run_state reg rid = Some r0" and "run_wf uu (next_uuid reg) r"
    and "leg_wf uu (next_uuid reg) l" and "k = id_str (leg_id l)"
  shows "reg_wf uu (put_leg rid r k l reg)"
  unfolding put_leg_def using assms by (intro reg_wf_put_run run_wf_dset) auto

lemma reg_wf_uuid: "reg_wf uu reg \<Longrightarrow> reg_wf uu (reg\<lparr>next_uuid := Suc (next_uuid reg)\<rparr>)"
  by (auto simp: reg_wf_def intro: run_wf_mono)

lemma run_state_uuid [simp]: "run_state (reg\<lparr>next_uuid := n\<rparr>) rid = run_state reg rid"
  by (simp add: run_state_def lock_for_def)

text \<open>One operation on one leg: the shape almost every operation of the module has.\<close>

lemma reg_wf_leg:
  assumes "reg_wf uu reg" and "find_leg reg rid lid = Some (r, l)"
    and "leg_wf uu (next_uuid reg) l \<Longrightarrow> leg_wf uu (next_uuid reg) l'" and "leg_id l' = leg_id l"
  shows "reg_wf uu (put_leg rid r (id_str lid) l' reg)"
proof -
  note w = find_leg_wf [OF assms(1,2)]
  show ?thesis using w(4) assms(4) by (intro reg_wf_put_leg [OF assms(1) w(1) w(2)] assms(3) w(3)) simp
qed

lemma reg_wf_leg_fresh:
  assumes "reg_wf uu reg" and "find_leg reg rid lid = Some (r, l)"
    and "leg_wf uu (Suc (next_uuid reg)) l \<Longrightarrow> leg_wf uu (Suc (next_uuid reg)) l'" and "leg_id l' = leg_id l"
  shows "reg_wf uu (put_leg rid r (id_str lid) l' (reg\<lparr>next_uuid := Suc (next_uuid reg)\<rparr>))"
proof -
  have "find_leg (reg\<lparr>next_uuid := Suc (next_uuid reg)\<rparr>) rid lid = Some (r, l)"
    using assms(2) by (simp add: find_leg_def)
  from reg_wf_leg [OF reg_wf_uuid [OF assms(1)] this, of l'] assms(3,4) show ?thesis by simp
qed

lemma leg_wf_clear_exit: "leg_wf uu n l \<Longrightarrow> leg_wf uu n (clear_exit l)"
  by (simp add: leg_wf_def clear_exit_def)

lemma leg_wf_superseded:
  "leg_wf uu n l \<Longrightarrow> superseded l = Some s \<Longrightarrow> sp_position s' = sp_position s \<Longrightarrow>
   token_ok uu n (sp_exit_claim_token s') \<Longrightarrow> leg_wf uu n (l\<lparr>superseded := Some s'\<rparr>)"
  by (simp add: leg_wf_def)

lemma leg_id_clear_exit [simp]: "leg_id (clear_exit l) = leg_id l"
  by (simp add: clear_exit_def)

lemma clear_sp_exit_simps [simp]:
  "sp_position (clear_sp_exit s) = sp_position s" "sp_exit_claim_token (clear_sp_exit s) = None"
  "sp_exit_order_id (clear_sp_exit s) = None" "sp_qty (clear_sp_exit s) = sp_qty s"
  "sp_entry_avg (clear_sp_exit s) = sp_entry_avg s" "sp_position_ref (clear_sp_exit s) = sp_position_ref s"
  by (simp_all add: clear_sp_exit_def)

lemma leg_wf_sp_token: "leg_wf uu n l \<Longrightarrow> superseded l = Some s \<Longrightarrow> token_ok uu n (sp_exit_claim_token s)"
  by (simp add: leg_wf_def)

named_theorems wf_ops "preservation of the type invariant by the operations"

lemma wf_claim_leg_exit [wf_ops]: "reg_wf uu reg \<Longrightarrow> reg_wf uu (snd (claim_leg_exit uu rid lid kind reg))"
  by (auto simp: claim_leg_exit_def new_position_ref_def Let_def leg_wf_def split: option.split
      intro!: reg_wf_leg_fresh)

lemma wf_claim_pass: "reg_wf uu reg \<Longrightarrow> reg_wf uu (snd (claim_pass uu rid lids kind cl un reg))"
proof (induction uu rid lids kind cl un reg rule: claim_pass.induct)
  case (1 uu rid kind claimed unfilled reg)
  then show ?case by simp
next
  case (2 uu rid lid lids kind cl un reg)
  show ?case
  proof (cases "find_leg reg rid lid")
    case None
    with 2 show ?thesis by simp
  next
    case (Some rl)
    obtain r l where rl: "rl = (r, l)" by fastforce
    let ?l = "l\<lparr>exit_kind := Some kind, exit_claim_token := Some (uu (next_uuid reg))\<rparr>"
    have "reg_wf uu (put_leg rid r (id_str lid) ?l (reg\<lparr>next_uuid := Suc (next_uuid reg)\<rparr>))"
      using Some rl by (intro reg_wf_leg_fresh [OF 2(5)]) (auto simp: leg_wf_def)
    with 2 Some rl show ?thesis by (simp add: new_position_ref_def Let_def)
  qed
qed

lemma wf_claim_legs [wf_ops]: "reg_wf uu reg \<Longrightarrow> reg_wf uu (snd (claim_legs_for_exit uu rid lids kind reg))"
  by (simp add: claim_legs_for_exit_def wf_claim_pass)

lemma wf_release_leg_exit [wf_ops]: "reg_wf uu reg \<Longrightarrow> reg_wf uu (snd (release_leg_exit rid lid c reg))"
  by (auto simp: release_leg_exit_def split: option.split intro!: reg_wf_leg leg_wf_clear_exit)

lemma wf_bind_live [wf_ops]: "reg_wf uu reg \<Longrightarrow> reg_wf uu (snd (bind_live_exit rid lid tok row pref reg))"
  by (auto simp: bind_live_exit_def leg_wf_def split: option.split intro!: reg_wf_leg)

lemma wf_claim_outgoing [wf_ops]: "reg_wf uu reg \<Longrightarrow> reg_wf uu (snd (claim_superseded_exit uu rid lid pos reg))"
  by (auto simp: claim_superseded_exit_def new_position_ref_def Let_def leg_wf_def split: option.split
      intro!: reg_wf_leg_fresh)

lemma wf_bind_outgoing [wf_ops]: "reg_wf uu reg \<Longrightarrow> reg_wf uu (snd (bind_superseded_exit rid lid tok row reg))"
  by (auto simp: bind_superseded_exit_def leg_wf_def split: option.split intro!: reg_wf_leg)

lemma wf_release_outgoing [wf_ops]: "reg_wf uu reg \<Longrightarrow> reg_wf uu (snd (release_superseded_exit rid lid c reg))"
  by (auto simp: release_superseded_exit_def leg_wf_def split: option.split intro!: reg_wf_leg)

lemma wf_release_order [wf_ops]: "reg_wf uu reg \<Longrightarrow> reg_wf uu (snd (release_order_exit rid lid row pref reg))"
  by (auto simp: release_order_exit_def leg_wf_def clear_exit_def split: option.split intro!: reg_wf_leg)

lemma reg_wf_same_legs:
  assumes "reg_wf uu reg" and "run_state reg rid = Some r" and "legs r' = legs r"
  shows "reg_wf uu (put_run rid r' reg)"
proof -
  from assms(1,2) have "run_wf uu (next_uuid reg) r" by (rule run_state_wf)
  with assms show ?thesis by (intro reg_wf_put_run [OF assms(1,2)]) (simp add: run_wf_def)
qed

lemma wf_mark_stopping [wf_ops]: "reg_wf uu reg \<Longrightarrow> reg_wf uu (snd (mark_stopping rid reg))"
  by (auto simp: mark_stopping_def split: option.split intro: reg_wf_same_legs)

lemma wf_release_entry [wf_ops]: "reg_wf uu reg \<Longrightarrow> reg_wf uu (snd (release_signal_entry_claim rid lid tok reg))"
  by (auto simp: release_signal_entry_claim_def split: option.split intro: reg_wf_same_legs)

lemma wf_claim_entry [wf_ops]: "reg_wf uu reg \<Longrightarrow> reg_wf uu (snd (claim_signal_entry uu rid lid pos reg))"
proof -
  assume wf: "reg_wf uu reg"
  let ?n = "Suc (Suc (next_uuid reg))"
  have wf2: "reg_wf uu (reg\<lparr>next_uuid := ?n\<rparr>)"
    using reg_wf_uuid [OF reg_wf_uuid [OF wf]] by simp
  have "reg_wf uu (put_run rid (r\<lparr>signal_entry_claims := c\<rparr>) (reg\<lparr>next_uuid := ?n\<rparr>))"
    if "run_state reg rid = Some r" for r c
    using that by (intro reg_wf_same_legs [OF wf2]) auto
  with wf show ?thesis
    by (simp add: claim_signal_entry_def new_position_ref_def Let_def split: option.split)
qed

lemma wf_finish_entry [wf_ops]: "reg_wf uu reg \<Longrightarrow> reg_wf uu (snd (finish_signal_entry rid lid pref tok ok reg))"
proof -
  assume wf: "reg_wf uu reg"
  have "reg_wf uu (put_leg rid (r\<lparr>signal_entry_claims := c\<rparr>) (id_str lid) l' reg)"
    if f: "find_leg reg rid lid = Some (r, l)" and l': "leg_wf uu (next_uuid reg) l \<Longrightarrow> leg_wf uu (next_uuid reg) l'"
      "leg_id l' = leg_id l" for r l c l'
  proof -
    note w = find_leg_wf [OF wf f]
    have "run_wf uu (next_uuid reg) (r\<lparr>signal_entry_claims := c\<rparr>)" using w(2) by (simp add: run_wf_def)
    with w(4) l' show ?thesis by (intro reg_wf_put_leg [OF wf w(1)] l'(1) w(3)) auto
  qed
  with wf show ?thesis
    by (auto simp: finish_signal_entry_def Let_def leg_wf_def split: option.split)
qed

lemma wf_reject_intent [wf_ops]: "reg_wf uu reg \<Longrightarrow> reg_wf uu (snd (reject_entry_intent rid lid pref reg))"
  by (auto simp: reject_entry_intent_def leg_wf_def split: option.split intro!: reg_wf_leg)

lemma wf_ack [wf_ops]: "reg_wf uu reg \<Longrightarrow> reg_wf uu (ack_entry rid lid pref row ok reg)"
  by (auto simp: ack_entry_def leg_wf_def split: option.split intro!: reg_wf_leg)

lemma wf_dead [wf_ops]: "reg_wf uu reg \<Longrightarrow> reg_wf uu (dead_entry rid lid pref c reg)"
  by (auto simp: dead_entry_def leg_wf_def split: option.split intro!: reg_wf_leg)

lemma wf_clear [wf_ops]: "reg_wf uu reg \<Longrightarrow> reg_wf uu (clear_run_state rid reg)"
proof -
  assume wf: "reg_wf uu reg"
  have sub: "set (dpop rid (runs reg)) \<subseteq> set (runs reg)" by (auto simp: AList.delete_eq)
  then have "\<forall>r \<in> snd ` set (dpop rid (runs reg)). run_wf uu (next_uuid reg) r"
    using wf unfolding reg_wf_def by blast
  moreover have "locks reg - {rid} = set (dkeys (dpop rid (runs reg)))"
    using wf by (simp only: delete_keys set_removeAll reg_wf_def)
  ultimately show ?thesis using wf unfolding reg_wf_def clear_run_state_def by (simp add: dict_ok_dpop)
qed

lemma reg_wf_install:
  assumes "reg_wf uu reg" and "run_wf uu (next_uuid reg) r"
  shows "reg_wf uu (put_run rid r (get_state_lock rid reg))"
  using assms
  by (auto simp: reg_wf_def put_run_def get_state_lock_def lock_for_def dict_ok_dset update_keys dest!: set_update)

lemma new_leg_fields:
  assumes "new_leg_state c = Ret l"
  shows "position l \<in> {''B'', ''S''}" "exit_claim_token l = None" "superseded l = None" "leg_id l = c_leg_id c"
    "exit_order_id l = None" "exit_kind l = None" "entry_status l = EPending" "position_ref l = c_position_ref c"
  using assms by (auto simp: new_leg_state_def Let_def split: if_splits)

lemma init_legs_wf:
  "init_legs cs acc = Ret ls \<Longrightarrow> run_wf uu n (r\<lparr>legs := acc\<rparr>) \<Longrightarrow> run_wf uu n (r\<lparr>legs := ls\<rparr>)"
proof (induction cs acc rule: init_legs.induct)
  case (1 acc)
  then show ?case by simp
next
  case (2 c cs acc)
  then obtain l where l: "new_leg_state c = Ret l" "init_legs cs (dset (id_str (c_leg_id c)) l acc) = Ret ls"
    by (auto simp: rbind_Ret)
  have "leg_wf uu n l" using new_leg_fields [OF l(1)] by (simp add: leg_wf_def)
  with 2(3) l new_leg_fields(4) [OF l(1)] have "run_wf uu n (r\<lparr>legs := dset (id_str (c_leg_id c)) l acc\<rparr>)"
    using run_wf_dset [of uu n "r\<lparr>legs := acc\<rparr>" l] by simp
  with 2(1) l show ?case by blast
qed

lemma wf_init [wf_ops]: "reg_wf uu reg \<Longrightarrow> reg_wf uu (snd (init_run_state rid sid cfgs reg))"
proof (cases "init_legs cfgs []")
  case (Inr ls)
  assume wf: "reg_wf uu reg"
  have "run_wf uu (next_uuid reg) (r\<lparr>legs := ls\<rparr>)" for r
    by (rule init_legs_wf [OF Inr]) (simp add: run_wf_def keyed_legs_def)
  then have "run_wf uu (next_uuid reg) r" if "legs r = ls" for r
    using that by (simp add: run_wf_def)
  with wf Inr show ?thesis by (simp add: init_run_state_def Let_def reg_wf_install)
qed (simp add: init_run_state_def)

text \<open>What \<open>add_leg\<close> can do: refuse and change nothing, or install the leg its claim authorises.\<close>

lemma add_leg_cases:
  obtains (refused) "snd (add_leg rid cfg tok expected oid reg) = reg" "\<nexists>l. fst (add_leg rid cfg tok expected oid reg) = Ret (Some l)"
  | (installed) r l0 c where "run_state reg rid = Some r" "\<not> stopping r"
      "dget (signal_entry_claims r) (id_str (c_leg_id cfg)) = Some c"
      "claim_matches (Some c) tok (c_position_ref cfg) expected" "new_leg_state cfg = Ret l0"
      "\<And>p. dget (legs r) (id_str (c_leg_id cfg)) = Some p \<Longrightarrow> position_ref p = expected \<and> superseded p = None \<and>
         (held_position c \<noteq> None \<and> status p = Open \<longrightarrow> exit_kind p \<noteq> None \<and> exit_claim_token p \<noteq> None)"
      "add_leg rid cfg tok expected oid reg =
         (Ret (Some (installed_leg (l0\<lparr>entry_order_id := Some oid\<rparr>) c (dget (legs r) (id_str (c_leg_id cfg))))),
          put_leg rid r (id_str (c_leg_id cfg))
            (installed_leg (l0\<lparr>entry_order_id := Some oid\<rparr>) c (dget (legs r) (id_str (c_leg_id cfg)))) reg)"
proof (cases "\<exists>l. fst (add_leg rid cfg tok expected oid reg) = Ret (Some l)")
  case False
  then have "snd (add_leg rid cfg tok expected oid reg) = reg"
    by (auto simp: add_leg_def Let_def split: option.splits sum.splits if_splits)
  with False refused show ?thesis by blast
next
  case True
  then obtain r where r: "run_state reg rid = Some r"
    by (auto simp: add_leg_def split: option.splits)
  with True have ns: "\<not> stopping r" by (auto simp: add_leg_def)
  let ?key = "id_str (c_leg_id cfg)"
  from True r ns obtain c where c: "dget (signal_entry_claims r) ?key = Some c"
    by (cases "dget (signal_entry_claims r) ?key") (auto simp: add_leg_def claim_matches_def Let_def)
  from True r ns c have m: "claim_matches (Some c) tok (c_position_ref cfg) expected"
    by (auto simp: add_leg_def Let_def split: if_splits)
  from True r ns c m obtain l0 where l0: "new_leg_state cfg = Ret l0"
    by (cases "new_leg_state cfg") (auto simp: add_leg_def Let_def split: if_splits)
  note ev = r ns c m l0
  show ?thesis
  proof (cases "dget (legs r) ?key")
    case None
    show ?thesis
      by (rule installed [OF r ns c m l0]) (use True ev None in \<open>auto simp: add_leg_def Let_def split: if_splits\<close>)
  next
    case (Some p)
    show ?thesis
      by (rule installed [OF r ns c m l0]) (use True ev Some in \<open>auto simp: add_leg_def Let_def split: if_splits\<close>)
  qed
qed

lemma wf_add_leg [wf_ops]: "reg_wf uu reg \<Longrightarrow> reg_wf uu (snd (add_leg rid cfg tok expected oid reg))"
proof (cases rule: add_leg_cases [of rid cfg tok expected oid reg])
  case (installed r l0 c)
  assume wf: "reg_wf uu reg"
  let ?key = "id_str (c_leg_id cfg)" and ?p = "dget (legs r) (id_str (c_leg_id cfg))"
  let ?l = "installed_leg (l0\<lparr>entry_order_id := Some oid\<rparr>) c ?p"
  have p: "leg_wf uu (next_uuid reg) p" if "?p = Some p" for p
  proof -
    have "(?key, p) \<in> set (legs r)" using that by (simp add: map_of_SomeD)
    with run_state_wf [OF wf installed(1)] show ?thesis by (force simp: run_wf_def)
  qed
  have "leg_wf uu (next_uuid reg) ?l"
    using new_leg_fields [OF installed(5)] p
    by (auto simp: installed_leg_def leg_wf_def as_superseded_def Let_def split: option.splits)
  moreover have "?key = id_str (leg_id ?l)"
    using new_leg_fields(4) [OF installed(5)] by (simp add: installed_leg_def Let_def split: option.split)
  ultimately show ?thesis
    unfolding installed(7) snd_conv by (rule reg_wf_put_leg [OF wf installed(1) run_state_wf [OF wf installed(1)]])
qed simp

lemma wf_hydrate: "reg_wf uu reg \<Longrightarrow> run_wf uu (next_uuid reg) r \<Longrightarrow> reg_wf uu (hydrate_run_state rid r reg)"
  by (simp add: hydrate_run_state_def reg_wf_install)

lemma leg_wf_settle:
  assumes "settle_superseded l s f = Ret l'" and "superseded l = Some s"
  shows "leg_wf uu n l \<Longrightarrow> leg_wf uu n l'" and "leg_id l' = leg_id l"
proof -
  from assms obtain b s' where l': "l' = l\<lparr>realized_pnl := b, superseded := s'\<rparr>"
      "s' = None \<or> (\<exists>q. s' = Some (s\<lparr>sp_qty := q\<rparr>) \<or> s' = Some (clear_sp_exit (s\<lparr>sp_qty := q\<rparr>)))"
    by (auto simp: settle_superseded_def rbind_Ret Let_def split: if_splits)
  from l' assms(2) show "leg_wf uu n l \<Longrightarrow> leg_wf uu n l'" "leg_id l' = leg_id l"
    by (auto simp: leg_wf_def)
qed

lemma leg_wf_fill_entry: "leg_wf uu n (fill_entry l f) = leg_wf uu n l" "leg_id (fill_entry l f) = leg_id l"
  by (simp_all add: fill_entry_def leg_wf_def Let_def)

lemma fill_exit_keeps:
  "position (snd (fill_exit l f)) = position l" "leg_id (snd (fill_exit l f)) = leg_id l"
  "superseded (snd (fill_exit l f)) = superseded l"
  "exit_claim_token (snd (fill_exit l f)) \<in> {None, exit_claim_token l}"
  by (auto simp: fill_exit_def clear_exit_def Let_def split: sum.split)

lemma leg_wf_fill_exit: "leg_wf uu n l \<Longrightarrow> leg_wf uu n (snd (fill_exit l f))"
  using fill_exit_keeps [of l f] by (auto simp: leg_wf_def token_ok_def)

lemma fill_leg_cases:
  obtains (settled) s l' where "superseded l = Some s" "settles_superseded l s f"
      "settle_superseded l s f = Ret l'" "fill_leg l f = (None, l')"
  | (unchanged) oc where "fill_leg l f = (Some oc, l)"
  | (entry) "f_entry f" "live_guard l f = None" "fill_leg l f = (None, fill_entry l f)"
  | (exit) "\<not> f_entry f" "live_guard l f = None" "\<And>s. superseded l = Some s \<Longrightarrow> \<not> settles_superseded l s f"
      "fill_leg l f = (map_option FillRaised (fst (fill_exit l f)), snd (fill_exit l f))"
proof (cases "\<exists>s. superseded l = Some s \<and> settles_superseded l s f")
  case True
  then obtain s where s: "superseded l = Some s" "settles_superseded l s f" by blast
  show ?thesis
    by (cases "settle_superseded l s f") (use s settled unchanged in \<open>auto simp: fill_leg_def\<close>)
next
  case False
  then have eq: "fill_leg l f =
    (case live_guard l f of
             Some oc \<Rightarrow> (Some oc, l)
           | None \<Rightarrow> if f_entry f then (None, fill_entry l f)
                     else (map_option FillRaised (fst (fill_exit l f)), snd (fill_exit l f)))"
    by (cases "superseded l") (auto simp: fill_leg_def)
  show ?thesis
  proof (cases "live_guard l f")
    case None
    show ?thesis
    proof (cases "f_entry f")
      case True
      with None eq entry show ?thesis by simp
    next
      case no: False
      show ?thesis by (rule exit [OF no None]) (use False None no eq in auto)
    qed
  next
    case (Some oc)
    with eq unchanged show ?thesis by simp
  qed
qed

lemma fill_leg_wf: "leg_wf uu n l \<Longrightarrow> leg_wf uu n (snd (fill_leg l f))" "leg_id (snd (fill_leg l f)) = leg_id l"
  by (cases rule: fill_leg_cases [of l f]; simp add: leg_wf_settle leg_wf_fill_entry leg_wf_fill_exit fill_exit_keeps)+

lemma recompute_totals_legs: "recompute_totals r = Ret r' \<Longrightarrow> legs r' = legs r"
  by (auto simp: recompute_totals_def rbind_Ret Let_def)

text \<open>What a fill does to the registry: nothing, or one run with one leg replaced.\<close>

lemma apply_fill_cases:
  obtains (nothing) "snd (apply_fill rid lid f reg) = reg"
  | (filled) r l r' where "run_state reg rid = Some r" "dget (legs r) (id_str lid) = Some l"
      "snd (apply_fill rid lid f reg) = put_run rid r' reg"
      "legs r' = dset (id_str lid) (snd (fill_leg l f)) (legs r)"
      "stopping r' = stopping r" "signal_entry_claims r' = signal_entry_claims r"
proof (cases "run_state reg rid")
  case None
  show ?thesis by (rule nothing) (simp add: apply_fill_def None)
next
  case (Some r)
  show ?thesis
  proof (cases "dget (legs r) (id_str lid)")
    case None
    show ?thesis by (rule nothing) (simp add: apply_fill_def Some None)
  next
    case l: (Some l)
    let ?r = "r\<lparr>legs := dset (id_str lid) (snd (fill_leg l f)) (legs r)\<rparr>"
    obtain oc l' where fl: "fill_leg l f = (oc, l')" by fastforce
    consider "snd (apply_fill rid lid f reg) = put_run rid ?r reg"
      | r' where "recompute_totals ?r = Ret r'" "snd (apply_fill rid lid f reg) = put_run rid r' reg"
      using Some l fl
      by (cases oc; cases "recompute_totals ?r") (auto simp: apply_fill_def put_leg_def Let_def)
    then show ?thesis
    proof cases
      case 1
      show ?thesis by (rule filled [OF Some l 1]) simp_all
    next
      case (2 r')
      show ?thesis by (rule filled [OF Some l 2(2)])
        (use 2(1) in \<open>auto simp: recompute_totals_def rbind_Ret Let_def\<close>)
    qed
  qed
qed

lemma wf_fill [wf_ops]: "reg_wf uu reg \<Longrightarrow> reg_wf uu (snd (apply_fill rid lid f reg))"
proof (cases rule: apply_fill_cases [of rid lid f reg])
  case (filled r l r')
  assume wf: "reg_wf uu reg"
  have f: "find_leg reg rid lid = Some (r, l)" using filled(1,2) by (simp add: find_leg_def)
  note w = find_leg_wf [OF wf f]
  have "run_wf uu (next_uuid reg) (r\<lparr>legs := dset (id_str lid) (snd (fill_leg l f)) (legs r)\<rparr>)"
    using w by (intro run_wf_dset fill_leg_wf(1)) (auto simp: fill_leg_wf(2))
  then have "run_wf uu (next_uuid reg) r'" by (simp add: run_wf_def filled(4))
  then show ?thesis unfolding filled(3) by (rule reg_wf_put_run [OF wf w(1)])
qed simp

section \<open>Ticks\<close>

text \<open>A tick keeps each leg's identity, side and claims; it may only move its risk levels.\<close>

definition same_claims :: "leg \<Rightarrow> leg \<Rightarrow> bool" where
  "same_claims l l' =
     (leg_id l' = leg_id l \<and> position l' = position l \<and> status l' = status l \<and> entry_status l' = entry_status l \<and>
      superseded l' = superseded l \<and> exit_claim_token l' = exit_claim_token l \<and>
      exit_order_id l' = exit_order_id l \<and> exit_kind l' = exit_kind l \<and> position_ref l' = position_ref l \<and>
      qty l' = qty l)"

definition legs_same_claims :: "(string, leg) dict \<Rightarrow> (string, leg) dict \<Rightarrow> bool" where
  "legs_same_claims d d' = list_all2 (\<lambda>(k, l) (k', l'). k' = k \<and> same_claims l l') d d'"

lemma same_claims_refl: "same_claims l l"
  by (simp add: same_claims_def)

lemma legs_same_claims_refl: "legs_same_claims d d"
  unfolding legs_same_claims_def by (rule list_all2_refl) (auto simp: same_claims_refl)

lemma legs_same_claims_trans: "legs_same_claims d e \<Longrightarrow> legs_same_claims e f \<Longrightarrow> legs_same_claims d f"
  unfolding legs_same_claims_def
proof -
  let ?R = "\<lambda>(k, l) (k', l'). k' = k \<and> same_claims l l'"
  assume "list_all2 ?R d e" "list_all2 ?R e f"
  then show "list_all2 ?R d f"
    by (rule list_all2_trans [rotated]) (auto simp: same_claims_def)
qed

lemma legs_same_claims_get:
  "legs_same_claims d d' \<Longrightarrow> rel_option same_claims (dget d k) (dget d' k)"
  unfolding legs_same_claims_def by (induction d d' rule: list_all2_induct) auto

lemma evaluate_leg_same: "evaluate_leg l v = Ret (d, l') \<Longrightarrow> same_claims l l'"
  by (erule evaluate_leg_cases) (simp add: same_claims_def)

lemma tick_legs_same: "tick_legs tick_symbol exch v d = (d', xs, evs, ex) \<Longrightarrow> legs_same_claims d d'"
proof (induction d arbitrary: d' xs evs ex)
  case Nil
  then show ?case by (simp add: legs_same_claims_def)
next
  case (Cons kl d)
  obtain k l where kl: "kl = (k, l)" by fastforce
  obtain e xs1 evs1 ex1 where rest: "tick_legs tick_symbol exch v d = (e, xs1, evs1, ex1)" by (metis prod_cases4)
  from Cons.IH [OF rest] have "legs_same_claims d e" .
  with Cons.prems rest kl show ?case
    by (auto simp: legs_same_claims_def same_claims_refl dest: evaluate_leg_same split: if_splits sum.splits
        intro!: list_all2_refl)
qed

lemma set_leg_stop_same: "legs_same_claims (legs r) (legs (set_leg_stop m r))"
  unfolding legs_same_claims_def set_leg_stop_def
  by (simp add: list.rel_map, rule list.rel_refl_strong) (auto simp: same_claims_def split: if_splits)

lemma set_leg_stops_same: "legs_same_claims (legs r) (legs (fold set_leg_stop ms r))"
  by (induction ms arbitrary: r)
    (auto simp: legs_same_claims_refl intro: legs_same_claims_trans set_leg_stop_same)

lemma set_leg_stops_keep: "stopping (fold set_leg_stop ms r) = stopping r"
    "signal_entry_claims (fold set_leg_stop ms r) = signal_entry_claims r"
  by (induction ms arbitrary: r) (auto simp: set_leg_stop_def)

lemma trail_open_same:
  assumes "trail_open_legs_to_entry r t = Ret (ids, r')"
  shows "legs_same_claims (legs r) (legs r')" "stopping r' = stopping r"
    "signal_entry_claims r' = signal_entry_claims r"
proof -
  from assms obtain ms where "legs r' = legs (fold set_leg_stop ms r)" "stopping r' = stopping (fold set_leg_stop ms r)"
      "signal_entry_claims r' = signal_entry_claims (fold set_leg_stop ms r)"
    unfolding trail_open_legs_to_entry_def Let_def rbind_Ret
    by (elim exE conjE) (simp only: sum.inject prod.inject split: if_splits; elim conjE; fastforce)
  then show "legs_same_claims (legs r) (legs r')" "stopping r' = stopping r"
      "signal_entry_claims r' = signal_entry_claims r"
    by (simp_all add: set_leg_stops_same set_leg_stops_keep)
qed

lemma tick_trail_same:
  assumes "tick_trail s xs r = Ret (evs, r')"
  shows "legs_same_claims (legs r) (legs r')" "stopping r' = stopping r"
    "signal_entry_claims r' = signal_entry_claims r"
  using assms
  by (auto simp: tick_trail_def rbind_Ret legs_same_claims_refl trail_open_same
      split: if_splits option.splits prod.splits)

lemma evaluate_run_same:
  assumes "evaluate_run r s = Ret (d, r')"
  shows "legs r' = legs r" "stopping r' = stopping r" "signal_entry_claims r' = signal_entry_claims r"
  using assms by (auto elim!: evaluate_run_cases simp: apply_run_decision_def)

lemma tick_run_same:
  "legs_same_claims (legs r) (legs (snd (tick_run tick_symbol exch v s limit banked r)))"
  "stopping (snd (tick_run tick_symbol exch v s limit banked r)) = stopping r"
  "signal_entry_claims (snd (tick_run tick_symbol exch v s limit banked r)) = signal_entry_claims r"
proof -
  obtain ls xs evs ex where t: "tick_legs tick_symbol exch v (legs r) = (ls, xs, evs, ex)" by (metis prod_cases4)
  note base = tick_legs_same [OF t]
  let ?r = "snd (tick_run tick_symbol exch v s limit banked r)"
  have "legs_same_claims (legs r) (legs ?r) \<and> stopping ?r = stopping r \<and>
      signal_entry_claims ?r = signal_entry_claims r"
  proof (cases ex)
    case (Some e)
    with t base show ?thesis by (simp add: tick_run_def)
  next
    case None
    note ex = None
    show ?thesis
    proof (cases "tick_trail s xs (r\<lparr>legs := ls\<rparr>)")
      case (Inl e)
      with t ex base show ?thesis by (simp add: tick_run_def)
    next
      case (Inr er)
      obtain evs2 r1 where er: "er = (evs2, r1)" by fastforce
      with Inr have tt: "tick_trail s xs (r\<lparr>legs := ls\<rparr>) = Ret (evs2, r1)" by simp
      have r1: "legs_same_claims (legs r) (legs r1)" "stopping r1 = stopping r"
          "signal_entry_claims r1 = signal_entry_claims r"
        using tick_trail_same [OF tt] base by (auto intro: legs_same_claims_trans)
      show ?thesis
      proof (cases "evaluate_run r1 s")
        case (Inl e)
        with t ex tt r1 show ?thesis by (simp add: tick_run_def)
      next
        case (Inr dr)
        obtain d r2 where dr: "dr = (d, r2)" by fastforce
        with t ex tt Inr r1 evaluate_run_same [of r1 s d r2] show ?thesis
          by (simp add: tick_run_def split: prod.split)
      qed
    qed
  qed
  then show "legs_same_claims (legs r) (legs ?r)" "stopping ?r = stopping r"
      "signal_entry_claims ?r = signal_entry_claims r" by auto
qed

lemma run_wf_same_claims:
  assumes "legs_same_claims (legs r) (legs r')" and "run_wf uu n r"
  shows "run_wf uu n r'"
proof -
  have "map fst d' = map fst d \<and> (\<forall>k l'. (k, l') \<in> set d' \<longrightarrow> (\<exists>l. (k, l) \<in> set d \<and> same_claims l l'))"
    if "legs_same_claims d d'" for d d'
    using that unfolding legs_same_claims_def by (induction d d' rule: list_all2_induct) auto
  with assms(1) have keys: "map fst (legs r') = map fst (legs r)"
    and same: "\<And>k l'. (k, l') \<in> set (legs r') \<Longrightarrow> \<exists>l. (k, l) \<in> set (legs r) \<and> same_claims l l'" by blast+
  have leg: "leg_wf uu n l' \<and> k = id_str (leg_id l')" if kl: "(k, l') \<in> set (legs r')" for k l'
  proof -
    from same [OF kl] obtain l where l: "(k, l) \<in> set (legs r)" "same_claims l l'" by blast
    with assms(2) have "leg_wf uu n l" "k = id_str (leg_id l)"
      by (auto simp: run_wf_def keyed_legs_def)
    with l(2) show ?thesis by (simp add: leg_wf_def same_claims_def)
  qed
  have "distinct (map fst (legs r'))" unfolding keys using assms(2) by (simp add: run_wf_def keyed_legs_def)
  with leg show ?thesis by (auto simp: run_wf_def keyed_legs_def)
qed

lemma wf_tick [wf_ops]:
  "reg_wf uu reg \<Longrightarrow> reg_wf uu (snd (tick_one tick_symbol exch v s limit banked rid reg))"
proof (cases "run_state reg rid")
  case (Some r)
  assume wf: "reg_wf uu reg"
  let ?r = "snd (tick_run tick_symbol exch v s limit banked r)"
  have "run_wf uu (next_uuid reg) ?r"
    by (rule run_wf_same_claims [OF tick_run_same(1) run_state_wf [OF wf Some]])
  then have "reg_wf uu (put_run rid ?r reg)" by (rule reg_wf_put_run [OF wf Some])
  with Some show ?thesis by (simp add: tick_one_def split: prod.split) (metis snd_conv)
qed (simp add: tick_one_def)

section \<open>Reachable registries\<close>

text \<open>A hydrated run comes from the durable store, so its own well-formedness is what the step asks of it.\<close>

definition action_ok :: "(nat \<Rightarrow> string) \<Rightarrow> registry \<Rightarrow> action \<Rightarrow> bool" where
  "action_ok uu reg a = (case a of Hydrate r \<Rightarrow> run_wf uu (next_uuid reg) r | _ \<Rightarrow> True)"

lemma exec_wf: "reg_wf uu reg \<Longrightarrow> action_ok uu reg a \<Longrightarrow> reg_wf uu (exec uu rid a reg)"
  by (cases a) (simp_all add: wf_ops action_ok_def wf_hydrate)

inductive reachable :: "(nat \<Rightarrow> string) \<Rightarrow> registry \<Rightarrow> bool" for uu where
  start: "reachable uu empty_registry"
| step: "reachable uu reg \<Longrightarrow> action_ok uu reg a \<Longrightarrow> reachable uu (exec uu rid a reg)"

lemma reachable_wf: "reachable uu reg \<Longrightarrow> reg_wf uu reg"
proof (induction rule: reachable.induct)
  case start
  then show ?case by (simp add: reg_wf_def empty_registry_def dict_ok_empty)
next
  case (step reg a rid)
  then show ?case by (simp add: exec_wf)
qed

end
