(* ===== verification/Run_Claims.thy ===== *)
theory Run_Claims
  imports Run_Lifecycle
begin

text \<open>
  What the claims of the run registry are for: one exit at a time per position, no entry into a
  run that is stopping, no claim shared by two owners. The in-flight marker of a leg and the
  stopping flag of a run are instances of \<open>latch\<close> over the actions of \<open>Run_Lifecycle\<close>, so
  each fact holds over every interleaving that contains none of the actions meant to end it.
\<close>

section \<open>Reading one leg of the registry\<close>

definition leg_at :: "registry \<Rightarrow> int \<Rightarrow> string \<Rightarrow> leg option" where
  "leg_at reg rid key = Option.bind (run_state reg rid) (\<lambda>r. dget (legs r) key)"

lemma run_state_put_run:
  "run_state (put_run rid' r reg) rid =
     (if rid = rid' \<and> rid \<in> locks reg then Some r else run_state reg rid)"
  by (auto simp: run_state_def lock_for_def put_run_def dget_dset)

lemma run_state_locked: "run_state reg rid = Some r \<Longrightarrow> rid \<in> locks reg"
  by (auto simp: run_state_def lock_for_def split: if_splits)

lemma run_state_put:
  "run_state reg rid' = Some r0 \<Longrightarrow> run_state (put_run rid' r reg) rid = (if rid = rid' then Some r else run_state reg rid)"
  by (auto simp: run_state_put_run dest: run_state_locked)

lemma leg_at_put_run:
  "run_state reg rid' = Some r0 \<Longrightarrow>
   leg_at (put_run rid' r reg) rid key = (if rid = rid' then dget (legs r) key else leg_at reg rid key)"
  by (simp add: leg_at_def run_state_put)

lemma leg_at_put_leg:
  "run_state reg rid' = Some r \<Longrightarrow>
   leg_at (put_leg rid' r k l reg) rid key = (if rid = rid' \<and> key = k then Some l else leg_at reg rid key)"
  by (auto simp: put_leg_def leg_at_put_run dget_dset) (simp add: leg_at_def)

lemma leg_at_uuid [simp]: "leg_at (reg\<lparr>next_uuid := n\<rparr>) rid key = leg_at reg rid key"
  by (simp add: leg_at_def)

lemma find_leg_iff: "find_leg reg rid lid = Some (r, l) \<longleftrightarrow> run_state reg rid = Some r \<and> dget (legs r) (id_str lid) = Some l"
  by (auto simp: find_leg_def split: option.splits)

lemma find_leg_at: "find_leg reg rid lid = Some (r, l) \<Longrightarrow> leg_at reg rid (id_str lid) = Some l"
  by (simp add: find_leg_iff leg_at_def)

lemma leg_at_put_found:
  "find_leg reg rid' lid = Some (r, l) \<Longrightarrow>
   leg_at (put_leg rid' r k l' reg) rid key = (if rid = rid' \<and> key = k then Some l' else leg_at reg rid key)"
  "find_leg reg rid' lid = Some (r, l) \<Longrightarrow>
   leg_at (put_leg rid' r k l' (reg\<lparr>next_uuid := n\<rparr>)) rid key = (if rid = rid' \<and> key = k then Some l' else leg_at reg rid key)"
  by (simp_all add: find_leg_iff leg_at_put_leg)

lemma leg_at_same_legs:
  "run_state reg rid' = Some r \<Longrightarrow> legs r' = legs r \<Longrightarrow> leg_at (put_run rid' r' reg) rid key = leg_at reg rid key"
  by (simp add: leg_at_def run_state_put)

lemma run_state_clear: "run_state (clear_run_state rid' reg) rid = (if rid = rid' then None else run_state reg rid)"
  by (auto simp: run_state_def lock_for_def clear_run_state_def dget_dpop)

lemma run_state_install:
  "run_state (put_run rid' r (get_state_lock rid' reg)) rid = (if rid = rid' then Some r else run_state reg rid)"
  by (auto simp: run_state_def lock_for_def put_run_def get_state_lock_def dget_dset)

section \<open>An exit in flight\<close>

definition in_flight_at :: "int \<Rightarrow> string \<Rightarrow> registry \<Rightarrow> bool" where
  "in_flight_at rid key reg = (case leg_at reg rid key of None \<Rightarrow> False | Some l \<Rightarrow> exit_in_flight l)"

text \<open>The actions that may end an exit: its release, a fill or a replacement of its leg, and what replaces or drops the run.\<close>

definition ends_exit :: "int \<Rightarrow> string \<Rightarrow> int \<times> action \<Rightarrow> bool" where
  "ends_exit rid key x =
     (fst x = rid \<and>
      (case snd x of
         ReleaseExit lid _ \<Rightarrow> id_str lid = key
       | ReleaseOrder lid _ _ \<Rightarrow> id_str lid = key
       | Fill lid _ \<Rightarrow> id_str lid = key
       | AddLeg cfg _ _ _ \<Rightarrow> id_str (c_leg_id cfg) = key
       | InitRun _ _ \<Rightarrow> True
       | Hydrate _ \<Rightarrow> True
       | ClearRun \<Rightarrow> True
       | _ \<Rightarrow> False))"

lemma flight_fields: "exit_in_flight l \<Longrightarrow> exit_kind l' = exit_kind l \<Longrightarrow> exit_claim_token l' = exit_claim_token l \<Longrightarrow>
  exit_order_id l' = exit_order_id l \<Longrightarrow> exit_in_flight l'"
  by (simp add: exit_in_flight_def)

lemma flight_put:
  assumes "in_flight_at rid key reg" and "find_leg reg rid' lid = Some (r, l)"
    and "rid = rid' \<Longrightarrow> key = id_str lid \<Longrightarrow> exit_in_flight l \<Longrightarrow> exit_in_flight l'"
  shows "in_flight_at rid key (put_leg rid' r (id_str lid) l' reg)"
    and "in_flight_at rid key (put_leg rid' r (id_str lid) l' (reg\<lparr>next_uuid := n\<rparr>))"
  using assms find_leg_at [OF assms(2)]
  by (auto simp: in_flight_at_def leg_at_put_found [OF assms(2)] split: option.splits)

lemma flight_same_legs:
  assumes "in_flight_at rid key reg" and "run_state reg rid' = Some r" and "legs r' = legs r"
  shows "in_flight_at rid key (put_run rid' r' reg)"
  using assms by (simp add: in_flight_at_def leg_at_same_legs)

named_theorems flight_ops "preservation of an exit in flight"

lemma flight_claim [flight_ops]:
  "in_flight_at rid key reg \<Longrightarrow> in_flight_at rid key (snd (claim_leg_exit uu rid' lid kind reg))"
  by (auto simp: claim_leg_exit_def new_position_ref_def Let_def exit_in_flight_def split: option.split
      intro!: flight_put)

lemma flight_claim_pass:
  "in_flight_at rid key reg \<Longrightarrow> in_flight_at rid key (snd (claim_pass uu rid' lids kind cl un reg))"
proof (induction uu rid' lids kind cl un reg rule: claim_pass.induct)
  case (1 uu rid' kind claimed unfilled reg)
  then show ?case by simp
next
  case (2 uu rid' lid lids kind cl un reg)
  show ?case
  proof (cases "find_leg reg rid' lid")
    case None
    with 2 show ?thesis by simp
  next
    case (Some rl)
    obtain r l where rl: "rl = (r, l)" by fastforce
    let ?l = "l\<lparr>exit_kind := Some kind, exit_claim_token := Some (uu (next_uuid reg))\<rparr>"
    have "in_flight_at rid key (put_leg rid' r (id_str lid) ?l (reg\<lparr>next_uuid := Suc (next_uuid reg)\<rparr>))"
      using Some rl by (intro flight_put [OF 2(5)]) (auto simp: exit_in_flight_def)
    with 2 Some rl show ?thesis by (simp add: new_position_ref_def Let_def)
  qed
qed

lemma flight_claim_legs [flight_ops]:
  "in_flight_at rid key reg \<Longrightarrow> in_flight_at rid key (snd (claim_legs_for_exit uu rid' lids kind reg))"
  by (simp add: claim_legs_for_exit_def flight_claim_pass)

lemma flight_release [flight_ops]:
  "in_flight_at rid key reg \<Longrightarrow> rid' \<noteq> rid \<or> id_str lid \<noteq> key \<Longrightarrow>
   in_flight_at rid key (snd (release_leg_exit rid' lid c reg))"
  by (auto simp: release_leg_exit_def split: option.split intro!: flight_put)

lemma flight_bind_live [flight_ops]:
  "in_flight_at rid key reg \<Longrightarrow> in_flight_at rid key (snd (bind_live_exit rid' lid tok row pref reg))"
  by (auto simp: bind_live_exit_def exit_in_flight_def split: option.split intro!: flight_put)

lemma flight_claim_outgoing [flight_ops]:
  "in_flight_at rid key reg \<Longrightarrow> in_flight_at rid key (snd (claim_superseded_exit uu rid' lid pos reg))"
  by (auto simp: claim_superseded_exit_def new_position_ref_def Let_def exit_in_flight_def split: option.split
      intro!: flight_put)

lemma flight_bind_outgoing [flight_ops]:
  "in_flight_at rid key reg \<Longrightarrow> in_flight_at rid key (snd (bind_superseded_exit rid' lid tok row reg))"
  by (auto simp: bind_superseded_exit_def exit_in_flight_def split: option.split intro!: flight_put)

lemma flight_release_outgoing [flight_ops]:
  "in_flight_at rid key reg \<Longrightarrow> in_flight_at rid key (snd (release_superseded_exit rid' lid c reg))"
  by (auto simp: release_superseded_exit_def exit_in_flight_def split: option.split intro!: flight_put)

lemma flight_release_order [flight_ops]:
  "in_flight_at rid key reg \<Longrightarrow> rid' \<noteq> rid \<or> id_str lid \<noteq> key \<Longrightarrow>
   in_flight_at rid key (snd (release_order_exit rid' lid row pref reg))"
  by (auto simp: release_order_exit_def split: option.split intro!: flight_put)

lemma flight_claim_entry [flight_ops]:
  assumes "in_flight_at rid key reg"
  shows "in_flight_at rid key (snd (claim_signal_entry uu rid' lid pos reg))"
proof -
  have "in_flight_at rid key (put_run rid' (r\<lparr>signal_entry_claims := c\<rparr>) (reg\<lparr>next_uuid := n\<rparr>))"
    if "run_state reg rid' = Some r" for r c n
    using assms that by (intro flight_same_legs) (auto simp: in_flight_at_def)
  with assms show ?thesis
    by (simp add: claim_signal_entry_def new_position_ref_def Let_def split: option.split)
qed

lemma flight_release_entry [flight_ops]:
  "in_flight_at rid key reg \<Longrightarrow> in_flight_at rid key (snd (release_signal_entry_claim rid' lid tok reg))"
  by (auto simp: release_signal_entry_claim_def split: option.split intro: flight_same_legs)

lemma flight_stopping [flight_ops]:
  "in_flight_at rid key reg \<Longrightarrow> in_flight_at rid key (snd (mark_stopping rid' reg))"
  by (auto simp: mark_stopping_def split: option.split intro: flight_same_legs)

lemma flight_finish [flight_ops]:
  assumes "in_flight_at rid key reg"
  shows "in_flight_at rid key (snd (finish_signal_entry rid' lid pref tok ok reg))"
proof -
  have "in_flight_at rid key (put_leg rid' (r\<lparr>signal_entry_claims := c\<rparr>) (id_str lid) l' reg)"
    if "find_leg reg rid' lid = Some (r, l)" "exit_in_flight l \<Longrightarrow> exit_in_flight l'" for r l c l'
    using assms that
    by (auto simp: in_flight_at_def put_leg_def find_leg_iff leg_at_def run_state_put dget_dset split: option.splits)
  with assms show ?thesis
    by (auto simp: finish_signal_entry_def Let_def exit_in_flight_def split: option.split)
qed

lemma flight_reject [flight_ops]:
  "in_flight_at rid key reg \<Longrightarrow> in_flight_at rid key (snd (reject_entry_intent rid' lid pref reg))"
  by (auto simp: reject_entry_intent_def exit_in_flight_def split: option.split intro!: flight_put)

lemma flight_ack [flight_ops]:
  "in_flight_at rid key reg \<Longrightarrow> in_flight_at rid key (ack_entry rid' lid pref row ok reg)"
  by (auto simp: ack_entry_def exit_in_flight_def split: option.split intro!: flight_put)

lemma flight_dead [flight_ops]:
  "in_flight_at rid key reg \<Longrightarrow> in_flight_at rid key (dead_entry rid' lid pref c reg)"
  by (auto simp: dead_entry_def exit_in_flight_def split: option.split intro!: flight_put)

lemma flight_add_leg [flight_ops]:
  assumes "in_flight_at rid key reg" and "rid' \<noteq> rid \<or> id_str (c_leg_id cfg) \<noteq> key"
  shows "in_flight_at rid key (snd (add_leg rid' cfg tok expected oid reg))"
proof (cases rule: add_leg_cases [of rid' cfg tok expected oid reg])
  case refused
  with assms show ?thesis by simp
next
  case (installed r l0 c)
  with assms show ?thesis by (auto simp: in_flight_at_def leg_at_put_leg)
qed

lemma flight_fill [flight_ops]:
  assumes "in_flight_at rid key reg" and "rid' \<noteq> rid \<or> id_str lid \<noteq> key"
  shows "in_flight_at rid key (snd (apply_fill rid' lid f reg))"
proof (cases rule: apply_fill_cases [of rid' lid f reg])
  case nothing
  with assms show ?thesis by simp
next
  case (filled r l r')
  with assms show ?thesis
    by (auto simp: in_flight_at_def run_state_put [OF filled(1)] dget_dset leg_at_def split: option.splits if_splits)
qed

lemma flight_tick [flight_ops]:
  assumes "in_flight_at rid key reg"
  shows "in_flight_at rid key (snd (tick_one tick_symbol exch v s limit banked rid' reg))"
proof (cases "run_state reg rid'")
  case None
  with assms show ?thesis by (simp add: tick_one_def)
next
  case (Some r)
  let ?r = "snd (tick_run tick_symbol exch v s limit banked r)"
  have "rel_option same_claims (dget (legs r) key) (dget (legs ?r) key)"
    by (rule legs_same_claims_get [OF tick_run_same(1)])
  with assms Some have "in_flight_at rid key (put_run rid' ?r reg)"
    by (auto simp: in_flight_at_def run_state_put [OF Some] leg_at_def same_claims_def exit_in_flight_def
        split: option.splits)
  with Some show ?thesis by (simp add: tick_one_def split: prod.split) (metis snd_conv)
qed

lemma flight_init [flight_ops]:
  "in_flight_at rid key reg \<Longrightarrow> rid' \<noteq> rid \<Longrightarrow> in_flight_at rid key (snd (init_run_state rid' sid cfgs reg))"
  by (simp add: init_run_state_def Let_def in_flight_at_def leg_at_def run_state_install split: sum.split)

lemma flight_hydrate [flight_ops]:
  "in_flight_at rid key reg \<Longrightarrow> rid' \<noteq> rid \<Longrightarrow> in_flight_at rid key (hydrate_run_state rid' r reg)"
  by (simp add: hydrate_run_state_def in_flight_at_def leg_at_def run_state_install)

lemma flight_clear [flight_ops]:
  "in_flight_at rid key reg \<Longrightarrow> rid' \<noteq> rid \<Longrightarrow> in_flight_at rid key (clear_run_state rid' reg)"
  by (simp add: in_flight_at_def leg_at_def run_state_clear)

definition do_action :: "(nat \<Rightarrow> string) \<Rightarrow> int \<times> action \<Rightarrow> registry \<Rightarrow> registry" where
  "do_action uu x reg = exec uu (fst x) (snd x) reg"

interpretation exit_latch: latch "do_action uu" "in_flight_at rid key" "ends_exit rid key" for uu rid key
proof unfold_locales
  fix reg x
  assume "in_flight_at rid key reg" "\<not> ends_exit rid key x"
  then show "in_flight_at rid key (do_action uu x reg)"
    by (cases "snd x") (auto simp: do_action_def ends_exit_def intro: flight_ops)
qed

section \<open>A run that is stopping\<close>

definition stopping_at :: "int \<Rightarrow> registry \<Rightarrow> bool" where
  "stopping_at rid reg = (case run_state reg rid of None \<Rightarrow> False | Some r \<Rightarrow> stopping r)"

definition restarts_run :: "int \<Rightarrow> int \<times> action \<Rightarrow> bool" where
  "restarts_run rid x =
     (fst x = rid \<and> (case snd x of InitRun _ _ \<Rightarrow> True | Hydrate _ \<Rightarrow> True | ClearRun \<Rightarrow> True | _ \<Rightarrow> False))"

lemma stopping_put_run:
  assumes "stopping_at rid reg" and "run_state reg rid' = Some r" and "stopping r \<Longrightarrow> stopping r'"
  shows "stopping_at rid (put_run rid' r' reg)"
  using assms by (auto simp: stopping_at_def run_state_put split: option.splits if_splits)

lemma stopping_put_leg:
  assumes "stopping_at rid reg" and "find_leg reg rid' lid = Some (r, l)"
  shows "stopping_at rid (put_leg rid' r k l' reg)"
    and "stopping_at rid (put_leg rid' r k l' (reg\<lparr>next_uuid := n\<rparr>))"
    and "stopping_at rid (put_leg rid' (r\<lparr>signal_entry_claims := c\<rparr>) k l' reg)"
  using assms by (auto simp: stopping_at_def put_leg_def find_leg_iff run_state_put split: option.splits)

named_theorems stop_ops "preservation of the stopping flag"

lemma stop_claim [stop_ops]:
  "stopping_at rid reg \<Longrightarrow> stopping_at rid (snd (claim_leg_exit uu rid' lid kind reg))"
  by (auto simp: claim_leg_exit_def new_position_ref_def Let_def split: option.split intro: stopping_put_leg)

lemma stop_claim_pass: "stopping_at rid reg \<Longrightarrow> stopping_at rid (snd (claim_pass uu rid' lids kind cl un reg))"
proof (induction uu rid' lids kind cl un reg rule: claim_pass.induct)
  case (1 uu rid' kind claimed unfilled reg)
  then show ?case by simp
next
  case (2 uu rid' lid lids kind cl un reg)
  then show ?case
  proof (cases "find_leg reg rid' lid")
    case (Some rl)
    obtain r l where rl: "rl = (r, l)" by fastforce
    with 2 Some stopping_put_leg(2) [OF 2(5), of rid' lid r l] show ?thesis
      by (simp add: new_position_ref_def Let_def)
  qed simp
qed

lemma stop_claim_legs [stop_ops]:
  "stopping_at rid reg \<Longrightarrow> stopping_at rid (snd (claim_legs_for_exit uu rid' lids kind reg))"
  by (simp add: claim_legs_for_exit_def stop_claim_pass)

lemma stop_release [stop_ops]: "stopping_at rid reg \<Longrightarrow> stopping_at rid (snd (release_leg_exit rid' lid c reg))"
  by (auto simp: release_leg_exit_def split: option.split intro: stopping_put_leg)

lemma stop_bind_live [stop_ops]: "stopping_at rid reg \<Longrightarrow> stopping_at rid (snd (bind_live_exit rid' lid tok row pref reg))"
  by (auto simp: bind_live_exit_def split: option.split intro: stopping_put_leg)

lemma stop_claim_outgoing [stop_ops]:
  "stopping_at rid reg \<Longrightarrow> stopping_at rid (snd (claim_superseded_exit uu rid' lid pos reg))"
  by (auto simp: claim_superseded_exit_def new_position_ref_def Let_def split: option.split intro: stopping_put_leg)

lemma stop_bind_outgoing [stop_ops]:
  "stopping_at rid reg \<Longrightarrow> stopping_at rid (snd (bind_superseded_exit rid' lid tok row reg))"
  by (auto simp: bind_superseded_exit_def split: option.split intro: stopping_put_leg)

lemma stop_release_outgoing [stop_ops]:
  "stopping_at rid reg \<Longrightarrow> stopping_at rid (snd (release_superseded_exit rid' lid c reg))"
  by (auto simp: release_superseded_exit_def split: option.split intro: stopping_put_leg)

lemma stop_release_order [stop_ops]:
  "stopping_at rid reg \<Longrightarrow> stopping_at rid (snd (release_order_exit rid' lid row pref reg))"
  by (auto simp: release_order_exit_def split: option.split intro: stopping_put_leg)

lemma stop_claim_entry [stop_ops]:
  assumes "stopping_at rid reg"
  shows "stopping_at rid (snd (claim_signal_entry uu rid' lid pos reg))"
proof -
  have "stopping_at rid (put_run rid' (r\<lparr>signal_entry_claims := c\<rparr>) (reg\<lparr>next_uuid := n\<rparr>))"
    if "run_state reg rid' = Some r" for r c n
    using assms that by (intro stopping_put_run) (auto simp: stopping_at_def)
  with assms show ?thesis
    by (simp add: claim_signal_entry_def new_position_ref_def Let_def split: option.split)
qed

lemma stop_release_entry [stop_ops]:
  "stopping_at rid reg \<Longrightarrow> stopping_at rid (snd (release_signal_entry_claim rid' lid tok reg))"
  by (auto simp: release_signal_entry_claim_def split: option.split intro: stopping_put_run)

lemma stop_stopping [stop_ops]: "stopping_at rid reg \<Longrightarrow> stopping_at rid (snd (mark_stopping rid' reg))"
  by (auto simp: mark_stopping_def split: option.split intro: stopping_put_run)

lemma stop_finish [stop_ops]:
  "stopping_at rid reg \<Longrightarrow> stopping_at rid (snd (finish_signal_entry rid' lid pref tok ok reg))"
  by (auto simp: finish_signal_entry_def Let_def split: option.split intro: stopping_put_leg)

lemma stop_reject [stop_ops]:
  "stopping_at rid reg \<Longrightarrow> stopping_at rid (snd (reject_entry_intent rid' lid pref reg))"
  by (auto simp: reject_entry_intent_def split: option.split intro: stopping_put_leg)

lemma stop_ack [stop_ops]: "stopping_at rid reg \<Longrightarrow> stopping_at rid (ack_entry rid' lid pref row ok reg)"
  by (auto simp: ack_entry_def split: option.split intro: stopping_put_leg)

lemma stop_dead [stop_ops]: "stopping_at rid reg \<Longrightarrow> stopping_at rid (dead_entry rid' lid pref c reg)"
  by (auto simp: dead_entry_def split: option.split intro: stopping_put_leg)

lemma stop_add_leg [stop_ops]:
  assumes "stopping_at rid reg"
  shows "stopping_at rid (snd (add_leg rid' cfg tok expected oid reg))"
proof (cases rule: add_leg_cases [of rid' cfg tok expected oid reg])
  case refused
  with assms show ?thesis by simp
next
  case (installed r l0 c)
  with assms show ?thesis by (auto simp: put_leg_def intro!: stopping_put_run)
qed

lemma stop_fill [stop_ops]:
  assumes "stopping_at rid reg"
  shows "stopping_at rid (snd (apply_fill rid' lid f reg))"
proof (cases rule: apply_fill_cases [of rid' lid f reg])
  case nothing
  with assms show ?thesis by simp
next
  case (filled r l r')
  show ?thesis unfolding filled(3) by (rule stopping_put_run [OF assms filled(1)]) (simp add: filled(5))
qed

lemma stop_tick [stop_ops]:
  assumes "stopping_at rid reg"
  shows "stopping_at rid (snd (tick_one tick_symbol exch v s limit banked rid' reg))"
proof (cases "run_state reg rid'")
  case None
  with assms show ?thesis by (simp add: tick_one_def)
next
  case (Some r)
  have "stopping_at rid (put_run rid' (snd (tick_run tick_symbol exch v s limit banked r)) reg)"
    by (rule stopping_put_run [OF assms Some]) (simp add: tick_run_same)
  with Some show ?thesis by (simp add: tick_one_def split: prod.split) (metis snd_conv)
qed

lemma stop_init [stop_ops]:
  "stopping_at rid reg \<Longrightarrow> rid' \<noteq> rid \<Longrightarrow> stopping_at rid (snd (init_run_state rid' sid cfgs reg))"
  by (simp add: init_run_state_def Let_def stopping_at_def run_state_install split: sum.split)

lemma stop_hydrate [stop_ops]:
  "stopping_at rid reg \<Longrightarrow> rid' \<noteq> rid \<Longrightarrow> stopping_at rid (hydrate_run_state rid' r reg)"
  by (simp add: hydrate_run_state_def stopping_at_def run_state_install)

lemma stop_clear [stop_ops]: "stopping_at rid reg \<Longrightarrow> rid' \<noteq> rid \<Longrightarrow> stopping_at rid (clear_run_state rid' reg)"
  by (simp add: stopping_at_def run_state_clear)

interpretation stop_latch: latch "do_action uu" "stopping_at rid" "restarts_run rid" for uu rid
proof unfold_locales
  fix reg x
  assume "stopping_at rid reg" "\<not> restarts_run rid x"
  then show "stopping_at rid (do_action uu x reg)"
    by (cases "snd x") (auto simp: do_action_def restarts_run_def intro: stop_ops)
qed

section \<open>Properties\<close>

text \<open>C9: The registry is well formed in every reachable state. Whatever interleaving of the
  module's operations, fills and ticks produced it, the run dictionary has no duplicate keys, a lock
  exists for exactly the runs that are registered (none leaks and none is missing), and every leg is
  keyed by its own id, is long or short, and so is the outgoing side it may still hold.\<close>

theorem reachable_well_formed:
  assumes "reachable uu reg"
  shows "dict_ok (runs reg) \<and> locks reg = set (dkeys (runs reg)) \<and>
    (run_state reg rid = Some r \<and> dget (legs r) k = Some l \<longrightarrow>
       keyed_legs (legs r) \<and> k = id_str (leg_id l) \<and> position l \<in> {''B'', ''S''} \<and>
       (\<forall>s. superseded l = Some s \<longrightarrow> sp_position s \<in> {''B'', ''S''}))"
proof -
  note wf = reachable_wf [OF assms]
  have "keyed_legs (legs r) \<and> k = id_str (leg_id l) \<and> leg_wf uu (next_uuid reg) l"
    if "run_state reg rid = Some r" "dget (legs r) k = Some l"
    using run_state_wf [OF wf that(1)] map_of_SomeD [OF that(2)]
    by (force simp: run_wf_def keyed_legs_def)
  with wf show ?thesis by (auto simp: reg_wf_def leg_wf_def)
qed

definition sample_cfg :: "string \<Rightarrow> leg_cfg" where
  "sample_cfg pos =
     \<lparr> c_leg_id = IdInt 1, c_position = Some pos, c_symbol = ''NIFTY'', c_exchange = ''NFO'', c_lots = Some 1,
       c_quantity = 10, c_position_ref = Some ''p'', c_risk_unit = None, c_sl_pts = VInt 5, c_target_pts = VNone,
       c_trail = None \<rparr>"

definition uids :: "nat \<Rightarrow> string" where
  "uids n = nat_digits n"

lemma inj_uids: "inj uids"
  by (rule injI) (metis digits_nat_of_digits uids_def)

definition sample_registry :: registry where
  "sample_registry =
     fold (do_action uids)
       [(1, InitRun 9 [sample_cfg ''B'']), (1, AckEntry (IdInt 1) (Some ''p'') 7 True),
        (1, Fill (IdInt 1) \<lparr>f_price = Some (Fin 100), f_entry = True, f_filled = Some 10, f_row = Some 7,
           f_ref = Some ''p'', f_cumulative = None, f_terminal = True, f_prior_ok = False\<rparr>)]
       empty_registry"

lemma reachable_fold:
  "reachable uu reg \<Longrightarrow> list_all (\<lambda>x. \<forall>r. snd x \<noteq> Hydrate r) xs \<Longrightarrow> reachable uu (fold (do_action uu) xs reg)"
proof (induction xs arbitrary: reg)
  case Nil
  then show ?case by simp
next
  case (Cons x xs)
  then have "action_ok uu reg (snd x)" by (cases "snd x") (auto simp: action_ok_def)
  with Cons.prems(1) have "reachable uu (do_action uu x reg)" unfolding do_action_def by (rule reachable.step)
  with Cons show ?case by simp
qed

lemma sample_reachable: "reachable uids sample_registry"
  unfolding sample_registry_def by (rule reachable_fold [OF reachable.start]) simp

lemma str_one: "str_of_int 1 = ''1''"
  by (simp add: str_of_int_eval)

lemma upper_B: "str_upper ''B'' = ''B''"
  by code_simp

lemma sample_registry_leg:
  "\<exists>r l. run_state sample_registry 1 = Some r \<and> dget (legs r) ''1'' = Some l \<and> status l = Open \<and>
     entry_status l = EComplete \<and> \<not> exit_in_flight l \<and> qty l = 10 \<and> entry_avg l = Fin 100 \<and> superseded l = None"
  by (simp add: sample_registry_def do_action_def init_run_state_def new_leg_state_def sample_cfg_def upper_B
      str_one empty_registry_def get_state_lock_def lock_for_def put_run_def put_leg_def ack_entry_def find_leg_def
      run_state_def apply_fill_def fill_leg_def live_guard_def fill_entry_def recompute_totals_def run_pnl_def
      pnl_legs_def leg_pnl_state_def pnl_from_state_def get_val_def not_none_or_def as_float_def as_price_def
      is_price_def ftruthy_def zero_pyfloat_def py_or_def aggregate_pnl_def exit_in_flight_def Let_def)

theorem reachable_well_formed_witness:
  "dict_ok (runs sample_registry) \<and> locks sample_registry = set (dkeys (runs sample_registry)) \<and>
   (\<exists>r l. run_state sample_registry 1 = Some r \<and> dget (legs r) ''1'' = Some l \<and> position l \<in> {''B'', ''S''})"
  using reachable_well_formed [OF sample_reachable] sample_registry_leg by metis

lemma claim_leg_exit_SomeD:
  assumes "claim_leg_exit uu rid lid kind reg = (Some l', reg')"
  obtains r l where "find_leg reg rid lid = Some (r, l)" "status l = Open" "entry_status l = EComplete"
    "\<not> exit_in_flight l" "l' = l\<lparr>exit_kind := Some kind, exit_claim_token := Some (uu (next_uuid reg))\<rparr>"
    "reg' = put_leg rid r (id_str lid) l' (reg\<lparr>next_uuid := Suc (next_uuid reg)\<rparr>)"
  using assms
  by (auto simp: claim_leg_exit_def new_position_ref_def Let_def split: option.splits if_splits)

lemma claimed_in_flight:
  assumes "claim_leg_exit uu rid lid kind reg = (Some l', reg')"
  shows "in_flight_at rid (id_str lid) reg'"
  using assms
  by (elim claim_leg_exit_SomeD) (simp add: in_flight_at_def leg_at_put_found exit_in_flight_def)

lemma in_flight_refused:
  assumes "in_flight_at rid (id_str lid) reg"
  shows "claim_leg_exit uu rid lid kind reg = (None, reg)"
  using assms
  by (auto simp: claim_leg_exit_def in_flight_at_def leg_at_def find_leg_def split: option.splits)


lemma sample_claim:
  "\<exists>l' reg'. claim_leg_exit uids 1 (IdInt 1) ''exit_sl'' sample_registry = (Some l', reg')"
proof -
  from sample_registry_leg obtain r l where "find_leg sample_registry 1 (IdInt 1) = Some (r, l)" "status l = Open"
      "entry_status l = EComplete" "\<not> exit_in_flight l"
    by (auto simp: find_leg_iff str_one)
  then show ?thesis by (simp add: claim_leg_exit_def new_position_ref_def Let_def)
qed


text \<open>A claim token identifies its owner. In any reachable registry the token a new exit claim hands
  out is held by no leg, live or outgoing, of any run, so no earlier claimant can release or bind it.\<close>

theorem claim_token_fresh:
  assumes "reachable uu reg" and "inj uu" and "claim_leg_exit uu rid lid kind reg = (Some l', reg')"
    and "run_state reg rid0 = Some r0" and "dget (legs r0) k = Some l0"
  shows "exit_claim_token l' \<noteq> None \<and> exit_claim_token l0 \<noteq> exit_claim_token l' \<and>
    (case superseded l0 of None \<Rightarrow> True | Some s \<Rightarrow> sp_exit_claim_token s \<noteq> exit_claim_token l')"
proof -
  have "leg_wf uu (next_uuid reg) l0"
    using run_state_wf [OF reachable_wf [OF assms(1)] assms(4)] map_of_SomeD [OF assms(5)]
    by (force simp: run_wf_def)
  moreover have "uu i = uu (next_uuid reg) \<Longrightarrow> i < next_uuid reg \<Longrightarrow> False" for i
    using assms(2) by (auto dest: injD)
  moreover have "exit_claim_token l' = Some (uu (next_uuid reg))"
    using assms(3) by (elim claim_leg_exit_SomeD) simp
  ultimately show ?thesis
    by (auto simp: leg_wf_def token_ok_def split: option.splits)
qed

theorem claim_token_fresh_witness:
  "\<exists>l' reg' r0 l0. claim_leg_exit uids 1 (IdInt 1) ''exit_sl'' sample_registry = (Some l', reg') \<and>
     run_state sample_registry 1 = Some r0 \<and> dget (legs r0) ''1'' = Some l0 \<and>
     exit_claim_token l0 \<noteq> exit_claim_token l'"
proof -
  from sample_claim obtain l' reg' where c: "claim_leg_exit uids 1 (IdInt 1) ''exit_sl'' sample_registry = (Some l', reg')"
    by blast
  from sample_registry_leg obtain r l where r: "run_state sample_registry 1 = Some r" "dget (legs r) ''1'' = Some l"
    by auto
  from claim_token_fresh [OF sample_reachable inj_uids c r] c r show ?thesis by blast
qed

lemma claim_entry_stopping:
  assumes "stopping_at rid reg"
  shows "claim_signal_entry uu rid lid pos reg = (Some (EntryNote ''run_stopping''), reg)"
  using assms by (auto simp: stopping_at_def claim_signal_entry_def split: option.splits)

lemma add_leg_stopping:
  assumes "stopping_at rid reg"
  shows "add_leg rid cfg tok expected oid reg = (Ret None, reg)"
  using assms by (auto simp: stopping_at_def add_leg_def split: option.splits)

text \<open>C11: A stopping run takes no new entry. From the moment a run is marked as stopping, after any
  interleaving of actions that does not replace or drop the run, no signal can claim an entry and no
  leg can be installed, whatever claim it already holds; both answers leave the state unchanged.\<close>

theorem stopping_blocks_entries:
  assumes "mark_stopping rid reg = (True, reg')" and "list_all (\<lambda>x. \<not> restarts_run rid x) xs"
  shows "claim_signal_entry uu rid lid pos (fold (do_action uu) xs reg') =
           (Some (EntryNote ''run_stopping''), fold (do_action uu) xs reg') \<and>
         add_leg rid cfg tok expected oid (fold (do_action uu) xs reg') = (Ret None, fold (do_action uu) xs reg')"
proof -
  have "stopping_at rid reg'"
    using assms(1) by (auto simp: mark_stopping_def stopping_at_def run_state_put split: option.splits)
  from stop_latch.held_run [OF this assms(2)] show ?thesis by (simp add: claim_entry_stopping add_leg_stopping)
qed

theorem stopping_blocks_entries_witness:
  "\<exists>reg'. mark_stopping 1 sample_registry = (True, reg') \<and>
     fst (claim_signal_entry uids 1 (IdInt 1) (Some ''S'') (fold (do_action uids) [(1, DeadEntry (IdInt 1) None True)] reg')) =
       Some (EntryNote ''run_stopping'')"
proof -
  from sample_registry_leg obtain reg' where m: "mark_stopping 1 sample_registry = (True, reg')"
    by (auto simp: mark_stopping_def)
  have "list_all (\<lambda>x. \<not> restarts_run 1 x) [(1, DeadEntry (IdInt 1) None True)]"
    by (simp add: restarts_run_def)
  from stopping_blocks_entries [OF m this] m show ?thesis by auto
qed

section \<open>Claiming many legs\<close>

definition claimable :: "leg option \<Rightarrow> bool" where
  "claimable o' = (case o' of None \<Rightarrow> False | Some l \<Rightarrow> status l = Open \<and> \<not> exit_in_flight l \<and> entry_status l = EComplete)"

definition waiting :: "leg option \<Rightarrow> bool" where
  "waiting o' = (case o' of None \<Rightarrow> False | Some l \<Rightarrow> status l = Open \<and> \<not> exit_in_flight l \<and> entry_status l \<noteq> EComplete)"

lemma find_leg_None: "find_leg reg rid lid = None \<longleftrightarrow> leg_at reg rid (id_str lid) = None"
  by (auto simp: find_leg_def leg_at_def split: option.splits)

definition claim_result ::
  "int \<Rightarrow> string list \<Rightarrow> registry \<Rightarrow> leg list \<Rightarrow> leg list \<Rightarrow> leg list \<Rightarrow> leg list \<Rightarrow> registry \<Rightarrow> bool" where
  "claim_result rid ks reg cl un cl' un' reg' =
     (map (\<lambda>l. id_str (leg_id l)) cl' = map (\<lambda>l. id_str (leg_id l)) cl @ filter (\<lambda>k. claimable (leg_at reg rid k)) ks \<and>
      map (\<lambda>l. id_str (leg_id l)) un' = map (\<lambda>l. id_str (leg_id l)) un @ filter (\<lambda>k. waiting (leg_at reg rid k)) ks \<and>
      (\<forall>k. if k \<in> set ks \<and> claimable (leg_at reg rid k) then in_flight_at rid k reg'
           else leg_at reg' rid k = leg_at reg rid k))"

lemma claim_pass_result:
  assumes "reg_wf uu reg" and "distinct (map id_str lids)"
    and "claim_pass uu rid lids kind cl un reg = ((cl', un'), reg')"
  shows "claim_result rid (map id_str lids) reg cl un cl' un' reg'"
  using assms
proof (induction lids arbitrary: cl un reg)
  case Nil
  then show ?case by (simp add: claim_result_def)
next
  case (Cons lid lids)
  let ?k = "id_str lid"
  show ?case
  proof (cases "find_leg reg rid lid")
    case None
    with Cons.prems have "claim_result rid (map id_str lids) reg cl un cl' un' reg'"
      by (intro Cons.IH) auto
    moreover have "leg_at reg rid ?k = None" using None by (simp add: find_leg_None)
    ultimately show ?thesis by (auto simp: claim_result_def claimable_def waiting_def)
  next
    case (Some rl)
    obtain r l where rl: "find_leg reg rid lid = Some (r, l)" using Some by (cases rl) auto
    have l: "leg_at reg rid ?k = Some l" using rl by (rule find_leg_at)
    have key: "id_str (leg_id l) = ?k" using find_leg_wf(4) [OF Cons.prems(1) rl] .
    consider (skip) "status l \<noteq> Open \<or> exit_in_flight l"
      | (wait) "status l = Open" "\<not> exit_in_flight l" "entry_status l \<noteq> EComplete"
      | (take) "status l = Open" "\<not> exit_in_flight l" "entry_status l = EComplete" by blast
    then show ?thesis
    proof cases
      case skip
      with Cons.prems rl have "claim_result rid (map id_str lids) reg cl un cl' un' reg'"
        by (intro Cons.IH) auto
      with skip l show ?thesis by (auto simp: claim_result_def claimable_def waiting_def)
    next
      case wait
      with Cons.prems rl have "claim_result rid (map id_str lids) reg cl (un @ [l]) cl' un' reg'"
        by (intro Cons.IH) auto
      with wait l key show ?thesis by (auto simp: claim_result_def claimable_def waiting_def)
    next
      case take
      let ?l = "l\<lparr>exit_kind := Some kind, exit_claim_token := Some (uu (next_uuid reg))\<rparr>"
      let ?reg = "put_leg rid r ?k ?l (reg\<lparr>next_uuid := Suc (next_uuid reg)\<rparr>)"
      have wf: "reg_wf uu ?reg"
        by (rule reg_wf_leg_fresh [OF Cons.prems(1) rl]) (auto simp: leg_wf_def)
      have "claim_pass uu rid lids kind (cl @ [?l]) un ?reg = ((cl', un'), reg')"
        using Cons.prems(3) rl take by (simp add: new_position_ref_def Let_def)
      from Cons.IH [OF wf _ this] Cons.prems(2)
      have ih: "claim_result rid (map id_str lids) ?reg (cl @ [?l]) un cl' un' reg'" by simp
      have at: "leg_at ?reg rid k = (if k = ?k then Some ?l else leg_at reg rid k)" for k
        by (simp add: leg_at_put_found(2) [OF rl])
      have same: "filter (\<lambda>k. P (leg_at ?reg rid k)) (map id_str lids) = filter (\<lambda>k. P (leg_at reg rid k)) (map id_str lids)" for P
      proof (rule filter_cong [OF refl])
        fix k assume "k \<in> set (map id_str lids)"
        with Cons.prems(2) have "k \<noteq> ?k" by (metis distinct.simps(2) list.simps(9))
        then show "P (leg_at ?reg rid k) = P (leg_at reg rid k)" by (simp add: at)
      qed
      have fly: "in_flight_at rid ?k reg'"
        using ih Cons.prems(2)
        by (auto simp: claim_result_def at in_flight_at_def exit_in_flight_def claimable_def dest!: spec [of _ ?k] split: if_splits)
      have mine: "claimable (leg_at reg rid ?k)" "\<not> waiting (leg_at reg rid ?k)"
        using take l by (auto simp: claimable_def waiting_def)
      have rest: "if k \<in> set (map id_str lids) \<and> claimable (leg_at reg rid k) then in_flight_at rid k reg'
           else leg_at reg' rid k = leg_at reg rid k" if "k \<noteq> ?k" for k
        using ih that by (auto simp: claim_result_def at dest!: spec [of _ k])
      have "if k \<in> set (map id_str (lid # lids)) \<and> claimable (leg_at reg rid k) then in_flight_at rid k reg'
           else leg_at reg' rid k = leg_at reg rid k" for k
        using rest [of k] fly mine(1) by (cases "k = ?k") auto
      then show ?thesis
        using ih mine key unfolding claim_result_def same by simp
    qed
  qed
qed

text \<open>Stopping a set of legs loses none of them. For distinct legs of a well-formed registry, the batch
  claim puts every open leg without an exit in flight into exactly one of its two answers, in the order
  asked: with a filled entry it is claimed and in flight afterwards, otherwise it is reported as
  unfilled; every other leg of the run is left exactly as it was.\<close>

theorem claim_legs_partition:
  assumes "reachable uu reg" and "distinct (map id_str lids)"
    and "claim_legs_for_exit uu rid lids kind reg = ((claimed, unfilled), reg')"
  shows "map (\<lambda>l. id_str (leg_id l)) claimed = filter (\<lambda>k. claimable (leg_at reg rid k)) (map id_str lids) \<and>
    map (\<lambda>l. id_str (leg_id l)) unfilled = filter (\<lambda>k. waiting (leg_at reg rid k)) (map id_str lids) \<and>
    (\<forall>k. if k \<in> set (map id_str lids) \<and> claimable (leg_at reg rid k) then in_flight_at rid k reg'
         else leg_at reg' rid k = leg_at reg rid k)"
proof (cases "run_state reg rid")
  case None
  with assms(3) have "claimed = []" "unfilled = []" "reg' = reg"
    by (auto simp: claim_legs_for_exit_def)
  moreover have "leg_at reg rid k = None" for k using None by (simp add: leg_at_def)
  ultimately show ?thesis by (simp add: claimable_def waiting_def)
next
  case (Some r)
  with assms(3) have "claim_pass uu rid lids kind [] [] reg = ((claimed, unfilled), reg')"
    by (simp add: claim_legs_for_exit_def)
  from claim_pass_result [OF reachable_wf [OF assms(1)] assms(2) this] show ?thesis
    by (simp add: claim_result_def)
qed

theorem claim_legs_partition_witness:
  "\<exists>claimed unfilled reg'. claim_legs_for_exit uids 1 [IdInt 1, IdInt 2] ''exit_close_all'' sample_registry =
       ((claimed, unfilled), reg') \<and> map (\<lambda>l. id_str (leg_id l)) claimed = [''1''] \<and> in_flight_at 1 ''1'' reg'"
proof -
  obtain claimed unfilled reg' where c: "claim_legs_for_exit uids 1 [IdInt 1, IdInt 2] ''exit_close_all'' sample_registry =
      ((claimed, unfilled), reg')" by (metis prod.exhaust)
  have two: "str_of_int 2 = ''2''" by (simp add: str_of_int_eval)
  have d: "distinct (map id_str [IdInt 1, IdInt 2])" by (simp add: str_one two)
  have at: "claimable (leg_at sample_registry 1 ''1'')"
    using sample_registry_leg by (auto simp: claimable_def leg_at_def)
  have "leg_at sample_registry 1 ''2'' = None"
    by (simp add: sample_registry_def do_action_def init_run_state_def new_leg_state_def sample_cfg_def upper_B
      str_one empty_registry_def get_state_lock_def lock_for_def put_run_def put_leg_def ack_entry_def find_leg_def
      run_state_def apply_fill_def fill_leg_def live_guard_def fill_entry_def recompute_totals_def run_pnl_def
      pnl_legs_def leg_pnl_state_def pnl_from_state_def get_val_def not_none_or_def as_float_def as_price_def
      is_price_def ftruthy_def zero_pyfloat_def py_or_def aggregate_pnl_def exit_in_flight_def leg_at_def Let_def)
  with claim_legs_partition [OF sample_reachable d c] at c show ?thesis
    by (auto simp: str_one two claimable_def dest!: spec [of _ "''1''"])
qed

end
