(* ===== verification/Run_Books.thy ===== *)
theory Run_Books
  imports Run_Claims
begin

text \<open>
  The books of a run: what a fill changes and what it may not, how the totals are kept, what a
  flip carries over, when a stop may end a run, and which exits a tick decides. The lemmas evaluate the
  quantity arithmetic exactly for sizes below \<open>2^53\<close>, where \<open>float\<close> of an integer is exact.
\<close>

section \<open>Library lemmas\<close>

lemma py_float_VInt: "\<bar>n\<bar> < 2 ^ 53 \<Longrightarrow> py_float (VInt n) = Ret (Fin (of_int n))"
  by (simp add: to_double_of_int Let_def)

lemma held_units_exact: "\<bar>n\<bar> < 2 ^ 53 \<Longrightarrow> held_units n = Ret (max 0 n)"
  by (simp add: held_units_def py_float_VInt del: py_float.simps)

lemma exit_fill_quantities_exact:
  assumes "\<bar>held\<bar> < 2 ^ 53" and "\<And>q. filled = Some q \<Longrightarrow> \<bar>q\<bar> < 2 ^ 53"
  shows "exit_fill_quantities filled held =
    (let a = (case filled of None \<Rightarrow> max 0 held | Some q \<Rightarrow> min (max 0 q) (max 0 held)) in Ret (a, max 0 held - a))"
  using assms by (simp add: exit_fill_quantities_def held_units_exact Let_def split: option.split)

lemma dset_same: "dget d k = Some v \<Longrightarrow> dset k v d = d"
  by (induction d) auto

lemma put_leg_same:
  assumes "run_state reg rid = Some r" and "dget (legs r) k = Some l"
  shows "put_leg rid r k l reg = reg"
proof -
  have "dget (runs reg) rid = Some r" using assms(1) by (auto simp: run_state_def split: if_splits)
  with assms(2) show ?thesis by (simp add: put_leg_def put_run_def dset_same)
qed

lemma apply_fill_found:
  assumes "run_state reg rid = Some r" and "dget (legs r) (id_str lid) = Some l"
    and "apply_fill rid lid f reg = (Applied e w, reg')"
  obtains l' r' where "fill_leg l f = (None, l')" "recompute_totals (r\<lparr>legs := dset (id_str lid) l' (legs r)\<rparr>) = Ret r'"
    "reg' = put_run rid r' reg" "e = (f_entry f \<and> f_terminal f)" "w = (\<not> run_requires_management r')"
    "leg_at reg' rid (id_str lid) = Some l'"
proof -
  have "\<exists>l' r'. fill_leg l f = (None, l') \<and> recompute_totals (r\<lparr>legs := dset (id_str lid) l' (legs r)\<rparr>) = Ret r' \<and>
    reg' = put_run rid r' reg \<and> e = (f_entry f \<and> f_terminal f) \<and> w = (\<not> run_requires_management r')"
  proof (cases rule: fill_leg_cases [of l f])
    case (unchanged oc)
    then have "oc = Applied e w" using assms by (simp add: apply_fill_def)
    with unchanged have "fill_leg l f = (Some (Applied e w), l)" by simp
    then have False
      by (auto simp: fill_leg_def live_guard_def Let_def split: option.splits if_splits sum.splits)
    then show ?thesis ..
  next
    case (exit)
    have "fst (fill_exit l f) = None"
      using assms exit(4) by (cases "fst (fill_exit l f)") (auto simp: apply_fill_def)
    with exit assms show ?thesis
      by (auto simp: apply_fill_def Let_def split: sum.splits)
  qed (use assms in \<open>auto simp: apply_fill_def Let_def split: sum.splits\<close>)
  then obtain l' r' where x: "fill_leg l f = (None, l')" "recompute_totals (r\<lparr>legs := dset (id_str lid) l' (legs r)\<rparr>) = Ret r'"
    "reg' = put_run rid r' reg" "e = (f_entry f \<and> f_terminal f)" "w = (\<not> run_requires_management r')" by blast
  have "leg_at reg' rid (id_str lid) = Some l'"
    using assms(1) recompute_totals_legs [OF x(2)] by (simp add: x(3) leg_at_put_run dget_dset)
  with x that show ?thesis by blast
qed

section \<open>Properties\<close>

text \<open>C12: An exit fill books exactly what was traded. For a fill of the live position with sizes below
  \<open>2^53\<close>, the applied quantity is the reported one capped at what is held (all of it when the broker
  names none), the leg keeps exactly the remainder, is closed exactly when nothing remains, its
  realized figure moves by the signed price difference times the applied quantity when both prices are
  known and not at all otherwise, and the exit is released only by the terminal report of its own order.\<close>

theorem exit_fill_books:
  assumes "run_state reg rid = Some r" and "dget (legs r) (id_str lid) = Some l"
    and "apply_fill rid lid f reg = (Applied e w, reg')" and "\<not> f_entry f"
    and "\<forall>s. superseded l = Some s \<longrightarrow> \<not> settles_superseded l s f"
    and "0 \<le> qty l" and "qty l < 2 ^ 53" and "\<forall>q. f_filled f = Some q \<longrightarrow> 0 \<le> q \<and> q < 2 ^ 53"
  shows "\<exists>l' applied. leg_at reg' rid (id_str lid) = Some l' \<and>
    applied = (case f_filled f of None \<Rightarrow> qty l | Some q \<Rightarrow> min q (qty l)) \<and>
    qty l' = qty l - applied \<and> 0 \<le> qty l' \<and>
    status l' = (if qty l' = 0 then Closed else Open) \<and>
    realized_pnl l' = (case f_price f of None \<Rightarrow> realized_pnl l
       | Some p \<Rightarrow> if applied > 0 \<and> entry_avg l > 0
                   then realized_pnl l + round_trip (position l) (entry_avg l) p applied else realized_pnl l) \<and>
    (exit_in_flight l' \<longleftrightarrow> exit_in_flight l \<and> \<not> (f_terminal f \<and> (f_row f = None \<or> exit_order_id l = f_row f)))"
proof -
  from assms(1-3) obtain l' r' where fl: "fill_leg l f = (None, l')" "leg_at reg' rid (id_str lid) = Some l'"
    by (rule apply_fill_found)
  have l': "l' = snd (fill_exit l f)" "fst (fill_exit l f) = None"
    using fl(1) assms(4,5) by (cases rule: fill_leg_cases [of l f]; auto)+
  let ?a = "case f_filled f of None \<Rightarrow> qty l | Some q \<Rightarrow> min q (qty l)"
  have q: "exit_fill_quantities (f_filled f) (qty l) = Ret (?a, qty l - ?a)"
    using assms(6-8) by (subst exit_fill_quantities_exact) (auto simp: Let_def split: option.split)
  have a: "0 \<le> ?a" "?a \<le> qty l" using assms(6-8) by (auto split: option.splits)
  show ?thesis
    using a unfolding fl(2) l' fill_exit_def Let_def
    by (intro exI [of _ l'] exI [of _ ?a])
      (auto simp: l' fill_exit_def q Let_def clear_exit_def exit_in_flight_def split: option.splits)
qed

definition exit_fill :: fill where
  "exit_fill = \<lparr>f_price = Some (Fin 105), f_entry = False, f_filled = Some 4, f_row = None, f_ref = Some ''p'',
                f_cumulative = None, f_terminal = True, f_prior_ok = False\<rparr>"

lemma sample_exit_fill:
  "\<exists>r l e w reg'. run_state sample_registry 1 = Some r \<and> dget (legs r) (id_str (IdInt 1)) = Some l \<and>
     apply_fill 1 (IdInt 1) exit_fill sample_registry = (Applied e w, reg') \<and>
     superseded l = None \<and> qty l = 10 \<and> entry_avg l = Fin 100"
  by (simp add: exit_fill_def sample_registry_def do_action_def init_run_state_def new_leg_state_def sample_cfg_def upper_B
      str_one empty_registry_def get_state_lock_def lock_for_def put_run_def put_leg_def ack_entry_def find_leg_def
      run_state_def apply_fill_def fill_leg_def live_guard_def fill_entry_def recompute_totals_def run_pnl_def
      pnl_legs_def leg_pnl_state_def pnl_from_state_def get_val_def not_none_or_def as_float_def as_price_def
      is_price_def ftruthy_def zero_pyfloat_def py_or_def aggregate_pnl_def exit_in_flight_def Let_def
      fill_exit_def exit_fill_quantities_def held_units_def round_trip_def minus_Fin clear_exit_def) blast

theorem exit_fill_books_witness:
  "\<exists>e w reg' l'. apply_fill 1 (IdInt 1) exit_fill sample_registry = (Applied e w, reg') \<and>
     leg_at reg' 1 (id_str (IdInt 1)) = Some l' \<and> qty l' = 6 \<and> status l' = Open"
proof -
  from sample_exit_fill obtain r l e w reg' where s: "run_state sample_registry 1 = Some r"
      "dget (legs r) (id_str (IdInt 1)) = Some l" "apply_fill 1 (IdInt 1) exit_fill sample_registry = (Applied e w, reg')"
      "superseded l = None" "qty l = 10" by blast
  have "\<not> f_entry exit_fill" "\<forall>s. superseded l = Some s \<longrightarrow> \<not> settles_superseded l s exit_fill" "0 \<le> qty l"
      "qty l < 2 ^ 53" "\<forall>q. f_filled exit_fill = Some q \<longrightarrow> 0 \<le> q \<and> q < 2 ^ 53"
    using s by (simp_all add: exit_fill_def)
  from exit_fill_books [OF s(1-3) this] s show ?thesis by (auto simp: exit_fill_def)
qed

text \<open>Settling the outgoing side of a flip never touches the position that replaced it. A fill
  that belongs to the outgoing side changes nothing of the live leg but its running realized figure; it
  removes exactly the applied quantity from the outgoing position, books it at the outgoing entry and
  side, and drops that position only when nothing of it remains and the terminal report of its own
  exit order has arrived.\<close>

theorem superseded_fill_isolated:
  assumes "run_state reg rid = Some r" and "dget (legs r) (id_str lid) = Some l" and "superseded l = Some s"
    and "settles_superseded l s f" and "apply_fill rid lid f reg = (Applied e w, reg')"
    and "0 \<le> sp_qty s" and "sp_qty s < 2 ^ 53" and "\<forall>q. f_filled f = Some q \<longrightarrow> 0 \<le> q \<and> q < 2 ^ 53"
  shows "\<exists>l' applied. leg_at reg' rid (id_str lid) = Some l' \<and>
    applied = (case f_filled f of None \<Rightarrow> sp_qty s | Some q \<Rightarrow> min q (sp_qty s)) \<and>
    l' = l\<lparr>realized_pnl := realized_pnl l', superseded := superseded l'\<rparr> \<and>
    realized_pnl l' = (case f_price f of None \<Rightarrow> realized_pnl l
       | Some p \<Rightarrow> if sp_entry_avg s > 0 then realized_pnl l + round_trip (sp_position s) (sp_entry_avg s) p applied
                   else realized_pnl l) \<and>
    (case superseded l' of
       None \<Rightarrow> applied = sp_qty s \<and> f_terminal f \<and> (f_row f = None \<or> sp_exit_order_id s = f_row f)
     | Some s' \<Rightarrow> sp_qty s' = sp_qty s - applied \<and> sp_position s' = sp_position s \<and> sp_entry_avg s' = sp_entry_avg s)"
proof -
  from assms(1,2,5) obtain l' r' where fl: "fill_leg l f = (None, l')" "leg_at reg' rid (id_str lid) = Some l'"
    by (rule apply_fill_found)
  have set: "settle_superseded l s f = Ret l'"
    using fl(1) assms(3,4) by (auto simp: fill_leg_def split: sum.splits)
  let ?a = "case f_filled f of None \<Rightarrow> sp_qty s | Some q \<Rightarrow> min q (sp_qty s)"
  have q: "exit_fill_quantities (f_filled f) (sp_qty s) = Ret (?a, sp_qty s - ?a)"
    using assms(6-8) by (subst exit_fill_quantities_exact) (auto simp: Let_def split: option.split)
  have a: "?a \<le> sp_qty s" by (auto split: option.splits)
  have eq: "l\<lparr>realized_pnl := b, superseded := s'\<rparr> =
      l\<lparr>realized_pnl := realized_pnl (l\<lparr>realized_pnl := b, superseded := s'\<rparr>),
        superseded := superseded (l\<lparr>realized_pnl := b, superseded := s'\<rparr>)\<rparr>" for b s' by simp
  from set a show ?thesis
    unfolding fl(2) settle_superseded_def q rbind_simps
    by (intro exI [of _ l'] exI [of _ ?a]) (auto simp: Let_def split: option.splits if_splits)
qed

definition flipped_leg :: leg where
  "flipped_leg = sample_leg\<lparr>position := ''S'', qty := 10, superseded := Some
     \<lparr>sp_exit_order_id = Some 8, sp_exit_claim_token = Some ''t'', sp_exit_kind = Some ''exit_signal'',
      sp_entry_order_id = Some 7, sp_position_ref = Some ''old'', sp_position = ''B'', sp_entry_avg = Fin 100,
      sp_qty = 10\<rparr>\<rparr>"

definition flipped_registry :: registry where
  "flipped_registry = \<lparr>runs = [(1, sample_run\<lparr>legs := [(''1'', flipped_leg)]\<rparr>)], locks = {1}, next_uuid = 5\<rparr>"

definition outgoing_fill :: fill where
  "outgoing_fill = \<lparr>f_price = Some (Fin 105), f_entry = False, f_filled = Some 10, f_row = Some 8,
                    f_ref = Some ''old'', f_cumulative = None, f_terminal = True, f_prior_ok = False\<rparr>"

theorem superseded_fill_isolated_witness:
  "\<exists>e w reg' l'. apply_fill 1 (IdInt 1) outgoing_fill flipped_registry = (Applied e w, reg') \<and>
     leg_at reg' 1 ''1'' = Some l' \<and> qty l' = 10 \<and> position l' = ''S'' \<and> realized_pnl l' = Fin 50"
proof -
  have run: "run_state flipped_registry 1 = Some (sample_run\<lparr>legs := [(''1'', flipped_leg)]\<rparr>)"
    by (simp add: flipped_registry_def run_state_def lock_for_def)
  have leg: "dget (legs (sample_run\<lparr>legs := [(''1'', flipped_leg)]\<rparr>)) (id_str (IdInt 1)) = Some flipped_leg"
    by (simp add: str_one)
  obtain s where s: "superseded flipped_leg = Some s" "sp_qty s = 10" "settles_superseded flipped_leg s outgoing_fill"
      "sp_entry_avg s = Fin 100" "sp_position s = ''B''"
    by (simp add: flipped_leg_def settles_superseded_def outgoing_fill_def)
  have "\<exists>e w reg'. apply_fill 1 (IdInt 1) outgoing_fill flipped_registry = (Applied e w, reg')"
    by (simp add: outgoing_fill_def flipped_registry_def flipped_leg_def sample_run_def sample_leg_def str_one
      put_run_def run_state_def lock_for_def apply_fill_def fill_leg_def settles_superseded_def settle_superseded_def
      recompute_totals_def run_pnl_def pnl_legs_def leg_pnl_state_def pnl_from_state_def get_val_def not_none_or_def
      as_float_def as_price_def is_price_def ftruthy_def zero_pyfloat_def py_or_def aggregate_pnl_def Let_def
      exit_fill_quantities_def held_units_def round_trip_def minus_Fin) blast
  then obtain e w reg' where f: "apply_fill 1 (IdInt 1) outgoing_fill flipped_registry = (Applied e w, reg')" by blast
  have "0 \<le> sp_qty s" "sp_qty s < 2 ^ 53" "\<forall>q. f_filled outgoing_fill = Some q \<longrightarrow> 0 \<le> q \<and> q < 2 ^ 53"
    using s by (simp_all add: outgoing_fill_def)
  from superseded_fill_isolated [OF run leg s(1,3) f this]
  obtain l' where l': "leg_at reg' 1 (id_str (IdInt 1)) = Some l'"
      "l' = flipped_leg\<lparr>realized_pnl := realized_pnl l', superseded := superseded l'\<rparr>"
      "realized_pnl l' = realized_pnl flipped_leg + round_trip ''B'' (Fin 100) (Fin 105) 10"
    using s by (auto simp: outgoing_fill_def zero_pyfloat_def)
  have "qty l' = qty flipped_leg" "position l' = position flipped_leg" by (subst l'(2), simp)+
  with l' f show ?thesis
    by (auto simp: flipped_leg_def sample_leg_def str_one zero_pyfloat_def round_trip_def minus_Fin)
qed

lemma after_pnl_rule: "recompute_totals r = Ret r' \<Longrightarrow>
    run_pnl r = Ret (pnl_realized r', pnl_unrealized r') \<and> pnl_total r' = pnl_realized r' + pnl_unrealized r' \<and>
    (pnl_peak r \<noteq> NaN \<longrightarrow> pnl_peak r \<le> pnl_peak r') \<and> legs r' = legs r"
  by (auto simp: recompute_totals_def rbind_Ret Let_def py_max_ge1)

lemma run_pnl_legs: "legs r = legs r' \<Longrightarrow> run_pnl r = run_pnl r'"
  by (simp add: run_pnl_def pnl_legs_def)

text \<open>The recorded totals of a run never go stale under fills. After a fill is applied the stored realized
  and unrealized figures are those a fresh evaluation of the stored legs gives, the total is their
  sum, the peak did not fall, and the fill reports the run flat exactly when no leg, outgoing
  position or pending entry claim still needs managing.\<close>

theorem fill_totals_consistent:
  assumes "run_state reg rid = Some r" and "apply_fill rid lid f reg = (Applied e w, reg')"
  shows "\<exists>r'. run_state reg' rid = Some r' \<and> run_pnl r' = Ret (pnl_realized r', pnl_unrealized r') \<and>
    pnl_total r' = pnl_realized r' + pnl_unrealized r' \<and>
    (pnl_peak r \<noteq> NaN \<longrightarrow> pnl_peak r \<le> pnl_peak r') \<and> w = (\<not> run_requires_management r')"
proof -
  from assms obtain l where l: "dget (legs r) (id_str lid) = Some l"
    by (auto simp: apply_fill_def split: option.splits)
  from assms(1) l assms(2) obtain l' r' where x: "recompute_totals (r\<lparr>legs := dset (id_str lid) l' (legs r)\<rparr>) = Ret r'"
      "reg' = put_run rid r' reg" "w = (\<not> run_requires_management r')" by (rule apply_fill_found)
  from after_pnl_rule [OF x(1)] run_pnl_legs [of r' "r\<lparr>legs := dset (id_str lid) l' (legs r)\<rparr>"]
  show ?thesis using x(3) assms(1) by (auto simp: x(2) run_state_put)
qed

theorem fill_totals_consistent_witness:
  "\<exists>e w reg' r'. apply_fill 1 (IdInt 1) exit_fill sample_registry = (Applied e w, reg') \<and>
     run_state reg' 1 = Some r' \<and> pnl_total r' = pnl_realized r' + pnl_unrealized r' \<and> w = (\<not> run_requires_management r')"
proof -
  from sample_exit_fill obtain r e w reg' where s: "run_state sample_registry 1 = Some r"
      "apply_fill 1 (IdInt 1) exit_fill sample_registry = (Applied e w, reg')" by blast
  from fill_totals_consistent [OF s] s(2) show ?thesis by blast
qed

text \<open>A fill that is not this leg's changes nothing. When the fill names a position reference that is
  neither the live nor the outgoing one, or its order is not the one the live leg waits for and is not
  a permitted correction, the fill is refused and the registry is exactly what it was.\<close>

theorem foreign_fill_inert:
  assumes "run_state reg rid = Some r" and "dget (legs r) (id_str lid) = Some l"
    and "\<forall>s. superseded l = Some s \<longrightarrow> \<not> settles_superseded l s f"
    and "(f_ref f \<noteq> None \<and> position_ref l \<noteq> f_ref f) \<or>
      (\<exists>row expected. f_row f = Some row \<and> \<not> f_prior_ok f \<and> expected \<noteq> row \<and>
         (if f_entry f then entry_order_id l else exit_order_id l) = Some expected) \<or>
      (\<not> f_entry f \<and> f_row f \<noteq> None \<and> exit_kind l = None \<and> exit_order_id l = None \<and> \<not> f_prior_ok f)"
  shows "fst (apply_fill rid lid f reg) \<in> {RefMismatch, StaleOrder, NoExitInFlight} \<and>
    snd (apply_fill rid lid f reg) = reg"
proof -
  from assms(4) have "live_guard l f \<noteq> None" by (auto simp: live_guard_def Let_def)
  then obtain oc where oc: "live_guard l f = Some oc" "oc \<in> {RefMismatch, StaleOrder, NoExitInFlight}"
    by (auto simp: live_guard_def Let_def split: if_splits)
  with assms(3) have "fill_leg l f = (Some oc, l)" by (auto simp: fill_leg_def split: option.splits)
  with assms(1,2) oc(2) show ?thesis by (simp add: apply_fill_def put_leg_same)
qed

theorem foreign_fill_inert_witness:
  "snd (apply_fill 1 (IdInt 1) (exit_fill\<lparr>f_ref := Some ''other''\<rparr>) sample_registry) = sample_registry"
proof -
  from sample_exit_fill obtain r l e w reg' where s: "run_state sample_registry 1 = Some r"
      "dget (legs r) (id_str (IdInt 1)) = Some l" "apply_fill 1 (IdInt 1) exit_fill sample_registry = (Applied e w, reg')"
      "superseded l = None" by blast
  have "live_guard l exit_fill = None"
    using s by (auto simp: apply_fill_def fill_leg_def split: option.splits) (auto simp: live_guard_def Let_def split: if_splits)
  then have "position_ref l = Some ''p''" by (auto simp: live_guard_def exit_fill_def Let_def split: if_splits)
  then have "f_ref (exit_fill\<lparr>f_ref := Some ''other''\<rparr>) \<noteq> None \<and>
      position_ref l \<noteq> f_ref (exit_fill\<lparr>f_ref := Some ''other''\<rparr>)" by simp
  with foreign_fill_inert [OF s(1,2), of "exit_fill\<lparr>f_ref := Some ''other''\<rparr>"] s(4) show ?thesis by auto
qed

text \<open>A flip keeps both sides on the books. When an authorised entry is installed over an open position,
  the new leg carries the whole outgoing position (side, size, entry price, reference and the exit
  that is closing it), inherits the realized figure, needs managing, and no other leg of the registry changes.\<close>

theorem flip_keeps_both_sides:
  assumes "add_leg rid cfg tok expected oid reg = (Ret (Some l'), reg')"
    and "leg_at reg rid (id_str (c_leg_id cfg)) = Some p" and "status p = Open"
    and "run_state reg rid = Some r" and "dget (signal_entry_claims r) (id_str (c_leg_id cfg)) = Some c"
    and "held_position c \<noteq> None"
  shows "leg_at reg' rid (id_str (c_leg_id cfg)) = Some l' \<and> superseded l' = Some (as_superseded p) \<and>
    realized_pnl l' = realized_pnl p \<and> entry_order_id l' = Some oid \<and> leg_requires_management l' \<and>
    exit_kind p \<noteq> None \<and> exit_claim_token p \<noteq> None \<and> tok = Some (claim_token c) \<and>
    (\<forall>rid' k. if rid' = rid \<and> k = id_str (c_leg_id cfg) then True else leg_at reg' rid' k = leg_at reg rid' k)"
proof (cases rule: add_leg_cases [of rid cfg tok expected oid reg])
  case refused
  with assms(1) show ?thesis by simp
next
  case (installed r1 l0 c1)
  have same: "r1 = r" "c1 = c" using installed(1,3) assms(4,5) by auto
  have p: "dget (legs r) (id_str (c_leg_id cfg)) = Some p" using assms(2,4) by (simp add: leg_at_def)
  have l': "l' = installed_leg (l0\<lparr>entry_order_id := Some oid\<rparr>) c (Some p)" "reg' = put_leg rid r (id_str (c_leg_id cfg)) l' reg"
    using installed(7) assms(1) same p by auto
  have fields: "superseded l' = Some (as_superseded p)" "realized_pnl l' = realized_pnl p" "entry_order_id l' = Some oid"
    using assms(3,6) by (simp_all add: l'(1) installed_leg_def Let_def)
  moreover have "leg_requires_management l'" using fields(1) by (simp add: leg_requires_management_def)
  moreover have "tok = Some (claim_token c)" using installed(4) same by (simp add: claim_matches_def)
  ultimately show ?thesis
    using installed(6) [of p] p same assms(3,4,6) by (auto simp: l'(2) leg_at_put_leg)
qed

definition flip_cfg :: leg_cfg where
  "flip_cfg = (sample_cfg ''S'')\<lparr>c_position_ref := Some ''q''\<rparr>"

definition flip_registry :: registry where
  "flip_registry = \<lparr>runs = [(1, sample_run\<lparr>
       legs := [(''1'', sample_leg\<lparr>exit_kind := Some ''exit_signal'', exit_claim_token := Some ''x''\<rparr>)],
       signal_entry_claims := [(''1'', \<lparr>claim_token = ''t'', claim_position_ref = ''q'', claim_position = ''S'',
         held_position = Some ''B'', expected_position_ref = Some ''p''\<rparr>)]\<rparr>)], locks = {1}, next_uuid = 5\<rparr>"

theorem flip_keeps_both_sides_witness:
  "\<exists>l' reg'. add_leg 1 flip_cfg (Some ''t'') (Some ''p'') 9 flip_registry = (Ret (Some l'), reg') \<and>
     (\<exists>s. superseded l' = Some s \<and> sp_qty s = 10 \<and> sp_position s = ''B'')"
proof -
  have upper_S: "str_upper ''S'' = ''S''" by code_simp
  let ?p = "sample_leg\<lparr>exit_kind := Some ''exit_signal'', exit_claim_token := Some ''x''\<rparr>"
  have run: "run_state flip_registry 1 = Some (snd (hd (runs flip_registry)))"
    by (simp add: flip_registry_def run_state_def lock_for_def)
  have key: "id_str (c_leg_id flip_cfg) = ''1''" by (simp add: flip_cfg_def sample_cfg_def str_one)
  have leg: "leg_at flip_registry 1 (id_str (c_leg_id flip_cfg)) = Some ?p"
    unfolding key by (simp add: leg_at_def run) (simp add: flip_registry_def)
  have "\<exists>l' reg'. add_leg 1 flip_cfg (Some ''t'') (Some ''p'') 9 flip_registry = (Ret (Some l'), reg')"
    unfolding add_leg_def run key
    by (simp add: flip_registry_def flip_cfg_def sample_cfg_def sample_run_def sample_leg_def new_leg_state_def
        upper_S claim_matches_def str_one Let_def)
  then obtain l' reg' where a: "add_leg 1 flip_cfg (Some ''t'') (Some ''p'') 9 flip_registry = (Ret (Some l'), reg')" by blast
  have c: "\<exists>c. dget (signal_entry_claims (snd (hd (runs flip_registry)))) (id_str (c_leg_id flip_cfg)) = Some c \<and> held_position c \<noteq> None"
    unfolding key by (simp add: flip_registry_def)
  then obtain c where c: "dget (signal_entry_claims (snd (hd (runs flip_registry)))) (id_str (c_leg_id flip_cfg)) = Some c"
      "held_position c \<noteq> None" by blast
  have "status ?p = Open" by (simp add: sample_leg_def)
  from flip_keeps_both_sides [OF a leg this run c] a show ?thesis
    by (auto simp: as_superseded_def sample_leg_def)
qed

end
