(* ===== verification/Run_Stops.thy ===== *)
theory Run_Stops
  imports Run_Books
begin

text \<open>
  Properties of the deciding paths: a stop ends a run only when nothing of it is left to manage, and
  a tick decides exactly the exits its legs call for.
\<close>

section \<open>Library lemmas\<close>

lemma finalise_cases:
  assumes "finalise released detached rid reg = (True, reg')"
  shows "reg' = clear_run_state rid reg" and "\<And>r. run_state reg rid = Some r \<Longrightarrow> \<not> run_requires_management r"
    and "released (final_snapshot (run_state reg rid)) \<or> detached (final_snapshot (run_state reg rid))"
  using assms by (auto simp: finalise_def Let_def split: if_splits option.splits)

definition ended_flat :: "stop_env \<Rightarrow> int \<Rightarrow> registry \<Rightarrow> bool" where
  "ended_flat env rid reg' =
     (\<exists>reg0 r. run_state reg0 rid = Some r \<and> \<not> run_requires_management r \<and> reg' = clear_run_state rid reg0 \<and>
        (se_released env (final_snapshot (Some r)) \<or> se_detached env (final_snapshot (Some r))))"

lemma finalise_ended:
  assumes "finalise (se_released env) (se_detached env) rid reg = (True, reg')" and "run_state reg rid = Some r"
  shows "ended_flat env rid reg'"
  unfolding ended_flat_def using finalise_cases [OF assms(1)] assms(2) by (intro exI [of _ reg] exI [of _ r]) auto

lemma stop_tail_done:
  assumes "stop_tail env rid exits reg = (sr, reg')" and "sr_ok sr" "\<not> sr_pending sr" and "\<not> se_stopped_after env"
  shows "ended_flat env rid reg'"
proof -
  obtain ok reg2 where fin: "finalise (se_released env) (se_detached env) rid (se_last env reg) = (ok, reg2)" by fastforce
  from assms obtain r where "run_state (se_last env reg) rid = Some r" "ok" "reg' = reg2"
    by (auto simp: stop_tail_def stop_failed_def stop_done_def fin Let_def split: option.splits if_splits)
  with finalise_ended [of env rid "se_last env reg" reg2 r] fin show ?thesis by simp
qed

section \<open>Properties\<close>


definition flat_registry :: registry where
  "flat_registry = \<lparr>runs = [(1, sample_run\<lparr>legs := [(''1'', sample_leg\<lparr>status := Closed\<rparr>)]\<rparr>)], locks = {1}, next_uuid = 0\<rparr>"

definition calm_env :: stop_env where
  "calm_env =
     \<lparr> se_active = True, se_strategy = True, se_requested = True, se_reason = ''manual'', se_unresolved = False,
       se_ack = id, se_api_key = True, se_poll = id, se_stopped = False, se_answers = [], se_between = id,
       se_stopped_after = False, se_last = id, se_released = (\<lambda>_. True), se_detached = (\<lambda>_. False),
       se_product = ''NRML'', se_name = ''s'' \<rparr>"


section \<open>Ticks\<close>

text \<open>The reference: every matching leg is evaluated on its own, in the order of the dictionary.\<close>

definition leg_decision :: "string \<Rightarrow> string \<Rightarrow> pyval \<Rightarrow> leg \<Rightarrow> (position_decision \<times> leg) option" where
  "leg_decision tick_symbol exch v l =
     (if leg_matches tick_symbol exch l then
        (case evaluate_leg l v of Inl e \<Rightarrow> None | Inr dl \<Rightarrow> Some dl) else None)"

lemma tick_legs_reference:
  "tick_legs tick_symbol exch v d = (d', xs, evs, None) \<Longrightarrow>
   d' = map (\<lambda>(k, l). (k, case leg_decision tick_symbol exch v l of None \<Rightarrow> l | Some (dc, l') \<Rightarrow> l')) d \<and>
   xs = concat (map (\<lambda>(k, l). case leg_decision tick_symbol exch v l of None \<Rightarrow> [] | Some (dc, l') \<Rightarrow> leg_tick_exits l dc) d)"
proof (induction d arbitrary: d' xs evs)
  case Nil
  then show ?case by simp
next
  case (Cons kl d)
  obtain k l where kl: "kl = (k, l)" by fastforce
  obtain e xs1 evs1 ex1 where rest: "tick_legs tick_symbol exch v d = (e, xs1, evs1, ex1)" by (metis prod_cases4)
  from Cons.prems rest kl have ex1: "ex1 = None"
    by (auto split: if_splits sum.splits prod.splits)
  from Cons.IH [OF rest [unfolded ex1]] Cons.prems rest kl show ?case
    by (auto simp: leg_decision_def split: if_splits sum.splits prod.splits)
qed

lemma concat_map_values: "concat (map (\<lambda>(k, l). g l) d) = concat (map g (dvalues d))"
  by (induction d) auto

lemma leg_tick_exits_breach:
  assumes "evaluate_leg l v = Ret (d, l')"
  shows "leg_tick_exits l d =
    (if reason d = Some STOP then [(leg_id l, ''exit_sl'')]
     else if reason d = Some TARGET then [(leg_id l, ''exit_target'')] else [])"
proof -
  from assms obtain r where "evaluate_position r v = Ret d" by (rule evaluate_leg_cases)
  then have "(reason d = None \<or> reason d = Some STOP \<or> reason d = Some TARGET) \<and> breached d = (reason d \<noteq> None)"
  proof (cases rule: evaluate_position_cases)
    case ignored
    then show ?thesis by (simp add: ignored_tick_def)
  next
    case (tick ltp)
    with evaluate_tick_fields(6,7) [OF tick(4)] show ?thesis by auto
  qed
  then show ?thesis by (auto simp: leg_tick_exits_def)
qed

text \<open>C14: A tick decides exactly the exits its legs call for. When the critical section of a tick completes, its
  exits are, in the order of the legs, one for every open leg of that instrument whose own evaluation
  hits its stop or its target, of the matching kind, and none for any other leg; every leg keeps
  its claims, its size, its side and its status.\<close>

theorem tick_exits_exact:
  assumes "tick_run tick_symbol exch v s limit banked r = (Ret t, r')"
  shows "tk_exits t = concat (map (\<lambda>l. case leg_decision tick_symbol exch v l of
            None \<Rightarrow> []
          | Some (d, l') \<Rightarrow> if reason d = Some STOP then [(leg_id l, ''exit_sl'')]
              else if reason d = Some TARGET then [(leg_id l, ''exit_target'')] else []) (dvalues (legs r))) \<and>
    legs_same_claims (legs r) (legs r')"
proof -
  obtain ls xs evs ex where t: "tick_legs tick_symbol exch v (legs r) = (ls, xs, evs, ex)" by (metis prod_cases4)
  with assms have "ex = None" "tk_exits t = xs"
    by (cases ex; auto simp: tick_run_def Let_def split: sum.splits prod.splits)+
  with tick_legs_reference [of tick_symbol exch v "legs r" ls xs evs] t
  have xs: "tk_exits t = concat (map (\<lambda>(k, l). case leg_decision tick_symbol exch v l of None \<Rightarrow> []
      | Some (dc, l') \<Rightarrow> leg_tick_exits l dc) (legs r))" by simp
  have one: "(case leg_decision tick_symbol exch v l of None \<Rightarrow> [] | Some (dc, l') \<Rightarrow> leg_tick_exits l dc) =
      (case leg_decision tick_symbol exch v l of None \<Rightarrow> []
       | Some (d, l') \<Rightarrow> if reason d = Some STOP then [(leg_id l, ''exit_sl'')]
              else if reason d = Some TARGET then [(leg_id l, ''exit_target'')] else [])" for l
    by (auto simp: leg_decision_def leg_tick_exits_breach split: sum.split)
  have "legs_same_claims (legs r) (legs r')"
    using tick_run_same(1) [of r tick_symbol exch v s limit banked] assms by simp
  then show ?thesis unfolding xs one concat_map_values by simp
qed

theorem tick_exits_exact_witness:
  "\<exists>t r'. tick_run ''NIFTY'' ''NFO'' (VInt 90) sample_strategy None None sample_run = (Ret t, r') \<and>
     tk_exits t = [(IdInt 1, ''exit_sl'')]"
proof -
  have str: "str_upper ''B'' = ''B''" "str_lower ''points'' = ''points''" by code_simp+
  have "\<exists>d l'. evaluate_leg sample_leg (VInt 90) = Ret (d, l') \<and> reason d = Some STOP \<and> status l' = Open \<and>
      entry_avg l' = Fin 100 \<and> qty l' = 10 \<and> leg_ltp l' = Some (Fin 90) \<and> realized_pnl l' = 0 \<and> position l' = ''B''"
    by (simp add: evaluate_leg_def leg_to_position_risk_def sample_leg_def side_of_position_def str points_per_unit_def
        in_points_def stop_from_points_def is_price_def apply_leg_decision_def tick_eval)
  then obtain d l' where ev: "evaluate_leg sample_leg (VInt 90) = Ret (d, l')" "reason d = Some STOP"
    and l': "status l' = Open" "entry_avg l' = Fin 100" "qty l' = 10" "leg_ltp l' = Some (Fin 90)"
      "realized_pnl l' = 0" "position l' = ''B''" by blast
  have m: "leg_matches ''NIFTY'' ''NFO'' sample_leg" by (simp add: leg_matches_def sample_leg_def)
  have pnl: "\<exists>re un. run_pnl (sample_run\<lparr>legs := [(''1'', l')]\<rparr>) = Ret (re, un)"
    by (simp add: run_pnl_def pnl_legs_def leg_pnl_state_def l' pnl_from_state_def get_val_def not_none_or_def as_float_def
        as_price_def is_price_def ftruthy_def zero_pyfloat_def py_or_def Let_def)
  have "\<exists>t r'. tick_run ''NIFTY'' ''NFO'' (VInt 90) sample_strategy None None sample_run = (Ret t, r')"
  proof -
    from pnl obtain re un where "run_pnl (sample_run\<lparr>legs := [(''1'', l')]\<rparr>) = Ret (re, un)" by blast
    then obtain dc r2 where "evaluate_run (sample_run\<lparr>legs := [(''1'', l')]\<rparr>) sample_strategy = Ret (dc, r2)"
      by (simp add: evaluate_run_def Let_def)
    moreover have "legs sample_run = [(''1'', sample_leg)]" "\<not> trail_sl_to_entry sample_strategy"
      by (simp_all add: sample_run_def sample_strategy_def)
    ultimately show ?thesis
      by (simp add: tick_run_def m ev tick_trail_def split: prod.split)
  qed
  then obtain t r' where t: "tick_run ''NIFTY'' ''NFO'' (VInt 90) sample_strategy None None sample_run = (Ret t, r')"
    by blast
  from tick_exits_exact [OF t] ev m t show ?thesis
    by (auto simp: leg_decision_def sample_run_def) (simp add: sample_leg_def)
qed

end
