(* ===== verification/Signal_Legs.thy ===== *)
theory Signal_Legs
  imports Run_Exits Run_Claims
begin

text \<open>
  What a signal is checked against before any order: the trading session (\<open>services/strategy_module/session.py\<close>), the
  strategy's window and the leg it names (\<open>signals.py\<close>), and the instrument and quantity in the master contract
  (\<open>symbol_resolver.py\<close>). A moment is the number of microseconds of the naive local clock since a
  midnight, a time of day the number since the last one. A configured leg is an untyped dictionary; its
  trailing step stands beside it, as it is a dictionary of its own. The id of a leg is used through its
  text only. \<open>frepr\<close> is the text of a float.
\<close>

section \<open>Sessions\<close>

definition minute_length :: int where "minute_length = 60000000"

definition ist_offset :: int where "ist_offset = 330 * minute_length"

text \<open>\<open>raw.split('':'', 1)\<close>: the part before the first colon and the part after it, if there is one.\<close>

definition split_first_colon :: "string \<Rightarrow> (string \<times> string) option" where
  "split_first_colon s =
     (case dropWhile (\<lambda>c. c \<noteq> CHR '':'') s of [] \<Rightarrow> None | _ # t \<Rightarrow> Some (takeWhile (\<lambda>c. c \<noteq> CHR '':'') s, t))"

definition session_reset_time :: "string \<Rightarrow> int" where
  "session_reset_time raw =
     (let three = 180 * minute_length in
      case split_first_colon raw of
        None \<Rightarrow> three
      | Some (h, m) \<Rightarrow>
          (case (int_of_str h, int_of_str m) of
             (Inr hour, Inr minute) \<Rightarrow>
               if 0 \<le> hour \<and> hour \<le> 23 \<and> 0 \<le> minute \<and> minute \<le> 59
               then (60 * hour + minute) * minute_length else three
           | _ \<Rightarrow> three))"

definition session_day :: "int \<Rightarrow> int \<Rightarrow> int" where
  "session_day reset moment =
     (if moment mod day_length < reset then (moment - day_length) div day_length else moment div day_length)"

definition session_started_at :: "int \<Rightarrow> int \<Rightarrow> int" where
  "session_started_at reset moment = session_day reset moment * day_length + reset"

text \<open>A run's start is stored in universal time.\<close>

definition started_before_today :: "int \<Rightarrow> int \<Rightarrow> int option \<Rightarrow> bool" where
  "started_before_today reset now started =
     (case started of None \<Rightarrow> False | Some u \<Rightarrow> session_day reset (u + ist_offset) < session_day reset now)"

section \<open>The strategy and the signal\<close>

record signal_leg =
  sl_data :: pydict
  sl_trail :: "(pyval \<times> pyval) option"

record signal_strategy =
  ss_id :: int
  ss_current_run :: "int option"
  ss_live :: bool
  ss_type :: string
  ss_entry_time :: "int option"
  ss_exit_time :: "int option"
  ss_legs :: "signal_leg list"
  ss_direction :: string
  ss_product :: string
  ss_name :: string
  ss_pricetype :: string

datatype signal_side = Long | Short

definition signal_actions :: "string list" where
  "signal_actions = [''long_entry'', ''long_exit'', ''short_entry'', ''short_exit'']"

definition actions_for :: "string \<Rightarrow> string list" where
  "actions_for strategy_kind = (if strategy_kind = ''signal'' then signal_actions else [''start'', ''stop''])"

definition side_of_action :: "string \<Rightarrow> signal_side" where
  "side_of_action action = (if action = ''long_entry'' \<or> action = ''long_exit'' then Long else Short)"

definition is_entry_signal :: "string \<Rightarrow> bool" where
  "is_entry_signal action = (action = ''long_entry'' \<or> action = ''short_entry'')"

fun position_of_side :: "signal_side \<Rightarrow> string" where
  "position_of_side Long = ''B''"
| "position_of_side Short = ''S''"

fun signal_side_name :: "signal_side \<Rightarrow> string" where
  "signal_side_name Long = ''long''"
| "signal_side_name Short = ''short''"

definition direction_allows :: "string \<Rightarrow> signal_side \<Rightarrow> bool" where
  "direction_allows direction side =
     (if direction = ''long_only'' then side = Long else if direction = ''short_only'' then side = Short else True)"

definition window_note :: "signal_strategy \<Rightarrow> int \<Rightarrow> string \<Rightarrow> string option" where
  "window_note s now action =
     (if ss_type s \<noteq> ''intraday'' then None
      else
        let t = now mod day_length in
        if (case ss_exit_time s of None \<Rightarrow> False | Some e \<Rightarrow> e \<le> t) then Some ''outside_trading_window''
        else if is_entry_signal action \<and> (case ss_entry_time s of None \<Rightarrow> False | Some e \<Rightarrow> t < e)
        then Some ''outside_entry_window'' else None)"

definition leg_value_id :: "signal_leg \<Rightarrow> pyval" where
  "leg_value_id l = py_or (get_val (sl_data l) ''id'') (get_val (sl_data l) ''leg_id'')"

definition leg_id_of :: "(pyfloat \<Rightarrow> string) \<Rightarrow> signal_leg \<Rightarrow> pyid" where
  "leg_id_of frepr l = IdStr (py_str frepr (leg_value_id l))"

text \<open>\<open>str(leg.get(key, ''''))\<close>: an absent key is the empty text, a null is not.\<close>

definition text_of :: "(pyfloat \<Rightarrow> string) \<Rightarrow> signal_leg \<Rightarrow> string \<Rightarrow> string" where
  "text_of frepr l key = (case sl_data l key of None \<Rightarrow> [] | Some v \<Rightarrow> py_str frepr v)"

definition find_signal_leg ::
  "(pyfloat \<Rightarrow> string) \<Rightarrow> signal_strategy \<Rightarrow> pyval \<Rightarrow> string option \<Rightarrow> string option \<Rightarrow> signal_leg option" where
  "find_signal_leg frepr s lid symb exch =
     (if lid \<noteq> VNone
      then List.find (\<lambda>l. py_str frepr (leg_value_id l) = py_str frepr lid) (ss_legs s)
      else
        case symb of
          None \<Rightarrow> None
        | Some t \<Rightarrow>
            if t = [] then None
            else
              let want = str_upper t; venue = str_upper (case exch of None \<Rightarrow> [] | Some e \<Rightarrow> e) in
              List.find (\<lambda>l. str_upper (text_of frepr l ''symbol'') = want \<and>
                             (venue = [] \<or> str_upper (text_of frepr l ''exchange'') = venue)) (ss_legs s))"

section \<open>The master contract\<close>

record contract_row =
  cr_name :: string
  cr_symbol :: string
  cr_exchange :: string
  cr_lot_size :: "int option"

text \<open>SQLite's \<open>LIKE\<close>: \<open>%\<close> is any text, \<open>_\<close> any character, letters compare without case.\<close>

fun sql_like :: "string \<Rightarrow> string \<Rightarrow> bool" where
  "sql_like [] s = (s = [])"
| "sql_like (p # ps) s =
     (if p = CHR ''%'' then sql_like ps s \<or> (case s of [] \<Rightarrow> False | c # cs \<Rightarrow> sql_like (p # ps) cs)
      else case s of
             [] \<Rightarrow> False
           | c # cs \<Rightarrow> (p = CHR ''_'' \<or> lower_char p = lower_char c) \<and> sql_like ps cs)"

definition resolver_derivatives :: "string set" where
  "resolver_derivatives = {''NFO'', ''BFO'', ''MCX'', ''CDS'', ''NCO'', ''BCD'', ''NCDEX'', ''CRYPTO''}"

definition lot_known :: "contract_row \<Rightarrow> bool" where
  "lot_known c = (case cr_lot_size c of None \<Rightarrow> False | Some k \<Rightarrow> 0 < k)"

text \<open>\<open>None\<close> for the rows is a query that raises.\<close>

definition lot_size_for :: "contract_row list option \<Rightarrow> string \<Rightarrow> string \<Rightarrow> int option" where
  "lot_size_for master symb exch =
     (let venue = str_upper exch; root = str_upper symb in
      if symb = [] \<or> exch = [] \<or> venue \<notin> resolver_derivatives then None
      else
        case master of
          None \<Rightarrow> None
        | Some rows \<Rightarrow>
            (case List.find (\<lambda>c. cr_name c = root \<and> cr_exchange c = venue \<and> lot_known c) rows of
               Some c \<Rightarrow> cr_lot_size c
             | None \<Rightarrow>
                 (case List.find (\<lambda>c. let tail = drop (length root) (cr_symbol c) in
                                   tail = [] \<or> is_digit (hd tail))
                         (take 200 (filter (\<lambda>c. sql_like (root @ ''%'') (cr_symbol c) \<and> cr_exchange c = venue \<and> lot_known c) rows)) of
                    Some c \<Rightarrow> cr_lot_size c
                  | None \<Rightarrow> None)))"

definition contract_exists :: "contract_row list option \<Rightarrow> string \<Rightarrow> string \<Rightarrow> bool" where
  "contract_exists master symb exch =
     (let name = str_upper symb; venue = str_upper exch in
      if symb = [] \<or> exch = [] then False
      else
        case master of
          None \<Rightarrow> True
        | Some rows \<Rightarrow>
            list_ex (\<lambda>c. cr_symbol c = name \<and> cr_exchange c = venue) rows \<or>
            \<not> list_ex (\<lambda>c. cr_exchange c = venue) rows)"

datatype quantity_error = NotWhole | NotPositive | NotWholeLots | NoLotSize

text \<open>\<open>resolve_quantity\<close>; an infinite value escapes its handler.\<close>

definition resolve_quantity ::
  "contract_row list option \<Rightarrow> pyval \<Rightarrow> bool \<Rightarrow> string \<Rightarrow> string \<Rightarrow> (quantity_error + int \<times> int option) result" where
  "resolve_quantity master v in_lots symb exch =
     (case py_int v of
        Inl TypeError \<Rightarrow> Ret (Inl NotWhole)
      | Inl ValueError \<Rightarrow> Ret (Inl NotWhole)
      | Inl e \<Rightarrow> Raise e
      | Inr n \<Rightarrow>
          if n \<le> 0 then Ret (Inl NotPositive)
          else
            let size = lot_size_for master symb exch in
            if \<not> in_lots
            then (if (case size of None \<Rightarrow> False | Some k \<Rightarrow> k \<noteq> 0 \<and> n mod k \<noteq> 0)
                  then Ret (Inl NotWholeLots) else Ret (Inr (n, size)))
            else
              (case size of
                 None \<Rightarrow> Ret (Inl NoLotSize)
               | Some k \<Rightarrow> if k = 0 then Ret (Inl NoLotSize) else Ret (Inr (n * k, size))))"

definition quantity_is_whole_lots :: "contract_row list option \<Rightarrow> pyval \<Rightarrow> string \<Rightarrow> string \<Rightarrow> (bool \<times> int option) result" where
  "quantity_is_whole_lots master v symb exch =
     (case lot_size_for master symb exch of
        None \<Rightarrow> Ret (True, None)
      | Some k \<Rightarrow>
          if k = 0 then Ret (True, None)
          else
            (case py_int v of
               Inl TypeError \<Rightarrow> Ret (False, Some k)
             | Inl ValueError \<Rightarrow> Ret (False, Some k)
             | Inl e \<Rightarrow> Raise e
             | Inr n \<Rightarrow> Ret (0 < n \<and> n mod k = 0, Some k)))"

section \<open>The leg of an entry\<close>

definition uncarryable_short :: "(pyfloat \<Rightarrow> string) \<Rightarrow> signal_strategy \<Rightarrow> signal_leg \<Rightarrow> signal_side \<Rightarrow> bool" where
  "uncarryable_short frepr s l side =
     (if side \<noteq> Short then False
      else
        let product = str_upper (if ss_product s = [] then ''MIS'' else ss_product s) in
        if product = ''MIS'' then False
        else
          let exch = str_upper (py_str frepr (py_or (get_val (sl_data l) ''exchange'') (VStr []))) in
          exch \<noteq> [] \<and> exch \<notin> resolver_derivatives)"

datatype leg_error = FieldsMissing | NoContract | BadQuantity quantity_error

definition resolve_signal_leg ::
  "(pyfloat \<Rightarrow> string) \<Rightarrow> contract_row list option \<Rightarrow> signal_leg \<Rightarrow> signal_side \<Rightarrow> (leg_error + leg_cfg) result" where
  "resolve_signal_leg frepr master l side =
     (let symb = get_val (sl_data l) ''symbol''; exch = get_val (sl_data l) ''exchange'';
          raw = py_or (get_val (sl_data l) ''qty'') (get_val (sl_data l) ''quantity'') in
      if \<not> py_truthy symb \<or> \<not> py_truthy exch \<or> \<not> py_truthy raw then Ret (Inl FieldsMissing)
      else
        let s = str_upper (py_str frepr symb); x = str_upper (py_str frepr exch);
            in_lots = (get_val (sl_data l) ''qty_mode'' = VStr ''lots'') in
        if \<not> contract_exists master s x then Ret (Inl NoContract)
        else
          rbind (resolve_quantity master raw in_lots s x) (\<lambda>r.
          case r of
            Inl e \<Rightarrow> Ret (Inl (BadQuantity e))
          | Inr (n, lot) \<Rightarrow>
              rbind (if in_lots then py_int raw else Ret 1) (\<lambda>k.
              Ret (Inr \<lparr> c_leg_id = leg_id_of frepr l, c_position = Some (position_of_side side), c_symbol = s,
                         c_exchange = x, c_lots = Some k, c_quantity = n, c_position_ref = None,
                         c_risk_unit = Some (py_str frepr (py_or (get_val (sl_data l) ''risk_unit'') (VStr ''points''))),
                         c_sl_pts = get_val (sl_data l) ''sl_pts'', c_target_pts = get_val (sl_data l) ''target_pts'',
                         c_trail = sl_trail l \<rparr>))))"

end
