(* ===== verification/Signals.thy ===== *)
theory Signals
  imports Signal_Legs
begin

text \<open>
  One signal, \<open>services/strategy_module/signals.py\<close>: the checks, the run of the day, the claim of an entry or of
  an exit, a flip, and the orders sent. The store, the master contract and the broker answer through
  the record \<open>signal_env\<close>; its functions on the registry are what other threads do while this one writes an
  order row, waits for the broker, replays a held update or continues a pending stop. The audit rows are
  left out. Beside its answer a signal returns the orders it sent.
\<close>

section \<open>Placing an order\<close>

record placing_env =
  pe_key :: bool
  pe_before :: "registry \<Rightarrow> registry"
  pe_row :: "int option"
  pe_ok :: bool
  pe_meanwhile :: "registry \<Rightarrow> registry"
  pe_replay :: "registry \<Rightarrow> registry"
  pe_reconcile :: "registry \<Rightarrow> registry"

record placement =
  pl_ok :: bool
  pl_claim :: "pyid option"

definition signal_exit_order :: "signal_strategy \<Rightarrow> exit_target \<Rightarrow> order_payload result" where
  "signal_exit_order s t =
     (case t of
        LiveTarget l \<Rightarrow>
          rbind (exit_action (position l)) (\<lambda>act.
          Ret (build_order (symbol l) (exchange l) act (qty l) (ss_product s) (ss_name s) ''MARKET''))
      | OutgoingTarget c \<Rightarrow>
          rbind (exit_action (sc_position c)) (\<lambda>act.
          if sc_quantity c = 0 then Raise TypeError
          else Ret (build_order (sc_symbol c) (sc_exchange c) act (sc_quantity c) (ss_product s) (ss_name s) ''MARKET'')))"

definition send_signal_exit ::
  "order_payload \<Rightarrow> pyid option \<Rightarrow> placing_env \<Rightarrow> registry \<Rightarrow> placement result \<times> order_payload list \<times> registry" where
  "send_signal_exit order claim env reg =
     (let reg1 = pe_meanwhile env reg in
      (Ret \<lparr>pl_ok = pe_ok env, pl_claim = claim\<rparr>, [order],
       if pe_row env \<noteq> None \<and> pe_ok env then pe_replay env reg1 else reg1))"

text \<open>An exit that cannot be recorded is sent all the same.\<close>

definition place_exit ::
  "signal_strategy \<Rightarrow> int \<Rightarrow> exit_target \<Rightarrow> placing_env \<Rightarrow> registry \<Rightarrow> placement result \<times> order_payload list \<times> registry" where
  "place_exit s rid t env reg =
     (let unbound = map_option IdStr (target_token t) in
      if \<not> pe_key env then (Ret \<lparr>pl_ok = False, pl_claim = unbound\<rparr>, [], reg)
      else
        case signal_exit_order s t of
          Inl e \<Rightarrow> (Raise e, [], reg)
        | Inr order \<Rightarrow>
            (let reg1 = pe_before env reg in
             case pe_row env of
               None \<Rightarrow> send_signal_exit order unbound env reg1
             | Some row_id \<Rightarrow>
                 (let (bound, reg2) = bind_target rid t row_id reg1 in
                  if \<not> bound then (Ret \<lparr>pl_ok = False, pl_claim = unbound\<rparr>, [], reg2)
                  else send_signal_exit order (Some (IdInt row_id)) env reg2)))"

definition entry_order :: "signal_strategy \<Rightarrow> signal_side \<Rightarrow> leg_cfg \<Rightarrow> order_payload" where
  "entry_order s side cfg =
     build_order (c_symbol cfg) (c_exchange cfg) (if position_of_side side = ''B'' then ''BUY'' else ''SELL'')
       (c_quantity cfg) (ss_product s) (ss_name s) (ss_pricetype s)"

text \<open>An entry that cannot be recorded, or whose claim is gone, is not sent.\<close>

definition place_entry ::
  "signal_strategy \<Rightarrow> int \<Rightarrow> signal_side \<Rightarrow> leg_cfg \<Rightarrow> entry_claim \<Rightarrow> placing_env \<Rightarrow> registry \<Rightarrow>
     placement result \<times> order_payload list \<times> registry" where
  "place_entry s rid side cfg c env reg =
     (let refused = Ret \<lparr>pl_ok = False, pl_claim = None\<rparr> in
      if \<not> pe_key env then (refused, [], reg)
      else
        let reg1 = pe_before env reg in
        case pe_row env of
          None \<Rightarrow> (refused, [], reg1)
        | Some row_id \<Rightarrow>
            (case add_leg rid cfg (Some (claim_token c)) (expected_position_ref c) row_id reg1 of
               (Inl e, reg2) \<Rightarrow> (Raise e, [], reg2)
             | (Inr None, reg2) \<Rightarrow> (refused, [], reg2)
             | (Inr (Some l), reg2) \<Rightarrow>
                 (let reg3 = snd (finish_signal_entry rid (c_leg_id cfg) (claim_position_ref c) (Some (claim_token c))
                                    (pe_ok env) (pe_meanwhile env reg2)) in
                  (Ret \<lparr>pl_ok = pe_ok env, pl_claim = None\<rparr>, [entry_order s side cfg],
                   if pe_ok env then pe_replay env reg3 else pe_reconcile env reg3))))"

section \<open>Exits\<close>

datatype day_error = DayBusy | DayNoRun | DayUnlinked

datatype signal_error =
    UnknownAction | DirectionRefused | NoSuchLeg | SideRefused | DayError day_error | NoRunToday | NoActiveRun
  | ShortNotCarried | LegRefused leg_error | OrderRefused | EntryUnfilled

record signal_result =
  sg_ok :: bool
  sg_note :: "string option"
  sg_error :: "signal_error option"
  sg_leg :: "pyid option"
  sg_run :: "int option"
  sg_flipped :: bool

definition sg_done :: "pyid \<Rightarrow> int \<Rightarrow> bool \<Rightarrow> signal_result" where
  "sg_done lid rid flipped =
     \<lparr>sg_ok = True, sg_note = None, sg_error = None, sg_leg = Some lid, sg_run = Some rid, sg_flipped = flipped\<rparr>"

definition sg_noted :: "bool \<Rightarrow> string \<Rightarrow> pyid \<Rightarrow> int option \<Rightarrow> signal_result" where
  "sg_noted ok note lid rid =
     \<lparr>sg_ok = ok, sg_note = Some note, sg_error = None, sg_leg = Some lid, sg_run = rid, sg_flipped = False\<rparr>"

definition sg_failed :: "signal_error \<Rightarrow> pyid option \<Rightarrow> int option \<Rightarrow> signal_result" where
  "sg_failed e lid rid =
     \<lparr>sg_ok = False, sg_note = None, sg_error = Some e, sg_leg = lid, sg_run = rid, sg_flipped = False\<rparr>"

text \<open>\<open>acted\<close>: whether an order was placed.\<close>

definition acted :: "signal_result \<Rightarrow> bool" where
  "acted r = (sg_ok r \<and> sg_note r = None)"

definition held_side :: "int \<Rightarrow> pyid \<Rightarrow> registry \<Rightarrow> signal_side option" where
  "held_side rid lid reg =
     (case find_leg reg rid lid of
        None \<Rightarrow> None
      | Some (r, l) \<Rightarrow> if status l \<noteq> Open then None else Some (if position l = ''B'' then Long else Short))"

definition signal_exit ::
  "(nat \<Rightarrow> string) \<Rightarrow> signal_strategy \<Rightarrow> int \<Rightarrow> pyid \<Rightarrow> signal_side \<Rightarrow> placing_env \<Rightarrow> registry \<Rightarrow>
     signal_result result \<times> order_payload list \<times> registry" where
  "signal_exit uu s rid lid side env reg =
     (if held_side rid lid reg \<noteq> Some side
      then
        (case claim_superseded_exit uu rid lid (Some (position_of_side side)) reg of
           (None, reg1) \<Rightarrow> (Ret (sg_noted True ''no_matching_position'' lid (Some rid)), [], reg1)
         | (Some c, reg1) \<Rightarrow>
             (case place_exit s rid (OutgoingTarget c) env reg1 of
                (Inl e, sent, reg2) \<Rightarrow> (Raise e, sent, reg2)
              | (Inr p, sent, reg2) \<Rightarrow>
                  if pl_ok p then (Ret (sg_done lid rid False), sent, reg2)
                  else (Ret (sg_failed OrderRefused (Some lid) (Some rid)), sent,
                        snd (release_superseded_exit rid lid (pl_claim p) reg2))))
      else
        (case claim_leg_exit uu rid lid ''exit_signal'' reg of
           (None, reg1) \<Rightarrow>
             (Ret (case find_leg reg1 rid lid of
                     Some (r, l) \<Rightarrow>
                       if status l = Open \<and> entry_status l \<noteq> EComplete
                       then sg_failed EntryUnfilled (Some lid) (Some rid)
                       else sg_noted True ''no_matching_position'' lid (Some rid)
                   | None \<Rightarrow> sg_noted True ''no_matching_position'' lid (Some rid)), [], reg1)
         | (Some l, reg1) \<Rightarrow>
             (case place_exit s rid (LiveTarget l) env reg1 of
                (Inl e, sent, reg2) \<Rightarrow> (Raise e, sent, reg2)
              | (Inr p, sent, reg2) \<Rightarrow>
                  if pl_ok p then (Ret (sg_done lid rid False), sent, reg2)
                  else (Ret (sg_failed OrderRefused (Some lid) (Some rid)), sent,
                        snd (release_leg_exit rid lid (pl_claim p) reg2)))))"

section \<open>Entries\<close>

record signal_env =
  en_repr :: "pyfloat \<Rightarrow> string"
  en_reset :: int
  en_now :: int
  en_row :: "int \<Rightarrow> (bool \<times> int option) option"
  en_stop :: stop_env
  en_claimed :: bool
  en_refreshed :: "int option"
  en_created :: "string \<Rightarrow> int option"
  en_linked :: bool
  en_stop_requested :: "int \<Rightarrow> bool"
  en_contracts :: "contract_row list option"
  en_exit :: placing_env
  en_entry :: placing_env
  en_reconcile :: "registry \<Rightarrow> registry"

definition held_by_claim :: "entry_claim \<Rightarrow> signal_side option" where
  "held_by_claim c =
     (if held_position c = Some ''B'' then Some Long else if held_position c = Some ''S'' then Some Short else None)"

text \<open>The opening half of an entry, once the other side is out of the way.\<close>

definition open_side ::
  "signal_strategy \<Rightarrow> int \<Rightarrow> signal_leg \<Rightarrow> signal_side \<Rightarrow> entry_claim \<Rightarrow> bool \<Rightarrow> signal_env \<Rightarrow> registry \<Rightarrow>
     signal_result result \<times> order_payload list \<times> registry" where
  "open_side s rid l side c flipped env reg =
     (let lid = leg_id_of (en_repr env) l in
      case resolve_signal_leg (en_repr env) (en_contracts env) l side of
        Inl e \<Rightarrow> (Raise e, [], reg)
      | Inr (Inl e) \<Rightarrow> (Ret (sg_failed (LegRefused e) (Some lid) None), [], reg)
      | Inr (Inr cfg) \<Rightarrow>
          (case place_entry s rid side (cfg\<lparr>c_position_ref := Some (claim_position_ref c)\<rparr>) c (en_entry env) reg of
             (Inl e, sent, reg1) \<Rightarrow> (Raise e, sent, reg1)
           | (Inr p, sent, reg1) \<Rightarrow>
               if pl_ok p then (Ret (sg_done lid rid flipped), sent, reg1)
               else (Ret (sg_failed OrderRefused (Some lid) (Some rid)), sent, reg1)))"

text \<open>An entry under its claim: a position on the other side is squared first.\<close>

definition claimed_entry ::
  "(nat \<Rightarrow> string) \<Rightarrow> signal_strategy \<Rightarrow> int \<Rightarrow> signal_leg \<Rightarrow> signal_side \<Rightarrow> entry_claim \<Rightarrow> signal_env \<Rightarrow> registry \<Rightarrow>
     signal_result result \<times> order_payload list \<times> registry" where
  "claimed_entry uu s rid l side c env reg =
     (if uncarryable_short (en_repr env) s l side
      then (Ret (sg_failed ShortNotCarried (Some (leg_id_of (en_repr env) l)) None), [], reg)
      else
        case held_by_claim c of
          None \<Rightarrow> open_side s rid l side c False env reg
        | Some held \<Rightarrow>
            (case signal_exit uu s rid (leg_id_of (en_repr env) l) held (en_exit env) reg of
               (Inl e, sent, reg1) \<Rightarrow> (Raise e, sent, reg1)
             | (Inr ex, sent, reg1) \<Rightarrow>
                 if \<not> acted ex then (Ret ex, sent, reg1)
                 else
                   let (res, sent2, reg2) = open_side s rid l side c True env reg1 in (res, sent @ sent2, reg2)))"

definition signal_enter ::
  "(nat \<Rightarrow> string) \<Rightarrow> signal_strategy \<Rightarrow> int \<Rightarrow> signal_leg \<Rightarrow> signal_side \<Rightarrow> signal_env \<Rightarrow> registry \<Rightarrow>
     signal_result result \<times> order_payload list \<times> registry" where
  "signal_enter uu s rid l side env reg =
     (let lid = leg_id_of (en_repr env) l in
      case claim_signal_entry uu rid lid (Some (position_of_side side)) reg of
        (None, reg1) \<Rightarrow> (Ret (sg_failed NoActiveRun (Some lid) (Some rid)), [], reg1)
      | (Some (EntryNote note), reg1) \<Rightarrow> (Ret (sg_noted (note \<noteq> ''run_stopping'') note lid (Some rid)), [], reg1)
      | (Some (EntryClaimed c), reg1) \<Rightarrow>
          (let (res, sent, reg2) = claimed_entry uu s rid l side c env reg1;
               (released, reg3) = release_signal_entry_claim rid lid (Some (claim_token c)) reg2 in
           (res, sent, if released then en_reconcile env reg3 else reg3)))"

section \<open>The run of the day\<close>

definition open_day_run :: "signal_strategy \<Rightarrow> signal_env \<Rightarrow> registry \<Rightarrow> (day_error + int) result \<times> registry" where
  "open_day_run s env reg =
     (if \<not> en_claimed env
      then (Ret (case en_refreshed env of None \<Rightarrow> Inl DayBusy | Some rid \<Rightarrow> if rid = 0 then Inl DayBusy else Inr rid), reg)
      else
        case en_created env (if ss_live s then ''live'' else ''sandbox'') of
          None \<Rightarrow> (Ret (Inl DayNoRun), reg)
        | Some rid \<Rightarrow>
            if \<not> en_linked env then (Ret (Inl DayUnlinked), reg)
            else
              (case init_run_state rid (ss_id s) [] reg of
                 (Inl e, reg1) \<Rightarrow> (Raise e, reg1)
               | (Inr r, reg1) \<Rightarrow> (Ret (Inr rid), reg1)))"

definition stale_run_ended :: "stop_result \<Rightarrow> bool" where
  "stale_run_ended r = (sr_ok r \<and> \<not> sr_pending r)"

definition day_run ::
  "(nat \<Rightarrow> string) \<Rightarrow> signal_strategy \<Rightarrow> signal_env \<Rightarrow> registry \<Rightarrow> (day_error + int) result \<times> registry" where
  "day_run uu s env reg =
     (case ss_current_run s of
        None \<Rightarrow> open_day_run s env reg
      | Some rid \<Rightarrow>
          if rid = 0 then open_day_run s env reg
          else
            case en_row env rid of
              None \<Rightarrow> open_day_run s env reg
            | Some (stopped, started) \<Rightarrow>
                if stopped then open_day_run s env reg
                else if \<not> started_before_today (en_reset env) (en_now env) started then (Ret (Inr rid), reg)
                else
                  (case stop_run uu (en_stop env) rid reg of
                     (Inl e, reg1) \<Rightarrow> (Raise e, reg1)
                   | (Inr r, reg1) \<Rightarrow>
                       if stale_run_ended r then open_day_run s env reg1 else (Ret (Inr rid), reg1)))"

section \<open>A signal\<close>

definition act_on_signal ::
  "(nat \<Rightarrow> string) \<Rightarrow> signal_strategy \<Rightarrow> string \<Rightarrow> int \<Rightarrow> signal_leg \<Rightarrow> signal_env \<Rightarrow> registry \<Rightarrow>
     signal_result result \<times> order_payload list \<times> registry" where
  "act_on_signal uu s action rid l env reg =
     (let lid = leg_id_of (en_repr env) l in
      if is_entry_signal action
      then
        (if en_stop_requested env rid then (Ret (sg_noted False ''run_stopping'' lid (Some rid)), [], reg)
         else signal_enter uu s rid l (side_of_action action) env reg)
      else signal_exit uu s rid lid (side_of_action action) (en_exit env) reg)"

definition leg_accepts :: "(pyfloat \<Rightarrow> string) \<Rightarrow> signal_leg \<Rightarrow> signal_side \<Rightarrow> bool" where
  "leg_accepts frepr l side =
     (let t = str_lower (py_str frepr (py_or (get_val (sl_data l) ''side'') (VStr ''both''))) in
      t = ''both'' \<or> t = signal_side_name side)"

definition handle_signal ::
  "(nat \<Rightarrow> string) \<Rightarrow> signal_strategy \<Rightarrow> string \<Rightarrow> pyval \<Rightarrow> string option \<Rightarrow> string option \<Rightarrow> signal_env \<Rightarrow> registry \<Rightarrow>
     signal_result result \<times> order_payload list \<times> registry" where
  "handle_signal uu s action lid symb exch env reg =
     (if action \<notin> set signal_actions then (Ret (sg_failed UnknownAction None None), [], reg)
      else if \<not> direction_allows (ss_direction s) (side_of_action action)
      then (Ret (sg_failed DirectionRefused None None), [], reg)
      else
        case find_signal_leg (en_repr env) s lid symb exch of
          None \<Rightarrow> (Ret (sg_failed NoSuchLeg None None), [], reg)
        | Some l \<Rightarrow>
            (let key = leg_id_of (en_repr env) l in
             if \<not> leg_accepts (en_repr env) l (side_of_action action)
             then (Ret (sg_failed SideRefused (Some key) None), [], reg)
             else
               case window_note s (en_now env) action of
                 Some note \<Rightarrow> (Ret (sg_noted True note key None), [], reg)
               | None \<Rightarrow>
                   (case day_run uu s env reg of
                      (Inl e, reg1) \<Rightarrow> (Raise e, [], reg1)
                    | (Inr (Inl e), reg1) \<Rightarrow> (Ret (sg_failed (DayError e) (Some key) None), [], reg1)
                    | (Inr (Inr rid), reg1) \<Rightarrow>
                        if rid = 0 then (Ret (sg_failed NoRunToday (Some key) None), [], reg1)
                        else act_on_signal uu s action rid l env reg1)))"

end
