(* ===== verification/Run_Laws.thy ===== *)
theory Run_Laws
  imports Run_Stops Run_Claims
begin

text \<open>
  A property of the registry that every action of the machine keeps (hydration apart, which installs a run from
  outside) is kept by the engine's own procedures too, as they only compose actions: sending exits, ending a
  run, stopping it. The interface is the locale \<open>registry_law\<close>; reachability and the type invariant
  are its instances.
\<close>

definition keeps :: "(registry \<Rightarrow> bool) \<Rightarrow> (registry \<Rightarrow> registry) \<Rightarrow> bool" where
  "keeps P f = (\<forall>reg. P reg \<longrightarrow> P (f reg))"

lemma keepsD: "keeps P f \<Longrightarrow> P reg \<Longrightarrow> P (f reg)"
  by (simp add: keeps_def)

lemma keeps_id [simp]: "keeps P (\<lambda>reg. reg)" "keeps P id"
  by (simp_all add: keeps_def)

definition installs :: "action \<Rightarrow> bool" where
  "installs a = (case a of Hydrate r \<Rightarrow> True | _ \<Rightarrow> False)"

definition answer_keeps :: "(registry \<Rightarrow> bool) \<Rightarrow> exit_answer \<Rightarrow> bool" where
  "answer_keeps P a = (keeps P (ea_meanwhile a) \<and> keeps P (ea_replay a))"

definition stop_env_keeps :: "(registry \<Rightarrow> bool) \<Rightarrow> stop_env \<Rightarrow> bool" where
  "stop_env_keeps P env =
     (keeps P (se_ack env) \<and> keeps P (se_poll env) \<and> keeps P (se_between env) \<and> keeps P (se_last env) \<and>
      list_all (answer_keeps P) (se_answers env))"

locale registry_law =
  fixes uu :: "nat \<Rightarrow> string" and P :: "registry \<Rightarrow> bool"
  assumes act: "P reg \<Longrightarrow> \<not> installs a \<Longrightarrow> P (exec uu rid a reg)"
begin

lemma claim_exit: "P reg \<Longrightarrow> P (snd (claim_leg_exit uu rid lid kind reg))"
  using act [of reg "ClaimExit lid kind" rid] by (simp add: installs_def)

lemma claim_legs: "P reg \<Longrightarrow> P (snd (claim_legs_for_exit uu rid lids kind reg))"
  using act [of reg "ClaimLegs lids kind" rid] by (simp add: installs_def)

lemma claim_out: "P reg \<Longrightarrow> P (snd (claim_superseded_exit uu rid lid pos reg))"
  using act [of reg "ClaimOutgoing lid pos" rid] by (simp add: installs_def)

lemma claim_entry: "P reg \<Longrightarrow> P (snd (claim_signal_entry uu rid lid pos reg))"
  using act [of reg "ClaimEntry lid pos" rid] by (simp add: installs_def)

lemma release_exit: "P reg \<Longrightarrow> P (snd (release_leg_exit rid lid c reg))"
  using act [of reg "ReleaseExit lid c" rid] by (simp add: installs_def)

lemma release_out: "P reg \<Longrightarrow> P (snd (release_superseded_exit rid lid c reg))"
  using act [of reg "ReleaseOutgoing lid c" rid] by (simp add: installs_def)

lemma release_entry: "P reg \<Longrightarrow> P (snd (release_signal_entry_claim rid lid tok reg))"
  using act [of reg "ReleaseEntry lid tok" rid] by (simp add: installs_def)

lemma bind_live: "P reg \<Longrightarrow> P (snd (bind_live_exit rid lid tok row pref reg))"
  using act [of reg "BindLive lid tok row pref" rid] by (simp add: installs_def)

lemma bind_out: "P reg \<Longrightarrow> P (snd (bind_superseded_exit rid lid tok row reg))"
  using act [of reg "BindOutgoing lid tok row" rid] by (simp add: installs_def)

lemma add: "P reg \<Longrightarrow> P (snd (add_leg rid cfg tok expected oid reg))"
  using act [of reg "AddLeg cfg tok expected oid" rid] by (simp add: installs_def)

lemma finish: "P reg \<Longrightarrow> P (snd (finish_signal_entry rid lid pref tok ok reg))"
  using act [of reg "FinishEntry lid pref tok ok" rid] by (simp add: installs_def)

lemma stopping: "P reg \<Longrightarrow> P (snd (mark_stopping rid reg))"
  using act [of reg MarkStopping rid] by (simp add: installs_def)

lemma init: "P reg \<Longrightarrow> P (snd (init_run_state rid sid cfgs reg))"
  using act [of reg "InitRun sid cfgs" rid] by (simp add: installs_def)

lemma clear: "P reg \<Longrightarrow> P (clear_run_state rid reg)"
  using act [of reg ClearRun rid] by (simp add: installs_def)

lemma bind_target: "P reg \<Longrightarrow> P (snd (bind_target rid t row reg))"
  by (auto simp: bind_target_def split: exit_target.split intro: bind_live bind_out)

lemma release_target: "P reg \<Longrightarrow> P (snd (release_target rid t c reg))"
  by (auto simp: release_target_def split: exit_target.split intro: release_exit release_out)

lemma send_exit: "P reg \<Longrightarrow> answer_keeps P a \<Longrightarrow> P (snd (send_exit rid t order c a reg))"
  by (auto simp: send_exit_def Let_def answer_keeps_def intro: keepsD release_target)

lemma exit_one:
  assumes "P reg" "answer_keeps P a"
  shows "P (snd (exit_one product name rid t a reg))"
proof (cases "target_order product name t")
  case (Inr order)
  show ?thesis
  proof (cases "ea_row a")
    case None
    with Inr send_exit [OF assms] show ?thesis by (simp add: exit_one_def split: prod.split) (metis snd_conv)
  next
    case (Some row_id)
    obtain bound reg1 where b: "bind_target rid t row_id reg = (bound, reg1)" by fastforce
    have "P reg1" using bind_target [OF assms(1), of rid t row_id] b by simp
    with Inr Some b release_target send_exit [OF _ assms(2)] show ?thesis
      by (simp add: exit_one_def split: prod.split) (metis snd_conv)
  qed
qed (use assms in \<open>simp add: exit_one_def\<close>)

lemma exit_each: "P reg \<Longrightarrow> list_all (answer_keeps P) as \<Longrightarrow> P (snd (exit_each product name rid ts as reg))"
proof (induction product name rid ts as reg rule: exit_each.induct)
  case (1 product name rid t ts a as reg)
  obtain res reg1 where o: "exit_one product name rid t a reg = (res, reg1)" by fastforce
  have p: "P reg1" using exit_one [OF 1(2), of a product name rid t] 1(3) o by simp
  show ?case
  proof (cases res)
    case (Inr oc)
    have "P (snd (exit_each product name rid ts as reg1))" by (rule 1(1) [OF o [symmetric] Inr p]) (use 1(3) in simp)
    with o Inr show ?thesis by (simp split: prod.split) (metis snd_conv)
  qed (use o p in simp)
qed auto

lemma claim_outgoing: "P reg \<Longrightarrow> P (snd (claim_outgoing uu rid lids reg))"
proof (induction lids arbitrary: reg)
  case (Cons lid lids)
  show ?case
  proof (cases "find_leg reg rid lid")
    case (Some rl)
    obtain r l where rl: "rl = (r, l)" by fastforce
    show ?thesis
    proof (cases "superseded l")
      case sup: (Some x)
      obtain c reg1 where c: "claim_superseded_exit uu rid lid (Some (sp_position x)) reg = (c, reg1)" by fastforce
      have "P reg1" using claim_out [OF Cons(2), of rid lid "Some (sp_position x)"] c by simp
      from Cons(1) [OF this] Some rl sup c show ?thesis
        by (cases c) (simp_all split: prod.split, metis snd_conv)
    qed (use Cons Some rl in simp)
  qed (use Cons in simp)
qed simp

lemma exit_legs:
  assumes "P reg" "list_all (answer_keeps P) as"
  shows "P (snd (exit_legs uu product name rid lids kind as reg))"
proof -
  obtain live unfilled reg1 where c: "claim_legs_for_exit uu rid lids kind reg = ((live, unfilled), reg1)" by (metis prod.exhaust)
  obtain outgoing reg2 where out: "claim_outgoing uu rid lids reg1 = (outgoing, reg2)" by fastforce
  have "P reg1" using claim_legs [OF assms(1), of rid lids kind] c by simp
  then have "P reg2" using claim_outgoing [of reg1 rid lids] out by simp
  from exit_each [OF this assms(2)] c out show ?thesis by (simp add: exit_legs_def split: prod.split) (metis snd_conv)
qed

lemma finalise: "P reg \<Longrightarrow> P (snd (finalise released detached rid reg))"
  by (auto simp: finalise_def Let_def intro: clear)

lemma stop_tail:
  assumes "P reg" "stop_env_keeps P env"
  shows "P (snd (stop_tail env rid exits reg))"
proof -
  have "P (se_last env reg)" using assms by (auto simp: stop_env_keeps_def intro: keepsD)
  from finalise [OF this] assms(1) \<open>P (se_last env reg)\<close> show ?thesis
    by (auto simp: stop_tail_def Let_def split: option.split prod.split) (metis snd_conv)+
qed

lemma stop_with_key:
  assumes "P reg" "stop_env_keeps P env"
  shows "P (snd (stop_with_key uu env rid reg))"
proof -
  have k: "keeps P (se_between env)" "list_all (answer_keeps P) (se_answers env)" and p: "P (se_poll env reg)"
    using assms by (auto simp: stop_env_keeps_def intro: keepsD)
  show ?thesis
  proof (cases "get_run_state (se_poll env reg) rid")
    case (Some snapshot)
    obtain res reg2 where x: "exit_legs uu (se_product env) (se_name env) rid (managed_leg_ids snapshot)
        (exit_kind_of_reason (se_reason env)) (se_answers env) (se_poll env reg) = (res, reg2)" by fastforce
    have "P reg2" using exit_legs [OF p k(2)] x by (metis snd_conv)
    with k(1) have "P (se_between env reg2)" by (rule keepsD)
    from stop_tail [OF this assms(2)] \<open>P reg2\<close> p Some x show ?thesis
      by (auto simp: stop_with_key_def Let_def split: sum.split prod.split) (metis snd_conv)
  qed (use p in \<open>simp add: stop_with_key_def Let_def\<close>)
qed

lemma stop_run:
  assumes "P reg" "stop_env_keeps P env"
  shows "P (snd (stop_run uu env rid reg))"
proof -
  have m: "P (se_ack env (snd (mark_stopping rid reg)))"
    using assms stopping [OF assms(1)] by (auto simp: stop_env_keeps_def intro: keepsD)
  from finalise [OF m] stop_with_key [OF m assms(2)] m assms(1) show ?thesis
    by (auto simp: stop_run_def Let_def split: option.split prod.split) (metis snd_conv)
qed

end

interpretation wf_law: registry_law uu "reg_wf uu" for uu
  by unfold_locales (rule exec_wf, assumption, simp add: installs_def action_ok_def split: action.splits)

interpretation reach_law: registry_law uu "reachable uu" for uu
  by unfold_locales (rule reachable.step, assumption, simp add: installs_def action_ok_def split: action.splits)

end
