(* ===== verification/Signal_Facts.thy ===== *)
theory Signal_Facts
  imports Signals Run_Laws
begin

text \<open>
  What a signal does to the registry and which orders it sends. The first part extends the law of the
  machine's actions to signals; the second follows the orders through the exit, the flip and the entry.
\<close>

section \<open>Signals only compose actions\<close>

definition placing_env_keeps :: "(registry \<Rightarrow> bool) \<Rightarrow> placing_env \<Rightarrow> bool" where
  "placing_env_keeps P env =
     (keeps P (pe_before env) \<and> keeps P (pe_meanwhile env) \<and> keeps P (pe_replay env) \<and> keeps P (pe_reconcile env))"

definition signal_env_keeps :: "(registry \<Rightarrow> bool) \<Rightarrow> signal_env \<Rightarrow> bool" where
  "signal_env_keeps P env =
     (stop_env_keeps P (en_stop env) \<and> placing_env_keeps P (en_exit env) \<and> placing_env_keeps P (en_entry env) \<and>
      keeps P (en_reconcile env))"

lemma placing_env_keepsD:
  assumes "placing_env_keeps P env" "P reg"
  shows "P (pe_before env reg)" "P (pe_meanwhile env reg)" "P (pe_replay env reg)" "P (pe_reconcile env reg)"
  using assms by (auto simp: placing_env_keeps_def intro: keepsD)

context registry_law
begin

lemma send_signal_exit:
  "P reg \<Longrightarrow> placing_env_keeps P env \<Longrightarrow> P (snd (snd (send_signal_exit order c env reg)))"
  by (auto simp: send_signal_exit_def Let_def intro: placing_env_keepsD)

lemma place_exit:
  assumes "P reg" "placing_env_keeps P env"
  shows "P (snd (snd (place_exit s rid t env reg)))"
proof -
  note b = placing_env_keepsD(1) [OF assms(2,1)]
  obtain bound reg2 where t: "bind_target rid t (the (pe_row env)) (pe_before env reg) = (bound, reg2)" by fastforce
  have "P reg2" using bind_target [OF b, of rid t "the (pe_row env)"] t by simp
  with send_signal_exit [OF _ assms(2)] b t assms(1) show ?thesis
    by (auto simp: place_exit_def Let_def split: sum.split option.split)
qed

lemma place_entry:
  assumes "P reg" "placing_env_keeps P env"
  shows "P (snd (snd (place_entry s rid side cfg c env reg)))"
proof -
  note b = placing_env_keepsD(1) [OF assms(2,1)]
  obtain res reg2 where a: "add_leg rid cfg (Some (claim_token c)) (expected_position_ref c) (the (pe_row env)) (pe_before env reg) =
      (res, reg2)" by fastforce
  have p2: "P reg2" using add [OF b] a by (metis snd_conv)
  have "P (snd (finish_signal_entry rid (c_leg_id cfg) (claim_position_ref c) (Some (claim_token c)) (pe_ok env)
      (pe_meanwhile env reg2)))" by (intro finish placing_env_keepsD(2) [OF assms(2) p2])
  from placing_env_keepsD(3,4) [OF assms(2) this] p2 b a assms(1) show ?thesis
    by (auto simp: place_entry_def Let_def split: option.split sum.split)
qed

lemma signal_exit:
  assumes "P reg" "placing_env_keeps P env"
  shows "P (snd (snd (signal_exit uu s rid lid side env reg)))"
proof -
  obtain c reg1 where c: "claim_superseded_exit uu rid lid (Some (position_of_side side)) reg = (c, reg1)" by fastforce
  obtain l reg2 where l: "claim_leg_exit uu rid lid ''exit_signal'' reg = (l, reg2)" by fastforce
  have p: "P reg1" "P reg2" using claim_out [OF assms(1)] claim_exit [OF assms(1)] c l by (metis snd_conv)+
  note q = place_exit [OF p(1) assms(2)] place_exit [OF p(2) assms(2)]
  have "P (snd (release_superseded_exit rid lid k (snd (snd (place_exit s rid t env reg1)))))"
    "P (snd (release_leg_exit rid lid k (snd (snd (place_exit s rid t env reg2)))))" for k t
    using q release_out release_exit by blast+
  with p q c l show ?thesis
    by (auto simp: signal_exit_def split: option.split sum.split prod.split) (metis snd_conv)+
qed

lemma open_side: "P reg \<Longrightarrow> signal_env_keeps P env \<Longrightarrow> P (snd (snd (open_side s rid l side c flipped env reg)))"
  using place_entry [of reg "en_entry env"]
  by (auto simp: open_side_def Let_def signal_env_keeps_def split: sum.split prod.split) (metis snd_conv)+

lemma claimed_entry:
  assumes "P reg" "signal_env_keeps P env"
  shows "P (snd (snd (claimed_entry uu s rid l side c env reg)))"
proof (cases "held_by_claim c")
  case (Some held)
  obtain res sent reg1 where x: "signal_exit uu s rid (leg_id_of (en_repr env) l) held (en_exit env) reg = (res, sent, reg1)"
    by (metis prod.exhaust)
  have "P reg1" using signal_exit [of reg "en_exit env"] assms x by (metis snd_conv signal_env_keeps_def)
  from open_side [OF this assms(2)] this assms(1) Some x show ?thesis
    by (auto simp: claimed_entry_def Let_def split: sum.split prod.split) (metis snd_conv)
qed (use assms open_side in \<open>simp add: claimed_entry_def\<close>)

lemma signal_enter:
  assumes "P reg" "signal_env_keeps P env"
  shows "P (snd (snd (signal_enter uu s rid l side env reg)))"
proof -
  let ?lid = "leg_id_of (en_repr env) l"
  obtain a reg1 where c: "claim_signal_entry uu rid ?lid (Some (position_of_side side)) reg = (a, reg1)" by fastforce
  have p1: "P reg1" using claim_entry [OF assms(1)] c by (metis snd_conv)
  have "P (en_reconcile env (snd (release_signal_entry_claim rid ?lid k (snd (snd (claimed_entry uu s rid l side x env reg1))))))"
    "P (snd (release_signal_entry_claim rid ?lid k (snd (snd (claimed_entry uu s rid l side x env reg1)))))" for k x
    using release_entry [OF claimed_entry [OF p1 assms(2)]] assms(2) by (auto simp: signal_env_keeps_def intro: keepsD)
  with p1 c show ?thesis
    by (auto simp: signal_enter_def Let_def split: option.split entry_answer.split prod.split) (metis snd_conv)+
qed

lemma open_day_run: "P reg \<Longrightarrow> P (snd (open_day_run s env reg))"
  using init by (auto simp: open_day_run_def split: option.split sum.split prod.split) (metis snd_conv)+

lemma day_run:
  assumes "P reg" "signal_env_keeps P env"
  shows "P (snd (day_run uu s env reg))"
proof -
  have "P (snd (stop_run uu (en_stop env) rid reg))" for rid
    by (rule stop_run [OF assms(1)]) (use assms(2) in \<open>simp add: signal_env_keeps_def\<close>)
  with open_day_run assms(1) show ?thesis
    by (auto simp: day_run_def split: option.split sum.split prod.split) (metis snd_conv)+
qed

lemma act_on_signal: "P reg \<Longrightarrow> signal_env_keeps P env \<Longrightarrow> P (snd (snd (act_on_signal uu s action rid l env reg)))"
  by (auto simp: act_on_signal_def Let_def signal_env_keeps_def intro: signal_enter signal_exit)

lemma handle_signal:
  assumes "P reg" "signal_env_keeps P env"
  shows "P (snd (snd (handle_signal uu s action lid symb exch env reg)))"
proof -
  obtain res reg1 where d: "day_run uu s env reg = (res, reg1)" by fastforce
  have "P reg1" using day_run [OF assms] d by (metis snd_conv)
  from act_on_signal [OF this assms(2)] this d assms(1) show ?thesis
    by (auto simp: handle_signal_def Let_def split: option.split sum.split)
qed

end

section \<open>The orders of a signal\<close>

fun closing_action :: "signal_side \<Rightarrow> string" where
  "closing_action Long = ''SELL''"
| "closing_action Short = ''BUY''"

fun opening_action :: "signal_side \<Rightarrow> string" where
  "opening_action Long = ''BUY''"
| "opening_action Short = ''SELL''"

fun other_side :: "signal_side \<Rightarrow> signal_side" where
  "other_side Long = Short"
| "other_side Short = Long"

lemma upper_words [simp]: "str_upper ''B'' = ''B''" "str_upper ''S'' = ''S''" "str_upper ''BUY'' = ''BUY''" "str_upper ''SELL'' = ''SELL''"
  by code_simp+

lemma closing_other [simp]: "closing_action (other_side side) = opening_action side"
  by (cases side) simp_all

definition answered :: "'a result \<Rightarrow> ('a \<Rightarrow> bool) \<Rightarrow> bool" where
  "answered res Q = (case res of Inl e \<Rightarrow> False | Inr r \<Rightarrow> Q r)"

lemma answered_simps [simp]: "answered (Ret r) Q = Q r" "answered (Raise e) Q = False"
  by (simp_all add: answered_def)

lemma place_exit_sent:
  assumes "place_exit s rid t env reg = (res, sent, reg')"
  shows "(sent = [] \<and> (\<forall>p. res = Ret p \<longrightarrow> \<not> pl_ok p)) \<or>
    (\<exists>order p. sent = [order] \<and> res = Ret p \<and> signal_exit_order s t = Ret order \<and> pl_ok p = pe_ok env)"
  using assms
  by (auto simp: place_exit_def send_signal_exit_def Let_def split: if_splits sum.splits option.splits prod.splits)

lemma place_entry_sent:
  assumes "place_entry s rid side cfg c env reg = (res, sent, reg')"
  shows "(sent = [] \<and> (\<forall>p. res = Ret p \<longrightarrow> \<not> pl_ok p)) \<or>
    (\<exists>p. sent = [entry_order s side cfg] \<and> res = Ret p \<and> pl_ok p = pe_ok env)"
proof -
  obtain a reg2 where a: "add_leg rid cfg (Some (claim_token c)) (expected_position_ref c) (the (pe_row env)) (pe_before env reg) =
      (a, reg2)" by fastforce
  with assms show ?thesis
    by (cases a) (auto simp: place_entry_def Let_def split: if_splits option.splits)
qed

lemma entry_order_action [simp]: "op_action (entry_order s side cfg) = opening_action side"
  by (cases side) (simp_all add: entry_order_def build_order_def)

text \<open>An exit sends nothing, or one order that closes the side; it has acted exactly when that was accepted.\<close>

definition exit_shape :: "signal_side \<Rightarrow> bool \<Rightarrow> signal_result result \<Rightarrow> order_payload list \<Rightarrow> bool" where
  "exit_shape side ok res sent =
     ((sent = [] \<and> \<not> answered res acted) \<or>
      (\<exists>order r. sent = [order] \<and> op_action order = closing_action side \<and> res = Ret r \<and> acted r = ok \<and>
         sg_note r = None \<and> (\<not> ok \<longrightarrow> sg_error r = Some OrderRefused)))"

lemma acted_simps [simp]:
  "acted (sg_done lid rid f)" "\<not> acted (sg_noted ok note lid rid')" "\<not> acted (sg_failed e lid' rid')"
  "sg_note (sg_done lid rid f) = None" "sg_note (sg_failed e lid' rid') = None"
  "sg_error (sg_failed e lid' rid') = Some e" "sg_flipped (sg_done lid rid f) = f"
  "sg_leg (sg_done lid rid f) = Some lid" "sg_run (sg_done lid rid f) = Some rid"
  "sg_leg (sg_failed e lid' rid') = lid'" "sg_run (sg_failed e lid' rid') = rid'"
  "\<not> sg_flipped (sg_failed e lid' rid')" "\<not> sg_flipped (sg_noted ok note lid rid')"
  by (simp_all add: acted_def sg_done_def sg_noted_def sg_failed_def)

lemma outgoing_exit_action:
  assumes "claim_superseded_exit uu rid lid (Some (position_of_side side)) reg = (Some c, reg1)"
    and "signal_exit_order s (OutgoingTarget c) = Ret order"
  shows "op_action order = closing_action side"
  using assms
  by (cases side) (auto simp: claim_superseded_exit_def signal_exit_order_def new_position_ref_def Let_def rbind_def
      exit_action_def build_order_def split: option.splits if_splits)

lemma live_exit_action:
  assumes "reg_wf uu reg" "held_side rid lid reg = Some side"
    and "claim_leg_exit uu rid lid kind reg = (Some l, reg1)" "signal_exit_order s (LiveTarget l) = Ret order"
  shows "op_action order = closing_action side"
proof -
  obtain r l0 where f: "find_leg reg rid lid = Some (r, l0)" and p: "position l = position l0"
    using assms(3) by (auto simp: claim_leg_exit_def new_position_ref_def Let_def split: option.splits if_splits)
  from find_leg_wf(3) [OF assms(1) f] have "position l0 = ''B'' \<or> position l0 = ''S''" by (simp add: leg_wf_def)
  with assms(2,4) f p show ?thesis
    by (auto simp: held_side_def signal_exit_order_def rbind_def exit_action_def build_order_def split: if_splits)
qed

lemma signal_exit_shape:
  assumes "reg_wf uu reg" "signal_exit uu s rid lid side env reg = (res, sent, reg')"
  shows "exit_shape side (pe_ok env) res sent"
proof (cases "held_side rid lid reg = Some side")
  case True
  obtain a reg1 where c: "claim_leg_exit uu rid lid ''exit_signal'' reg = (a, reg1)" by fastforce
  show ?thesis
  proof (cases a)
    case None
    with assms(2) True c show ?thesis by (auto simp: signal_exit_def exit_shape_def split: option.splits if_splits)
  next
    case (Some l)
    obtain res1 sent1 reg2 where p: "place_exit s rid (LiveTarget l) env reg1 = (res1, sent1, reg2)" by (metis prod.exhaust)
    from place_exit_sent [OF p] live_exit_action [OF assms(1) True c [unfolded Some]] assms(2) True c Some p
    show ?thesis by (auto simp: signal_exit_def exit_shape_def split: sum.splits if_splits)
  qed
next
  case False
  obtain a reg1 where c: "claim_superseded_exit uu rid lid (Some (position_of_side side)) reg = (a, reg1)" by fastforce
  show ?thesis
  proof (cases a)
    case None
    with assms(2) False c show ?thesis by (auto simp: signal_exit_def exit_shape_def)
  next
    case (Some x)
    obtain res1 sent1 reg2 where p: "place_exit s rid (OutgoingTarget x) env reg1 = (res1, sent1, reg2)" by (metis prod.exhaust)
    from place_exit_sent [OF p] outgoing_exit_action [OF c [unfolded Some]] assms(2) False c Some p
    show ?thesis by (auto simp: signal_exit_def exit_shape_def split: sum.splits if_splits)
  qed
qed

lemma sg_failed_error: "\<not> acted r \<Longrightarrow> sg_note r = None \<Longrightarrow> \<not> sg_ok r"
  by (simp add: acted_def)

definition open_shape :: "signal_side \<Rightarrow> bool \<Rightarrow> bool \<Rightarrow> signal_result result \<Rightarrow> order_payload list \<Rightarrow> bool" where
  "open_shape side ok flipped res sent =
     ((sent = [] \<and> \<not> answered res acted \<and> (\<forall>r. res = Ret r \<longrightarrow> sg_note r = None \<and> sg_error r \<noteq> None)) \<or>
      (\<exists>order r. sent = [order] \<and> op_action order = opening_action side \<and> res = Ret r \<and> acted r = ok \<and>
         sg_note r = None \<and> (\<not> ok \<longrightarrow> sg_error r = Some OrderRefused) \<and> (ok \<longrightarrow> sg_flipped r = flipped)))"

lemma open_side_shape:
  assumes "open_side s rid l side c flipped env reg = (res, sent, reg')"
  shows "open_shape side (pe_ok (en_entry env)) flipped res sent"
proof (cases "resolve_signal_leg (en_repr env) (en_contracts env) l side")
  case (Inr x)
  show ?thesis
  proof (cases x)
    case i: (Inr cfg)
    obtain res1 sent1 reg1 where p: "place_entry s rid side (cfg\<lparr>c_position_ref := Some (claim_position_ref c)\<rparr>) c
        (en_entry env) reg = (res1, sent1, reg1)" by (metis prod.exhaust)
    from place_entry_sent [OF p] assms Inr i p show ?thesis
      by (auto simp: open_side_def open_shape_def Let_def split: sum.splits if_splits)
  qed (use assms Inr in \<open>auto simp: open_side_def open_shape_def Let_def\<close>)
qed (use assms in \<open>auto simp: open_side_def open_shape_def Let_def\<close>)

text \<open>The side of the market a signal trades on, and the shape of what it sends and answers.\<close>

definition signal_trade :: "string \<Rightarrow> string" where
  "signal_trade action =
     (if is_entry_signal action then opening_action (side_of_action action) else closing_action (side_of_action action))"

definition signal_shape :: "string \<Rightarrow> signal_env \<Rightarrow> signal_result result \<Rightarrow> order_payload list \<Rightarrow> bool" where
  "signal_shape action env res sent =
     (length sent \<le> (if is_entry_signal action then 2 else 1) \<and> (\<forall>order \<in> set sent. op_action order = signal_trade action) \<and>
      (length sent = 2 \<longrightarrow> pe_ok (en_exit env)) \<and>
      (\<forall>r. res = Ret r \<longrightarrow>
         (acted r \<longrightarrow> sent \<noteq> [] \<and> pe_ok (if is_entry_signal action then en_entry env else en_exit env) \<and>
            (sg_flipped r \<longleftrightarrow> length sent = 2)) \<and>
         (sg_note r \<noteq> None \<longrightarrow> sent = []) \<and> (sent \<noteq> [] \<longrightarrow> acted r \<or> sg_error r \<noteq> None)))"

lemma silent_shape: "sent = [] \<Longrightarrow> \<not> answered res acted \<Longrightarrow> signal_shape action env res sent"
  by (auto simp: signal_shape_def)

lemma claim_held:
  assumes "claim_signal_entry uu rid lid (Some (position_of_side side)) reg = (Some (EntryClaimed c), reg1)"
    and "held_by_claim c = Some held"
  shows "held = other_side side"
  using assms
  by (cases side) (auto simp: claim_signal_entry_def held_by_claim_def new_position_ref_def Let_def split: option.splits if_splits)

lemma entry_shape:
  assumes "is_entry_signal action" "open_shape (side_of_action action) (pe_ok (en_entry env)) False res sent"
  shows "signal_shape action env res sent"
  using assms by (auto simp: open_shape_def signal_shape_def signal_trade_def)

lemma flip_shape:
  assumes "is_entry_signal action" "exit_shape (other_side (side_of_action action)) (pe_ok (en_exit env)) (Ret ex) sent1" "acted ex"
    and "open_shape (side_of_action action) (pe_ok (en_entry env)) True res sent2"
  shows "signal_shape action env res (sent1 @ sent2)"
  using assms by (auto simp: open_shape_def exit_shape_def signal_shape_def signal_trade_def)

lemma closing_shape:
  assumes "is_entry_signal action" "exit_shape (other_side (side_of_action action)) (pe_ok (en_exit env)) res sent"
    and "\<not> answered res acted"
  shows "signal_shape action env res sent"
  using assms by (auto simp: exit_shape_def signal_shape_def signal_trade_def)

lemma exit_only_shape:
  assumes "\<not> is_entry_signal action" "exit_shape (side_of_action action) (pe_ok (en_exit env)) res sent"
    and "\<forall>r. res = Ret r \<longrightarrow> \<not> sg_flipped r"
  shows "signal_shape action env res sent"
  using assms by (auto simp: exit_shape_def signal_shape_def signal_trade_def)

lemma claimed_entry_shape:
  assumes wf: "reg_wf uu reg" and act: "is_entry_signal action"
    and c: "held_by_claim c = None \<or> held_by_claim c = Some (other_side (side_of_action action))"
    and r: "claimed_entry uu s rid l (side_of_action action) c env reg = (res, sent, reg')"
  shows "signal_shape action env res sent"
proof (cases "uncarryable_short (en_repr env) s l (side_of_action action)")
  case True
  with r show ?thesis by (intro silent_shape) (auto simp: claimed_entry_def)
next
  case False
  show ?thesis
  proof (cases "held_by_claim c")
    case None
    with r False have "open_side s rid l (side_of_action action) c False env reg = (res, sent, reg')" by (simp add: claimed_entry_def)
    from entry_shape [OF act open_side_shape [OF this]] show ?thesis .
  next
    case (Some held)
    with c have held: "held = other_side (side_of_action action)" by simp
    obtain ex sent1 reg1 where x: "signal_exit uu s rid (leg_id_of (en_repr env) l) held (en_exit env) reg = (ex, sent1, reg1)"
      by (metis prod.exhaust)
    note shape = signal_exit_shape [OF wf x, unfolded held]
    show ?thesis
    proof (cases "answered ex acted")
      case True
      then obtain r0 where r0: "ex = Ret r0" "acted r0" by (cases ex) auto
      obtain res2 sent2 reg2 where o: "open_side s rid l (side_of_action action) c True env reg1 = (res2, sent2, reg2)" by (metis prod.exhaust)
      from flip_shape [OF act shape [unfolded r0(1)] r0(2) open_side_shape [OF o]] r False Some x o r0 show ?thesis
        by (simp add: claimed_entry_def)
    next
      case n: False
      with r False Some x have "res = ex" "sent = sent1" by (auto simp: claimed_entry_def split: sum.splits)
      with closing_shape [OF act shape n] show ?thesis by simp
    qed
  qed
qed

lemma signal_exit_unflipped:
  "signal_exit uu s rid lid side env reg = (Ret r, sent, reg') \<Longrightarrow> \<not> sg_flipped r"
  by (auto simp: signal_exit_def split: if_splits option.splits sum.splits prod.splits)

lemma act_on_signal_shape:
  assumes wf: "reg_wf uu reg" and r: "act_on_signal uu s action rid l env reg = (res, sent, reg')"
  shows "signal_shape action env res sent"
proof (cases "is_entry_signal action")
  case False
  with r have x: "signal_exit uu s rid (leg_id_of (en_repr env) l) (side_of_action action) (en_exit env) reg = (res, sent, reg')"
    by (simp add: act_on_signal_def)
  from exit_only_shape [OF False signal_exit_shape [OF wf x]] signal_exit_unflipped x show ?thesis by blast
next
  case True
  let ?lid = "leg_id_of (en_repr env) l" and ?side = "side_of_action action"
  obtain a reg1 where c: "claim_signal_entry uu rid ?lid (Some (position_of_side ?side)) reg = (a, reg1)" by fastforce
  have wf1: "reg_wf uu reg1" using wf_claim_entry [OF wf] c by (metis snd_conv)
  consider "en_stop_requested env rid" | "\<not> en_stop_requested env rid" "a = None \<or> (\<exists>n. a = Some (EntryNote n))"
    | x where "\<not> en_stop_requested env rid" "a = Some (EntryClaimed x)" by (metis entry_answer.exhaust option.exhaust)
  then show ?thesis
  proof cases
    case 3
    obtain res2 sent2 reg2 where e: "claimed_entry uu s rid l ?side x env reg1 = (res2, sent2, reg2)" by (metis prod.exhaust)
    have "held_by_claim x = None \<or> held_by_claim x = Some (other_side ?side)"
      using claim_held [OF c [unfolded 3(2)]] by (cases "held_by_claim x") auto
    from claimed_entry_shape [OF wf1 True this e] r True c 3 e show ?thesis
      by (auto simp: act_on_signal_def signal_enter_def Let_def split: prod.splits)
  qed (use r True c in \<open>auto simp: act_on_signal_def signal_enter_def Let_def intro!: silent_shape\<close>)
qed

lemma handle_signal_shape:
  assumes "reg_wf uu reg" "signal_env_keeps (reg_wf uu) env" and r: "handle_signal uu s action lid symb exch env reg = (res, sent, reg')"
  shows "signal_shape action env res sent"
proof -
  obtain d reg1 where d: "day_run uu s env reg = (d, reg1)" by fastforce
  have "reg_wf uu reg1" using wf_law.day_run [OF assms(1,2)] d by (metis snd_conv)
  from act_on_signal_shape [OF this] r d show ?thesis
    by (auto simp: handle_signal_def Let_def split: if_splits option.splits sum.splits intro!: silent_shape)
qed

end
