(* ===== verification/Signal_Claims.thy ===== *)
theory Signal_Claims
  imports Signal_Facts
begin

text \<open>
  What signals promise: what they may send and answer, that a repeated alert is harmless, that an alert that sends
  nothing costs nothing, that no entry claim outlives its signal, and where a session begins. Where a
  property compares a leg before and after a signal, the other threads leave that leg and its claim alone.
\<close>

section \<open>One leg and its entry claim\<close>

definition claim_at :: "registry \<Rightarrow> int \<Rightarrow> string \<Rightarrow> entry_claim option" where
  "claim_at reg rid key = Option.bind (run_state reg rid) (\<lambda>r. dget (signal_entry_claims r) key)"

definition spares :: "int \<Rightarrow> string \<Rightarrow> (registry \<Rightarrow> registry) \<Rightarrow> bool" where
  "spares rid key f = (\<forall>reg. leg_at (f reg) rid key = leg_at reg rid key \<and> claim_at (f reg) rid key = claim_at reg rid key)"

definition place_spares :: "int \<Rightarrow> string \<Rightarrow> placing_env \<Rightarrow> bool" where
  "place_spares rid key env =
     (spares rid key (pe_before env) \<and> spares rid key (pe_meanwhile env) \<and> spares rid key (pe_replay env) \<and>
      spares rid key (pe_reconcile env))"

definition signal_spares :: "int \<Rightarrow> string \<Rightarrow> signal_env \<Rightarrow> bool" where
  "signal_spares rid key env =
     (place_spares rid key (en_exit env) \<and> place_spares rid key (en_entry env) \<and> spares rid key (en_reconcile env))"

lemma spares_simps:
  "spares rid key f \<Longrightarrow> leg_at (f reg) rid key = leg_at reg rid key"
  "spares rid key f \<Longrightarrow> claim_at (f reg) rid key = claim_at reg rid key"
  by (simp_all add: spares_def)

lemma spares_id [simp]: "spares rid key (\<lambda>reg. reg)"
  by (simp add: spares_def)

lemma claim_at_uuid [simp]: "claim_at (reg\<lparr>next_uuid := n\<rparr>) rid key = claim_at reg rid key"
  by (simp add: claim_at_def)

lemma claim_at_put_leg:
  "find_leg reg rid' lid = Some (r, l) \<Longrightarrow> claim_at (put_leg rid' r k l' reg) rid key = claim_at reg rid key"
  "find_leg reg rid' lid = Some (r, l) \<Longrightarrow> claim_at (put_leg rid' r k l' (reg\<lparr>next_uuid := n\<rparr>)) rid key = claim_at reg rid key"
  by (auto simp: claim_at_def put_leg_def find_leg_iff run_state_put)

text \<open>The operations of an exit change the exit markers of their leg, and no entry claim.\<close>

definition bare :: "leg \<Rightarrow> leg" where
  "bare l = (clear_exit l)\<lparr>superseded := map_option clear_sp_exit (superseded l)\<rparr>"

definition bare_at :: "registry \<Rightarrow> int \<Rightarrow> string \<Rightarrow> leg option" where
  "bare_at reg rid key = map_option bare (leg_at reg rid key)"

definition marks_only :: "registry \<Rightarrow> registry \<Rightarrow> bool" where
  "marks_only reg reg' =
     (\<forall>rid key. bare_at reg' rid key = bare_at reg rid key \<and> claim_at reg' rid key = claim_at reg rid key)"

lemma marks_only_refl [simp]: "marks_only reg reg"
  by (simp add: marks_only_def)

lemma bare_simps [simp]:
  "bare (l\<lparr>exit_kind := a\<rparr>) = bare l" "bare (l\<lparr>exit_claim_token := b\<rparr>) = bare l" "bare (l\<lparr>exit_order_id := c\<rparr>) = bare l"
  "bare (clear_exit l) = bare l"
  by (simp_all add: bare_def clear_exit_def)

lemma bare_superseded:
  "superseded l = Some x \<Longrightarrow> clear_sp_exit y = clear_sp_exit x \<Longrightarrow> bare (l\<lparr>superseded := Some y\<rparr>) = bare l"
  by (simp add: bare_def clear_exit_def)

lemma marks_put:
  assumes "find_leg reg rid' lid = Some (r, l)" "bare l' = bare l"
  shows "marks_only reg (put_leg rid' r (id_str lid) l' reg)"
    and "marks_only reg (put_leg rid' r (id_str lid) l' (reg\<lparr>next_uuid := n\<rparr>))"
  using assms find_leg_at [OF assms(1)]
  by (auto simp: marks_only_def bare_at_def claim_at_put_leg [OF assms(1)] leg_at_put_found [OF assms(1)])

lemma marks_exit_ops:
  "marks_only reg (snd (claim_leg_exit uu rid lid kind reg))"
  "marks_only reg (snd (release_leg_exit rid lid c reg))"
  "marks_only reg (snd (bind_live_exit rid lid tok row pref reg))"
  by (auto simp: claim_leg_exit_def release_leg_exit_def bind_live_exit_def new_position_ref_def Let_def
      split: option.split intro!: marks_put)

lemma clear_sp_same [simp]:
  "clear_sp_exit (s\<lparr>sp_exit_claim_token := a\<rparr>) = clear_sp_exit s" "clear_sp_exit (s\<lparr>sp_exit_order_id := b\<rparr>) = clear_sp_exit s"
  "clear_sp_exit (clear_sp_exit s) = clear_sp_exit s"
  by (simp_all add: clear_sp_exit_def)

lemma marks_outgoing_ops:
  "marks_only reg (snd (claim_superseded_exit uu rid lid pos reg))"
  "marks_only reg (snd (release_superseded_exit rid lid c reg))"
  "marks_only reg (snd (bind_superseded_exit rid lid tok row reg))"
  by (auto simp: claim_superseded_exit_def release_superseded_exit_def bind_superseded_exit_def new_position_ref_def Let_def
      split: option.split intro!: marks_put bare_superseded)

lemma marks_bind_target: "marks_only reg (snd (bind_target rid t row reg))"
  by (auto simp: bind_target_def split: exit_target.split intro: marks_exit_ops marks_outgoing_ops)

lemma marks_at: "marks_only reg reg' \<Longrightarrow> bare_at reg' rid key = bare_at reg rid key"
  "marks_only reg reg' \<Longrightarrow> claim_at reg' rid key = claim_at reg rid key"
  by (simp_all add: marks_only_def)

lemma spares_bare: "spares rid key f \<Longrightarrow> bare_at (f reg) rid key = bare_at reg rid key"
  by (simp add: bare_at_def spares_simps)

text \<open>An exit, sent or not, changes no more of its leg than the markers.\<close>

definition same_at :: "int \<Rightarrow> string \<Rightarrow> registry \<Rightarrow> registry \<Rightarrow> bool" where
  "same_at rid key reg reg' = (bare_at reg' rid key = bare_at reg rid key \<and> claim_at reg' rid key = claim_at reg rid key)"

lemma same_at_marks: "marks_only reg reg' \<Longrightarrow> same_at rid key reg reg'"
  by (simp add: same_at_def marks_at)

lemma same_at_spares: "spares rid key f \<Longrightarrow> same_at rid key reg (f reg)"
  by (simp add: same_at_def spares_bare spares_simps)

lemma same_at_refl [simp]: "same_at rid key reg reg"
  by (simp add: same_at_def)

lemma same_at_trans: "same_at rid key a b \<Longrightarrow> same_at rid key b c \<Longrightarrow> same_at rid key a c"
  by (simp add: same_at_def)

lemma send_exit_same: "place_spares rid key env \<Longrightarrow> same_at rid key reg (snd (snd (send_signal_exit order c env reg)))"
  by (auto simp: send_signal_exit_def Let_def place_spares_def intro: same_at_spares same_at_trans)

lemma place_exit_same:
  assumes "place_spares rid key env"
  shows "same_at rid key reg (snd (snd (place_exit s rid' t env reg)))"
proof -
  have b: "same_at rid key reg (pe_before env reg)" using assms by (intro same_at_spares) (simp add: place_spares_def)
  obtain bound reg2 where t: "bind_target rid' t (the (pe_row env)) (pe_before env reg) = (bound, reg2)" by fastforce
  have "same_at rid key (pe_before env reg) reg2"
    using marks_bind_target [of "pe_before env reg" rid' t "the (pe_row env)"] t by (intro same_at_marks) simp
  with b have r: "same_at rid key reg reg2" by (rule same_at_trans)
  from same_at_trans [OF r send_exit_same [OF assms]] same_at_trans [OF b send_exit_same [OF assms]] b r t show ?thesis
    by (auto simp: place_exit_def Let_def split: sum.split option.split)
qed

lemma signal_exit_same:
  assumes "place_spares rid key env"
  shows "same_at rid key reg (snd (snd (signal_exit uu s rid' lid side env reg)))"
proof -
  obtain c reg1 where c: "claim_superseded_exit uu rid' lid (Some (position_of_side side)) reg = (c, reg1)" by fastforce
  obtain l reg2 where l: "claim_leg_exit uu rid' lid ''exit_signal'' reg = (l, reg2)" by fastforce
  have a: "same_at rid key reg reg1" "same_at rid key reg reg2"
    using marks_outgoing_ops(1) [of reg uu rid' lid "Some (position_of_side side)"]
      marks_exit_ops(1) [of reg uu rid' lid "''exit_signal''"] c l
    by (auto intro: same_at_marks)
  have b: "same_at rid key reg (snd (snd (place_exit s rid' t env reg1)))" "same_at rid key reg (snd (snd (place_exit s rid' t env reg2)))" for t
    using a place_exit_same [OF assms] by (blast intro: same_at_trans)+
  have "same_at rid key reg (snd (release_superseded_exit rid' lid k (snd (snd (place_exit s rid' t env reg1)))))"
    "same_at rid key reg (snd (release_leg_exit rid' lid k (snd (snd (place_exit s rid' t env reg2)))))" for k t
    using b marks_outgoing_ops(2) marks_exit_ops(2) by (blast intro: same_at_trans same_at_marks)+
  with a b c l show ?thesis
    by (auto simp: signal_exit_def split: option.split sum.split prod.split) (metis snd_conv)+
qed

section \<open>An entry and its claim\<close>

lemma claim_entry_noted:
  assumes "claim_signal_entry uu rid lid pos reg = (a, reg1)" "\<forall>c. a \<noteq> Some (EntryClaimed c)"
  shows "reg1 = reg"
proof (cases "run_state reg rid")
  case (Some r)
  from assms [unfolded claim_signal_entry_def Some option.case new_position_ref_def Let_def prod.case] show ?thesis
    by (auto split: if_split_asm)
qed (use assms in \<open>simp add: claim_signal_entry_def\<close>)

lemma claim_entry_claimed:
  assumes "claim_signal_entry uu rid lid pos reg = (Some (EntryClaimed c), reg1)"
  obtains r where "run_state reg rid = Some r"
    "reg1 = put_run rid (r\<lparr>signal_entry_claims := dset (id_str lid) c (signal_entry_claims r)\<rparr>)
       (reg\<lparr>next_uuid := Suc (Suc (next_uuid reg))\<rparr>)"
proof (cases "run_state reg rid")
  case (Some r)
  from assms [unfolded claim_signal_entry_def Some option.case new_position_ref_def Let_def prod.case] Some that show ?thesis
    by (auto split: if_split_asm)
qed (use assms in \<open>simp add: claim_signal_entry_def\<close>)

lemma claim_entry_cases:
  assumes "claim_signal_entry uu rid lid pos reg = (a, reg1)"
  shows "leg_at reg1 rid' key = leg_at reg rid' key"
    and "a = Some (EntryClaimed c) \<Longrightarrow> claim_at reg1 rid (id_str lid) = Some c"
proof -
  show "leg_at reg1 rid' key = leg_at reg rid' key"
  proof (cases "\<exists>c. a = Some (EntryClaimed c)")
    case True
    then obtain c where "claim_signal_entry uu rid lid pos reg = (Some (EntryClaimed c), reg1)" using assms by blast
    then show ?thesis by (rule claim_entry_claimed) (simp add: leg_at_same_legs)
  qed (use claim_entry_noted [OF assms] in simp)
  show "a = Some (EntryClaimed c) \<Longrightarrow> claim_at reg1 rid (id_str lid) = Some c"
  proof -
    assume "a = Some (EntryClaimed c)"
    with assms have "claim_signal_entry uu rid lid pos reg = (Some (EntryClaimed c), reg1)" by simp
    then show ?thesis by (rule claim_entry_claimed) (simp add: claim_at_def run_state_put dget_dset)
  qed
qed

lemma release_entry_cases:
  assumes "release_signal_entry_claim rid lid (Some tok) reg = (b, reg1)"
  shows "leg_at reg1 rid' key = leg_at reg rid' key"
    and "claim_at reg rid (id_str lid) = None \<Longrightarrow> claim_at reg1 rid (id_str lid) = None"
    and "claim_at reg rid (id_str lid) = Some c \<Longrightarrow> claim_token c = tok \<Longrightarrow> claim_at reg1 rid (id_str lid) = None"
  using assms
  by (auto simp: release_signal_entry_claim_def claim_at_def leg_at_same_legs run_state_put dget_dpop
      split: option.splits if_splits)

lemma add_leg_refused: "add_leg rid cfg tok expected oid reg = (a, reg1) \<Longrightarrow> (\<forall>l. a \<noteq> Ret (Some l)) \<Longrightarrow> reg1 = reg"
  by (auto simp: add_leg_def Let_def split: option.splits sum.splits if_splits)

lemma add_leg_shape:
  assumes "add_leg rid cfg tok expected oid reg = (Ret (Some l), reg1)"
  shows "\<exists>r l0 c prev. run_state reg rid = Some r \<and> dget (signal_entry_claims r) (id_str (c_leg_id cfg)) = Some c \<and>
    claim_matches (Some c) tok (c_position_ref cfg) expected \<and> new_leg_state cfg = Ret l0 \<and>
    l = installed_leg (l0\<lparr>entry_order_id := Some oid\<rparr>) c prev \<and> reg1 = put_leg rid r (id_str (c_leg_id cfg)) l reg"
proof (cases "run_state reg rid")
  case (Some r)
  show ?thesis
  proof (cases "dget (signal_entry_claims r) (id_str (c_leg_id cfg))")
    case c: (Some c)
    show ?thesis
    proof (cases "new_leg_state cfg")
      case (Inr l0)
      from assms [unfolded add_leg_def Some option.case Let_def Inr sum.case c] Some c Inr show ?thesis
        by (auto split: if_split_asm)
    qed (use assms Some c in \<open>auto simp: add_leg_def Let_def split: if_split_asm\<close>)
  qed (use assms Some in \<open>auto simp: add_leg_def Let_def claim_matches_def split: if_split_asm\<close>)
qed (use assms in \<open>simp add: add_leg_def\<close>)

lemma installed_leg_same [simp]:
  "position (installed_leg l c prev) = position l" "entry_status (installed_leg l c prev) = entry_status l"
  "position_ref (installed_leg l c prev) = position_ref l"
  by (auto simp: installed_leg_def Let_def split: option.split)

lemma add_leg_installed:
  assumes "add_leg rid cfg tok expected oid reg = (Ret (Some l), reg1)"
  shows "leg_at reg1 rid (id_str (c_leg_id cfg)) = Some l" "claim_at reg1 rid' key = claim_at reg rid' key"
    "\<exists>c. claim_at reg rid (id_str (c_leg_id cfg)) = Some c \<and> Some (claim_token c) = tok \<and>
       Some (claim_position_ref c) = c_position_ref cfg"
    "position l = str_upper (case c_position cfg of None \<Rightarrow> [] | Some p \<Rightarrow> p)" "entry_status l = EPending"
    "position_ref l = c_position_ref cfg"
proof -
  obtain r l0 c prev where a: "run_state reg rid = Some r" "dget (signal_entry_claims r) (id_str (c_leg_id cfg)) = Some c"
      "claim_matches (Some c) tok (c_position_ref cfg) expected" "new_leg_state cfg = Ret l0"
      "l = installed_leg (l0\<lparr>entry_order_id := Some oid\<rparr>) c prev" "reg1 = put_leg rid r (id_str (c_leg_id cfg)) l reg"
    using add_leg_shape [OF assms] by blast
  from a(4) have n: "position l0 = str_upper (case c_position cfg of None \<Rightarrow> [] | Some p \<Rightarrow> p)" "entry_status l0 = EPending"
    "position_ref l0 = c_position_ref cfg" by (auto simp: new_leg_state_def Let_def split: if_splits)
  show "leg_at reg1 rid (id_str (c_leg_id cfg)) = Some l" using a by (simp add: leg_at_put_leg)
  show "claim_at reg1 rid' key = claim_at reg rid' key" using a by (simp add: claim_at_def put_leg_def run_state_put)
  show "\<exists>c. claim_at reg rid (id_str (c_leg_id cfg)) = Some c \<and> Some (claim_token c) = tok \<and>
      Some (claim_position_ref c) = c_position_ref cfg" using a by (simp add: claim_at_def claim_matches_def)
qed (use add_leg_shape [OF assms] in \<open>auto simp: new_leg_state_def Let_def split: if_splits\<close>)

lemma place_entry_silent:
  assumes "place_entry s rid' side cfg c env reg = (res, [], reg')" "place_spares rid key env"
  shows "same_at rid key reg reg'"
proof -
  have b: "same_at rid key reg (pe_before env reg)" using assms(2) by (intro same_at_spares) (simp add: place_spares_def)
  obtain a reg2 where a: "add_leg rid' cfg (Some (claim_token c)) (expected_position_ref c) (the (pe_row env)) (pe_before env reg) =
      (a, reg2)" by fastforce
  show ?thesis
  proof (cases "\<exists>l. a = Ret (Some l)")
    case False
    with a have "reg2 = pe_before env reg" by (intro add_leg_refused) auto
    with assms(1) a b show ?thesis
      by (auto simp: place_entry_def Let_def split: if_splits option.splits sum.splits)
  qed (use assms(1) a b in \<open>auto simp: place_entry_def Let_def split: if_splits option.splits\<close>)
qed

lemma open_side_silent:
  assumes "open_side s rid' l side c flipped env reg = (res, [], reg')" "signal_spares rid key env"
  shows "same_at rid key reg reg'"
proof (cases "resolve_signal_leg (en_repr env) (en_contracts env) l side")
  case (Inr x)
  show ?thesis
  proof (cases x)
    case i: (Inr cfg)
    obtain res1 sent1 reg1 where p: "place_entry s rid' side (cfg\<lparr>c_position_ref := Some (claim_position_ref c)\<rparr>) c
        (en_entry env) reg = (res1, sent1, reg1)" by (metis prod.exhaust)
    with assms(1) Inr i have "sent1 = []" "reg1 = reg'" by (auto simp: open_side_def Let_def split: sum.splits if_splits)
    with place_entry_silent [of s rid' side _ c "en_entry env" reg res1 reg1 rid key] p assms(2) show ?thesis
      by (simp add: signal_spares_def)
  qed (use assms(1) Inr in \<open>auto simp: open_side_def Let_def\<close>)
qed (use assms(1) in \<open>auto simp: open_side_def Let_def\<close>)

lemma signal_exit_acted: "signal_exit uu s rid lid side env reg = (Ret r, [], reg') \<Longrightarrow> \<not> acted r"
  by (auto simp: signal_exit_def split: if_splits option.splits sum.splits prod.splits dest: place_exit_sent)

lemma claimed_entry_silent:
  assumes "claimed_entry uu s rid' l side c env reg = (res, [], reg')" "signal_spares rid key env"
  shows "same_at rid key reg reg'"
proof (cases "uncarryable_short (en_repr env) s l side")
  case False
  show ?thesis
  proof (cases "held_by_claim c")
    case None
    with assms False open_side_silent show ?thesis by (auto simp: claimed_entry_def)
  next
    case (Some held)
    obtain ex sent1 reg1 where x: "signal_exit uu s rid' (leg_id_of (en_repr env) l) held (en_exit env) reg = (ex, sent1, reg1)"
      by (metis prod.exhaust)
    have "sent1 = []" using assms(1) False Some x by (auto simp: claimed_entry_def split: sum.splits if_splits prod.splits)
    with signal_exit_acted x have "\<forall>r. ex = Ret r \<longrightarrow> \<not> acted r" by blast
    with assms(1) False Some x have "reg1 = reg'" by (auto simp: claimed_entry_def split: sum.splits)
    with signal_exit_same [of rid key "en_exit env" reg uu s rid' "leg_id_of (en_repr env) l" held] x assms(2) show ?thesis
      by (simp add: signal_spares_def)
  qed
qed (use assms(1) in \<open>simp add: claimed_entry_def\<close>)

text \<open>What the end of an entry leaves: its claim is gone or untouched, and an accepted leg is open.\<close>

lemma finish_entry_claim:
  "claim_at (snd (finish_signal_entry rid lid pref tok ok reg)) rid (id_str lid) \<in> {None, claim_at reg rid (id_str lid)}"
  by (auto simp: finish_signal_entry_def Let_def claim_at_def put_leg_def find_leg_iff run_state_put dget_dpop
      split: option.split)

lemma finish_entry_opens:
  assumes "leg_at reg rid (id_str lid) = Some l" "claim_at reg rid (id_str lid) = Some c" "position_ref l = Some pref"
    and "Some (claim_token c) = tok" "entry_status l = EPending"
  shows "\<exists>l'. leg_at (snd (finish_signal_entry rid lid pref tok True reg)) rid (id_str lid) = Some l' \<and>
    status l' = Open \<and> position l' = position l"
proof -
  obtain r where r: "find_leg reg rid lid = Some (r, l)" using assms(1) by (auto simp: leg_at_def find_leg_iff split: bind_splits)
  then have run: "run_state reg rid = Some r" by (simp add: find_leg_iff)
  with assms(2) have c: "dget (signal_entry_claims r) (id_str lid) = Some c" by (simp add: claim_at_def)
  from assms(3-) show ?thesis
    by (simp add: finish_signal_entry_def r c put_leg_def leg_at_put_run [OF run] dget_dset)
qed

lemma place_entry_claim:
  assumes "place_spares rid key env" "key = id_str (c_leg_id cfg)"
  shows "claim_at (snd (snd (place_entry s rid side cfg c env reg))) rid key \<in> {None, claim_at reg rid key}"
proof -
  obtain a reg2 where a: "add_leg rid cfg (Some (claim_token c)) (expected_position_ref c) (the (pe_row env)) (pe_before env reg) =
      (a, reg2)" by fastforce
  have b: "claim_at (pe_before env reg) rid key = claim_at reg rid key" using assms(1) by (simp add: place_spares_def spares_simps)
  have "claim_at reg2 rid key = claim_at reg rid key"
  proof (cases "\<exists>l. a = Ret (Some l)")
    case True
    with a b add_leg_installed(2) show ?thesis by metis
  next
    case False
    with a have "reg2 = pe_before env reg" by (intro add_leg_refused) auto
    with b show ?thesis by simp
  qed
  with finish_entry_claim [of rid "c_leg_id cfg" "claim_position_ref c" "Some (claim_token c)" "pe_ok env" "pe_meanwhile env reg2"]
  have f: "claim_at (snd (finish_signal_entry rid (c_leg_id cfg) (claim_position_ref c) (Some (claim_token c)) (pe_ok env)
      (pe_meanwhile env reg2))) rid key \<in> {None, claim_at reg rid key}" and r2: "claim_at reg2 rid key = claim_at reg rid key"
    using assms by (auto simp: place_spares_def spares_simps)
  show ?thesis
  proof (cases "pe_key env \<and> pe_row env \<noteq> None \<and> (\<exists>l. a = Ret (Some l))")
    case True
    with a f assms(1) show ?thesis by (auto simp: place_entry_def Let_def place_spares_def spares_simps)
  qed (use a b r2 in \<open>cases a; auto simp: place_entry_def Let_def split: option.split\<close>)
qed

lemma resolved_leg_id: "resolve_signal_leg frepr master l side = Ret (Inr cfg) \<Longrightarrow> c_leg_id cfg = leg_id_of frepr l"
  "resolve_signal_leg frepr master l side = Ret (Inr cfg) \<Longrightarrow> c_position cfg = Some (position_of_side side)"
  by (auto simp: resolve_signal_leg_def Let_def rbind_def split: if_splits sum.splits)

lemma open_side_claim:
  assumes "signal_spares rid key env" "key = id_str (leg_id_of (en_repr env) l)"
  shows "claim_at (snd (snd (open_side s rid l side c flipped env reg))) rid key \<in> {None, claim_at reg rid key}"
proof (cases "resolve_signal_leg (en_repr env) (en_contracts env) l side")
  case (Inr x)
  show ?thesis
  proof (cases x)
    case i: (Inr cfg)
    let ?cfg = "cfg\<lparr>c_position_ref := Some (claim_position_ref c)\<rparr>"
    have "key = id_str (c_leg_id ?cfg)" using resolved_leg_id(1) [OF Inr [unfolded i]] assms(2) by simp
    from place_entry_claim [OF _ this, of rid "en_entry env" s side c reg] assms(1) Inr i show ?thesis
      by (auto simp: open_side_def Let_def signal_spares_def split: sum.split prod.split)
  qed (use Inr in \<open>simp add: open_side_def Let_def\<close>)
qed (simp add: open_side_def Let_def)

lemma claimed_entry_claim:
  assumes "signal_spares rid key env" "key = id_str (leg_id_of (en_repr env) l)"
  shows "claim_at (snd (snd (claimed_entry uu s rid l side c env reg))) rid key \<in> {None, claim_at reg rid key}"
proof (cases "held_by_claim c")
  case (Some held)
  obtain ex sent1 reg1 where x: "signal_exit uu s rid (leg_id_of (en_repr env) l) held (en_exit env) reg = (ex, sent1, reg1)"
    by (metis prod.exhaust)
  have "claim_at reg1 rid key = claim_at reg rid key"
    using signal_exit_same [of rid key "en_exit env" reg uu s rid "leg_id_of (en_repr env) l" held] x assms(1)
    by (simp add: same_at_def signal_spares_def)
  with open_side_claim [OF assms, of s side c True reg1] Some x show ?thesis
    by (auto simp: claimed_entry_def Let_def split: sum.split prod.split)
qed (use open_side_claim [OF assms] in \<open>simp add: claimed_entry_def\<close>)

lemma signal_enter_claimed:
  assumes "claim_signal_entry uu rid (leg_id_of (en_repr env) l) (Some (position_of_side side)) reg = (Some (EntryClaimed c), reg1)"
    and "signal_enter uu s rid l side env reg = (res, sent, reg')" "signal_spares rid key env"
    and "key = id_str (leg_id_of (en_repr env) l)"
  obtains reg2 where "claimed_entry uu s rid l side c env reg1 = (res, sent, reg2)" "claim_at reg' rid key = None"
    "leg_at reg' rid key = leg_at reg2 rid key"
proof -
  obtain res2 sent2 reg2 where e: "claimed_entry uu s rid l side c env reg1 = (res2, sent2, reg2)" by (metis prod.exhaust)
  obtain b reg3 where r: "release_signal_entry_claim rid (leg_id_of (en_repr env) l) (Some (claim_token c)) reg2 = (b, reg3)" by fastforce
  have "claim_at reg1 rid key = Some c" using claim_entry_cases(2) [OF assms(1) refl] assms(4) by simp
  with claimed_entry_claim [OF assms(3,4), of uu s side c reg1] e have "claim_at reg2 rid key \<in> {None, Some c}" by simp
  with release_entry_cases [OF r] assms(4) have n: "claim_at reg3 rid key = None" "leg_at reg3 rid key = leg_at reg2 rid key" by auto
  have o: "spares rid key (en_reconcile env)" using assms(3) by (simp add: signal_spares_def)
  from assms(1,2) e r have "res = res2" "sent = sent2" "reg' = (if b then en_reconcile env reg3 else reg3)"
    by (simp_all add: signal_enter_def Let_def)
  with e n o that show thesis by (auto simp: spares_simps)
qed

definition still_place :: placing_env where
  "still_place =
     \<lparr>pe_key = True, pe_before = (\<lambda>reg. reg), pe_row = Some 8, pe_ok = True, pe_meanwhile = (\<lambda>reg. reg),
      pe_replay = (\<lambda>reg. reg), pe_reconcile = (\<lambda>reg. reg)\<rparr>"

definition still_signal :: signal_env where
  "still_signal =
     \<lparr>en_repr = (\<lambda>x. []), en_reset = 0, en_now = 0, en_row = (\<lambda>rid. Some (False, None)), en_stop = calm_env,
      en_claimed = True, en_refreshed = None, en_created = (\<lambda>mode. None), en_linked = True,
      en_stop_requested = (\<lambda>rid. False), en_contracts = Some [], en_exit = still_place, en_entry = still_place,
      en_reconcile = (\<lambda>reg. reg)\<rparr>"

definition nifty_leg :: signal_leg where
  "nifty_leg =
     \<lparr>sl_data = [''id'' \<mapsto> VInt 1, ''symbol'' \<mapsto> VStr ''NIFTY'', ''exchange'' \<mapsto> VStr ''NFO'', ''qty'' \<mapsto> VInt 10],
      sl_trail = None\<rparr>"

definition nifty_strategy :: signal_strategy where
  "nifty_strategy =
     \<lparr>ss_id = 9, ss_current_run = Some 1, ss_live = False, ss_type = ''intraday'', ss_entry_time = None,
      ss_exit_time = None, ss_legs = [nifty_leg], ss_direction = ''both'', ss_product = ''MIS'', ss_name = ''s'',
      ss_pricetype = ''MARKET''\<rparr>"

text \<open>A run that holds ten long, and the registry it is installed in.\<close>

definition long_leg :: leg where
  "long_leg =
     (projr (new_leg_state (sample_cfg ''B'')))\<lparr>status := Open, entry_status := EComplete, entry_filled_qty := 10,
        entry_order_id := Some 7\<rparr>"

definition long_run :: run where
  "long_run =
     \<lparr>run_id = 1, strategy_id = 9, pnl_realized = 0, pnl_unrealized = 0, pnl_total = 0, pnl_peak = 0, pnl_trough = 0,
      run_lock_armed = False, run_lock_floor = None, trail_to_entry_active = False, tick_source_degraded = False,
      stopping = False, signal_entry_claims = [], legs = [(''1'', long_leg)]\<rparr>"

definition long_registry :: registry where
  "long_registry = hydrate_run_state 1 long_run empty_registry"

lemma long_reachable: "reachable uids long_registry"
proof -
  have "str_upper ''B'' = ''B''" by simp
  then have "run_wf uids 0 long_run"
    by (simp add: run_wf_def long_run_def keyed_legs_def long_leg_def new_leg_state_def sample_cfg_def leg_wf_def str_one)
  then have "reachable uids (exec uids 1 (Hydrate long_run) empty_registry)"
    by (intro reachable.step reachable.start) (simp add: action_ok_def empty_registry_def)
  then show ?thesis by (simp add: long_registry_def)
qed

lemma still_spares: "signal_spares rid key still_signal"
  by (simp add: signal_spares_def place_spares_def still_signal_def still_place_def)

lemma still_keeps: "signal_env_keeps P still_signal"
  by (simp add: signal_env_keeps_def placing_env_keeps_def stop_env_keeps_def answer_keeps_def still_signal_def still_place_def calm_env_def)

text \<open>C18: No signal leaves its entry claim behind, however it ends, an exception included: a leg that was free before
  the signal is free after it, and is not answered with a pending flip for ever.\<close>

theorem entry_claim_released:
  assumes "act_on_signal uu s action rid l env reg = (res, sent, reg')" "key = id_str (leg_id_of (en_repr env) l)"
    and "signal_spares rid key env" "claim_at reg rid key = None"
  shows "claim_at reg' rid key = None"
proof (cases "is_entry_signal action \<and> \<not> en_stop_requested env rid")
  case True
  then have r: "signal_enter uu s rid l (side_of_action action) env reg = (res, sent, reg')"
    using assms(1) by (simp add: act_on_signal_def Let_def)
  obtain a reg1 where c: "claim_signal_entry uu rid (leg_id_of (en_repr env) l) (Some (position_of_side (side_of_action action))) reg = (a, reg1)"
    by fastforce
  show ?thesis
  proof (cases "\<exists>c. a = Some (EntryClaimed c)")
    case True
    then obtain c' where "a = Some (EntryClaimed c')" by blast
    from signal_enter_claimed [OF c [unfolded this] r assms(3,2)] show ?thesis by blast
  next
    case False
    then have "reg1 = reg" using claim_entry_noted [OF c] by blast
    with r c False assms(4) show ?thesis by (auto simp: signal_enter_def Let_def split: option.splits entry_answer.splits)
  qed
next
  case False
  show ?thesis
  proof (cases "is_entry_signal action")
    case True
    with False assms show ?thesis by (auto simp: act_on_signal_def Let_def)
  next
    case no: False
    with assms(1) have "signal_exit uu s rid (leg_id_of (en_repr env) l) (side_of_action action) (en_exit env) reg = (res, sent, reg')"
      by (simp add: act_on_signal_def Let_def)
    with signal_exit_same [of rid key "en_exit env" reg uu s rid "leg_id_of (en_repr env) l" "side_of_action action"] assms(3,4)
    show ?thesis by (simp add: same_at_def signal_spares_def)
  qed
qed

theorem entry_claim_released_witness:
  "claim_at (snd (snd (act_on_signal uids nifty_strategy ''short_entry'' 1 nifty_leg still_signal long_registry))) 1 ''1'' = None"
proof -
  have key: "''1'' = id_str (leg_id_of (en_repr still_signal) nifty_leg)" and free: "claim_at long_registry 1 ''1'' = None"
    by code_simp+
  obtain res sent reg' where r: "act_on_signal uids nifty_strategy ''short_entry'' 1 nifty_leg still_signal long_registry = (res, sent, reg')"
    by (metis prod.exhaust)
  from entry_claim_released [OF r key still_spares free] r show ?thesis by simp
qed

text \<open>A signal that sends no order costs nothing. Whether it is refused, noted or raises, the leg it names holds
  what it held: no position is opened, replaced or closed, and only exit markers may differ.\<close>

theorem silent_signal_costs_nothing:
  assumes "act_on_signal uu s action rid l env reg = (res, [], reg')" "key = id_str (leg_id_of (en_repr env) l)"
    and "signal_spares rid key env"
  shows "bare_at reg' rid key = bare_at reg rid key"
proof (cases "is_entry_signal action \<and> \<not> en_stop_requested env rid")
  case True
  then have r: "signal_enter uu s rid l (side_of_action action) env reg = (res, [], reg')"
    using assms(1) by (simp add: act_on_signal_def Let_def)
  obtain a reg1 where c: "claim_signal_entry uu rid (leg_id_of (en_repr env) l) (Some (position_of_side (side_of_action action))) reg = (a, reg1)"
    by fastforce
  show ?thesis
  proof (cases "\<exists>c. a = Some (EntryClaimed c)")
    case True
    then obtain c' where c': "a = Some (EntryClaimed c')" by blast
    from signal_enter_claimed [OF c [unfolded c'] r assms(3,2)] obtain reg2 where
      e: "claimed_entry uu s rid l (side_of_action action) c' env reg1 = (res, [], reg2)" "leg_at reg' rid key = leg_at reg2 rid key" .
    with claimed_entry_silent [OF e(1) assms(3)] claim_entry_cases(1) [OF c] show ?thesis
      by (simp add: same_at_def bare_at_def)
  next
    case False
    then have "reg1 = reg" using claim_entry_noted [OF c] by blast
    with r c False show ?thesis by (auto simp: signal_enter_def Let_def split: option.splits entry_answer.splits)
  qed
next
  case False
  show ?thesis
  proof (cases "is_entry_signal action")
    case True
    with False assms show ?thesis by (auto simp: act_on_signal_def Let_def)
  next
    case no: False
    with assms(1) have "signal_exit uu s rid (leg_id_of (en_repr env) l) (side_of_action action) (en_exit env) reg = (res, [], reg')"
      by (simp add: act_on_signal_def Let_def)
    with signal_exit_same [of rid key "en_exit env" reg uu s rid "leg_id_of (en_repr env) l" "side_of_action action"] assms(3)
    show ?thesis by (simp add: same_at_def signal_spares_def)
  qed
qed

theorem silent_signal_costs_nothing_witness:
  "bare_at (snd (snd (act_on_signal uids nifty_strategy ''long_entry'' 1 nifty_leg still_signal long_registry))) 1 ''1'' =
     bare_at long_registry 1 ''1'' \<and> bare_at long_registry 1 ''1'' \<noteq> None"
proof -
  have key: "''1'' = id_str (leg_id_of (en_repr still_signal) nifty_leg)" and held: "bare_at long_registry 1 ''1'' \<noteq> None"
    by code_simp+
  have "fst (snd (act_on_signal uids nifty_strategy ''long_entry'' 1 nifty_leg still_signal long_registry)) = []" by code_simp
  then obtain res reg' where r: "act_on_signal uids nifty_strategy ''long_entry'' 1 nifty_leg still_signal long_registry = (res, [], reg')"
    by (metis fst_conv prod.exhaust snd_conv)
  from silent_signal_costs_nothing [OF r key still_spares] r held show ?thesis by simp
qed

section \<open>A repeated signal\<close>

definition leg_sat :: "(leg \<Rightarrow> bool) \<Rightarrow> registry \<Rightarrow> int \<Rightarrow> string \<Rightarrow> bool" where
  "leg_sat Q reg rid key = (\<exists>l. leg_at reg rid key = Some l \<and> Q l)"

text \<open>Facts about a leg that the row of an exit does not touch.\<close>

definition row_stable :: "(leg \<Rightarrow> bool) \<Rightarrow> bool" where
  "row_stable Q =
     (\<forall>l k. Q l \<longrightarrow> Q (l\<lparr>exit_order_id := Some k\<rparr>) \<and>
        (\<forall>x. superseded l = Some x \<longrightarrow> Q (l\<lparr>superseded := Some (x\<lparr>sp_exit_order_id := Some k\<rparr>)\<rparr>)))"

lemma bind_target_sat:
  assumes "leg_sat Q reg rid key" "row_stable Q"
  shows "leg_sat Q (snd (bind_target rid' t row reg)) rid key"
proof -
  have "leg_sat Q (put_leg rid' r (id_str lid) l' reg) rid key"
    if "find_leg reg rid' lid = Some (r, l)" "l' = l\<lparr>exit_order_id := Some row\<rparr> \<or>
      (\<exists>x. superseded l = Some x \<and> l' = l\<lparr>superseded := Some (x\<lparr>sp_exit_order_id := Some row\<rparr>)\<rparr>)" for r lid l l'
    using assms that find_leg_at [OF that(1)]
    by (auto simp: leg_sat_def row_stable_def leg_at_put_found [OF that(1)])
  with assms(1) show ?thesis
    by (auto simp: bind_target_def bind_live_exit_def bind_superseded_exit_def split: exit_target.split option.split)
qed

lemma spares_sat: "spares rid key f \<Longrightarrow> leg_sat Q reg rid key \<Longrightarrow> leg_sat Q (f reg) rid key"
  by (simp add: leg_sat_def spares_simps)

lemma send_exit_sat:
  "place_spares rid key env \<Longrightarrow> leg_sat Q reg rid key \<Longrightarrow> leg_sat Q (snd (snd (send_signal_exit order c env reg))) rid key"
  by (auto simp: send_signal_exit_def Let_def place_spares_def intro: spares_sat)

lemma place_exit_sat:
  assumes "place_spares rid key env" "leg_sat Q reg rid key" "row_stable Q"
  shows "leg_sat Q (snd (snd (place_exit s rid' t env reg))) rid key"
proof -
  have b: "leg_sat Q (pe_before env reg) rid key" using assms(1,2) by (auto simp: place_spares_def intro: spares_sat)
  obtain bound reg2 where t: "bind_target rid' t (the (pe_row env)) (pe_before env reg) = (bound, reg2)" by fastforce
  have "leg_sat Q reg2 rid key" using bind_target_sat [OF b assms(3), of rid' t "the (pe_row env)"] t by simp
  with send_exit_sat [OF assms(1)] b t assms(2) show ?thesis
    by (auto simp: place_exit_def Let_def split: sum.split option.split)
qed

definition on_side :: "signal_side \<Rightarrow> leg \<Rightarrow> bool" where
  "on_side side l = (status l = Open \<and> (position l = ''B'') = (side = Long))"

lemma held_side_at: "held_side rid lid reg = Some side \<longleftrightarrow> leg_sat (on_side side) reg rid (id_str lid)"
  by (cases side) (auto simp: held_side_def leg_sat_def on_side_def find_leg_def leg_at_def split: option.splits)

definition closing_live :: "signal_side \<Rightarrow> leg \<Rightarrow> bool" where
  "closing_live side l = (on_side side l \<and> entry_status l = EComplete \<and> exit_in_flight l)"

definition closing_outgoing :: "signal_side \<Rightarrow> leg \<Rightarrow> bool" where
  "closing_outgoing side l = (\<not> on_side side l \<and> (\<exists>x. superseded l = Some x \<and> sp_exit_claim_token x \<noteq> None))"

lemma row_stable_closing: "row_stable (closing_live side)" "row_stable (closing_outgoing side)" "row_stable (\<lambda>l. status l = Open \<and> position l = pos)"
  by (auto simp: row_stable_def closing_live_def closing_outgoing_def on_side_def exit_in_flight_def)

lemma closing_noted:
  assumes "leg_sat (closing_live side) reg rid (id_str lid) \<or> leg_sat (closing_outgoing side) reg rid (id_str lid)"
  shows "signal_exit uu s rid lid side env reg = (Ret (sg_noted True ''no_matching_position'' lid (Some rid)), [], reg)"
  using assms
proof
  assume a: "leg_sat (closing_live side) reg rid (id_str lid)"
  then have h: "held_side rid lid reg = Some side" unfolding held_side_at by (auto simp: leg_sat_def closing_live_def)
  from a obtain r l where f: "find_leg reg rid lid = Some (r, l)" "exit_in_flight l" "entry_status l = EComplete"
    by (auto simp: leg_sat_def closing_live_def leg_at_def find_leg_iff split: bind_splits)
  then have "claim_leg_exit uu rid lid ''exit_signal'' reg = (None, reg)" by (simp add: claim_leg_exit_def)
  with h f show ?thesis by (simp add: signal_exit_def)
next
  assume a: "leg_sat (closing_outgoing side) reg rid (id_str lid)"
  then have h: "held_side rid lid reg \<noteq> Some side" unfolding held_side_at by (auto simp: leg_sat_def closing_outgoing_def)
  from a obtain r l where "find_leg reg rid lid = Some (r, l)" "\<exists>x. superseded l = Some x \<and> sp_exit_claim_token x \<noteq> None"
    by (auto simp: leg_sat_def closing_outgoing_def leg_at_def find_leg_iff split: bind_splits)
  then have "claim_superseded_exit uu rid lid pos reg = (None, reg)" for pos by (auto simp: claim_superseded_exit_def)
  with h show ?thesis by (simp add: signal_exit_def)
qed

lemma exit_acted_closing:
  assumes "signal_exit uu s rid lid side env reg = (Ret r, sent, reg')" "acted r" "place_spares rid (id_str lid) env"
  shows "leg_sat (closing_live side) reg' rid (id_str lid) \<or> leg_sat (closing_outgoing side) reg' rid (id_str lid)"
proof (cases "held_side rid lid reg = Some side")
  case True
  obtain a reg1 where c: "claim_leg_exit uu rid lid ''exit_signal'' reg = (a, reg1)" by fastforce
  show ?thesis
  proof (cases a)
    case None
    with assms(1,2) True c show ?thesis by (auto simp: signal_exit_def split: option.splits if_splits)
  next
    case (Some l)
    obtain res1 sent1 reg2 where p: "place_exit s rid (LiveTarget l) env reg1 = (res1, sent1, reg2)" by (metis prod.exhaust)
    from True have "leg_sat (closing_live side) reg1 rid (id_str lid)"
      unfolding held_side_at using c [unfolded Some]
      by (elim claim_leg_exit_SomeD) (auto simp: leg_sat_def closing_live_def on_side_def exit_in_flight_def leg_at_put_found dest: find_leg_at)
    from place_exit_sat [OF assms(3) this row_stable_closing(1), of s rid "LiveTarget l"] assms(1,2) True c Some p show ?thesis
      by (auto simp: signal_exit_def split: sum.splits if_splits)
  qed
next
  case False
  obtain a reg1 where c: "claim_superseded_exit uu rid lid (Some (position_of_side side)) reg = (a, reg1)" by fastforce
  show ?thesis
  proof (cases a)
    case None
    with assms(1,2) False c show ?thesis by (auto simp: signal_exit_def)
  next
    case (Some x)
    obtain res1 sent1 reg2 where p: "place_exit s rid (OutgoingTarget x) env reg1 = (res1, sent1, reg2)" by (metis prod.exhaust)
    obtain r0 l y where y: "find_leg reg rid lid = Some (r0, l)" "superseded l = Some y"
        "reg1 = put_leg rid r0 (id_str lid) (l\<lparr>superseded := Some (y\<lparr>sp_exit_claim_token := Some (uu (next_uuid reg))\<rparr>)\<rparr>)
          (reg\<lparr>next_uuid := Suc (next_uuid reg)\<rparr>)"
      using c Some by (auto simp: claim_superseded_exit_def new_position_ref_def Let_def split: option.splits if_splits)
    from False y(1) have "\<not> on_side side l" unfolding held_side_at by (auto simp: leg_sat_def dest: find_leg_at)
    with y have "leg_sat (closing_outgoing side) reg1 rid (id_str lid)"
      by (auto simp: leg_sat_def closing_outgoing_def on_side_def leg_at_put_found)
    from place_exit_sat [OF assms(3) this row_stable_closing(2), of s rid "OutgoingTarget x"] assms(1,2) False c Some p show ?thesis
      by (auto simp: signal_exit_def split: sum.splits if_splits)
  qed
qed

definition entered :: "signal_side \<Rightarrow> leg \<Rightarrow> bool" where
  "entered side l = (status l = Open \<and> position l = position_of_side side)"

lemma position_of_side_upper [simp]: "str_upper (position_of_side side) = position_of_side side"
  by (cases side) simp_all

lemma place_entry_opens:
  assumes "place_entry s rid side cfg c env reg = (Ret p, sent, reg')" "pl_ok p" "place_spares rid key env"
    and "key = id_str (c_leg_id cfg)" "c_position cfg = Some (position_of_side side)"
    and "c_position_ref cfg = Some (claim_position_ref c)"
  shows "leg_sat (entered side) reg' rid key"
proof -
  obtain a reg2 where a: "add_leg rid cfg (Some (claim_token c)) (expected_position_ref c) (the (pe_row env)) (pe_before env reg) =
      (a, reg2)" by fastforce
  from assms(1,2) a obtain l where l: "a = Ret (Some l)" "pe_ok env" and
    reg': "reg' = pe_replay env (snd (finish_signal_entry rid (c_leg_id cfg) (claim_position_ref c) (Some (claim_token c)) True
      (pe_meanwhile env reg2)))"
    by (auto simp: place_entry_def Let_def split: if_splits option.splits sum.splits)
  note i = add_leg_installed [OF a [unfolded l]]
  from i(3) obtain c' where c': "claim_at (pe_before env reg) rid key = Some c'" "claim_token c' = claim_token c"
    using assms(4) by auto
  have m: "leg_at (pe_meanwhile env reg2) rid key = Some l" "claim_at (pe_meanwhile env reg2) rid key = Some c'"
    using i(1,2) c' assms(3,4) by (auto simp: place_spares_def spares_simps)
  have "\<exists>l'. leg_at (snd (finish_signal_entry rid (c_leg_id cfg) (claim_position_ref c) (Some (claim_token c)) True
      (pe_meanwhile env reg2))) rid (id_str (c_leg_id cfg)) = Some l' \<and> status l' = Open \<and> position l' = position l"
    using finish_entry_opens [of "pe_meanwhile env reg2" rid "c_leg_id cfg" l c' "claim_position_ref c" "Some (claim_token c)"]
      m c' i(5,6) assms(4,6) by simp
  with i(4) assms(4,5) have "leg_sat (entered side) (snd (finish_signal_entry rid (c_leg_id cfg) (claim_position_ref c)
      (Some (claim_token c)) True (pe_meanwhile env reg2))) rid key"
    by (auto simp: leg_sat_def entered_def)
  with reg' assms(3) show ?thesis by (simp add: place_spares_def spares_sat)
qed

lemma open_side_opens:
  assumes "open_side s rid side_leg side c flipped env reg = (Ret r, sent, reg')" "acted r" "signal_spares rid key env"
    and "key = id_str (leg_id_of (en_repr env) side_leg)"
  shows "leg_sat (entered side) reg' rid key"
proof -
  from assms(1,2) obtain cfg where cfg: "resolve_signal_leg (en_repr env) (en_contracts env) side_leg side = Ret (Inr cfg)"
    by (auto simp: open_side_def Let_def split: sum.splits)
  let ?cfg = "cfg\<lparr>c_position_ref := Some (claim_position_ref c)\<rparr>"
  obtain res1 sent1 reg1 where p: "place_entry s rid side ?cfg c (en_entry env) reg = (res1, sent1, reg1)" by (metis prod.exhaust)
  with assms(1,2) cfg obtain q where q: "res1 = Ret q" "pl_ok q" "reg1 = reg'"
    by (auto simp: open_side_def Let_def split: sum.splits if_splits)
  show ?thesis
    by (rule place_entry_opens [OF p [unfolded q] q(2)]) (use assms(3,4) resolved_leg_id [OF cfg] in \<open>auto simp: signal_spares_def\<close>)
qed

lemma claimed_entry_opens:
  assumes "claimed_entry uu s rid l side c env reg = (Ret r, sent, reg')" "acted r" "signal_spares rid key env"
    and "key = id_str (leg_id_of (en_repr env) l)"
  shows "leg_sat (entered side) reg' rid key"
proof (cases "held_by_claim c")
  case None
  with assms(1,2) open_side_opens [OF _ assms(2,3,4)] show ?thesis
    by (auto simp: claimed_entry_def split: if_splits)
next
  case (Some held)
  obtain ex sent1 reg1 where x: "signal_exit uu s rid (leg_id_of (en_repr env) l) held (en_exit env) reg = (ex, sent1, reg1)"
    by (metis prod.exhaust)
  obtain res2 sent2 reg2 where o: "open_side s rid l side c True env reg1 = (res2, sent2, reg2)" by (metis prod.exhaust)
  from assms(1,2) Some x o have "res2 = Ret r" "reg2 = reg'"
    by (auto simp: claimed_entry_def Let_def split: if_splits sum.splits)
  with open_side_opens [of s rid l side c True env reg1 r sent2 reg'] o assms(2-4) show ?thesis by simp
qed

lemma entered_noted:
  assumes "leg_sat (entered side) reg rid (id_str (leg_id_of (en_repr env) l))"
  shows "\<exists>note. note \<noteq> None \<and> (\<exists>ok lid rid'. signal_enter uu s rid l side env reg =
    (Ret \<lparr>sg_ok = ok, sg_note = note, sg_error = None, sg_leg = lid, sg_run = rid', sg_flipped = False\<rparr>, [], reg))"
proof -
  let ?lid = "leg_id_of (en_repr env) l"
  from assms obtain r x where r: "run_state reg rid = Some r" "dget (legs r) (id_str ?lid) = Some x" "entered side x"
    by (auto simp: leg_sat_def leg_at_def split: bind_splits)
  have "\<exists>n. claim_signal_entry uu rid ?lid (Some (position_of_side side)) reg = (Some (EntryNote n), reg)"
    using r by (auto simp: claim_signal_entry_def Let_def entered_def)
  then show ?thesis by (auto simp: signal_enter_def sg_noted_def)
qed



section \<open>What a signal sends and answers\<close>





section \<open>Sessions\<close>

lemma session_day_div:
  assumes "0 \<le> reset" "reset < day_length"
  shows "session_day reset m = (m - reset) div day_length"
proof -
  have d: "0 < day_length" by (simp add: day_length_def)
  define q r where "q = m div day_length" and "r = m mod day_length"
  have m: "m = day_length * q + r" and r: "0 \<le> r" "r < day_length" using d by (simp_all add: q_def r_def)
  show ?thesis
  proof (cases "r < reset")
    case True
    have "(m - reset) div day_length = q - 1"
      by (rule int_div_pos_eq [of _ _ _ "r - reset + day_length"]) (use True r assms m in \<open>auto simp: algebra_simps\<close>)
    moreover have "(m - day_length) div day_length = q - 1"
      by (rule int_div_pos_eq [of _ _ _ r]) (use r m in \<open>auto simp: algebra_simps\<close>)
    ultimately show ?thesis using True by (simp add: session_day_def r_def)
  next
    case False
    have "(m - reset) div day_length = q"
      by (rule int_div_pos_eq [of _ _ _ "r - reset"]) (use False r assms m in auto)
    with False show ?thesis by (simp add: session_day_def r_def q_def)
  qed
qed

lemma session_reset_range: "0 \<le> session_reset_time raw" "session_reset_time raw < day_length"
  by (auto simp: session_reset_time_def day_length_def minute_length_def Let_def split: option.split sum.split)

lemma int_div_less:
  assumes "0 < (d :: int)"
  shows "a div d < q \<longleftrightarrow> a < q * d"
proof -
  define k r where "k = a div d" and "r = a mod d"
  have a: "a = k * d + r" "0 \<le> r" "r < d" using assms by (simp_all add: k_def r_def)
  have "k < q \<longleftrightarrow> k * d + r < q * d"
  proof
    assume "k < q"
    then have "(k + 1) * d \<le> q * d" using assms by (intro mult_right_mono) auto
    with a show "k * d + r < q * d" by (simp add: distrib_right)
  next
    assume "k * d + r < q * d"
    with a(2) have "k * d < q * d" by simp
    with assms show "k < q" by simp
  qed
  with a(1) show ?thesis by (simp add: k_def)
qed

text \<open>C19: Whatever the reset time is configured to, the two ways the code draws the session boundary agree: a run
  belongs to an earlier session exactly when it started before the instant at which the session of now
  began, and that instant is at most one day back.\<close>

theorem session_boundary_exact:
  "started_before_today (session_reset_time raw) now (Some u) =
     (u + ist_offset < session_started_at (session_reset_time raw) now) \<and>
   session_started_at (session_reset_time raw) now \<le> now \<and> now < session_started_at (session_reset_time raw) now + day_length"
proof -
  let ?r = "session_reset_time raw"
  have d: "0 < day_length" by (simp add: day_length_def)
  note day = session_day_div [OF session_reset_range(1,2)]
  have s: "session_started_at ?r now = (now - ?r) div day_length * day_length + ?r" by (simp add: session_started_at_def day)
  have "(u + ist_offset - ?r) div day_length < (now - ?r) div day_length \<longleftrightarrow>
      u + ist_offset - ?r < (now - ?r) div day_length * day_length"
    by (rule int_div_less [OF d])
  moreover have "(now - ?r) div day_length * day_length \<le> now - ?r" "now - ?r < (now - ?r) div day_length * day_length + day_length"
    using pos_mod_bound [OF d, of "now - ?r"] pos_mod_sign [OF d, of "now - ?r"] div_mult_mod_eq [of "now - ?r" day_length]
    by linarith+
  ultimately show ?thesis unfolding s by (auto simp: started_before_today_def day)
qed

end
