(* ===== verification/Kill_Switch.thy ===== *)
theory Kill_Switch
  imports Py_Value Ratchet
begin

text \<open>
  The kill switch: \<open>services/trading_kill_switch.py\<close>, \<open>live_order_guard.py\<close>,
  \<open>kill_switch_monitor.py\<close>, \<open>kill_switch_emergency.py\<close> and \<open>reset_kill_switch.py\<close>. Its state is
  the content of one file, \<open>None\<close> when there is none; reads and writes of that file are taken to
  succeed. What the funds service, the credential store and the cancel and flatten
  services answer is data: a reply may be a failure, a body without the field, a value of any
  type, or an exception. The endless loop of the monitor is a fold over what its iterations meet.
\<close>

section \<open>The switch\<close>

type_synonym kill_file = "string option"

datatype funds_reply = FundsRaise pyexc | FundsFailed | FundsBadShape | FundsCash pyval

record check_result =
  kr_allowed :: bool
  kr_killed :: bool
  kr_cash :: "pyfloat option"
  kr_reason :: "string option"

definition is_killed :: "kill_file \<Rightarrow> bool" where
  "is_killed f = (case f of None \<Rightarrow> False | Some text \<Rightarrow> str_strip text = ''KILLED'')"

definition latched_file :: kill_file where
  "latched_file = Some (''KILLED'' @ [CHR 0x0A])"

definition kill_latch :: "kill_file \<Rightarrow> kill_file" where
  "kill_latch f = latched_file"

definition blocked :: "pyfloat option \<Rightarrow> string \<Rightarrow> check_result" where
  "blocked cash why = \<lparr>kr_allowed = False, kr_killed = True, kr_cash = cash, kr_reason = Some why\<rparr>"

definition kill_threshold :: pyfloat where
  "kill_threshold = 0"

definition check_balance :: "funds_reply \<Rightarrow> kill_file \<Rightarrow> check_result result \<times> kill_file" where
  "check_balance reply f =
     (if is_killed f then (Ret (blocked None ''Kill switch is latched''), f)
      else
        case reply of
          FundsRaise e \<Rightarrow> (Raise e, f)
        | FundsFailed \<Rightarrow> (Ret (blocked None ''Unable to verify account balance''), kill_latch f)
        | FundsBadShape \<Rightarrow> (Ret (blocked None ''Invalid account balance response''), kill_latch f)
        | FundsCash v \<Rightarrow>
            (case py_float v of
               Inl TypeError \<Rightarrow> (Ret (blocked None ''Invalid account balance response''), kill_latch f)
             | Inl ValueError \<Rightarrow> (Ret (blocked None ''Invalid account balance response''), kill_latch f)
             | Inl KeyError \<Rightarrow> (Ret (blocked None ''Invalid account balance response''), kill_latch f)
             | Inl e \<Rightarrow> (Raise e, f)
             | Inr balance \<Rightarrow>
                 if balance \<le> kill_threshold
                 then (Ret (blocked (Some balance) ''Balance reached kill threshold''), kill_latch f)
                 else (Ret \<lparr>kr_allowed = True, kr_killed = False, kr_cash = Some balance, kr_reason = None\<rparr>, f)))"

section \<open>The guard in front of a live order\<close>

datatype guard_answer = GuardBlocked string | GuardAllowed "pyfloat option"

definition check_live_order_allowed :: "string \<Rightarrow> funds_reply \<Rightarrow> kill_file \<Rightarrow> guard_answer result \<times> kill_file" where
  "check_live_order_allowed api_key reply f =
     (if api_key = [] then (Ret (GuardBlocked ''Kill switch: missing OpenAlgo API key''), f)
      else
        (let (res, f') = check_balance reply f in
         (rbind res (\<lambda>r.
            if \<not> kr_allowed r
            then Ret (GuardBlocked (''Kill switch: '' @
                   (case kr_reason r of None \<Rightarrow> ''Trading blocked'' | Some why \<Rightarrow> why)))
            else Ret (GuardAllowed (kr_cash r))), f')))"

section \<open>The emergency\<close>

datatype emergency_call = CancelAll string string | FlattenAll string string

definition emergency_flatten ::
  "string \<Rightarrow> bool result \<Rightarrow> bool result \<Rightarrow> string \<Rightarrow> string \<Rightarrow> emergency_call list \<times> bool result" where
  "emergency_flatten api_key cancel_answer flatten_answer tok brk =
     (if api_key = [] \<or> tok = [] \<or> brk = [] then ([], Ret False)
      else
        case cancel_answer of
          Inl e \<Rightarrow> ([CancelAll tok brk], Raise e)
        | Inr c \<Rightarrow>
            ([CancelAll tok brk, FlattenAll tok brk], rbind flatten_answer (\<lambda>fl. Ret (c \<and> fl))))"

section \<open>The monitor\<close>

record monitor_input =
  mi_key :: "string option result"
  mi_funds :: funds_reply
  mi_auth :: "(string option \<times> string option) result"
  mi_cancel :: "bool result"
  mi_flatten :: "bool result"

definition text_or_empty :: "string option \<Rightarrow> string" where
  "text_or_empty s = (case s of None \<Rightarrow> [] | Some t \<Rightarrow> t)"

text \<open>One iteration: the calls it makes on the broker and the file it leaves. Any exception latches.\<close>

definition monitor_step :: "monitor_input \<Rightarrow> kill_file \<Rightarrow> emergency_call list \<times> kill_file" where
  "monitor_step mi f =
     (case mi_key mi of
        Inl e \<Rightarrow> ([], kill_latch f)
      | Inr key \<Rightarrow>
          (if text_or_empty key = [] then ([], kill_latch f)
           else
             case check_balance (mi_funds mi) f of
               (Inl e, f') \<Rightarrow> ([], kill_latch f')
             | (Inr r, f') \<Rightarrow>
                 if \<not> kr_killed r then ([], f')
                 else if is_killed f then ([], f')
                 else
                   case mi_auth mi of
                     Inl e \<Rightarrow> ([], kill_latch f')
                   | Inr (tok, brk) \<Rightarrow>
                       if text_or_empty tok = [] \<or> text_or_empty brk = [] then ([], f')
                       else
                         case emergency_flatten (text_or_empty key) (mi_cancel mi) (mi_flatten mi)
                                (text_or_empty tok) (text_or_empty brk) of
                           (calls, Inl e) \<Rightarrow> (calls, kill_latch f')
                         | (calls, Inr ok) \<Rightarrow> (calls, f')))"

fun monitor_run :: "monitor_input list \<Rightarrow> kill_file \<Rightarrow> emergency_call list \<times> kill_file" where
  "monitor_run [] f = ([], f)"
| "monitor_run (mi # mis) f =
     (let (calls, f') = monitor_step mi f; (calls', f'') = monitor_run mis f' in (calls @ calls', f''))"

section \<open>The reset script\<close>

text \<open>The exit code and the file the script leaves; an exception is a crash of the script.\<close>

definition reset_main :: "string option \<Rightarrow> funds_reply \<Rightarrow> kill_file \<Rightarrow> int result \<times> kill_file" where
  "reset_main key reply f =
     (case f of
        None \<Rightarrow> (Ret 0, f)
      | Some _ \<Rightarrow>
          if text_or_empty key = [] then (Ret 1, f)
          else
            case check_balance reply f of
              (Inl e, f') \<Rightarrow> (Raise e, f')
            | (Inr r, f') \<Rightarrow>
                if kr_killed r then (Ret 1, f')
                else if (case kr_cash r of None \<Rightarrow> True | Some b \<Rightarrow> b \<le> 0) then (Ret 1, f')
                else (Ret 0, None))"

section \<open>The latch\<close>

datatype kill_op = CheckOp funds_reply | GuardOp string funds_reply | MonitorOp monitor_input | ResetOp "string option" funds_reply

fun kill_exec :: "kill_op \<Rightarrow> kill_file \<Rightarrow> kill_file" where
  "kill_exec (CheckOp reply) f = snd (check_balance reply f)"
| "kill_exec (GuardOp key reply) f = snd (check_live_order_allowed key reply f)"
| "kill_exec (MonitorOp mi) f = snd (monitor_step mi f)"
| "kill_exec (ResetOp key reply) f = snd (reset_main key reply f)"

lemma killed_latched [simp]: "is_killed latched_file" "is_killed (kill_latch f)"
  unfolding kill_latch_def by code_simp+

lemma check_killed: "is_killed f \<Longrightarrow> check_balance reply f = (Ret (blocked None ''Kill switch is latched''), f)"
  by (simp add: check_balance_def)

lemma check_keeps: "is_killed f \<Longrightarrow> is_killed (snd (check_balance reply f))"
  by (simp add: check_killed)

lemma monitor_killed:
  assumes "is_killed f"
  shows "fst (monitor_step mi f) = []" and "is_killed (snd (monitor_step mi f))"
  using assms by (auto simp: monitor_step_def check_killed blocked_def split: sum.split)

lemma reset_killed: "is_killed f \<Longrightarrow> is_killed (snd (reset_main key reply f)) \<and> fst (reset_main key reply f) \<noteq> Ret 0"
  by (cases f) (auto simp: reset_main_def check_killed blocked_def is_killed_def [of None])

interpretation kill: latch kill_exec is_killed "\<lambda>_. False"
proof unfold_locales
  fix f x
  assume "is_killed f"
  then show "is_killed (kill_exec x f)"
    by (cases x) (auto simp: check_live_order_allowed_def check_killed monitor_killed reset_killed)
qed

section \<open>Properties\<close>

text \<open>C20: The switch fails closed. A check that answers allows trading only on a file that is not latched
  and a balance that was read and is not at or below the threshold; in every other case that answers
  the file is latched afterwards. The one value that is neither refused nor positive is NaN.\<close>

theorem check_fails_closed:
  assumes "check_balance reply f = (Ret r, f')"
  shows "(kr_allowed r \<longleftrightarrow> \<not> kr_killed r) \<and> (kr_killed r \<longleftrightarrow> is_killed f') \<and>
    (kr_allowed r \<longrightarrow> f' = f \<and> (\<exists>v x. reply = FundsCash v \<and> py_float v = Ret x \<and> kr_cash r = Some x \<and> (x > 0 \<or> x = NaN)))"
proof -
  have pos: "\<not> x \<le> kill_threshold \<Longrightarrow> x > 0 \<or> x = NaN" for x
    by (cases x) (auto simp: kill_threshold_def zero_pyfloat_def)
  show ?thesis
    using assms pos
    by (auto simp: check_balance_def blocked_def split: if_splits funds_reply.splits sum.splits pyexc.splits)
qed

theorem check_fails_closed_witness:
  "\<exists>r. check_balance (FundsCash (VFloat (Fin (-1)))) None = (Ret r, latched_file) \<and> \<not> kr_allowed r \<and> is_killed latched_file"
proof -
  have "check_balance (FundsCash (VFloat (Fin (-1)))) None =
      (Ret (blocked (Some (Fin (-1))) ''Balance reached kill threshold''), latched_file)"
    by (simp add: check_balance_def is_killed_def kill_threshold_def zero_pyfloat_def kill_latch_def)
  from check_fails_closed [OF this] this show ?thesis by (auto simp: blocked_def)
qed

text \<open>C21: Once latched, always latched. After any sequence of balance checks, guarded orders, monitor
  iterations and runs of the reset script, whatever the outside services answer, a latched switch
  is still latched, the next guarded order is blocked, and the reset script does not report success.\<close>

theorem kill_is_permanent:
  assumes "is_killed f"
  shows "is_killed (fold kill_exec xs f) \<and>
    (\<exists>why. fst (check_live_order_allowed key reply (fold kill_exec xs f)) = Ret (GuardBlocked why)) \<and>
    fst (reset_main rkey reply (fold kill_exec xs f)) \<noteq> Ret 0"
proof -
  have k: "is_killed (fold kill_exec xs f)"
    using kill.held_run [OF assms, of xs] by (simp add: list_all_iff)
  then show ?thesis
    by (auto simp: check_live_order_allowed_def check_killed blocked_def reset_killed)
qed

theorem kill_is_permanent_witness:
  "is_killed (fold kill_exec [ResetOp (Some ''key'') (FundsCash (VInt 1000)), CheckOp FundsFailed] latched_file) \<and>
   fst (reset_main (Some ''key'') (FundsCash (VInt 1000))
     (fold kill_exec [ResetOp (Some ''key'') (FundsCash (VInt 1000)), CheckOp FundsFailed] latched_file)) \<noteq> Ret 0"
  using kill_is_permanent [OF killed_latched(1), of "[ResetOp (Some ''key'') (FundsCash (VInt 1000)), CheckOp FundsFailed]"]
  by blast

text \<open>C22: The emergency is sent at most once, in order, and only on a fresh kill. Over any number of
  monitor iterations the calls to the broker are none, one cancellation, or one cancellation
  followed by one flattening on the same credentials; and from a switch that is already latched,
  by whatever path, the monitor never sends any.\<close>

theorem emergency_at_most_once:
  "(\<exists>tok brk. fst (monitor_run mis f) \<in> {[], [CancelAll tok brk], [CancelAll tok brk, FlattenAll tok brk]}) \<and>
   (is_killed f \<longrightarrow> fst (monitor_run mis f) = [])"
proof (induction mis arbitrary: f)
  case Nil
  then show ?case by simp
next
  case (Cons mi mis)
  have step: "\<exists>tok brk. fst (monitor_step mi f) \<in> {[], [CancelAll tok brk], [CancelAll tok brk, FlattenAll tok brk]}"
    by (auto simp: monitor_step_def emergency_flatten_def split: sum.split prod.split)
  have fresh: "fst (monitor_step mi f) \<noteq> [] \<Longrightarrow> is_killed (snd (monitor_step mi f))"
  proof -
    assume "fst (monitor_step mi f) \<noteq> []"
    then obtain key r f' where "mi_key mi = Inr key" "check_balance (mi_funds mi) f = (Ret r, f')" "kr_killed r"
        "snd (monitor_step mi f) = f' \<or> snd (monitor_step mi f) = kill_latch f'"
      by (auto simp: monitor_step_def split: sum.splits prod.splits if_splits)
    moreover from this(2,3) have "is_killed f'"
      by (auto simp: check_balance_def blocked_def split: if_splits funds_reply.splits sum.splits pyexc.splits)
    ultimately show ?thesis by auto
  qed
  show ?case
  proof (cases "fst (monitor_step mi f) = []")
    case True
    with Cons.IH [of "snd (monitor_step mi f)"] monitor_killed(2) [of f mi] show ?thesis
      by (auto simp: case_prod_beta)
  next
    case False
    with fresh Cons.IH [of "snd (monitor_step mi f)"] have "fst (monitor_run mis (snd (monitor_step mi f))) = []" by blast
    with step False monitor_killed(1) [of f mi] show ?thesis by (auto simp: case_prod_beta)
  qed
qed

theorem emergency_at_most_once_witness:
  "fst (monitor_run [\<lparr>mi_key = Ret (Some ''key''), mi_funds = FundsCash (VFloat (Fin 0)),
     mi_auth = Ret (Some ''t'', Some ''b''), mi_cancel = Ret True, mi_flatten = Ret True\<rparr>] latched_file) = []"
  using emergency_at_most_once killed_latched(1) by blast

text \<open>A live order passes the guard only on a verified balance. The guard lets an order through only
  with an API key, a switch that is not latched, and a balance that was just read and is positive or NaN;
  it never changes the file when it lets an order through.\<close>

theorem guard_passes_only_verified:
  assumes "check_live_order_allowed key reply f = (Ret (GuardAllowed cash), f')"
  shows "key \<noteq> [] \<and> \<not> is_killed f \<and> f' = f \<and>
    (\<exists>v x. reply = FundsCash v \<and> py_float v = Ret x \<and> cash = Some x \<and> (x > 0 \<or> x = NaN))"
proof -
  obtain res g where c: "check_balance reply f = (res, g)" by fastforce
  with assms obtain r where r: "key \<noteq> []" "res = Ret r" "kr_allowed r" "cash = kr_cash r" "f' = g"
    by (auto simp: check_live_order_allowed_def rbind_Ret split: if_splits)
  have "\<not> is_killed f" using c r by (auto simp: check_balance_def blocked_def)
  moreover have "\<not> x \<le> kill_threshold \<Longrightarrow> x > 0 \<or> x = NaN" for x
    by (cases x) (auto simp: kill_threshold_def zero_pyfloat_def)
  ultimately show ?thesis
    using c r
    by (auto simp: check_balance_def blocked_def split: if_splits funds_reply.splits sum.splits pyexc.splits)
qed

theorem guard_passes_only_verified_witness:
  "check_live_order_allowed ''key'' (FundsCash (VInt 500)) None = (Ret (GuardAllowed (Some (Fin 500))), None) \<and>
   \<not> is_killed None"
proof -
  have g: "check_live_order_allowed ''key'' (FundsCash (VInt 500)) None = (Ret (GuardAllowed (Some (Fin 500))), None)"
    by (simp add: check_live_order_allowed_def check_balance_def is_killed_def kill_threshold_def zero_pyfloat_def)
  from guard_passes_only_verified [OF g] g show ?thesis by blast
qed

end
