(* ===== verification/Order_Service.thy ===== *)
theory Order_Service
  imports Kill_Switch
begin

text \<open>
  The service behind a single order of the REST interface: \<open>services/order_router_service.py\<close> (which orders wait for
  approval), \<open>services/place_order_service.py\<close>, \<open>services/jev_service.py\<close> and the creation of a pending order in
  \<open>database/action_center_db.py\<close>.

  A request body is a dictionary of untyped values, with the legs of a basket beside it. Everything outside is data of the
  environment: what the credential store, the sandbox, the funds service, the decision service and the broker answer.
  Every question put to one of the last four is appended to \<open>dk_calls\<close>, and the number of calls made so far selects the
  answer, so that no two answers need agree. The empty text stands for a key, a token or a broker name that is
  absent, and for an \<open>apikey\<close> field that is not a text. \<open>schema\<close> is the validation of the library the REST
  layer uses: the text of its complaint, or nothing.
\<close>

section \<open>Requests and answers\<close>

record api_payload =
  op_fields :: pydict
  op_orders :: "pydict list"

datatype leg_result = LegDict pydict "leg_result list option" | LegOther

record api_answer =
  oa_ok :: bool
  oa_body :: pydict
  oa_results :: "leg_result list option"
  oa_ids :: "string list option"
  oa_code :: int

datatype broker_answer = BrokerRaises pyexc | BrokerAnswer "int option" "pydict option" pyval

datatype decision_http =
    DecisionUnreachable string
  | DecisionStatus int
  | DecisionBadJson
  | DecisionNotDict
  | DecisionReply pyval "pyval option" "pydict option"

datatype order_call =
    FundsCall string
  | SandboxCall string pydict string
  | DecisionCall "string list"
  | BrokerCall string string string pydict
  | OptionsCall string api_payload
  | StatusCall pyval

record svc_env =
  ev_analyze :: bool
  ev_user :: "string \<Rightarrow> string option result"
  ev_mode_row :: "string \<Rightarrow> string option result"
  ev_auth :: "string \<Rightarrow> (string \<times> string) option"
  ev_has_module :: "string \<Rightarrow> string \<Rightarrow> bool"
  ev_schema :: "pydict \<Rightarrow> string option"
  ev_decision_key :: string
  ev_exc_text :: "pyexc \<Rightarrow> string"
  ev_frepr :: "pyfloat \<Rightarrow> string"
  ev_db_ok :: bool
  ev_funds :: "nat \<Rightarrow> funds_reply"
  ev_sandbox :: "nat \<Rightarrow> api_answer result"
  ev_decision :: "nat \<Rightarrow> decision_http"
  ev_broker :: "nat \<Rightarrow> broker_answer"
  ev_schedule :: "nat \<Rightarrow> pydict list \<Rightarrow> pydict list"

record pending_row =
  pr_owner :: string
  pr_type :: string
  pr_data :: api_payload
  pr_status :: string
  pr_approved_by :: "string option"
  pr_rejected_by :: "string option"
  pr_reason :: "string option"
  pr_broker_id :: pyval
  pr_broker_status :: pyval

record order_desk =
  dk_kill :: kill_file
  dk_rows :: "(nat \<times> pending_row) list"
  dk_calls :: "order_call list"

definition svc_failure :: "int \<Rightarrow> string \<Rightarrow> api_answer" where
  "svc_failure code msg = \<lparr>oa_ok = False, oa_body = [''status'' \<mapsto> VStr ''error'', ''message'' \<mapsto> VStr msg], oa_results = None, oa_ids = None, oa_code = code\<rparr>"

text \<open>\<open>emit_analyzer_error\<close> and its answer.\<close>

definition analyzer_failure :: "string \<Rightarrow> api_answer" where
  "analyzer_failure msg =
     \<lparr>oa_ok = False, oa_body = [''mode'' \<mapsto> VStr ''analyze'', ''status'' \<mapsto> VStr ''error'', ''message'' \<mapsto> VStr msg],
      oa_results = None, oa_ids = None, oa_code = 400\<rparr>"

definition svc_success :: "(string \<rightharpoonup> pyval) \<Rightarrow> api_answer" where
  "svc_success body = \<lparr>oa_ok = True, oa_body = body(''status'' \<mapsto> VStr ''success''), oa_results = None, oa_ids = None, oa_code = 200\<rparr>"

definition payload_key :: "pydict \<Rightarrow> string" where
  "payload_key d = (case d ''apikey'' of Some (VStr k) \<Rightarrow> k | _ \<Rightarrow> [])"

definition with_key :: "string \<Rightarrow> pydict \<Rightarrow> pydict" where
  "with_key api_key d = (if api_key = [] then d else d(''apikey'' \<mapsto> VStr api_key))"

definition field_or :: "pydict \<Rightarrow> string \<Rightarrow> pyval \<Rightarrow> pyval" where
  "field_or d k dflt = (case d k of None \<Rightarrow> dflt | Some v \<Rightarrow> v)"

section \<open>Calls to the outside\<close>

definition note_call :: "order_call \<Rightarrow> order_desk \<Rightarrow> order_desk" where
  "note_call c s = s\<lparr>dk_calls := dk_calls s @ [c]\<rparr>"

definition calls_made :: "order_desk \<Rightarrow> nat" where
  "calls_made s = length (dk_calls s)"

definition ask_guard :: "svc_env \<Rightarrow> string \<Rightarrow> order_desk \<Rightarrow> guard_answer result \<times> order_desk" where
  "ask_guard e api_key s =
     (let (r, f) = check_live_order_allowed api_key (ev_funds e (calls_made s)) (dk_kill s) in
      (r, note_call (FundsCall api_key) (s\<lparr>dk_kill := f\<rparr>)))"

definition ask_sandbox :: "svc_env \<Rightarrow> string \<Rightarrow> pydict \<Rightarrow> string \<Rightarrow> order_desk \<Rightarrow> api_answer result \<times> order_desk" where
  "ask_sandbox e fn d api_key s = (ev_sandbox e (calls_made s), note_call (SandboxCall fn d api_key) s)"

definition ask_broker :: "svc_env \<Rightarrow> string \<Rightarrow> string \<Rightarrow> string \<Rightarrow> pydict \<Rightarrow> order_desk \<Rightarrow> broker_answer \<times> order_desk" where
  "ask_broker e fn broker token d s = (ev_broker e (calls_made s), note_call (BrokerCall fn broker token d) s)"

definition broker_message :: "string \<Rightarrow> pydict option \<Rightarrow> pyval" where
  "broker_message dflt body = (case body of None \<Rightarrow> VStr dflt | Some b \<Rightarrow> field_or b ''message'' (VStr dflt))"

definition broker_failure :: "int \<Rightarrow> pyval \<Rightarrow> api_answer" where
  "broker_failure code msg = \<lparr>oa_ok = False, oa_body = [''status'' \<mapsto> VStr ''error'', ''message'' \<mapsto> msg], oa_results = None, oa_ids = None, oa_code = code\<rparr>"

section \<open>The decision service\<close>

datatype decision_outcome = DecisionError string | DecisionRaises pyexc | Decided string

definition allowed_decisions :: "string list" where
  "allowed_decisions = [''allow'', ''confirm'', ''review'', ''deny'']"

definition equals_zero :: "pyval \<Rightarrow> bool" where
  "equals_zero v = (case v of VInt i \<Rightarrow> i = 0 | VBool b \<Rightarrow> \<not> b | VFloat x \<Rightarrow> x = 0 | _ \<Rightarrow> False)"

text \<open>A decision that is a list or a dictionary has no hash: looking it up in a set is a \<open>TypeError\<close>.\<close>

definition read_decision :: "svc_env \<Rightarrow> decision_http \<Rightarrow> decision_outcome" where
  "read_decision e h =
     (case h of
        DecisionUnreachable why \<Rightarrow> DecisionError (''Jev request failed: '' @ why)
      | DecisionStatus code \<Rightarrow>
          if code = 429 then DecisionError ''Jev rate limit reached; retry later''
          else DecisionError (''Jev returned HTTP '' @ str_of_int code)
      | DecisionBadJson \<Rightarrow> DecisionError ''Jev returned invalid JSON''
      | DecisionNotDict \<Rightarrow> DecisionRaises OtherError
      | DecisionReply code msg data \<Rightarrow>
          if \<not> equals_zero code
          then DecisionError (py_str (ev_frepr e) (case msg of None \<Rightarrow> VStr ''Jev returned an error'' | Some m \<Rightarrow> m))
          else
            case data of
              None \<Rightarrow> DecisionError ''Jev response missing decision data''
            | Some d \<Rightarrow>
                (case get_val d ''decision'' of
                   VStr x \<Rightarrow> if x \<in> set allowed_decisions then Decided x else DecisionError ''Jev returned an invalid decision''
                 | VOther b t f \<Rightarrow> DecisionRaises TypeError
                 | _ \<Rightarrow> DecisionError ''Jev returned an invalid decision''))"

definition guard_tool_call :: "svc_env \<Rightarrow> string list \<Rightarrow> order_desk \<Rightarrow> decision_outcome \<times> order_desk" where
  "guard_tool_call e arguments s =
     (if str_strip (ev_decision_key e) = [] then (DecisionError ''JEV_API_KEY is not configured'', s)
      else (read_decision e (ev_decision e (calls_made s)), note_call (DecisionCall arguments) s))"

definition require_jev_allow :: "svc_env \<Rightarrow> string list \<Rightarrow> order_desk \<Rightarrow> decision_outcome \<times> order_desk" where
  "require_jev_allow e arguments s =
     (case guard_tool_call e arguments s of
        (Decided d, s') \<Rightarrow>
          (if d \<noteq> ''allow'' then DecisionError (''Jev blocked action: '' @ d) else Decided d, s')
      | r \<Rightarrow> r)"

section \<open>Orders that wait for approval\<close>

definition immediate_operations :: "string list" where
  "immediate_operations =
     [''closeallpositions'', ''closeposition'', ''cancelorder'', ''cancelallorder'', ''modifyorder'', ''orderstatus'',
      ''orderbook'', ''tradebook'', ''positions'', ''holdings'', ''funds'', ''openposition'', ''modifygttorder'',
      ''cancelgttorder'', ''gttorderbook'']"

text \<open>Read afresh: the code's cache of modes is taken to agree with the table.\<close>

definition get_order_mode :: "svc_env \<Rightarrow> string \<Rightarrow> string" where
  "get_order_mode e user =
     (case ev_mode_row e user of
        Inl x \<Rightarrow> ''auto''
      | Inr None \<Rightarrow> ''auto''
      | Inr (Some m) \<Rightarrow> if m = [] then ''auto'' else m)"

definition should_route_to_pending :: "svc_env \<Rightarrow> string \<Rightarrow> string \<Rightarrow> bool" where
  "should_route_to_pending e api_key api_type =
     (if api_type \<noteq> [] \<and> str_lower api_type \<in> set immediate_operations then False
      else
        case ev_user e api_key of
          Inl x \<Rightarrow> False
        | Inr None \<Rightarrow> False
        | Inr (Some user) \<Rightarrow> if user = [] then False else get_order_mode e user = ''semi_auto'')"

definition new_row_id :: "order_desk \<Rightarrow> nat" where
  "new_row_id s = Suc (fold max (map fst (dk_rows s)) 0)"

definition create_pending_order :: "svc_env \<Rightarrow> string \<Rightarrow> string \<Rightarrow> api_payload \<Rightarrow> order_desk \<Rightarrow> nat option \<times> order_desk" where
  "create_pending_order e user api_type data s =
     (if \<not> ev_db_ok e then (None, s)
      else
        let row = \<lparr>pr_owner = user, pr_type = api_type, pr_data = data, pr_status = ''pending'', pr_approved_by = None,
                   pr_rejected_by = None, pr_reason = None, pr_broker_id = VNone, pr_broker_status = VNone\<rparr> in
        (Some (new_row_id s), s\<lparr>dk_rows := dk_rows s @ [(new_row_id s, row)]\<rparr>))"

definition queue_order :: "svc_env \<Rightarrow> string \<Rightarrow> api_payload \<Rightarrow> string \<Rightarrow> order_desk \<Rightarrow> api_answer result \<times> order_desk" where
  "queue_order e api_key data api_type s =
     (case ev_user e api_key of
        Inl x \<Rightarrow> (Ret (svc_failure 500 (''Failed to queue order: '' @ ev_exc_text e x)), s)
      | Inr user \<Rightarrow>
          if text_or_empty user = [] then (Ret (svc_failure 403 ''Invalid API key''), s)
          else
            case create_pending_order e (text_or_empty user) api_type (data\<lparr>op_fields := (op_fields data)(''apikey'' := None)\<rparr>) s of
              (None, s') \<Rightarrow> (Ret (svc_failure 500 ''Failed to queue order''), s')
            | (Some n, s') \<Rightarrow>
                (Ret (svc_success [''message'' \<mapsto> VStr ''Order queued for approval in Action Center'', ''mode'' \<mapsto> VStr ''semi_auto'',
                               ''pending_order_id'' \<mapsto> VInt (int n)]), s'))"

section \<open>Validation\<close>

definition rest_exchanges :: "string list" where
  "rest_exchanges = [''NSE'', ''NFO'', ''CDS'', ''BSE'', ''BFO'', ''BCD'', ''MCX'', ''NCDEX'', ''NCO'', ''NSE_INDEX'',
     ''BSE_INDEX'', ''MCX_INDEX'', ''GLOBAL_INDEX'', ''CRYPTO'']"

definition valid_product_types :: "string list" where
  "valid_product_types = [''CNC'', ''NRML'', ''MIS'']"

definition valid_price_types :: "string list" where
  "valid_price_types = [''MARKET'', ''LIMIT'', ''SL'', ''SL-M'']"

definition valid_actions :: "string list" where
  "valid_actions = [''BUY'', ''SELL'']"

definition required_order_fields :: "string list" where
  "required_order_fields = [''apikey'', ''strategy'', ''symbol'', ''exchange'', ''action'', ''quantity'']"

definition required_smart_order_fields :: "string list" where
  "required_smart_order_fields = required_order_fields @ [''position_size'']"

fun join_with :: "string \<Rightarrow> string list \<Rightarrow> string" where
  "join_with glue [] = []"
| "join_with glue [x] = x"
| "join_with glue (x # xs) = x @ glue @ join_with glue xs"

definition value_in :: "pyval \<Rightarrow> string list \<Rightarrow> bool" where
  "value_in v xs = (case v of VStr x \<Rightarrow> x \<in> set xs | _ \<Rightarrow> False)"

definition allowed_field :: "pydict \<Rightarrow> string \<Rightarrow> string list \<Rightarrow> bool" where
  "allowed_field d k xs = (case d k of None \<Rightarrow> True | Some v \<Rightarrow> value_in v xs)"

text \<open>The checks the single, the smart and the basket order share, up to the names of two fields: the complaint, if any,
  and the dictionary with its action in capitals.\<close>

definition check_order :: "string list \<Rightarrow> string \<Rightarrow> string \<Rightarrow> pydict \<Rightarrow> (string option \<times> pydict) result" where
  "check_order required price_field product_field d =
     (let missing = filter (\<lambda>k. d k = None) required in
      if missing \<noteq> [] then Ret (Some (''Missing mandatory field(s): '' @ join_with '', '' missing), d)
      else if \<not> allowed_field d ''exchange'' rest_exchanges
      then Ret (Some (''Invalid exchange. Must be one of: '' @ join_with '', '' rest_exchanges), d)
      else
        case d ''action'' of
          Some (VStr a) \<Rightarrow>
            (let d' = d(''action'' \<mapsto> VStr (str_upper a)) in
             if str_upper a \<notin> set valid_actions
             then Ret (Some (''Invalid action. Must be one of: '' @ join_with '', '' valid_actions @ '' (case insensitive)''), d')
             else if \<not> allowed_field d' price_field valid_price_types
             then Ret (Some (''Invalid price type. Must be one of: '' @ join_with '', '' valid_price_types), d')
             else if \<not> allowed_field d' product_field valid_product_types
             then Ret (Some (''Invalid product type. Must be one of: '' @ join_with '', '' valid_product_types), d')
             else Ret (None, d'))
        | _ \<Rightarrow> Raise OtherError)"

definition validate_order_data :: "svc_env \<Rightarrow> pydict \<Rightarrow> (string option \<times> pydict) result" where
  "validate_order_data e d =
     rbind (check_order required_order_fields ''price_type'' ''product_type'' d)
       (\<lambda>(msg, d'). Ret (case msg of Some m \<Rightarrow> Some m | None \<Rightarrow> ev_schema e d', d'))"

section \<open>Placing an order\<close>

text \<open>The arguments of the event: the quantity is read as an integer, and may not be one.\<close>

definition event_quantity :: "pydict \<Rightarrow> int result" where
  "event_quantity d = py_int (field_or d ''quantity'' (VInt 0))"

definition decision_arguments :: "svc_env \<Rightarrow> pydict \<Rightarrow> string list" where
  "decision_arguments e d =
     (let t = \<lambda>v. py_str (ev_frepr e) v in
      [''symbol='' @ t (field_or d ''symbol'' (VStr [])), ''exchange='' @ t (field_or d ''exchange'' (VStr [])),
       ''action='' @ t (field_or d ''action'' (VStr [])), ''quantity='' @ t (field_or d ''quantity'' (VStr [])),
       ''price_type='' @ t (field_or d ''price_type'' (field_or d ''pricetype'' (VStr [])))])"

definition read_order_answer :: "pydict \<Rightarrow> bool \<Rightarrow> broker_answer \<Rightarrow> api_answer result" where
  "read_order_answer d emit reply =
     (case reply of
        BrokerRaises x \<Rightarrow> Ret (svc_failure 500 ''Failed to place order due to internal error'')
      | BrokerAnswer None body oid \<Rightarrow> Raise OtherError
      | BrokerAnswer (Some code) body oid \<Rightarrow>
          if code = 200
          then rbind (if emit then event_quantity d else Ret 0) (\<lambda>_. Ret (svc_success [''orderid'' \<mapsto> oid]))
          else Ret (broker_failure code (broker_message ''Failed to place order'' body)))"

definition place_order_with_auth ::
  "svc_env \<Rightarrow> pydict \<Rightarrow> string \<Rightarrow> string \<Rightarrow> pydict \<Rightarrow> bool \<Rightarrow> bool \<Rightarrow> order_desk \<Rightarrow> api_answer result \<times> order_desk" where
  "place_order_with_auth e d token broker orig emit force_live s =
     (let api_key = payload_key orig in
      if ev_analyze e \<and> \<not> force_live
      then
        if api_key = []
        then (Ret (analyzer_failure ''API key required for sandbox mode''), s)
        else
          case ask_sandbox e ''place_order'' d api_key s of
            (r, s') \<Rightarrow> (rbind r (\<lambda>a. rbind (if emit then event_quantity d else Ret 0) (\<lambda>_. Ret a)), s')
      else if \<not> ev_has_module e ''order_api'' broker then (Ret (svc_failure 404 ''Broker-specific module not found''), s)
      else
        case ask_guard e api_key s of
          (Inl x, s1) \<Rightarrow> (Raise x, s1)
        | (Inr (GuardBlocked why), s1) \<Rightarrow> (Ret (svc_failure 403 why), s1)
        | (Inr (GuardAllowed cash), s1) \<Rightarrow>
            (case require_jev_allow e (decision_arguments e d) s1 of
               (DecisionRaises x, s2) \<Rightarrow> (Raise x, s2)
             | (DecisionError why, s2) \<Rightarrow> (Ret (svc_failure 403 (''Jev blocked live order: '' @ why)), s2)
             | (Decided dec, s2) \<Rightarrow>
                 (case ask_broker e ''place_order_api'' broker token d s2 of
                    (reply, s3) \<Rightarrow> (read_order_answer d emit reply, s3))))"

definition place_api_order ::
  "svc_env \<Rightarrow> pydict \<Rightarrow> string \<Rightarrow> string \<Rightarrow> string \<Rightarrow> bool \<Rightarrow> order_desk \<Rightarrow> api_answer result \<times> order_desk" where
  "place_api_order e data api_key token broker emit s =
     (let orig = with_key api_key data; d = with_key api_key data; direct = (token \<noteq> [] \<and> broker \<noteq> []) in
      if api_key \<noteq> [] \<and> \<not> direct \<and> should_route_to_pending e api_key ''placeorder''
      then queue_order e api_key \<lparr>op_fields = orig, op_orders = []\<rparr> ''placeorder'' s
      else
        case validate_order_data e d of
          Inl x \<Rightarrow> (Raise x, s)
        | Inr (Some msg, d') \<Rightarrow> (Ret (if ev_analyze e then analyzer_failure msg else svc_failure 400 msg), s)
        | Inr (None, d') \<Rightarrow>
            if api_key \<noteq> [] \<and> \<not> direct
            then
              case ev_auth e api_key of
                None \<Rightarrow> (Ret (svc_failure 403 ''Invalid openalgo apikey''), s)
              | Some (t, b) \<Rightarrow> place_order_with_auth e d' t b orig emit False s
            else if direct then place_order_with_auth e d' token broker orig emit False s
            else (Ret (svc_failure 400 ''Either api_key or both auth_token and broker must be provided''), s))"

end
