(* ===== verification/Order_Batches.thy ===== *)
theory Order_Batches
  imports Order_Service
begin

text \<open>
  The other ways an order reaches the broker: an order split into pieces (\<open>services/split_order_service.py\<close>), a smart order
  (\<open>services/place_smart_order_service.py\<close>), a basket (\<open>services/basket_order_service.py\<close>) and a trigger order
  (\<open>services/place_gtt_order_service.py\<close>). Quotes fetched beforehand for the sandbox, and pauses between calls, carry no state
  and are left out. The legs of one batch of a basket run in threads: they are taken to run one after another, each as
  a whole, in the order \<open>ev_schedule\<close> picks for that batch.
\<close>

section \<open>Split orders\<close>

definition max_orders :: int where
  "max_orders = 100"

definition dict_item :: "pydict \<Rightarrow> string \<Rightarrow> pyval result" where
  "dict_item d k = (case d k of None \<Rightarrow> Raise KeyError | Some v \<Rightarrow> Ret v)"

definition piece_count :: "int \<Rightarrow> int \<Rightarrow> int" where
  "piece_count piece whole = whole div piece + (if 0 < whole mod piece then 1 else 0)"

text \<open>The size of a piece and the total, or the complaint. Only a \<open>ValueError\<close> is caught.\<close>

definition split_plan :: "pydict \<Rightarrow> (string + int \<times> int) result" where
  "split_plan d =
     (case rbind (rbind (dict_item d ''splitsize'') py_int)
             (\<lambda>piece. rbind (rbind (dict_item d ''quantity'') py_int) (\<lambda>whole. Ret (piece, whole))) of
        Inl ValueError \<Rightarrow> Ret (Inl ''Invalid quantity or split size'')
      | Inl x \<Rightarrow> Raise x
      | Inr (piece, whole) \<Rightarrow>
          if piece \<le> 0 then Ret (Inl ''Split size must be greater than 0'')
          else if piece_count piece whole > max_orders
          then Ret (Inl (''Total number of orders would exceed maximum limit of '' @ str_of_int max_orders))
          else Ret (Inr (piece, whole)))"

text \<open>The number and the quantity of every piece.\<close>

definition split_pieces :: "int \<Rightarrow> int \<Rightarrow> (int \<times> int) list" where
  "split_pieces piece whole =
     map (\<lambda>i. (int i + 1, piece)) [0..<nat (whole div piece)] @
     (if 0 < whole mod piece then [(whole div piece + 1, whole mod piece)] else [])"

definition piece_order :: "pydict \<Rightarrow> int \<Rightarrow> pydict" where
  "piece_order d q = d(''quantity'' \<mapsto> VStr (str_of_int q))"

definition piece_result :: "int \<Rightarrow> int \<Rightarrow> (string \<times> pyval) list \<Rightarrow> leg_result" where
  "piece_result num q extra = LegDict (map_of ([(''order_num'', VInt num), (''quantity'', VInt q)] @ extra)) None"

definition split_single_order :: "svc_env \<Rightarrow> string \<Rightarrow> string \<Rightarrow> pydict \<Rightarrow> int \<Rightarrow> int \<Rightarrow> order_desk \<Rightarrow> leg_result \<times> order_desk" where
  "split_single_order e broker token d num q s =
     (case ask_broker e ''place_order_api'' broker token (piece_order d q) s of
        (BrokerAnswer (Some code) body oid, s') \<Rightarrow>
          (piece_result num q
             (if code = 200 then [(''status'', VStr ''success''), (''orderid'', oid)]
              else [(''status'', VStr ''error''), (''message'', broker_message ''Failed to place order'' body)]), s')
      | (_, s') \<Rightarrow>
          (piece_result num q [(''status'', VStr ''error''), (''message'', VStr ''Failed to place order due to internal error'')], s'))"

fun split_live :: "svc_env \<Rightarrow> string \<Rightarrow> string \<Rightarrow> pydict \<Rightarrow> (int \<times> int) list \<Rightarrow> order_desk \<Rightarrow> leg_result list \<times> order_desk" where
  "split_live e broker token d [] s = ([], s)"
| "split_live e broker token d ((num, q) # ps) s =
     (case split_single_order e broker token d num q s of
        (r, s1) \<Rightarrow> (case split_live e broker token d ps s1 of (rs, s2) \<Rightarrow> (r # rs, s2)))"

definition sandbox_leg :: "api_answer \<Rightarrow> (string \<times> pyval) list" where
  "sandbox_leg a =
     (if oa_ok a then [(''status'', VStr ''success''), (''orderid'', get_val (oa_body a) ''orderid'')]
      else [(''status'', VStr ''error''), (''message'', field_or (oa_body a) ''message'' (VStr ''Order placement failed''))])"

fun split_sandbox :: "svc_env \<Rightarrow> string \<Rightarrow> pydict \<Rightarrow> (int \<times> int) list \<Rightarrow> order_desk \<Rightarrow> leg_result list result \<times> order_desk" where
  "split_sandbox e api_key d [] s = (Ret [], s)"
| "split_sandbox e api_key d ((num, q) # ps) s =
     (case ask_sandbox e ''place_order'' ((piece_order d q)(''apikey'' \<mapsto> VStr api_key)) api_key s of
        (Inl x, s1) \<Rightarrow> (Raise x, s1)
      | (Inr a, s1) \<Rightarrow>
          (case split_sandbox e api_key d ps s1 of
             (rs, s2) \<Rightarrow> (rbind rs (\<lambda>rs'. Ret (piece_result num q (sandbox_leg a) # rs')), s2)))"

definition split_answer :: "pydict \<Rightarrow> int \<Rightarrow> int \<Rightarrow> leg_result list \<Rightarrow> api_answer" where
  "split_answer extra piece whole rs =
     (svc_success (extra ++ [''total_quantity'' \<mapsto> VInt whole, ''split_size'' \<mapsto> VInt piece]))\<lparr>oa_results := Some rs\<rparr>"

definition split_order_with_auth ::
  "svc_env \<Rightarrow> pydict \<Rightarrow> string \<Rightarrow> string \<Rightarrow> pydict \<Rightarrow> order_desk \<Rightarrow> api_answer result \<times> order_desk" where
  "split_order_with_auth e d token broker orig s =
     (case split_plan d of
        Inl x \<Rightarrow> (Raise x, s)
      | Inr (Inl msg) \<Rightarrow> (Ret (if ev_analyze e then analyzer_failure msg else svc_failure 400 msg), s)
      | Inr (Inr (piece, whole)) \<Rightarrow>
          if ev_analyze e
          then
            if payload_key orig = [] then (Ret (analyzer_failure ''API key required for sandbox mode''), s)
            else
              case split_sandbox e (payload_key orig) d (split_pieces piece whole) s of
                (rs, s') \<Rightarrow> (rbind rs (\<lambda>rs'. Ret (split_answer [''mode'' \<mapsto> VStr ''analyze''] piece whole rs')), s')
          else if \<not> ev_has_module e ''order_api'' broker
          then (Ret (svc_failure 404 ''Broker-specific module not found''), s)
          else
            case split_live e broker token d (split_pieces piece whole) s of
              (rs, s') \<Rightarrow> (Ret (split_answer Map.empty piece whole rs), s'))"

definition split_order ::
  "svc_env \<Rightarrow> pydict \<Rightarrow> string \<Rightarrow> string \<Rightarrow> string \<Rightarrow> order_desk \<Rightarrow> api_answer result \<times> order_desk" where
  "split_order e data api_key token broker s =
     (let d = with_key api_key data in
      if api_key \<noteq> [] \<and> \<not> (token \<noteq> [] \<and> broker \<noteq> [])
      then
        if should_route_to_pending e api_key ''splitorder''
        then queue_order e api_key \<lparr>op_fields = d, op_orders = []\<rparr> ''splitorder'' s
        else
          case ev_auth e api_key of
            None \<Rightarrow> (Ret (svc_failure 403 ''Invalid openalgo apikey''), s)
          | Some (t, b) \<Rightarrow>
              (case ask_guard e api_key s of
                 (Inl x, s1) \<Rightarrow> (Raise x, s1)
               | (Inr (GuardBlocked why), s1) \<Rightarrow> (Ret (svc_failure 403 why), s1)
               | (Inr (GuardAllowed cash), s1) \<Rightarrow> split_order_with_auth e d t b d s1)
      else if token \<noteq> [] \<and> broker \<noteq> [] then split_order_with_auth e d token broker d s
      else (Ret (svc_failure 400 ''Either api_key or both auth_token and broker must be provided''), s))"

section \<open>Smart orders\<close>

definition validate_smart_order :: "pydict \<Rightarrow> (string option \<times> pydict) result" where
  "validate_smart_order d = check_order required_smart_order_fields ''pricetype'' ''product'' d"

fun str_contains :: "string \<Rightarrow> string \<Rightarrow> bool" where
  "str_contains pat [] = (pat = [])"
| "str_contains pat (c # cs) = (take (length pat) (c # cs) = pat \<or> str_contains pat cs)"

definition contains_text :: "string \<Rightarrow> pyval \<Rightarrow> bool result" where
  "contains_text pat v = (case v of VStr t \<Rightarrow> Ret (str_contains pat t) | _ \<Rightarrow> Raise TypeError)"

definition is_success :: "pydict \<Rightarrow> bool" where
  "is_success b = (get_val b ''status'' = VStr ''success'')"

definition sandbox_no_action :: "pydict \<Rightarrow> bool result" where
  "sandbox_no_action b =
     (let msg = field_or b ''message'' (VStr []) in
      rbind (if is_success b then contains_text ''No action'' msg else Ret False)
        (\<lambda>x. if x then Ret True else contains_text ''Already Matched'' msg))"

text \<open>What the code makes of the broker's answer. Inside the \<open>try\<close> every exception is the same internal error, the one that
  reads the quantity for the event of a placed order included.\<close>

definition read_smart_answer :: "pydict \<Rightarrow> broker_answer \<Rightarrow> api_answer" where
  "read_smart_answer d reply =
     (let internal = svc_failure 500 ''Failed to place smart order due to internal error'' in
      case reply of
        BrokerRaises x \<Rightarrow> internal
      | BrokerAnswer None None oid \<Rightarrow> internal
      | BrokerAnswer None (Some b) oid \<Rightarrow>
          (case (if is_success b then contains_text ''No action needed'' (field_or b ''message'' (VStr [])) else Ret False) of
             Inl x \<Rightarrow> internal
           | Inr True \<Rightarrow> svc_success [''message'' \<mapsto> VStr ''Positions Already Matched. No Action needed.'']
           | Inr False \<Rightarrow> broker_failure 500 (broker_message ''Failed to place smart order'' (Some b)))
      | BrokerAnswer (Some code) body oid \<Rightarrow>
          if code = 200
          then case event_quantity d of Inl x \<Rightarrow> internal | Inr n \<Rightarrow> svc_success [''orderid'' \<mapsto> oid]
          else broker_failure code (broker_message ''Failed to place smart order'' body))"

definition place_smart_order_with_auth ::
  "svc_env \<Rightarrow> pydict \<Rightarrow> string \<Rightarrow> string \<Rightarrow> pydict \<Rightarrow> order_desk \<Rightarrow> api_answer result \<times> order_desk" where
  "place_smart_order_with_auth e data token broker orig s =
     (case validate_smart_order data of
        Inl x \<Rightarrow> (Raise x, s)
      | Inr (Some msg, d) \<Rightarrow> (Ret (if ev_analyze e then analyzer_failure msg else svc_failure 400 msg), s)
      | Inr (None, d) \<Rightarrow>
          if ev_analyze e
          then
            if payload_key orig = [] then (Ret (analyzer_failure ''API key required for sandbox mode''), s)
            else
              case ask_sandbox e ''place_smart_order'' d (payload_key orig) s of
                (r, s') \<Rightarrow>
                  (rbind r (\<lambda>a. rbind (sandbox_no_action (oa_body a)) (\<lambda>idle.
                     rbind (if idle then Ret 0 else event_quantity d) (\<lambda>_. Ret a))), s')
          else if \<not> ev_has_module e ''order_api'' broker
          then (Ret (svc_failure 404 ''Broker-specific module not found''), s)
          else
            case ask_guard e (payload_key orig) s of
              (Inl x, s1) \<Rightarrow> (Raise x, s1)
            | (Inr (GuardBlocked why), s1) \<Rightarrow> (Ret (svc_failure 403 why), s1)
            | (Inr (GuardAllowed cash), s1) \<Rightarrow>
                (case ask_broker e ''place_smartorder_api'' broker token d s1 of
                   (reply, s2) \<Rightarrow> (Ret (read_smart_answer d reply), s2)))"

definition place_smart_order ::
  "svc_env \<Rightarrow> pydict \<Rightarrow> string \<Rightarrow> string \<Rightarrow> string \<Rightarrow> order_desk \<Rightarrow> api_answer result \<times> order_desk" where
  "place_smart_order e data api_key token broker s =
     (let d = with_key api_key data in
      if api_key \<noteq> [] \<and> \<not> (token \<noteq> [] \<and> broker \<noteq> [])
      then
        if should_route_to_pending e api_key ''smartorder''
        then queue_order e api_key \<lparr>op_fields = d, op_orders = []\<rparr> ''smartorder'' s
        else
          case ev_auth e api_key of
            None \<Rightarrow> (Ret (svc_failure 403 ''Invalid openalgo apikey''), s)
          | Some (t, b) \<Rightarrow> place_smart_order_with_auth e d t b d s
      else if token \<noteq> [] \<and> broker \<noteq> [] then place_smart_order_with_auth e d token broker d s
      else (Ret (svc_failure 400 ''Either api_key or both auth_token and broker must be provided''), s))"

section \<open>Trigger orders\<close>

fun floats_of :: "pyval list \<Rightarrow> pyfloat list result" where
  "floats_of [] = Ret []"
| "floats_of (v # vs) = rbind (py_float v) (\<lambda>x. rbind (floats_of vs) (\<lambda>xs. Ret (x # xs)))"

definition is_oco :: "pydict \<Rightarrow> bool result" where
  "is_oco d =
     (case py_or (get_val d ''trigger_type'') (VStr []) of VStr t \<Rightarrow> Ret (str_upper t = ''OCO'') | _ \<Rightarrow> Raise OtherError)"

definition or_zero :: "pydict \<Rightarrow> string \<Rightarrow> pyval" where
  "or_zero d k = py_or (get_val d k) (VInt 0)"

definition event_trigger_prices :: "pydict \<Rightarrow> pyfloat list result" where
  "event_trigger_prices d =
     rbind (is_oco d) (\<lambda>oco.
       if oco then floats_of [or_zero d ''triggerprice_sl'', or_zero d ''triggerprice_tg'']
       else floats_of [py_or (get_val d ''trigger_price'') (py_or (get_val d ''triggerprice_sl'') (or_zero d ''triggerprice_tg''))])"

definition live_trigger_prices :: "pydict \<Rightarrow> pyfloat list result" where
  "live_trigger_prices d =
     rbind (is_oco d) (\<lambda>oco.
       if oco then floats_of [or_zero d ''triggerprice_sl'', or_zero d ''triggerprice_tg'']
       else floats_of [or_zero d ''trigger_price''])"

definition read_gtt_answer :: "pydict \<Rightarrow> broker_answer \<Rightarrow> api_answer result" where
  "read_gtt_answer d reply =
     (case reply of
        BrokerRaises x \<Rightarrow> Ret (svc_failure 500 ''Failed to place GTT due to internal error'')
      | BrokerAnswer None body tid \<Rightarrow> Raise OtherError
      | BrokerAnswer (Some code) body tid \<Rightarrow>
          if (code = 200 \<or> code = 201) \<and> py_truthy tid
          then rbind (live_trigger_prices d) (\<lambda>_. Ret (svc_success [''trigger_id'' \<mapsto> tid]))
          else Ret (broker_failure (if code \<noteq> 200 then code else 500) (broker_message ''Failed to place GTT'' body)))"

definition place_gtt_order_with_auth ::
  "svc_env \<Rightarrow> pydict \<Rightarrow> string \<Rightarrow> string \<Rightarrow> pydict \<Rightarrow> order_desk \<Rightarrow> api_answer result \<times> order_desk" where
  "place_gtt_order_with_auth e d token broker orig s =
     (if ev_analyze e
      then
        case ask_sandbox e ''place_gtt_order'' d (payload_key orig) s of
          (r, s') \<Rightarrow> (rbind r (\<lambda>a. rbind (if oa_ok a then event_trigger_prices d else Ret []) (\<lambda>_. Ret a)), s')
      else if \<not> ev_has_module e ''gtt_api'' broker
      then (Ret (svc_failure 501 (''GTT orders are not supported for broker '' @ [CHR 0x27] @ broker @ [CHR 0x27] @ '' yet'')), s)
      else
        case ask_broker e ''place_gtt_order'' broker token d s of
          (reply, s') \<Rightarrow> (read_gtt_answer d reply, s'))"

definition place_gtt_order ::
  "svc_env \<Rightarrow> pydict \<Rightarrow> string \<Rightarrow> string \<Rightarrow> string \<Rightarrow> order_desk \<Rightarrow> api_answer result \<times> order_desk" where
  "place_gtt_order e data api_key token broker s =
     (let d = with_key api_key data; direct = (token \<noteq> [] \<and> broker \<noteq> []) in
      if api_key \<noteq> [] \<and> \<not> direct \<and> should_route_to_pending e api_key ''placegttorder''
      then queue_order e api_key \<lparr>op_fields = d, op_orders = []\<rparr> ''placegttorder'' s
      else if api_key \<noteq> [] \<and> \<not> direct
      then
        case ev_auth e api_key of
          None \<Rightarrow> (Ret (svc_failure 403 ''Invalid openalgo apikey''), s)
        | Some (t, b) \<Rightarrow> place_gtt_order_with_auth e d t b d s
      else if direct then place_gtt_order_with_auth e d token broker d s
      else (Ret (svc_failure 400 ''Either api_key or both auth_token and broker must be provided''), s))"

section \<open>Baskets\<close>

definition validate_basket_order :: "pydict \<Rightarrow> (string option \<times> pydict) result" where
  "validate_basket_order d = check_order required_order_fields ''pricetype'' ''product'' d"

definition side_of_order :: "pydict \<Rightarrow> string result" where
  "side_of_order d = (case field_or d ''action'' (VStr []) of VStr a \<Rightarrow> Ret (str_upper a) | _ \<Rightarrow> Raise OtherError)"

fun orders_on_side :: "string \<Rightarrow> pydict list \<Rightarrow> pydict list result" where
  "orders_on_side side [] = Ret []"
| "orders_on_side side (d # ds) =
     rbind (side_of_order d) (\<lambda>a. rbind (orders_on_side side ds) (\<lambda>ds'. Ret (if a = side then d # ds' else ds')))"

definition buys_first :: "pydict list \<Rightarrow> pydict list result" where
  "buys_first ds = rbind (orders_on_side ''BUY'' ds) (\<lambda>b. rbind (orders_on_side ''SELL'' ds) (\<lambda>q. Ret (b @ q)))"

text \<open>\<open>{**order, apikey, strategy}\<close>, for every order; the strategy is only looked up when there is one.\<close>

fun legs_with_auth :: "pydict \<Rightarrow> pydict list \<Rightarrow> pydict list result" where
  "legs_with_auth basket [] = Ret []"
| "legs_with_auth basket (d # ds) =
     rbind (dict_item basket ''strategy'') (\<lambda>v. rbind (legs_with_auth basket ds)
       (\<lambda>ds'. Ret (d(''apikey'' \<mapsto> get_val basket ''apikey'', ''strategy'' \<mapsto> v) # ds')))"

definition basket_leg_error :: "pyval \<Rightarrow> pyval \<Rightarrow> leg_result" where
  "basket_leg_error symb msg = LegDict [''symbol'' \<mapsto> symb, ''status'' \<mapsto> VStr ''error'', ''message'' \<mapsto> msg] None"

definition leg_internal_error :: "pydict \<Rightarrow> leg_result" where
  "leg_internal_error d = basket_leg_error (field_or d ''symbol'' (VStr ''Unknown'')) (VStr ''Failed to place order due to internal error'')"

definition basket_single_order :: "svc_env \<Rightarrow> string \<Rightarrow> string \<Rightarrow> pydict \<Rightarrow> order_desk \<Rightarrow> leg_result \<times> order_desk" where
  "basket_single_order e broker token d s =
     (let place = (\<lambda>status. map_of ([(''symbol'', field_or d ''symbol'' (VStr [])), (''exchange'', field_or d ''exchange'' (VStr [])),
                     (''product'', field_or d ''product'' (VStr []))] @ status)) in
      case ask_guard e (payload_key d) s of
        (Inl x, s1) \<Rightarrow> (leg_internal_error d, s1)
      | (Inr (GuardBlocked why), s1) \<Rightarrow> (LegDict (place [(''status'', VStr ''error''), (''message'', VStr why)]) None, s1)
      | (Inr (GuardAllowed cash), s1) \<Rightarrow>
          (case ask_broker e ''place_order_api'' broker token d s1 of
             (BrokerAnswer (Some code) body oid, s2) \<Rightarrow>
               (if d ''symbol'' = None then leg_internal_error d
                else if code = 200 then LegDict (place [(''status'', VStr ''success''), (''orderid'', oid)]) None
                else basket_leg_error (get_val d ''symbol'') (broker_message ''Failed to place order'' body), s2)
           | (_, s2) \<Rightarrow> (leg_internal_error d, s2)))"

fun basket_batch :: "svc_env \<Rightarrow> string \<Rightarrow> string \<Rightarrow> pydict list \<Rightarrow> order_desk \<Rightarrow> leg_result list \<times> order_desk" where
  "basket_batch e broker token [] s = ([], s)"
| "basket_batch e broker token (d # ds) s =
     (case basket_single_order e broker token d s of
        (r, s1) \<Rightarrow> (case basket_batch e broker token ds s1 of (rs, s2) \<Rightarrow> (r # rs, s2)))"

definition batch_size :: nat where
  "batch_size = 10"

function basket_batches :: "svc_env \<Rightarrow> string \<Rightarrow> string \<Rightarrow> nat \<Rightarrow> pydict list \<Rightarrow> order_desk \<Rightarrow> leg_result list \<times> order_desk" where
  "basket_batches e broker token k ds s =
     (if ds = [] then ([], s)
      else
        case basket_batch e broker token (ev_schedule e k (take batch_size ds)) s of
          (rs, s1) \<Rightarrow> (case basket_batches e broker token (Suc k) (drop batch_size ds) s1 of (rs', s2) \<Rightarrow> (rs @ rs', s2)))"
  by pat_completeness auto
termination
  by (relation "measure (\<lambda>(e, b, t, k, ds, s). length ds)") (auto simp: batch_size_def neq_Nil_conv)

declare basket_batches.simps [simp del]

fun basket_sandbox :: "svc_env \<Rightarrow> string \<Rightarrow> nat \<Rightarrow> nat \<Rightarrow> pydict list \<Rightarrow> order_desk \<Rightarrow> leg_result list result \<times> order_desk" where
  "basket_sandbox e api_key whole i [] s = (Ret [], s)"
| "basket_sandbox e api_key whole i (d # ds) s =
     (case validate_basket_order d of
        Inl x \<Rightarrow> (Raise x, s)
      | Inr (Some msg, d') \<Rightarrow>
          (case basket_sandbox e api_key whole (Suc i) ds s of
             (rs, s2) \<Rightarrow> (rbind rs (\<lambda>rs'. Ret (basket_leg_error (field_or d ''symbol'' (VStr ''Unknown'')) (VStr msg) # rs')), s2))
      | Inr (None, d') \<Rightarrow>
          (case ask_sandbox e ''place_order'' d' api_key s of
             (Inl x, s1) \<Rightarrow> (Raise x, s1)
           | (Inr a, s1) \<Rightarrow>
               let leg = (if oa_ok a
                          then LegDict [''symbol'' \<mapsto> field_or d ''symbol'' (VStr ''Unknown''), ''exchange'' \<mapsto> field_or d ''exchange'' (VStr []),
                                 ''product'' \<mapsto> field_or d ''product'' (VStr []), ''status'' \<mapsto> VStr ''success'',
                                 ''orderid'' \<mapsto> get_val (oa_body a) ''orderid'', ''batch_order'' \<mapsto> VBool True,
                                 ''is_last_order'' \<mapsto> VBool (Suc i = whole)] None
                          else basket_leg_error (field_or d ''symbol'' (VStr ''Unknown''))
                                 (field_or (oa_body a) ''message'' (VStr ''Order placement failed''))) in
               (case basket_sandbox e api_key whole (Suc i) ds s1 of
                  (rs, s2) \<Rightarrow> (rbind rs (\<lambda>rs'. Ret (leg # rs')), s2))))"

definition process_basket_order_with_auth ::
  "svc_env \<Rightarrow> api_payload \<Rightarrow> string \<Rightarrow> string \<Rightarrow> order_desk \<Rightarrow> api_answer result \<times> order_desk" where
  "process_basket_order_with_auth e p token broker s =
     (if ev_analyze e
      then
        case rbind (buys_first (op_orders p)) (legs_with_auth (op_fields p)) of
          Inl x \<Rightarrow> (Raise x, s)
        | Inr legs \<Rightarrow>
            (case basket_sandbox e (payload_key (op_fields p)) (length (op_orders p)) 0 legs s of
               (rs, s') \<Rightarrow> (rbind rs (\<lambda>rs'. Ret ((svc_success [''mode'' \<mapsto> VStr ''analyze''])\<lparr>oa_results := Some rs'\<rparr>)), s'))
      else if \<not> ev_has_module e ''order_api'' broker
      then (Ret (svc_failure 404 ''Broker-specific module not found''), s)
      else
        case rbind (buys_first (op_orders p)) (legs_with_auth (op_fields p)) of
          Inl x \<Rightarrow> (Raise x, s)
        | Inr legs \<Rightarrow>
            (case basket_batches e broker token 0 legs s of
               (rs, s') \<Rightarrow> (Ret ((svc_success Map.empty)\<lparr>oa_results := Some rs\<rparr>), s')))"

definition place_basket_order ::
  "svc_env \<Rightarrow> api_payload \<Rightarrow> string \<Rightarrow> string \<Rightarrow> string \<Rightarrow> order_desk \<Rightarrow> api_answer result \<times> order_desk" where
  "place_basket_order e data api_key token broker s =
     (let p = data\<lparr>op_fields := with_key api_key (op_fields data)\<rparr> in
      if api_key \<noteq> [] \<and> \<not> (token \<noteq> [] \<and> broker \<noteq> [])
      then
        if should_route_to_pending e api_key ''basketorder'' then queue_order e api_key p ''basketorder'' s
        else
          case ev_auth e api_key of
            None \<Rightarrow> (Ret (svc_failure 403 ''Invalid openalgo apikey''), s)
          | Some (t, b) \<Rightarrow>
              (case ask_guard e api_key s of
                 (Inl x, s1) \<Rightarrow> (Raise x, s1)
               | (Inr (GuardBlocked why), s1) \<Rightarrow> (Ret (svc_failure 403 why), s1)
               | (Inr (GuardAllowed cash), s1) \<Rightarrow> process_basket_order_with_auth e p t b s1)
      else if token \<noteq> [] \<and> broker \<noteq> [] then process_basket_order_with_auth e p token broker s
      else (Ret (svc_failure 400 ''Either api_key or both auth_token and broker must be provided''), s))"

end
