(* ===== verification/Action_Center.thy ===== *)
theory Action_Center
  imports Order_Batches
begin

text \<open>
  The Action Center, where the orders of a user in semi-automatic mode wait for approval: the table of pending orders
  (\<open>database/action_center_db.py\<close>), the execution of an approved one (\<open>services/pending_order_execution_service.py\<close>), and the
  routes that approve, reject and delete (\<open>blueprints/orders.py\<close>). Each database function is one transaction. \<open>exec_env\<close> is
  what the execution reads besides: the stored credentials, and the answers of the options services and of the order
  status service.
\<close>

section \<open>The table\<close>

definition row_at :: "order_desk \<Rightarrow> nat \<Rightarrow> pending_row option" where
  "row_at s n = map_of (dk_rows s) n"

definition put_row :: "nat \<Rightarrow> pending_row \<Rightarrow> order_desk \<Rightarrow> order_desk" where
  "put_row n r s = s\<lparr>dk_rows := AList.update n r (dk_rows s)\<rparr>"

text \<open>Newest first.\<close>

definition get_pending_orders :: "order_desk \<Rightarrow> string \<Rightarrow> string option \<Rightarrow> (nat \<times> pending_row) list" where
  "get_pending_orders s user status =
     rev (filter (\<lambda>(n, r). pr_owner r = user \<and> (case status of None \<Rightarrow> True | Some t \<Rightarrow> t = [] \<or> pr_status r = t)) (dk_rows s))"

definition get_pending_count :: "order_desk \<Rightarrow> string \<Rightarrow> nat" where
  "get_pending_count s user = length (filter (\<lambda>(n, r). pr_owner r = user \<and> pr_status r = ''pending'') (dk_rows s))"

definition approve_pending_order :: "bool \<Rightarrow> nat \<Rightarrow> string \<Rightarrow> string \<Rightarrow> order_desk \<Rightarrow> bool \<times> order_desk" where
  "approve_pending_order db_ok n approved_by user s =
     (case row_at s n of
        None \<Rightarrow> (False, s)
      | Some r \<Rightarrow>
          if db_ok \<and> pr_owner r = user \<and> pr_status r = ''pending''
          then (True, put_row n (r\<lparr>pr_status := ''approved'', pr_approved_by := Some approved_by\<rparr>) s)
          else (False, s))"

definition reject_pending_order :: "bool \<Rightarrow> nat \<Rightarrow> string \<Rightarrow> string \<Rightarrow> string \<Rightarrow> order_desk \<Rightarrow> bool \<times> order_desk" where
  "reject_pending_order db_ok n reason rejected_by user s =
     (case row_at s n of
        None \<Rightarrow> (False, s)
      | Some r \<Rightarrow>
          if db_ok \<and> pr_owner r = user \<and> pr_status r = ''pending''
          then (True, put_row n (r\<lparr>pr_status := ''rejected'', pr_reason := Some reason, pr_rejected_by := Some rejected_by\<rparr>) s)
          else (False, s))"

definition delete_pending_order :: "bool \<Rightarrow> nat \<Rightarrow> string \<Rightarrow> order_desk \<Rightarrow> bool \<times> order_desk" where
  "delete_pending_order db_ok n user s =
     (case row_at s n of
        None \<Rightarrow> (False, s)
      | Some r \<Rightarrow>
          if \<not> db_ok \<or> pr_owner r \<noteq> user \<or> pr_status r = ''pending'' then (False, s)
          else (True, s\<lparr>dk_rows := AList.delete n (dk_rows s)\<rparr>))"

definition update_broker_status :: "bool \<Rightarrow> nat \<Rightarrow> pyval \<Rightarrow> pyval \<Rightarrow> order_desk \<Rightarrow> bool \<times> order_desk" where
  "update_broker_status db_ok n broker_order_id broker_status s =
     (case row_at s n of
        None \<Rightarrow> (False, s)
      | Some r \<Rightarrow>
          if db_ok then (True, put_row n (r\<lparr>pr_broker_id := broker_order_id, pr_broker_status := broker_status\<rparr>) s)
          else (False, s))"

section \<open>Executing an approved order\<close>

record exec_env =
  xv_key :: "string \<Rightarrow> string option"
  xv_token :: "string \<Rightarrow> string option"
  xv_broker :: "string \<Rightarrow> string option"
  xv_options :: "nat \<Rightarrow> api_answer result"
  xv_status :: "nat \<Rightarrow> pydict option result"

fun flatten_execution_results :: "leg_result list \<Rightarrow> pydict list" where
  "flatten_execution_results [] = []"
| "flatten_execution_results (LegOther # rs) = flatten_execution_results rs"
| "flatten_execution_results (LegDict d (Some split) # rs) = flatten_execution_results split @ flatten_execution_results rs"
| "flatten_execution_results (LegDict d None # rs) = d # flatten_execution_results rs"

definition summarize_order_ids :: "string list \<Rightarrow> string" where
  "summarize_order_ids ids =
     (let combined = join_with '','' ids in
      if length combined \<le> 255 then combined
      else take 255 (hd ids @ '' (+'' @ str_of_int (int (length ids) - 1) @ '' more)''))"

definition leaf_placed :: "pydict \<Rightarrow> bool" where
  "leaf_placed d = (get_val d ''status'' = VStr ''success'' \<and> py_truthy (get_val d ''orderid''))"

definition leaf_ids :: "(pyfloat \<Rightarrow> string) \<Rightarrow> pydict list \<Rightarrow> string list" where
  "leaf_ids frepr leaves = map (\<lambda>d. py_str frepr (get_val d ''orderid'')) (filter leaf_placed leaves)"

text \<open>The service an order goes to: no answer for a type it does not know.\<close>

definition run_service ::
  "svc_env \<Rightarrow> exec_env \<Rightarrow> string \<Rightarrow> api_payload \<Rightarrow> string \<Rightarrow> string \<Rightarrow> string \<Rightarrow> order_desk \<Rightarrow> api_answer result option \<times> order_desk" where
  "run_service e x api_type p api_key token broker s =
     (if api_type = ''placeorder'' then apfst Some (place_api_order e (op_fields p) api_key token broker True s)
      else if api_type = ''smartorder'' then apfst Some (place_smart_order e (op_fields p) api_key token broker s)
      else if api_type = ''basketorder'' then apfst Some (place_basket_order e p api_key token broker s)
      else if api_type = ''splitorder'' then apfst Some (split_order e (op_fields p) api_key token broker s)
      else if api_type = ''optionsorder'' \<or> api_type = ''optionsmultiorder''
      then (Some (xv_options x (calls_made s)), note_call (OptionsCall api_type p) s)
      else if api_type = ''placegttorder'' then apfst Some (place_gtt_order e (op_fields p) api_key token broker s)
      else (None, s))"

definition bad_gateway :: "string \<Rightarrow> api_answer \<Rightarrow> api_answer" where
  "bad_gateway msg a =
     a\<lparr>oa_ok := False, oa_body := (oa_body a)(''status'' \<mapsto> VStr ''error'', ''message'' \<mapsto> VStr msg), oa_code := 502\<rparr>"

definition placed_status :: "exec_env \<Rightarrow> nat \<Rightarrow> pyval" where
  "placed_status x k =
     (case xv_status x k of Inr (Some data) \<Rightarrow> field_or data ''status'' (VStr ''open'') | _ \<Rightarrow> VStr ''open'')"

text \<open>What the answer of the service leaves in the row, and what the caller hears.\<close>

definition record_answer :: "svc_env \<Rightarrow> exec_env \<Rightarrow> nat \<Rightarrow> string \<Rightarrow> api_answer \<Rightarrow> order_desk \<Rightarrow> api_answer \<times> order_desk" where
  "record_answer e x n api_type a s =
     (let mark = (\<lambda>oid st s. snd (update_broker_status (ev_db_ok e) n oid st s)); text = py_str (ev_frepr e) in
      if \<not> oa_ok a then (a, mark VNone (VStr ''rejected'') s)
      else if api_type = ''placegttorder''
      then
        (let tid = get_val (oa_body a) ''trigger_id'' in
         if \<not> py_truthy tid
         then (bad_gateway ''GTT placement succeeded without a trigger ID'' a, mark VNone (VStr ''rejected'') s)
         else (a\<lparr>oa_body := (oa_body a)(''broker_order_id'' \<mapsto> VStr (text tid))\<rparr>, mark (VStr (text tid)) (VStr ''open'') s))
      else
        case oa_results a of
          Some rs \<Rightarrow>
            (let leaves = flatten_execution_results rs; ids = leaf_ids (ev_frepr e) leaves in
             if ids = []
             then (bad_gateway ''No child orders were submitted successfully'' a, mark VNone (VStr ''rejected'') s)
             else
               let st = (if list_all leaf_placed leaves then ''open'' else ''partial'') in
               (a\<lparr>oa_body := (oa_body a)(''broker_order_id'' \<mapsto> VStr (summarize_order_ids ids)), oa_ids := Some ids\<rparr>,
                mark (VStr (summarize_order_ids ids)) (VStr st) s))
        | None \<Rightarrow>
            (case oa_body a ''orderid'' of
               None \<Rightarrow> (a, s)
             | Some oid \<Rightarrow> (a, mark oid (placed_status x (calls_made s)) (note_call (StatusCall oid) s))))"

definition execute_approved_order :: "svc_env \<Rightarrow> exec_env \<Rightarrow> nat \<Rightarrow> order_desk \<Rightarrow> api_answer \<times> order_desk" where
  "execute_approved_order e x n s =
     (case row_at s n of
        None \<Rightarrow> (svc_failure 404 ''Pending order not found'', s)
      | Some r \<Rightarrow>
          if pr_status r \<noteq> ''approved''
          then (svc_failure 400 (''Order cannot be executed (status: '' @ pr_status r @ '')''), s)
          else
            let api_key = text_or_empty (xv_key x (pr_owner r)); token = text_or_empty (xv_token x (pr_owner r));
                broker = text_or_empty (xv_broker x (pr_owner r));
                rejected = (\<lambda>s. snd (update_broker_status (ev_db_ok e) n VNone (VStr ''rejected'') s)) in
            if api_key = [] \<or> token = [] \<or> broker = [] then (svc_failure 403 ''Authentication failed'', rejected s)
            else
              case run_service e x (pr_type r) (pr_data r) api_key token broker s of
                (None, s1) \<Rightarrow> (svc_failure 400 (''Unknown order type: '' @ pr_type r), rejected s1)
              | (Some (Inl ex), s1) \<Rightarrow> (svc_failure 500 (''Order execution failed: '' @ ev_exc_text e ex), rejected s1)
              | (Some (Inr a), s1) \<Rightarrow> record_answer e x n (pr_type r) a s1)"

section \<open>The routes\<close>

text \<open>The answer is whether it was approved, and the outcome of the execution.\<close>

definition approve_route :: "svc_env \<Rightarrow> exec_env \<Rightarrow> nat \<Rightarrow> string \<Rightarrow> order_desk \<Rightarrow> api_answer option \<times> order_desk" where
  "approve_route e x n user s =
     (case approve_pending_order (ev_db_ok e) n user user s of
        (False, s1) \<Rightarrow> (None, s1)
      | (True, s1) \<Rightarrow> apfst Some (execute_approved_order e x n s1))"

fun approve_each :: "svc_env \<Rightarrow> exec_env \<Rightarrow> string \<Rightarrow> nat list \<Rightarrow> order_desk \<Rightarrow> (nat \<times> api_answer) list \<times> order_desk" where
  "approve_each e x user [] s = ([], s)"
| "approve_each e x user (n # ns) s =
     (case approve_route e x n user s of
        (None, s1) \<Rightarrow> approve_each e x user ns s1
      | (Some a, s1) \<Rightarrow> apfst (Cons (n, a)) (approve_each e x user ns s1))"

definition approve_all_route :: "svc_env \<Rightarrow> exec_env \<Rightarrow> string \<Rightarrow> order_desk \<Rightarrow> (nat \<times> api_answer) list \<times> order_desk" where
  "approve_all_route e x user s = approve_each e x user (map fst (get_pending_orders s user (Some ''pending''))) s"

section \<open>The center as a whole\<close>

text \<open>
  The requests that reach it, in any order: an order sent with an API key, an approval, the execution that the same
  route runs next (other requests may come between the two), a rejection, a deletion. \<open>ce_granted\<close> lists the approvals,
  with the row as it was approved, \<open>ce_waiting\<close> those whose execution has not started, and \<open>ce_runs\<close> the executions, with
  the row each one found and the calls it made.
\<close>

record center =
  ce_desk :: order_desk
  ce_waiting :: "nat list"
  ce_granted :: "(nat \<times> pending_row) list"
  ce_runs :: "(nat \<times> pending_row option \<times> order_call list) list"

datatype center_op =
    SubmitOp svc_env string api_payload string
  | ApproveOp bool nat string
  | RunOp svc_env exec_env nat
  | RejectOp bool nat string string
  | DeleteOp bool nat string

definition submit_order :: "svc_env \<Rightarrow> string \<Rightarrow> api_payload \<Rightarrow> string \<Rightarrow> order_desk \<Rightarrow> order_desk" where
  "submit_order e api_type p api_key s =
     (if api_type = ''placeorder'' then snd (place_api_order e (op_fields p) api_key [] [] True s)
      else if api_type = ''smartorder'' then snd (place_smart_order e (op_fields p) api_key [] [] s)
      else if api_type = ''basketorder'' then snd (place_basket_order e p api_key [] [] s)
      else if api_type = ''splitorder'' then snd (split_order e (op_fields p) api_key [] [] s)
      else if api_type = ''placegttorder'' then snd (place_gtt_order e (op_fields p) api_key [] [] s)
      else s)"

fun center_exec :: "center_op \<Rightarrow> center \<Rightarrow> center" where
  "center_exec (SubmitOp e api_type p api_key) c = c\<lparr>ce_desk := submit_order e api_type p api_key (ce_desk c)\<rparr>"
| "center_exec (ApproveOp db_ok n user) c =
     (case approve_pending_order db_ok n user user (ce_desk c) of
        (False, s) \<Rightarrow> c
      | (True, s) \<Rightarrow>
          c\<lparr>ce_desk := s, ce_waiting := n # ce_waiting c, ce_granted := (n, the (row_at s n)) # ce_granted c\<rparr>)"
| "center_exec (RunOp e x n) c =
     (if n \<in> set (ce_waiting c)
      then
        let s = snd (execute_approved_order e x n (ce_desk c)) in
        c\<lparr>ce_desk := s, ce_waiting := remove1 n (ce_waiting c),
          ce_runs := ce_runs c @ [(n, row_at (ce_desk c) n, drop (calls_made (ce_desk c)) (dk_calls s))]\<rparr>
      else c)"
| "center_exec (RejectOp db_ok n user reason) c =
     c\<lparr>ce_desk := snd (reject_pending_order db_ok n reason user user (ce_desk c))\<rparr>"
| "center_exec (DeleteOp db_ok n user) c = c\<lparr>ce_desk := snd (delete_pending_order db_ok n user (ce_desk c))\<rparr>"

definition center_start :: "kill_file \<Rightarrow> center" where
  "center_start f = \<lparr>ce_desk = \<lparr>dk_kill = f, dk_rows = [], dk_calls = []\<rparr>, ce_waiting = [], ce_granted = [], ce_runs = []\<rparr>"

end
