(* ===== verification/Order_Facts.thy ===== *)
theory Order_Facts
  imports Action_Center "HOL-Library.Multiset" "HOL-Library.Sublist"
begin

text \<open>
  What the order services keep. \<open>sends\<close>: a service that sends only appends calls, and leaves the table alone.
  \<open>quiet\<close>: while the kill switch is latched, a service that asks the guard leaves the switch and the broker alone. The
  pieces of a split and the legs of a basket are followed through their loops.
\<close>

section \<open>Calls to the broker\<close>

fun is_broker_call :: "order_call \<Rightarrow> bool" where
  "is_broker_call (BrokerCall fn broker token d) = True"
| "is_broker_call c = False"

definition broker_calls :: "order_desk \<Rightarrow> order_call list" where
  "broker_calls s = filter is_broker_call (dk_calls s)"

definition sends :: "order_desk \<Rightarrow> order_desk \<Rightarrow> bool" where
  "sends s s' \<longleftrightarrow> dk_rows s' = dk_rows s \<and> prefix (dk_calls s) (dk_calls s')"

definition quiet :: "order_desk \<Rightarrow> order_desk \<Rightarrow> bool" where
  "quiet s s' \<longleftrightarrow> dk_kill s' = dk_kill s \<and> broker_calls s' = broker_calls s"

lemma note_call_simps [simp]:
  "dk_kill (note_call c s) = dk_kill s" "dk_rows (note_call c s) = dk_rows s" "dk_calls (note_call c s) = dk_calls s @ [c]"
  by (simp_all add: note_call_def)

lemma sends_refl [simp]: "sends s s"
  by (simp add: sends_def)

lemma sends_trans: "sends s t \<Longrightarrow> sends t u \<Longrightarrow> sends s u"
  by (auto simp: sends_def)

lemma sends_note [simp]: "sends s (note_call c s)"
  by (simp add: sends_def)

lemma sends_then_note: "sends s t \<Longrightarrow> sends s (note_call c t)"
  by (rule sends_trans [OF _ sends_note])

lemma sends_note_trans: "sends (note_call c s) s' \<Longrightarrow> sends s s'"
  by (rule sends_trans [OF sends_note])

lemma quiet_refl [simp]: "quiet s s"
  by (simp add: quiet_def)

lemma quiet_trans: "quiet s t \<Longrightarrow> quiet t u \<Longrightarrow> quiet s u"
  by (simp add: quiet_def)

lemma quiet_note [simp]: "\<not> is_broker_call c \<Longrightarrow> quiet s (note_call c s)"
  by (simp add: quiet_def broker_calls_def)

lemma ask_sandbox_simps [simp]: "ask_sandbox e fn d k s = (ev_sandbox e (calls_made s), note_call (SandboxCall fn d k) s)"
  by (simp add: ask_sandbox_def)

lemma ask_broker_simps [simp]: "ask_broker e fn b t d s = (ev_broker e (calls_made s), note_call (BrokerCall fn b t d) s)"
  by (simp add: ask_broker_def)

lemma guard_latched:
  assumes "is_killed (dk_kill s)"
  shows "\<exists>why. ask_guard e k s = (Inr (GuardBlocked why), note_call (FundsCall k) s)"
  using assms by (auto simp: ask_guard_def check_live_order_allowed_def check_killed blocked_def)

lemma guard_calls: "dk_calls (snd (ask_guard e k s)) = dk_calls s @ [FundsCall k]" "dk_rows (snd (ask_guard e k s)) = dk_rows s"
  by (simp_all add: ask_guard_def split: prod.split)

lemma guard_sends: "ask_guard e k s = (r, s') \<Longrightarrow> sends s s'"
  using guard_calls [of e k s] by (simp add: sends_def)

text \<open>The guard only lets an order pass on a live switch and a balance that was read and is above the threshold.\<close>

lemma guard_allows:
  assumes "ask_guard e k s = (Inr (GuardAllowed cash), s')"
  shows "\<not> is_killed (dk_kill s) \<and> k \<noteq> [] \<and> s' = note_call (FundsCall k) s \<and>
    (\<exists>v x. ev_funds e (calls_made s) = FundsCash v \<and> py_float v = Ret x \<and> (x > 0 \<or> x = NaN))"
proof -
  have pos: "\<not> x \<le> kill_threshold \<Longrightarrow> x > 0 \<or> x = NaN" for x
    by (cases x) (auto simp: kill_threshold_def zero_pyfloat_def)
  have live: "\<not> is_killed (dk_kill s)"
    using guard_latched [of s e k] assms by auto
  have k: "k \<noteq> []"
    using assms by (auto simp: ask_guard_def check_live_order_allowed_def)
  from assms live k pos show ?thesis
    by (auto simp: ask_guard_def check_live_order_allowed_def check_balance_def blocked_def Let_def rbind_def
        split: prod.splits if_splits funds_reply.splits sum.splits pyexc.splits)
qed

lemma decision_quiet: "quiet s (snd (require_jev_allow e a s))"
  by (auto simp: require_jev_allow_def guard_tool_call_def split: decision_outcome.split prod.split)

lemma decision_calls:
  assumes "require_jev_allow e a s = (Decided d, s')"
  shows "d = ''allow'' \<and> s' = note_call (DecisionCall a) s \<and> read_decision e (ev_decision e (calls_made s)) = Decided ''allow''"
  using assms by (auto simp: require_jev_allow_def guard_tool_call_def split: if_splits decision_outcome.splits)

lemma decision_calls_snd:
  "dk_rows (snd (require_jev_allow e a s)) = dk_rows s \<and>
   (dk_calls (snd (require_jev_allow e a s)) = dk_calls s \<or> dk_calls (snd (require_jev_allow e a s)) = dk_calls s @ [DecisionCall a])"
  by (auto simp: require_jev_allow_def guard_tool_call_def split: decision_outcome.split prod.split)

lemma decision_sends: "require_jev_allow e a s = (r, s') \<Longrightarrow> sends s s'"
  using decision_calls_snd [of e a s] by (auto simp: sends_def)

section \<open>Services that send\<close>

lemma single_sends: "sends s (snd (place_order_with_auth e d t b orig emit live s))"
proof (cases "ask_guard e (payload_key orig) s")
  case (Pair g s1)
  note s1 = guard_sends [OF this]
  obtain j s2 where j: "require_jev_allow e (decision_arguments e d) s1 = (j, s2)"
    by (cases "require_jev_allow e (decision_arguments e d) s1") auto
  note s2 = sends_trans [OF s1 decision_sends [OF j]]
  show ?thesis
    using Pair j s1 s2 sends_then_note [OF s2]
    by (simp add: place_order_with_auth_def Let_def split: sum.split guard_answer.split decision_outcome.split)
qed

lemma smart_sends: "sends s (snd (place_smart_order_with_auth e d t b orig s))"
proof (cases "ask_guard e (payload_key orig) s")
  case (Pair g s1)
  note s1 = guard_sends [OF this]
  show ?thesis
    using Pair s1 sends_then_note [OF s1]
    by (auto simp add: place_smart_order_with_auth_def Let_def split: sum.split guard_answer.split option.split)
qed

lemma gtt_sends: "sends s (snd (place_gtt_order_with_auth e d t b orig s))"
  by (simp add: place_gtt_order_with_auth_def)

lemma piece_sends: "snd (split_single_order e b t d n q s) = note_call (BrokerCall ''place_order_api'' b t (piece_order d q)) s"
  by (simp add: split_single_order_def split: broker_answer.split option.split)

lemma split_live_calls:
  "snd (split_live e b t d ps s) = fold (\<lambda>(n, q). note_call (BrokerCall ''place_order_api'' b t (piece_order d q))) ps s"
proof (induction ps arbitrary: s)
  case (Cons p ps)
  obtain n q where p: "p = (n, q)" by (cases p)
  obtain r s1 where one: "split_single_order e b t d n q s = (r, s1)" by (cases "split_single_order e b t d n q s")
  with piece_sends [of e b t d n q s] Cons.IH [of s1] show ?case by (simp add: p case_prod_beta)
qed simp

lemma fold_sends: "(\<And>x s. sends s (f x s)) \<Longrightarrow> sends s (fold f xs s)"
  by (induction xs arbitrary: s) (auto intro: sends_trans)

lemma split_sandbox_sends: "sends s (snd (split_sandbox e k d ps s))"
proof (induction ps arbitrary: s)
  case (Cons p ps)
  then show ?case
    by (cases p) (auto simp: case_prod_beta split: sum.split intro: sends_note_trans)
qed simp

lemma split_sends: "sends s (snd (split_order_with_auth e d t b orig s))"
proof -
  have "sends s (snd (split_live e b t d ps s))" for ps
    by (auto simp: split_live_calls case_prod_beta intro!: fold_sends)
  then show ?thesis
    by (auto simp: split_order_with_auth_def case_prod_beta split_sandbox_sends split: sum.split)
qed

lemma leg_sends: "sends s (snd (basket_single_order e b t d s))"
proof (cases "ask_guard e (payload_key d) s")
  case (Pair g s1)
  note s1 = guard_sends [OF this]
  show ?thesis
    using Pair s1 sends_then_note [OF s1]
    by (simp add: basket_single_order_def Let_def split: sum.split guard_answer.split broker_answer.split option.split)
qed

lemma batch_sends: "sends s (snd (basket_batch e b t ds s))"
proof (induction ds arbitrary: s)
  case (Cons d ds)
  from sends_trans [OF leg_sends Cons.IH] show ?case by (simp add: case_prod_beta)
qed simp

lemma batches_sends: "sends s (snd (basket_batches e b t k ds s))"
proof (induction e b t k ds s rule: basket_batches.induct)
  case (1 e b t k ds s)
  obtain rs s1 where eq: "basket_batch e b t (ev_schedule e k (take batch_size ds)) s = (rs, s1)"
    by (cases "basket_batch e b t (ev_schedule e k (take batch_size ds)) s") auto
  have "sends s s1" using batch_sends [of s e b t] eq by (metis snd_conv)
  with "1.IH" [OF _ eq [symmetric]] eq show ?case
    by (auto simp: basket_batches.simps [of e b t k ds s] case_prod_beta dest: sends_trans)
qed

lemma basket_sandbox_sends: "sends s (snd (basket_sandbox e k n i ds s))"
proof (induction ds arbitrary: i s)
  case (Cons d ds)
  then show ?case
    by (auto simp: case_prod_beta Let_def split: sum.split option.split intro: sends_note_trans)
qed simp

lemma basket_sends: "sends s (snd (process_basket_order_with_auth e p t b s))"
  by (auto simp: process_basket_order_with_auth_def case_prod_beta batches_sends basket_sandbox_sends split: sum.split)

text \<open>With credentials of its own, no service asks where the order should go.\<close>

lemma place_order_direct_sends:
  assumes "t \<noteq> []" and "b \<noteq> []"
  shows "sends s (snd (place_api_order e d k t b emit s))"
  using assms by (simp add: place_api_order_def Let_def single_sends case_prod_beta split: sum.split option.split)

lemma run_service_sends:
  assumes "t \<noteq> []" and "b \<noteq> []"
  shows "sends s (snd (run_service e x ty p k t b s))"
proof -
  have "sends s (snd (place_smart_order e d k t b s))" "sends s (snd (split_order e d k t b s))"
      "sends s (snd (place_gtt_order e d k t b s))" "sends s (snd (place_basket_order e p k t b s))" for d
    using assms by (simp_all add: place_smart_order_def split_order_def place_gtt_order_def place_basket_order_def Let_def
        smart_sends split_sends gtt_sends basket_sends)
  then show ?thesis
    by (simp add: run_service_def place_order_direct_sends [OF assms])
qed

section \<open>The latched switch\<close>

lemma queue_quiet: "quiet s (snd (queue_order e k p t s))"
  by (auto simp: queue_order_def create_pending_order_def quiet_def broker_calls_def Let_def split: sum.split)

lemma latched_single:
  assumes "is_killed (dk_kill s)"
  shows "quiet s (snd (place_order_with_auth e d t b orig emit False s))"
  using guard_latched [OF assms, of e "payload_key orig"]
  by (auto simp: place_order_with_auth_def Let_def)

lemma latched_place_order:
  assumes "is_killed (dk_kill s)"
  shows "quiet s (snd (place_api_order e data k t b emit s))"
proof -
  have direct: "quiet s (snd (place_order_with_auth e d t b orig emit False s))" for d t b orig
    by (rule latched_single [OF assms])
  show ?thesis
  proof (cases "validate_order_data e (with_key k data)")
    case (Inr r)
    show ?thesis
    proof (cases r)
      case (Pair msg d)
      with Inr show ?thesis
        by (cases msg; cases "ev_auth e k") (simp_all add: place_api_order_def Let_def direct queue_quiet split: prod.split)
    qed
  qed (simp add: place_api_order_def Let_def queue_quiet)
qed

lemma latched_smart_order:
  assumes "is_killed (dk_kill s)"
  shows "quiet s (snd (place_smart_order e data k t b s))"
proof -
  have "quiet s (snd (place_smart_order_with_auth e d t b orig s))" for d t b orig
    using guard_latched [OF assms, of e "payload_key orig"]
    by (auto simp: place_smart_order_with_auth_def Let_def split: sum.split option.split prod.split)
  then show ?thesis
    by (simp add: place_smart_order_def Let_def queue_quiet split: option.split prod.split)
qed

lemma latched_split_order:
  assumes "is_killed (dk_kill s)" and "k \<noteq> []" and "t = [] \<or> b = []"
  shows "quiet s (snd (split_order e data k t b s))"
  using guard_latched [OF assms(1), of e k] assms(2,3)
  by (auto simp: split_order_def Let_def queue_quiet split: option.split)

lemma basket_leg_latched: "is_killed (dk_kill s) \<Longrightarrow> quiet s (snd (basket_single_order e b t d s))"
  using guard_latched [of s e "payload_key d"] by (auto simp: basket_single_order_def Let_def)

lemma basket_batch_latched: "is_killed (dk_kill s) \<Longrightarrow> quiet s (snd (basket_batch e b t ds s))"
proof (induction ds arbitrary: s)
  case (Cons d ds)
  have q: "quiet s (snd (basket_single_order e b t d s))" by (rule basket_leg_latched [OF Cons.prems])
  then have "is_killed (dk_kill (snd (basket_single_order e b t d s)))" using Cons.prems by (simp add: quiet_def)
  from Cons.IH [OF this] q show ?case by (auto split: prod.split dest: quiet_trans)
qed simp

lemma basket_batches_latched: "is_killed (dk_kill s) \<Longrightarrow> quiet s (snd (basket_batches e b t k ds s))"
proof (induction e b t k ds s rule: basket_batches.induct)
  case (1 e b t k ds s)
  obtain rs s1 where eq: "basket_batch e b t (ev_schedule e k (take batch_size ds)) s = (rs, s1)"
    by (cases "basket_batch e b t (ev_schedule e k (take batch_size ds)) s") auto
  have q: "quiet s s1" using basket_batch_latched [OF "1.prems", of e b t] eq by (metis snd_conv)
  then have "is_killed (dk_kill s1)" using "1.prems" by (simp add: quiet_def)
  from "1.IH" [OF _ eq [symmetric] this] q eq show ?case
    by (auto simp: basket_batches.simps [of e b t k ds s] split: prod.split dest: quiet_trans)
qed

lemma basket_sandbox_quiet: "quiet s (snd (basket_sandbox e k n i ds s))"
proof (induction ds arbitrary: i s)
  case (Cons d ds)
  have "quiet s s'" if "quiet (note_call (SandboxCall fn d k) s) s'" for fn d k s'
    using quiet_trans [OF quiet_note that] by simp
  with Cons.IH show ?case
    by (auto simp: Let_def split: sum.split option.split prod.split) (metis snd_conv)+
qed simp

lemma latched_basket_order:
  assumes "is_killed (dk_kill s)"
  shows "quiet s (snd (place_basket_order e data k t b s))"
proof -
  have p: "quiet s (snd (process_basket_order_with_auth e p t b s))" for p t b
    using basket_batches_latched [OF assms] basket_sandbox_quiet
    by (auto simp: process_basket_order_with_auth_def split: sum.split prod.split) (metis snd_conv)+
  show ?thesis
    using guard_latched [OF assms, of e k]
    by (auto simp: place_basket_order_def Let_def p queue_quiet split: option.split)
qed

end
