(* ===== verification/Center_Facts.thy ===== *)
theory Center_Facts
  imports Order_Facts
begin

text \<open>
  The Action Center as a whole: what a request of a user in semi-automatic mode does, and the invariant that every order the
  center sends is one its owner approved, once.
\<close>

section \<open>Orders that wait\<close>

definition semi_auto :: "svc_env \<Rightarrow> string \<Rightarrow> bool" where
  "semi_auto e api_key =
     (api_key \<noteq> [] \<and>
      (case ev_user e api_key of
         Inr (Some user) \<Rightarrow> user \<noteq> [] \<and> get_order_mode e user = ''semi_auto''
       | _ \<Rightarrow> False))"

definition queued_types :: "string list" where
  "queued_types = [''placeorder'', ''smartorder'', ''basketorder'', ''splitorder'', ''placegttorder'']"

text \<open>The table after an order was queued, or refused by the database.\<close>

definition queues_at_most :: "string \<Rightarrow> order_desk \<Rightarrow> order_desk \<Rightarrow> bool" where
  "queues_at_most api_type s s' \<longleftrightarrow>
     dk_calls s' = dk_calls s \<and> dk_kill s' = dk_kill s \<and>
     (dk_rows s' = dk_rows s \<or>
      (\<exists>r. dk_rows s' = dk_rows s @ [(new_row_id s, r)] \<and> pr_status r = ''pending'' \<and> pr_type r = api_type))"

lemma queued_not_immediate: "ty \<in> set queued_types \<Longrightarrow> ty \<noteq> [] \<and> str_lower ty \<notin> set immediate_operations"
proof -
  have "list_all (\<lambda>ty. ty \<noteq> [] \<and> str_lower ty \<notin> set immediate_operations) queued_types" by code_simp
  then show "ty \<in> set queued_types \<Longrightarrow> ?thesis" by (simp add: list_all_iff)
qed

lemma semi_auto_routes: "semi_auto e k \<Longrightarrow> ty \<in> set queued_types \<Longrightarrow> should_route_to_pending e k ty"
  using queued_not_immediate [of ty]
  by (auto simp: semi_auto_def should_route_to_pending_def split: sum.splits option.splits)

lemma queue_order_queues: "queues_at_most ty s (snd (queue_order e k p ty s))"
  by (auto simp: queue_order_def create_pending_order_def queues_at_most_def Let_def split: sum.split)

lemma submit_queues:
  assumes "semi_auto e k"
  shows "queues_at_most ty s (submit_order e ty p k s)"
proof (cases "ty \<in> set queued_types")
  case True
  have k: "k \<noteq> []" using assms by (simp add: semi_auto_def)
  have "should_route_to_pending e k ty" using semi_auto_routes [OF assms True] .
  moreover have "ty = ''placeorder'' \<or> ty = ''smartorder'' \<or> ty = ''basketorder'' \<or> ty = ''splitorder'' \<or> ty = ''placegttorder''"
    using True by (simp add: queued_types_def)
  ultimately have "\<exists>p'. submit_order e ty p k s = snd (queue_order e k p' ty s)"
    using k by (elim disjE) (simp_all add: submit_order_def place_api_order_def place_smart_order_def place_basket_order_def
        split_order_def place_gtt_order_def Let_def, blast+)
  then show ?thesis using queue_order_queues by auto
next
  case False
  then have "submit_order e ty p k s = s" by (simp add: queued_types_def submit_order_def)
  then show ?thesis by (simp add: queues_at_most_def)
qed

lemma new_row_id_fresh: "map_of (dk_rows s) (new_row_id s) = None"
proof -
  have "n \<in> set ns \<Longrightarrow> n \<le> fold max ns a" and "a \<le> fold max ns a" for n ns and a :: nat
    by (induction ns arbitrary: a) (auto intro: order_trans [OF max.cobounded1] order_trans [OF max.cobounded2])
  from this(1) [of _ "map fst (dk_rows s)" 0] show ?thesis
    by (auto simp: new_row_id_def map_of_eq_None_iff) fastforce
qed

lemma queued_row:
  assumes "queues_at_most ty s s'" and "row_at s' n = Some r"
  shows "row_at s n = Some r \<or> row_at s n = None \<and> pr_status r = ''pending''"
  using assms new_row_id_fresh [of s]
  by (auto simp: queues_at_most_def row_at_def map_add_def split: if_splits option.splits)

lemma queued_keeps:
  assumes "queues_at_most ty s s'" and "row_at s n = Some r"
  shows "row_at s' n = Some r"
  using assms new_row_id_fresh [of s]
  by (auto simp: queues_at_most_def row_at_def map_add_def)

section \<open>The table under the other requests\<close>

lemma row_put [simp]: "row_at (put_row n r s) m = (if m = n then Some r else row_at s m)"
  by (simp add: row_at_def put_row_def update_conv')

lemma put_row_simps [simp]: "dk_calls (put_row n r s) = dk_calls s" "dk_kill (put_row n r s) = dk_kill s"
  by (simp_all add: put_row_def)

lemma update_broker_calls [simp]: "dk_calls (snd (update_broker_status ok n i st s)) = dk_calls s"
  by (simp add: update_broker_status_def split: option.split)

text \<open>Only the two fields of the broker change.\<close>

definition same_request :: "pending_row \<Rightarrow> pending_row \<Rightarrow> bool" where
  "same_request r r' \<longleftrightarrow> r' = r\<lparr>pr_broker_id := pr_broker_id r', pr_broker_status := pr_broker_status r'\<rparr>"

lemma same_request_fields:
  "same_request r r' \<Longrightarrow> pr_status r' = pr_status r \<and> pr_owner r' = pr_owner r \<and> pr_type r' = pr_type r \<and> pr_data r' = pr_data r"
  by (cases r; cases r') (simp add: same_request_def)

lemma same_request_refl [simp]: "same_request r r"
  by (simp add: same_request_def)

definition marks :: "order_desk \<Rightarrow> order_desk \<Rightarrow> bool" where
  "marks s s' \<longleftrightarrow> prefix (dk_calls s) (dk_calls s') \<and> (\<forall>n. rel_option same_request (row_at s n) (row_at s' n))"

lemma marks_refl [simp]: "marks s s"
  by (simp add: marks_def option.rel_refl)

lemma same_request_trans: "same_request a b \<Longrightarrow> same_request b c \<Longrightarrow> same_request a c"
  by (cases a; cases b; cases c) (simp add: same_request_def)

lemma marks_trans: "marks s t \<Longrightarrow> marks t u \<Longrightarrow> marks s u"
proof -
  have "rel_option same_request x y \<Longrightarrow> rel_option same_request y z \<Longrightarrow> rel_option same_request x z" for x y z
    by (cases x; cases y; cases z) (auto intro: same_request_trans)
  then show "marks s t \<Longrightarrow> marks t u \<Longrightarrow> ?thesis"
    unfolding marks_def by (blast intro: prefix_order.trans)
qed

lemma marks_update: "marks s (snd (update_broker_status ok n i st s))"
proof -
  have "same_request r (r\<lparr>pr_broker_id := i, pr_broker_status := st\<rparr>)" for r
    by (simp add: same_request_def)
  then show ?thesis
    by (auto simp: marks_def update_broker_status_def option.rel_refl split: option.split)
qed

lemma marks_sends: "sends s s' \<Longrightarrow> marks s s'"
  by (simp add: sends_def marks_def row_at_def option.rel_refl)

lemma record_answer_marks: "marks s (snd (record_answer e x n ty a s))"
  using marks_update marks_trans [OF marks_sends [OF sends_note] marks_update]
  by (auto simp: record_answer_def Let_def split: option.split)

lemma execute_marks: "marks s (snd (execute_approved_order e x n s))"
proof (cases "row_at s n")
  case (Some r)
  define k t b where "k = text_or_empty (xv_key x (pr_owner r))" and "t = text_or_empty (xv_token x (pr_owner r))"
    and "b = text_or_empty (xv_broker x (pr_owner r))"
  show ?thesis
  proof (cases "pr_status r = ''approved'' \<and> k \<noteq> [] \<and> t \<noteq> [] \<and> b \<noteq> []")
    case True
    obtain a s1 where run: "run_service e x (pr_type r) (pr_data r) k t b s = (a, s1)"
      by (cases "run_service e x (pr_type r) (pr_data r) k t b s")
    have m: "marks s s1"
      using marks_sends [OF run_service_sends [of t b s e x "pr_type r" "pr_data r" k]] True run by simp
    show ?thesis
      using True Some run marks_trans [OF m marks_update] marks_trans [OF m record_answer_marks]
      by (simp add: execute_approved_order_def k_def t_def b_def Let_def split: option.split sum.split)
  next
    case False
    then show ?thesis
      using Some marks_update by (auto simp: execute_approved_order_def k_def t_def b_def Let_def)
  qed
qed (simp add: execute_approved_order_def)

text \<open>An execution that makes a call found an approved row.\<close>

lemma execute_calls:
  assumes "dk_calls (snd (execute_approved_order e x n s)) \<noteq> dk_calls s"
  shows "\<exists>r. row_at s n = Some r \<and> pr_status r = ''approved''"
  using assms by (auto simp: execute_approved_order_def Let_def split: option.splits if_splits)

section \<open>The invariant\<close>

fun submits_semi_auto :: "center_op \<Rightarrow> bool" where
  "submits_semi_auto (SubmitOp e ty p k) = semi_auto e k"
| "submits_semi_auto x = True"

fun deletes :: "nat \<Rightarrow> center_op \<Rightarrow> bool" where
  "deletes n (DeleteOp ok m user) = (m = n)"
| "deletes n x = False"

definition owner_approved :: "center \<Rightarrow> nat \<Rightarrow> pending_row \<Rightarrow> bool" where
  "owner_approved c n r \<longleftrightarrow>
     (\<exists>g. (n, g) \<in> set (ce_granted c) \<and> same_request g r \<and> pr_status g = ''approved'' \<and> pr_approved_by g = Some (pr_owner g))"

definition center_ok :: "center \<Rightarrow> bool" where
  "center_ok c \<longleftrightarrow>
     dk_calls (ce_desk c) = concat (map (snd \<circ> snd) (ce_runs c)) \<and>
     (\<forall>n r. row_at (ce_desk c) n = Some r \<longrightarrow> pr_status r = ''approved'' \<longrightarrow> owner_approved c n r) \<and>
     (\<forall>(n, found, cs) \<in> set (ce_runs c). cs \<noteq> [] \<longrightarrow> (\<exists>r. found = Some r \<and> owner_approved c n r))"

definition counts_ok :: "center \<Rightarrow> bool" where
  "counts_ok c \<longleftrightarrow> mset (map fst (ce_runs c)) + mset (ce_waiting c) = mset (map fst (ce_granted c))"

definition once_ok :: "nat \<Rightarrow> center \<Rightarrow> bool" where
  "once_ok n c \<longleftrightarrow>
     count (mset (map fst (ce_granted c))) n \<le> 1 \<and>
     (n \<in> set (map fst (ce_granted c)) \<longrightarrow> (\<exists>r. row_at (ce_desk c) n = Some r \<and> pr_status r \<noteq> ''pending''))"

lemma approve_result:
  assumes "approve_pending_order ok n user user s = (True, s')"
  shows "\<exists>r. row_at s n = Some r \<and> pr_status r = ''pending'' \<and> pr_owner r = user \<and>
    s' = put_row n (r\<lparr>pr_status := ''approved'', pr_approved_by := Some user\<rparr>) s"
  using assms by (auto simp: approve_pending_order_def split: option.splits if_splits)

lemma reject_row:
  assumes "row_at (snd (reject_pending_order ok n reason user user s)) m = Some r"
  shows "row_at s m = Some r \<or> pr_status r = ''rejected''"
  using assms by (auto simp: reject_pending_order_def split: option.splits if_splits)

lemma reject_keeps:
  assumes "row_at s m = Some r" and "pr_status r \<noteq> ''pending''"
  shows "row_at (snd (reject_pending_order ok n reason user user s)) m = Some r"
  using assms by (auto simp: reject_pending_order_def split: option.splits)

lemma reject_calls [simp]: "dk_calls (snd (reject_pending_order ok n reason user user s)) = dk_calls s"
  by (simp add: reject_pending_order_def split: option.split)

lemma delete_calls [simp]: "dk_calls (snd (delete_pending_order ok n user s)) = dk_calls s"
  by (simp add: delete_pending_order_def split: option.split)

lemma delete_row:
  "row_at (snd (delete_pending_order ok n user s)) m = (if m = n \<and> fst (delete_pending_order ok n user s) then None else row_at s m)"
  by (auto simp: delete_pending_order_def row_at_def delete_conv' split: option.split)

lemma execute_row:
  "rel_option same_request (row_at s m) (row_at (snd (execute_approved_order e x n s)) m)"
  using execute_marks [of s e x n] by (simp add: marks_def)

lemma execute_appends:
  "dk_calls (snd (execute_approved_order e x n s)) = dk_calls s @ drop (calls_made s) (dk_calls (snd (execute_approved_order e x n s)))"
  using execute_marks [of s e x n] by (auto simp: marks_def calls_made_def prefix_def)

lemma owner_approved_mono:
  "set (ce_granted c) \<subseteq> set (ce_granted c') \<Longrightarrow> owner_approved c n r \<Longrightarrow> owner_approved c' n r"
  by (auto simp: owner_approved_def)

lemma owner_approved_same: "owner_approved c n r \<Longrightarrow> same_request r r' \<Longrightarrow> owner_approved c n r'"
  by (auto simp: owner_approved_def intro: same_request_trans)

end
