(* ===== verification/Order_Claims.thy ===== *)
theory Order_Claims
  imports Center_Facts
begin

text \<open>
  The properties of the order services and of the Action Center: who may send an order to the broker, how often, and what
  reaches the broker when an order is split or is a basket. The sample environment answers every question in the way that lets an
  order through; the witnesses run the services in it.
\<close>

definition sample_env :: svc_env where
  "sample_env = \<lparr>ev_analyze = False, ev_user = \<lambda>k. Ret (Some ''asha''), ev_mode_row = \<lambda>u. Ret (Some ''semi_auto''),
     ev_auth = \<lambda>k. Some (''tok'', ''zerodha''), ev_has_module = \<lambda>m b. True, ev_schema = \<lambda>d. None, ev_decision_key = ''jev'',
     ev_exc_text = \<lambda>x. [], ev_frepr = \<lambda>x. [], ev_db_ok = True, ev_funds = \<lambda>n. FundsCash (VFloat (Fin 1)),
     ev_sandbox = \<lambda>n. Raise OtherError, ev_decision = \<lambda>n. DecisionReply (VInt 0) None (Some [''decision'' \<mapsto> VStr ''allow'']),
     ev_broker = \<lambda>n. BrokerAnswer (Some 200) None (VStr ''B1''), ev_schedule = \<lambda>k ds. ds\<rparr>"

definition sample_exec :: exec_env where
  "sample_exec = \<lparr>xv_key = \<lambda>u. Some ''key'', xv_token = \<lambda>u. Some ''tok'', xv_broker = \<lambda>u. Some ''zerodha'',
     xv_options = \<lambda>n. Raise OtherError, xv_status = \<lambda>n. Raise OtherError\<rparr>"

definition sample_request :: pydict where
  "sample_request = [''strategy'' \<mapsto> VStr ''s'', ''symbol'' \<mapsto> VStr ''INFY'', ''exchange'' \<mapsto> VStr ''NSE'', ''action'' \<mapsto> VStr ''buy'',
     ''quantity'' \<mapsto> VInt 5, ''splitsize'' \<mapsto> VInt 2, ''apikey'' \<mapsto> VStr ''key'']"

definition sample_ops :: "center_op list" where
  "sample_ops = [SubmitOp sample_env ''placeorder'' \<lparr>op_fields = sample_request, op_orders = []\<rparr> ''key'', ApproveOp True 1 ''asha'',
     RunOp sample_env sample_exec 1]"

abbreviation sample_desk :: "kill_file \<Rightarrow> order_desk" where
  "sample_desk f \<equiv> ce_desk (center_start f)"

section \<open>The Action Center\<close>

lemma center_ok_exec:
  assumes ok: "center_ok c" and op: "submits_semi_auto x"
  shows "center_ok (center_exec x c)"
proof (cases x)
  case (SubmitOp e ty p k)
  with op have q: "queues_at_most ty (ce_desk c) (submit_order e ty p k (ce_desk c))"
    by (simp add: submit_queues)
  have "pr_status r = ''approved'' \<Longrightarrow> row_at (submit_order e ty p k (ce_desk c)) n = Some r \<Longrightarrow> row_at (ce_desk c) n = Some r" for n r
    using queued_row [OF q] by fastforce
  with ok q SubmitOp show ?thesis
    by (auto simp: center_ok_def owner_approved_def queues_at_most_def)
next
  case (ApproveOp db n user)
  show ?thesis
  proof (cases "approve_pending_order db n user user (ce_desk c)")
    case (Pair b s)
    show ?thesis
    proof (cases b)
      case True
      define g where "g = the (row_at s n)"
      from approve_result [of db n user "ce_desk c" s] Pair True obtain r where
          s: "s = put_row n (r\<lparr>pr_status := ''approved'', pr_approved_by := Some user\<rparr>) (ce_desk c)" and u: "pr_owner r = user"
        by auto
      have c': "center_exec x c = c\<lparr>ce_desk := s, ce_waiting := n # ce_waiting c, ce_granted := (n, g) # ce_granted c\<rparr>"
        using ApproveOp Pair True by (simp add: g_def)
      have new: "owner_approved (center_exec x c) n g"
        using u by (auto simp: owner_approved_def c' g_def s)
      have mono: "owner_approved c m r' \<Longrightarrow> owner_approved (center_exec x c) m r'" for m r'
        by (rule owner_approved_mono) (auto simp: c')
      have rows: "row_at s m = (if m = n then Some g else row_at (ce_desk c) m)" for m
        by (simp add: s g_def)
      show ?thesis
        using ok new mono unfolding center_ok_def
        by (auto simp: c' rows s [THEN arg_cong, of dk_calls] split: if_splits)
    qed (use ok ApproveOp Pair in simp)
  qed
next
  case (RunOp e y n)
  show ?thesis
  proof (cases "n \<in> set (ce_waiting c)")
    case True
    define s where "s = snd (execute_approved_order e y n (ce_desk c))"
    have calls: "dk_calls s = dk_calls (ce_desk c) @ drop (calls_made (ce_desk c)) (dk_calls s)"
      unfolding s_def by (rule execute_appends)
    have rows: "rel_option same_request (row_at (ce_desk c) m) (row_at s m)" for m
      unfolding s_def by (rule execute_row)
    have appr: "\<exists>r. row_at (ce_desk c) n = Some r \<and> owner_approved c n r"
      if "drop (calls_made (ce_desk c)) (dk_calls s) \<noteq> []"
    proof -
      have "dk_calls s \<noteq> dk_calls (ce_desk c)" using calls that by (metis append_self_conv)
      then obtain r where "row_at (ce_desk c) n = Some r" "pr_status r = ''approved''"
        using execute_calls [of e y n "ce_desk c"] by (auto simp: s_def)
      with ok show ?thesis by (auto simp: center_ok_def)
    qed
    have c': "center_exec x c = c\<lparr>ce_desk := s, ce_waiting := remove1 n (ce_waiting c),
        ce_runs := ce_runs c @ [(n, row_at (ce_desk c) n, drop (calls_made (ce_desk c)) (dk_calls s))]\<rparr>"
      using RunOp True by (simp add: s_def Let_def)
    have same: "owner_approved (center_exec x c) = owner_approved c"
      by (intro ext) (simp add: owner_approved_def c')
    have kept: "owner_approved c m r" if m: "row_at s m = Some r" and a: "pr_status r = ''approved''" for m r
    proof -
      obtain r0 where r0: "row_at (ce_desk c) m = Some r0" "same_request r0 r"
        using rows [of m] m by (auto simp: option_rel_Some2)
      then have "owner_approved c m r0"
        using ok same_request_fields [OF r0(2)] a by (auto simp: center_ok_def)
      then show ?thesis using r0(2) by (rule owner_approved_same)
    qed
    show ?thesis
      unfolding center_ok_def same
      using ok calls appr kept by (auto simp: c' center_ok_def)
  qed (use ok RunOp in simp)
next
  case (RejectOp db n user reason)
  have "pr_status r = ''approved'' \<Longrightarrow> row_at (snd (reject_pending_order db n reason user user (ce_desk c))) m = Some r \<Longrightarrow>
      row_at (ce_desk c) m = Some r" for m r
    using reject_row [of db n reason user "ce_desk c" m r] by auto
  with ok RejectOp show ?thesis by (auto simp: center_ok_def owner_approved_def)
next
  case (DeleteOp db n user)
  with ok show ?thesis by (auto simp: center_ok_def owner_approved_def delete_row split: if_splits)
qed

interpretation center_law: latch center_exec center_ok "\<lambda>x. \<not> submits_semi_auto x"
  by unfold_locales (simp add: center_ok_exec)

lemma submit_keeps:
  assumes "row_at s n = Some r"
  shows "row_at (submit_order e ty p k s) n = Some r"
proof -
  define keeps where "keeps = (\<lambda>s'. row_at s' n = Some r)"
  have q: "keeps (snd (queue_order e k p' ty' s))" for p' ty'
    unfolding keeps_def by (rule queued_keeps [OF queue_order_queues assms])
  have sent: "keeps s'" if "sends s s'" for s'
    using that assms by (simp add: keeps_def sends_def row_at_def)
  have s: "keeps s" using assms by (simp add: keeps_def)
  note g = guard_sends [of e k s]
  note rules = q s sent [OF single_sends] sent [OF smart_sends] sent [OF gtt_sends]
    sent [OF sends_trans [OF g split_sends]] sent [OF sends_trans [OF g basket_sends]] sent [OF g]
  have "keeps (snd (place_api_order e (op_fields p) k [] [] True s))"
    by (simp add: place_api_order_def Let_def rules case_prod_beta split: sum.split option.split)
  moreover have "keeps (snd (place_smart_order e (op_fields p) k [] [] s))"
    by (simp add: place_smart_order_def Let_def rules case_prod_beta split: option.split)
  moreover have "keeps (snd (place_gtt_order e (op_fields p) k [] [] s))"
    by (simp add: place_gtt_order_def Let_def rules case_prod_beta split: option.split)
  moreover have "keeps (snd (split_order e (op_fields p) k [] [] s))"
    by (auto simp add: split_order_def Let_def rules split: option.split sum.split guard_answer.split prod.split)
  moreover have "keeps (snd (place_basket_order e p k [] [] s))"
    by (auto simp add: place_basket_order_def Let_def rules split: option.split sum.split guard_answer.split prod.split)
  ultimately show ?thesis
    using s unfolding keeps_def submit_order_def by simp
qed

lemma counts_ok_exec: "counts_ok c \<Longrightarrow> counts_ok (center_exec x c)"
proof (cases x)
  case (RunOp e y n)
  assume ok: "counts_ok c"
  have "n \<in> set (ce_waiting c) \<Longrightarrow> mset (ce_waiting c) = add_mset n (mset (remove1 n (ce_waiting c)))"
    by simp
  with ok RunOp show ?thesis by (auto simp: counts_ok_def Let_def simp del: mset_remove1)
qed (auto simp: counts_ok_def Let_def split: prod.split bool.split)

lemma once_ok_exec:
  assumes ok: "once_ok n c" and op: "\<not> deletes n x"
  shows "once_ok n (center_exec x c)"
proof (cases x)
  case (SubmitOp e ty p k)
  with ok submit_keeps show ?thesis by (auto simp: once_ok_def)
next
  case (ApproveOp db m user)
  show ?thesis
  proof (cases "approve_pending_order db m user user (ce_desk c)")
    case (Pair b s)
    show ?thesis
    proof (cases b)
      case True
      from approve_result [of db m user "ce_desk c" s] Pair True obtain r where
          r: "row_at (ce_desk c) m = Some r" "pr_status r = ''pending''"
          "s = put_row m (r\<lparr>pr_status := ''approved'', pr_approved_by := Some user\<rparr>) (ce_desk c)"
        by auto
      with ok have "m = n \<Longrightarrow> n \<notin> set (map fst (ce_granted c))" by (auto simp: once_ok_def)
      then have "m = n \<Longrightarrow> count (mset (map fst (ce_granted c))) n = 0" by (simp only: count_eq_zero_iff set_mset_mset not_False_eq_True)
      with ok r ApproveOp Pair True show ?thesis by (auto simp: once_ok_def)
    qed (use ok ApproveOp Pair in simp)
  qed
next
  case (RunOp e y m)
  show ?thesis
  proof (cases "m \<in> set (ce_waiting c)")
    case True
    have "\<exists>r'. row_at (snd (execute_approved_order e y m (ce_desk c))) n = Some r' \<and> pr_status r' \<noteq> ''pending''"
      if "row_at (ce_desk c) n = Some r" "pr_status r \<noteq> ''pending''" for r
      using execute_row [of "ce_desk c" n e y m] that by (auto simp: option_rel_Some1 dest: same_request_fields)
    with ok RunOp True show ?thesis by (auto simp: once_ok_def Let_def)
  qed (use ok RunOp in simp)
next
  case (RejectOp db m user reason)
  with ok show ?thesis by (auto simp: once_ok_def dest: reject_keeps)
next
  case (DeleteOp db m user)
  with ok op show ?thesis by (auto simp: once_ok_def delete_row)
qed

interpretation count_law: latch center_exec counts_ok "\<lambda>_. False"
  by unfold_locales (rule counts_ok_exec)

interpretation once_law: latch center_exec "once_ok n" "deletes n" for n
  by unfold_locales (rule once_ok_exec)



text \<open>C24: An approved order is executed at most once. Over any sequence of requests that does not delete the row, with any
  number of approvals and of runs of the route, a pending order is executed at most once.\<close>

theorem approved_runs_once:
  assumes "list_all (\<lambda>x. \<not> deletes n x) ops"
  shows "count (mset (map fst (ce_runs (fold center_exec ops (center_start f))))) n \<le> 1"
proof -
  let ?c = "fold center_exec ops (center_start f)"
  have "once_ok n (center_start f)" "counts_ok (center_start f)"
    by (simp_all add: once_ok_def counts_ok_def center_start_def)
  then have once: "once_ok n ?c" and counts: "counts_ok ?c"
    using assms by (simp_all add: once_law.held_run count_law.held_run list_all_iff)
  have "count (mset (map fst (ce_runs ?c)) + mset (ce_waiting ?c)) n \<le> 1"
    using once counts by (simp add: once_ok_def counts_ok_def)
  then show ?thesis by simp
qed

theorem approved_runs_once_witness:
  "count (mset (map fst (ce_runs (fold center_exec (sample_ops @ [ApproveOp True 1 ''asha'', RunOp sample_env sample_exec 1])
      (center_start None))))) 1 \<le> 1 \<and>
   map fst (ce_runs (fold center_exec (sample_ops @ [ApproveOp True 1 ''asha'', RunOp sample_env sample_exec 1]) (center_start None))) = [1]"
proof (rule conjI)
  have ops: "list_all (\<lambda>x. \<not> deletes 1 x) (sample_ops @ [ApproveOp True 1 ''asha'', RunOp sample_env sample_exec 1])" by code_simp
  show "count (mset (map fst (ce_runs (fold center_exec (sample_ops @ [ApproveOp True 1 ''asha'', RunOp sample_env sample_exec 1])
      (center_start None))))) 1 \<le> 1"
    by (rule approved_runs_once [OF ops])
qed code_simp

section \<open>Single orders\<close>

lemma with_auth_sends_allowed:
  assumes "place_order_with_auth e d t b orig emit False s = (r, s')" and "broker_calls s' \<noteq> broker_calls s"
  shows "\<not> ev_analyze e \<and> \<not> is_killed (dk_kill s) \<and>
    (\<exists>v x. ev_funds e (calls_made s) = FundsCash v \<and> py_float v = Ret x \<and> (x > 0 \<or> x = NaN)) \<and>
    read_decision e (ev_decision e (Suc (calls_made s))) = Decided ''allow'' \<and>
    dk_calls s' = dk_calls s @ [FundsCall (payload_key orig), DecisionCall (decision_arguments e d), BrokerCall ''place_order_api'' b t d]"
proof -
  obtain g s1 where g: "ask_guard e (payload_key orig) s = (g, s1)" by (cases "ask_guard e (payload_key orig) s")
  have b1: "broker_calls s1 = broker_calls s" using guard_calls [of e "payload_key orig" s] g by (simp add: broker_calls_def)
  obtain j s2 where j: "require_jev_allow e (decision_arguments e d) s1 = (j, s2)"
    by (cases "require_jev_allow e (decision_arguments e d) s1")
  have b2: "broker_calls s2 = broker_calls s" using decision_quiet [of s1 e "decision_arguments e d"] j b1 by (simp add: quiet_def)
  have live: "\<not> ev_analyze e" using assms by (auto simp: place_order_with_auth_def Let_def broker_calls_def split: if_splits)
  with assms g b1 j b2 obtain cash dec where "g = Inr (GuardAllowed cash)" "j = Decided dec"
      and s': "s' = note_call (BrokerCall ''place_order_api'' b t d) s2"
    by (auto simp: place_order_with_auth_def Let_def split: if_splits sum.splits guard_answer.splits decision_outcome.splits)
  with guard_allows g decision_calls j have
      "\<not> is_killed (dk_kill s)" "s1 = note_call (FundsCall (payload_key orig)) s"
      "\<exists>v x. ev_funds e (calls_made s) = FundsCash v \<and> py_float v = Ret x \<and> (x > 0 \<or> x = NaN)"
      "s2 = note_call (DecisionCall (decision_arguments e d)) s1" "read_decision e (ev_decision e (calls_made s1)) = Decided ''allow''"
    by blast+
  with live s' show ?thesis by (simp add: calls_made_def)
qed

lemma validated_side:
  assumes "validate_order_data e d = Ret (None, d')"
  shows "d' ''action'' = Some (VStr ''BUY'') \<or> d' ''action'' = Some (VStr ''SELL'')"
  using assms by (auto simp: validate_order_data_def check_order_def Let_def valid_actions_def rbind_Ret
      split: if_splits option.splits pyval.splits)

text \<open>C25: A live order needs every permission. If placing a single order, by whatever credentials, reached the broker at
  all, then the platform is not in analyze mode, the kill switch is not latched, the balance was read and is above the threshold
  (or not a number), the decision service answered an explicit allow, the order is a buy or a sell, and the
  funds service, the decision service and the broker were called in that order, each exactly once.\<close>

theorem live_order_needs_allow:
  assumes "place_api_order e data k t b emit s = (r, s')" and "broker_calls s' \<noteq> broker_calls s"
  shows "\<not> ev_analyze e \<and> \<not> is_killed (dk_kill s) \<and>
    (\<exists>v x. ev_funds e (calls_made s) = FundsCash v \<and> py_float v = Ret x \<and> (x > 0 \<or> x = NaN)) \<and>
    read_decision e (ev_decision e (Suc (calls_made s))) = Decided ''allow'' \<and>
    (\<exists>key args broker token d. (d ''action'' = Some (VStr ''BUY'') \<or> d ''action'' = Some (VStr ''SELL'')) \<and>
      dk_calls s' = dk_calls s @ [FundsCall key, DecisionCall args, BrokerCall ''place_order_api'' broker token d])"
proof -
  have "broker_calls (snd (queue_order e k p ty s)) = broker_calls s" for p ty
    using queue_quiet by (simp add: quiet_def)
  with assms obtain d t' b' where v: "validate_order_data e (with_key k data) = Ret (None, d)"
      and p: "place_order_with_auth e d t' b' (with_key k data) emit False s = (r, s')"
    by (auto simp: place_api_order_def Let_def split: if_splits sum.splits option.splits prod.splits) (metis snd_conv)+
  from with_auth_sends_allowed [OF p assms(2)] validated_side [OF v] show ?thesis by blast
qed

theorem live_order_needs_allow_witness:
  "broker_calls (snd (place_api_order sample_env sample_request ''key'' ''tok'' ''zerodha'' True (sample_desk None))) \<noteq> [] \<and>
   read_decision sample_env (ev_decision sample_env (Suc (calls_made (sample_desk None)))) = Decided ''allow''"
proof -
  have sent: "broker_calls (snd (place_api_order sample_env sample_request ''key'' ''tok'' ''zerodha'' True (sample_desk None))) \<noteq> []"
    by (rule length_greater_0_conv [THEN iffD1]) code_simp
  moreover have "broker_calls (sample_desk None) = []" by (simp add: broker_calls_def center_start_def)
  ultimately have "broker_calls (snd (place_api_order sample_env sample_request ''key'' ''tok'' ''zerodha'' True (sample_desk None))) \<noteq>
      broker_calls (sample_desk None)" by simp
  from live_order_needs_allow [OF prod.collapse [symmetric] this] sent show ?thesis by blast
qed

section \<open>The latched switch\<close>

datatype service_request = OrderRequest svc_env exec_env string api_payload string string string

fun request_exec :: "service_request \<Rightarrow> order_desk \<Rightarrow> order_desk" where
  "request_exec (OrderRequest e x ty p k t b) s = snd (run_service e x ty p k t b s)"

text \<open>The requests whose service asks the guard: a split order does with an API key alone, a trigger order never does.\<close>

fun asks_guard :: "service_request \<Rightarrow> bool" where
  "asks_guard (OrderRequest e x ty p k t b) =
     (ty \<in> set [''placeorder'', ''smartorder'', ''basketorder''] \<or> ty = ''splitorder'' \<and> k \<noteq> [] \<and> (t = [] \<or> b = []))"

lemma request_quiet:
  assumes "is_killed (dk_kill s)" and "asks_guard q"
  shows "quiet s (request_exec q s)"
proof (cases q)
  case (OrderRequest e x ty p k t b)
  with assms(2) consider "ty = ''placeorder''" | "ty = ''smartorder''" | "ty = ''basketorder''"
    | "ty = ''splitorder''" "k \<noteq> []" "t = [] \<or> b = []"
    by auto
  then show ?thesis
    using OrderRequest latched_place_order [OF assms(1)] latched_smart_order [OF assms(1)] latched_basket_order [OF assms(1)]
      latched_split_order [OF assms(1)]
    by cases (simp_all add: run_service_def)
qed

interpretation broker_latch: latch request_exec "\<lambda>s. is_killed (dk_kill s) \<and> broker_calls s = cs" "\<lambda>q. \<not> asks_guard q" for cs
proof unfold_locales
  fix s q
  assume "is_killed (dk_kill s) \<and> broker_calls s = cs" and "\<not> \<not> asks_guard q"
  with request_quiet [of s q] show "is_killed (dk_kill (request_exec q s)) \<and> broker_calls (request_exec q s) = cs"
    by (simp add: quiet_def)
qed

text \<open>C26: A latched kill switch stops the services that ask for it. Over any sequence of single, smart and basket orders,
  by any credentials, and of split orders sent with an API key, a latched switch stays latched and not one order reaches
  the broker, whatever the outside answers.\<close>

theorem latched_sends_nothing:
  assumes "is_killed (dk_kill s)" and "list_all asks_guard qs"
  shows "broker_calls (fold request_exec qs s) = broker_calls s \<and> is_killed (dk_kill (fold request_exec qs s))"
  using broker_latch.held_run [of s "broker_calls s" qs] assms by simp

definition sample_requests :: "service_request list" where
  "sample_requests = map (\<lambda>ty. OrderRequest sample_env sample_exec ty \<lparr>op_fields = sample_request, op_orders = []\<rparr> ''key'' ''tok'' ''zerodha'')
     [''placeorder'', ''smartorder'', ''basketorder'']"

theorem latched_sends_nothing_witness:
  "broker_calls (fold request_exec sample_requests (sample_desk latched_file)) = []"
proof -
  have killed: "is_killed (dk_kill (sample_desk latched_file))" by (simp add: center_start_def)
  have qs: "list_all asks_guard sample_requests" by code_simp
  have start: "broker_calls (sample_desk latched_file) = []" by (simp add: broker_calls_def center_start_def)
  show ?thesis using latched_sends_nothing [OF killed qs] unfolding start by (rule conjunct1)
qed

section \<open>Split orders\<close>

lemma fold_note_calls: "dk_calls (fold (\<lambda>x. note_call (f x)) xs s) = dk_calls s @ map f xs"
  by (induction xs arbitrary: s) auto

lemma pieces_sum:
  assumes "0 < piece" and "0 \<le> whole"
  shows "sum_list (map snd (split_pieces piece whole)) = whole"
proof -
  have "sum_list (map (\<lambda>i. piece) [0..<n]) = int n * piece" for n
    by (induction n) (simp_all add: algebra_simps)
  moreover have "0 \<le> whole div piece" using assms by (simp add: pos_imp_zdiv_nonneg_iff)
  moreover have "\<not> 0 < whole mod piece \<Longrightarrow> whole mod piece = 0" using pos_mod_sign [OF assms(1), of whole] by simp
  ultimately show ?thesis
    using div_mult_mod_eq [of whole piece] by (auto simp: split_pieces_def comp_def)
qed

lemma pieces_bounds:
  assumes "0 < piece" and "(n, q) \<in> set (split_pieces piece whole)"
  shows "0 < q \<and> q \<le> piece"
  using assms by (auto simp: split_pieces_def split: if_splits dest: pos_mod_bound [of piece whole])

lemma pieces_length:
  assumes "0 < piece" and "0 \<le> whole"
  shows "int (length (split_pieces piece whole)) = piece_count piece whole"
  using assms by (simp add: split_pieces_def piece_count_def pos_imp_zdiv_nonneg_iff)

lemma split_plan_bounds:
  assumes "split_plan d = Ret (Inr (piece, whole))"
  shows "0 < piece \<and> piece_count piece whole \<le> 100"
  using assms by (auto simp: split_plan_def max_orders_def split: sum.splits pyexc.splits prod.splits if_splits)



section \<open>Baskets\<close>

abbreviation leg_calls :: "string \<Rightarrow> string \<Rightarrow> pydict list \<Rightarrow> order_call list" where
  "leg_calls b t ds \<equiv> map (BrokerCall ''place_order_api'' b t) ds"

text \<open>The funds service always reads a balance above the threshold.\<close>

definition funds_good :: "svc_env \<Rightarrow> bool" where
  "funds_good e \<longleftrightarrow> (\<forall>n. \<exists>v x. ev_funds e n = FundsCash v \<and> py_float v = Ret x \<and> \<not> x \<le> kill_threshold)"

definition guard_open :: "svc_env \<Rightarrow> pydict list \<Rightarrow> order_desk \<Rightarrow> bool" where
  "guard_open e ds s \<longleftrightarrow> funds_good e \<and> \<not> is_killed (dk_kill s) \<and> (\<forall>d \<in> set ds. payload_key d \<noteq> [])"

lemma guard_passes:
  assumes "funds_good e" and "\<not> is_killed (dk_kill s)" and "k \<noteq> []"
  shows "\<exists>cash. ask_guard e k s = (Inr (GuardAllowed cash), note_call (FundsCall k) s)"
proof -
  from assms(1) obtain v x where "ev_funds e (calls_made s) = FundsCash v" "py_float v = Ret x" "\<not> x \<le> kill_threshold"
    unfolding funds_good_def by blast
  with assms(2,3) show ?thesis
    by (simp add: ask_guard_def check_live_order_allowed_def check_balance_def)
qed

text \<open>What a list of legs leaves: each was sent at most once, and every one of them when the guard never blocks.\<close>

definition legs_sent :: "svc_env \<Rightarrow> string \<Rightarrow> string \<Rightarrow> pydict list \<Rightarrow> order_desk \<Rightarrow> order_desk \<Rightarrow> pydict list \<Rightarrow> bool" where
  "legs_sent e b t ds s s' sent \<longleftrightarrow>
     broker_calls s' = broker_calls s @ leg_calls b t sent \<and> mset sent \<subseteq># mset ds \<and>
     (guard_open e ds s \<longrightarrow> mset sent = mset ds \<and> \<not> is_killed (dk_kill s'))"

lemma legs_sent_append:
  assumes "legs_sent e b t ds s s1 xs" and "legs_sent e b t ds' s1 s2 ys"
  shows "legs_sent e b t (ds @ ds') s s2 (xs @ ys)"
  using assms subset_mset.add_mono [of "mset xs" "mset ds" "mset ys" "mset ds'"]
  by (auto simp: legs_sent_def guard_open_def)

lemma legs_sent_perm: "mset ds = mset ds' \<Longrightarrow> legs_sent e b t ds s s' xs = legs_sent e b t ds' s s' xs"
  by (auto simp: legs_sent_def guard_open_def dest: mset_eq_setD)

lemma leg_sends_once: "\<exists>sent. legs_sent e b t [d] s (snd (basket_single_order e b t d s)) sent"
proof (cases "ask_guard e (payload_key d) s")
  case (Pair g s1)
  have b1: "broker_calls s1 = broker_calls s" using guard_calls [of e "payload_key d" s] Pair by (simp add: broker_calls_def)
  show ?thesis
  proof (cases "\<exists>cash. g = Inr (GuardAllowed cash)")
    case True
    then have "snd (basket_single_order e b t d s) = note_call (BrokerCall ''place_order_api'' b t d) s1"
      using Pair by (auto simp add: basket_single_order_def Let_def split: broker_answer.split option.split)
    with b1 Pair True guard_passes [of e s "payload_key d"] show ?thesis
      by (intro exI [of _ "[d]"]) (auto simp: legs_sent_def guard_open_def broker_calls_def)
  next
    case False
    then have "snd (basket_single_order e b t d s) = s1"
      using Pair by (auto simp add: basket_single_order_def Let_def split: sum.split guard_answer.split)
    with b1 Pair False guard_passes [of e s "payload_key d"] show ?thesis
      by (intro exI [of _ "[]"]) (auto simp: legs_sent_def guard_open_def)
  qed
qed

lemma batch_sends_once:
  "\<exists>sent. legs_sent e b t ds s (snd (basket_batch e b t ds s)) sent \<and> length (fst (basket_batch e b t ds s)) = length ds"
proof (induction ds arbitrary: s)
  case Nil
  show ?case by (intro exI [of _ "[]"]) (simp add: legs_sent_def guard_open_def)
next
  case (Cons d ds)
  obtain r s1 where one: "basket_single_order e b t d s = (r, s1)" by (cases "basket_single_order e b t d s")
  with leg_sends_once [of e b t d s] obtain xs where a: "legs_sent e b t [d] s s1 xs" by auto
  from Cons.IH [of s1] obtain ys where c: "legs_sent e b t ds s1 (snd (basket_batch e b t ds s1)) ys"
      "length (fst (basket_batch e b t ds s1)) = length ds" by auto
  from legs_sent_append [OF a c(1)] c(2) one show ?case
    by (intro exI [of _ "xs @ ys"]) (simp add: case_prod_beta)
qed

lemma batches_send_once:
  assumes "\<And>k xs. mset (ev_schedule e k xs) = mset xs"
  shows "\<exists>sent. legs_sent e b t ds s (snd (basket_batches e b t k ds s)) sent \<and>
    length (fst (basket_batches e b t k ds s)) = length ds"
  using assms
proof (induction e b t k ds s rule: basket_batches.induct)
  case (1 e b t k ds s)
  show ?case
  proof (cases "ds = []")
    case True
    then show ?thesis
      by (intro exI [of _ "[]"]) (simp add: basket_batches.simps legs_sent_def guard_open_def)
  next
    case False
    obtain rs s1 where eq: "basket_batch e b t (ev_schedule e k (take batch_size ds)) s = (rs, s1)"
      by (cases "basket_batch e b t (ev_schedule e k (take batch_size ds)) s")
    have perm: "mset (ev_schedule e k (take batch_size ds)) = mset (take batch_size ds)" by (rule "1.prems")
    from batch_sends_once [of e b t "ev_schedule e k (take batch_size ds)" s] eq mset_eq_length [OF perm] obtain xs where
        a: "legs_sent e b t (take batch_size ds) s s1 xs" "length rs = length (take batch_size ds)"
      by (auto simp: legs_sent_perm [OF perm])
    from "1.IH" [OF False eq [symmetric] "1.prems"] obtain ys where
        c: "legs_sent e b t (drop batch_size ds) s1 (snd (basket_batches e b t (Suc k) (drop batch_size ds) s1)) ys"
           "length (fst (basket_batches e b t (Suc k) (drop batch_size ds) s1)) = length (drop batch_size ds)" by auto
    from legs_sent_append [OF a(1) c(1)] a(2) c(2) eq False show ?thesis
      by (intro exI [of _ "xs @ ys"]) (simp add: basket_batches.simps [of e b t k ds s] case_prod_beta)
  qed
qed



section \<open>What an execution records\<close>

lemma summary_fits: "length (summarize_order_ids ids) \<le> 255"
  by (simp add: summarize_order_ids_def Let_def del: take_append)

text \<open>What the row of an approved batch says after its execution: open when every leaf order was placed, partial when some
  were, rejected when none was, with the identifiers of those that were, cut to the width of the column.\<close>

theorem execution_recorded:
  assumes row: "row_at s n = Some r" "pr_status r = ''approved''" "pr_type r \<noteq> ''placegttorder''"
    and keys: "xv_key x (pr_owner r) = Some k" "xv_token x (pr_owner r) = Some t" "xv_broker x (pr_owner r) = Some b"
      "k \<noteq> []" "t \<noteq> []" "b \<noteq> []"
    and run: "run_service e x (pr_type r) (pr_data r) k t b s = (Some (Ret a), s1)"
    and batch: "ev_db_ok e" "oa_ok a" "oa_results a = Some rs"
  shows "let leaves = flatten_execution_results rs; (a', s') = execute_approved_order e x n s in
    if \<exists>d \<in> set leaves. leaf_placed d
    then oa_ok a' \<and> oa_ids a' = Some (leaf_ids (ev_frepr e) leaves) \<and>
      (\<exists>ids. length ids \<le> 255 \<and> row_at s' n = Some (r\<lparr>pr_broker_id := VStr ids,
         pr_broker_status := VStr (if \<forall>d \<in> set leaves. leaf_placed d then ''open'' else ''partial'')\<rparr>))
    else \<not> oa_ok a' \<and> oa_code a' = 502 \<and>
      row_at s' n = Some (r\<lparr>pr_broker_id := VNone, pr_broker_status := VStr ''rejected''\<rparr>)"
proof -
  have r1: "row_at s1 n = Some r"
    using run_service_sends [OF keys(5,6), of s e x "pr_type r" "pr_data r" k] run row by (simp add: sends_def row_at_def)
  have none: "leaf_ids fr leaves = [] \<longleftrightarrow> \<not> (\<exists>d \<in> set leaves. leaf_placed d)" for fr leaves
    by (auto simp: leaf_ids_def filter_empty_conv)
  have "execute_approved_order e x n s = record_answer e x n (pr_type r) a s1"
    using row keys run by (simp add: execute_approved_order_def text_or_empty_def)
  then show ?thesis
    using r1 row(3) batch summary_fits
    by (auto simp: record_answer_def Let_def none update_broker_status_def bad_gateway_def list_all_iff)
qed

end
