(* ===== verification/Py_Decimal.thy ===== *)
theory Py_Decimal
  imports Py_Base Py_Float
begin

text \<open>
  Python's \<open>decimal.Decimal\<close> under the default context, for finite values: an operation computes
  the exact result and rounds it once to 28 significant digits, ties to even. The exponent
  limits of the context (a million digits) are not modelled. A \<open>DECIMAL(15,2)\<close> amount is a whole
  number of cents, and the library says that sums of such amounts are exact.
\<close>

section \<open>The context\<close>

definition ilog10 :: "rat \<Rightarrow> int" where
  "ilog10 x =
     (if 1 \<le> x then int (length (nat_digits (nat \<lfloor>x\<rfloor>))) - 1
      else - int (length (nat_digits (nat (\<lceil>1 / x\<rceil> - 1)))))"

definition round_prec :: "rat \<Rightarrow> rat" where
  "round_prec x = of_int (round_half_even (x * 10 powi (27 - ilog10 x))) / 10 powi (27 - ilog10 x)"

definition ctx28 :: "rat \<Rightarrow> rat" where
  "ctx28 x = (if x = 0 then 0 else if 0 < x then round_prec x else - round_prec (- x))"

definition dadd :: "rat \<Rightarrow> rat \<Rightarrow> rat" where
  "dadd x y = ctx28 (x + y)"

definition dsub :: "rat \<Rightarrow> rat \<Rightarrow> rat" where
  "dsub x y = ctx28 (x - y)"

definition dmul :: "rat \<Rightarrow> rat \<Rightarrow> rat" where
  "dmul x y = ctx28 (x * y)"

definition ddiv :: "rat \<Rightarrow> rat \<Rightarrow> rat result" where
  "ddiv x y = (if y = 0 then Raise ZeroDivisionError else Ret (ctx28 (x / y)))"

section \<open>Amounts of money\<close>

definition cents :: "rat \<Rightarrow> bool" where
  "cents x = (x * 100 = of_int \<lfloor>x * 100\<rfloor>)"

lemma cents_iff: "cents x \<longleftrightarrow> (\<exists>n. x * 100 = of_int n)"
  unfolding cents_def by (metis floor_of_int)

lemma cents_0 [simp]: "cents 0"
  by (simp add: cents_def)

lemma cents_add: "cents x \<Longrightarrow> cents y \<Longrightarrow> cents (x + y)"
  unfolding cents_iff by (metis distrib_right of_int_add)

lemma cents_minus: "cents x \<Longrightarrow> cents (- x)"
  unfolding cents_iff by (metis minus_mult_left of_int_minus)

lemma cents_diff: "cents x \<Longrightarrow> cents y \<Longrightarrow> cents (x - y)"
  using cents_add [of x "- y"] cents_minus by simp

lemma cents_numeral [simp]: "cents (numeral k)"
  unfolding cents_iff by (rule exI [of _ "numeral k * 100"]) simp

lemma length_nat_digits: "n < 10 ^ k \<Longrightarrow> 0 < k \<Longrightarrow> length (nat_digits n) \<le> k"
proof (induction n arbitrary: k rule: nat_digits.induct)
  case (1 n)
  show ?case
  proof (cases "n < 10")
    case True
    with "1.prems" show ?thesis by (simp add: nat_digits.simps [of n])
  next
    case False
    then obtain j where k: "k = Suc j" "0 < j"
      using "1.prems" by (cases k; cases "k - 1") auto
    have "n div 10 < 10 ^ j" using "1.prems" k by (simp add: less_mult_imp_div_less mult.commute)
    with "1.IH" [of j] False k show ?thesis by (simp add: nat_digits.simps [of n])
  qed
qed

lemma ilog10_le:
  assumes "x < 10 ^ 26"
  shows "ilog10 x \<le> 25"
proof (cases "1 \<le> x")
  case True
  have "\<lfloor>x\<rfloor> < 10 ^ 26" using assms by (simp add: floor_less_iff)
  then have "nat \<lfloor>x\<rfloor> < 10 ^ 26" using True by (simp add: nat_less_iff)
  then have "length (nat_digits (nat \<lfloor>x\<rfloor>)) \<le> 26" by (rule length_nat_digits) simp
  with True show ?thesis by (simp add: ilog10_def)
next
  case False
  then show ?thesis by (simp add: ilog10_def)
qed

lemma round_prec_exact:
  assumes "cents x" "x < 10 ^ 26"
  shows "round_prec x = x"
proof -
  let ?p = "(10::rat) powi (27 - ilog10 x)"
  obtain n where n: "x * 100 = of_int n" using assms by (auto simp: cents_iff)
  obtain k where k: "27 - ilog10 x = int k + 2"
    using ilog10_le [OF assms(2)] nonneg_int_cases [of "25 - ilog10 x"] by (smt (verit))
  have p: "?p = 10 ^ k * 100" by (simp add: k power_int_add)
  have "x * ?p = of_int (n * 10 ^ k)" by (simp add: p flip: n)
  then have "round_half_even (x * ?p) = n * 10 ^ k" by (metis round_half_even_of_int)
  with p n show ?thesis by (simp add: round_prec_def field_simps)
qed

lemma ctx28_exact: "cents x \<Longrightarrow> \<bar>x\<bar> < 10 ^ 26 \<Longrightarrow> ctx28 x = x"
  by (auto simp: ctx28_def round_prec_exact cents_minus)

lemma ctx28_nonneg: "0 \<le> x \<Longrightarrow> 0 \<le> ctx28 x"
proof -
  assume "0 \<le> x"
  then have "0 \<le> round_half_even (x * 10 powi (27 - ilog10 x))"
    by (intro round_half_even_ge) simp
  with \<open>0 \<le> x\<close> show ?thesis by (simp add: ctx28_def round_prec_def)
qed

text \<open>What a \<open>DECIMAL(15,2)\<close> column can hold.\<close>

definition fits_column :: "rat \<Rightarrow> bool" where
  "fits_column x = (\<bar>x\<bar> < 10 ^ 13)"

definition money :: "rat \<Rightarrow> bool" where
  "money x = (cents x \<and> fits_column x)"

lemma money_exact: "cents x \<Longrightarrow> fits_column x \<Longrightarrow> ctx28 x = x"
  by (rule ctx28_exact) (auto simp: fits_column_def)

end
