(* ===== verification/Fund_Manager.thy ===== *)
theory Fund_Manager
  imports Py_Decimal Py_Value
begin

text \<open>
  The simulated account of the sandbox: \<open>sandbox/fund_manager.py\<close>. A user's rows are a \<open>ledger\<close>
  (the funds row, the positions, the holdings and the GTT triggers that hold margin); a
  \<open>session\<close> pairs what the database has committed with what the session sees, so that a staged
  change, a commit and a rollback are operations of the model. Amounts are the outcome of
  \<open>Decimal(str(x))\<close>: a finite decimal or the exception it raises (the non-finite decimals are
  outside the model). Arithmetic on rows read through the ORM is Python's decimal arithmetic;
  what a \<open>DECIMAL(15,2)\<close> column gives back for a stored value, and the arithmetic and the
  comparison that the staged update leaves to the database, are the parameter \<open>sql_rules\<close>.
  Which database call raises is data of each event. Log lines and the class lock are left out:
  the methods run one at a time under it.
\<close>

section \<open>Rows and sessions\<close>

record funds =
  fd_capital :: rat
  fd_available :: rat
  fd_used :: rat
  fd_realized :: rat
  fd_today :: "rat option"
  fd_unrealized :: rat
  fd_total :: rat
  fd_last_reset :: int
  fd_resets :: int

record sandbox_position =
  pos_quantity :: int
  pos_margin :: "rat option"

record gtt =
  gtt_status :: string
  gtt_margin :: "rat option"

record ledger =
  lg_funds :: "funds option"
  lg_positions :: "sandbox_position list"
  lg_holdings :: "int list"
  lg_gtts :: "gtt list"

record session =
  ss_db :: ledger
  ss_cur :: ledger

record sql_rules =
  sql_col :: "rat \<Rightarrow> rat"
  sql_sub :: "rat \<Rightarrow> rat \<Rightarrow> rat"
  sql_add :: "rat \<Rightarrow> rat \<Rightarrow> rat"
  sql_ge :: "rat \<Rightarrow> rat \<Rightarrow> bool"

datatype db_call = FundsQuery | InitQuery | InitCommit | FundsRequery | StageUpdate | StageExpire
  | OpCommit | ResetDelete | PositionsQuery | GttQuery

record fund_env =
  en_capital :: rat
  en_now :: int
  en_fail :: "db_call \<Rightarrow> pyexc option"

type_synonym amount = "rat result"

datatype fund_msg =
    Initialized | AlreadyInitialized | InitError pyexc | NotInitialized | OpError pyexc
  | Sufficient | Insufficient rat rat rat | ShortOf rat rat | ShortOfStaged rat
  | NoChange | Staged rat | StageTooMuch rat
  | BlockNotPositive rat | Blocked rat
  | ReleaseNegative rat | ReleaseTooMuch rat rat | Released rat rat
  | TransferNotPositive rat | TransferTooMuch rat rat | Transferred rat
  | CreditNotPositive rat | Credited rat | UnrealizedUpdated

definition stored_funds :: "sql_rules \<Rightarrow> funds \<Rightarrow> funds" where
  "stored_funds sq f =
     \<lparr> fd_capital = sql_col sq (fd_capital f), fd_available = sql_col sq (fd_available f),
       fd_used = sql_col sq (fd_used f), fd_realized = sql_col sq (fd_realized f),
       fd_today = map_option (sql_col sq) (fd_today f), fd_unrealized = sql_col sq (fd_unrealized f),
       fd_total = sql_col sq (fd_total f), fd_last_reset = fd_last_reset f, fd_resets = fd_resets f \<rparr>"

definition commit :: "sql_rules \<Rightarrow> session \<Rightarrow> session" where
  "commit sq ss =
     (let l = (ss_cur ss)\<lparr>lg_funds := map_option (stored_funds sq) (lg_funds (ss_cur ss))\<rparr>
      in \<lparr>ss_db = l, ss_cur = l\<rparr>)"

definition rollback :: "session \<Rightarrow> session" where
  "rollback ss = ss\<lparr>ss_cur := ss_db ss\<rparr>"

definition put_funds :: "funds \<Rightarrow> session \<Rightarrow> session" where
  "put_funds f ss = ss\<lparr>ss_cur := (ss_cur ss)\<lparr>lg_funds := Some f\<rparr>\<rparr>"

section \<open>Creating the row\<close>

definition new_funds :: "fund_env \<Rightarrow> funds" where
  "new_funds en =
     \<lparr> fd_capital = en_capital en, fd_available = en_capital en, fd_used = 0, fd_realized = 0,
       fd_today = Some 0, fd_unrealized = 0, fd_total = 0, fd_last_reset = en_now en, fd_resets = 0 \<rparr>"

definition initialize_funds :: "sql_rules \<Rightarrow> fund_env \<Rightarrow> session \<Rightarrow> (bool \<times> fund_msg) \<times> session" where
  "initialize_funds sq en ss =
     (case en_fail en InitQuery of
        Some e \<Rightarrow> ((False, InitError e), rollback ss)
      | None \<Rightarrow>
          case lg_funds (ss_cur ss) of
            Some f \<Rightarrow> ((True, AlreadyInitialized), ss)
          | None \<Rightarrow>
              case en_fail en InitCommit of
                Some e \<Rightarrow> ((False, InitError e), rollback (put_funds (new_funds en) ss))
              | None \<Rightarrow> ((True, Initialized), commit sq (put_funds (new_funds en) ss)))"

definition ensure_funds_initialized :: "sql_rules \<Rightarrow> fund_env \<Rightarrow> session \<Rightarrow> funds option result \<times> session" where
  "ensure_funds_initialized sq en ss =
     (case en_fail en FundsQuery of
        Some e \<Rightarrow> (Raise e, ss)
      | None \<Rightarrow>
          case lg_funds (ss_cur ss) of
            Some f \<Rightarrow> (Ret (Some f), ss)
          | None \<Rightarrow>
              (let ((ok, msg), ss') = initialize_funds sq en ss in
               if \<not> ok then (Ret None, ss')
               else
                 case en_fail en FundsRequery of
                   Some e \<Rightarrow> (Raise e, ss')
                 | None \<Rightarrow> (Ret (lg_funds (ss_cur ss')), ss')))"

section \<open>The committing operations\<close>

text \<open>
  Every committing method has the same frame: make sure the row exists, run a body that either
  refuses with a message or changes the row, commit, and roll back on any exception.
\<close>

datatype verdict = Refuse fund_msg | Accept funds fund_msg

definition locked_op ::
  "sql_rules \<Rightarrow> fund_env \<Rightarrow> (funds \<Rightarrow> verdict result) \<Rightarrow> session \<Rightarrow> (bool \<times> fund_msg) \<times> session" where
  "locked_op sq en body ss =
     (case ensure_funds_initialized sq en ss of
        (Inl e, s1) \<Rightarrow> ((False, OpError e), rollback s1)
      | (Inr None, s1) \<Rightarrow> ((False, NotInitialized), s1)
      | (Inr (Some f), s1) \<Rightarrow>
          case body f of
            Inl e \<Rightarrow> ((False, OpError e), rollback s1)
          | Inr (Refuse msg) \<Rightarrow> ((False, msg), s1)
          | Inr (Accept f' msg) \<Rightarrow>
              case en_fail en OpCommit of
                Some e \<Rightarrow> ((False, OpError e), rollback (put_funds f' s1))
              | None \<Rightarrow> ((True, msg), commit sq (put_funds f' s1)))"

definition block_body :: "amount \<Rightarrow> funds \<Rightarrow> verdict result" where
  "block_body amount f =
     rbind amount (\<lambda>a.
       if a \<le> 0 then Ret (Refuse (BlockNotPositive a))
       else if fd_available f < a then Ret (Refuse (ShortOf a (fd_available f)))
       else Ret (Accept (f\<lparr>fd_available := dsub (fd_available f) a, fd_used := dadd (fd_used f) a\<rparr>) (Blocked a)))"

definition block_margin :: "sql_rules \<Rightarrow> fund_env \<Rightarrow> amount \<Rightarrow> session \<Rightarrow> (bool \<times> fund_msg) \<times> session" where
  "block_margin sq en amount = locked_op sq en (block_body amount)"

definition release_body :: "amount \<Rightarrow> amount \<Rightarrow> funds \<Rightarrow> verdict result" where
  "release_body amount realized f =
     rbind amount (\<lambda>a. rbind realized (\<lambda>p.
       if a < 0 then Ret (Refuse (ReleaseNegative a))
       else if fd_used f < a then Ret (Refuse (ReleaseTooMuch a (fd_used f)))
       else
         (let realized' = dadd (fd_realized f) p in
          Ret (Accept
            (f\<lparr> fd_used := dsub (fd_used f) a,
                fd_available := dadd (dadd (fd_available f) a) p,
                fd_realized := realized',
                fd_today := Some (dadd (case fd_today f of None \<Rightarrow> 0 | Some t \<Rightarrow> t) p),
                fd_total := dadd realized' (fd_unrealized f) \<rparr>)
            (Released a p)))))"

definition release_margin ::
  "sql_rules \<Rightarrow> fund_env \<Rightarrow> amount \<Rightarrow> amount \<Rightarrow> session \<Rightarrow> (bool \<times> fund_msg) \<times> session" where
  "release_margin sq en amount realized = locked_op sq en (release_body amount realized)"

definition transfer_body :: "amount \<Rightarrow> funds \<Rightarrow> verdict result" where
  "transfer_body amount f =
     rbind amount (\<lambda>a.
       if a \<le> 0 then Ret (Refuse (TransferNotPositive a))
       else if fd_used f < a then Ret (Refuse (TransferTooMuch a (fd_used f)))
       else Ret (Accept (f\<lparr>fd_used := dsub (fd_used f) a\<rparr>) (Transferred a)))"

definition transfer_margin_to_holdings ::
  "sql_rules \<Rightarrow> fund_env \<Rightarrow> amount \<Rightarrow> session \<Rightarrow> (bool \<times> fund_msg) \<times> session" where
  "transfer_margin_to_holdings sq en amount = locked_op sq en (transfer_body amount)"

definition credit_body :: "amount \<Rightarrow> funds \<Rightarrow> verdict result" where
  "credit_body amount f =
     rbind amount (\<lambda>a.
       if a \<le> 0 then Ret (Refuse (CreditNotPositive a))
       else Ret (Accept (f\<lparr>fd_available := dadd (fd_available f) a\<rparr>) (Credited a)))"

definition credit_sale_proceeds ::
  "sql_rules \<Rightarrow> fund_env \<Rightarrow> amount \<Rightarrow> session \<Rightarrow> (bool \<times> fund_msg) \<times> session" where
  "credit_sale_proceeds sq en amount = locked_op sq en (credit_body amount)"

definition unrealized_body :: "amount \<Rightarrow> funds \<Rightarrow> verdict result" where
  "unrealized_body unrealized f =
     rbind unrealized (\<lambda>u.
       Ret (Accept (f\<lparr>fd_unrealized := u, fd_total := dadd (fd_realized f) u\<rparr>) UnrealizedUpdated))"

definition update_unrealized_pnl ::
  "sql_rules \<Rightarrow> fund_env \<Rightarrow> amount \<Rightarrow> session \<Rightarrow> (bool \<times> fund_msg) \<times> session" where
  "update_unrealized_pnl sq en unrealized = locked_op sq en (unrealized_body unrealized)"

definition check_margin_available ::
  "sql_rules \<Rightarrow> fund_env \<Rightarrow> amount \<Rightarrow> session \<Rightarrow> (bool \<times> fund_msg) \<times> session" where
  "check_margin_available sq en required ss =
     (case ensure_funds_initialized sq en ss of
        (Inl e, s1) \<Rightarrow> ((False, OpError e), s1)
      | (Inr None, s1) \<Rightarrow> ((False, NotInitialized), s1)
      | (Inr (Some f), s1) \<Rightarrow>
          case required of
            Inl e \<Rightarrow> ((False, OpError e), s1)
          | Inr r \<Rightarrow>
              if r \<le> fd_available f then ((True, Sufficient), s1)
              else ((False, Insufficient r (fd_available f) (dsub r (fd_available f))), s1))"

section \<open>The staged change\<close>

text \<open>
  One conditional \<open>UPDATE\<close> computed by the database. What the session reads back afterwards went
  through the columns, since the cached row is expired; nothing is committed.
\<close>

definition staged_guard :: "sql_rules \<Rightarrow> rat \<Rightarrow> funds \<Rightarrow> bool" where
  "staged_guard sq d f = (if 0 < d then sql_ge sq (fd_available f) d else sql_ge sq (fd_used f) (- d))"

definition staged_row :: "sql_rules \<Rightarrow> rat \<Rightarrow> funds \<Rightarrow> funds" where
  "staged_row sq d f =
     f\<lparr>fd_available := sql_col sq (sql_sub sq (fd_available f) d), fd_used := sql_col sq (sql_add sq (fd_used f) d)\<rparr>"

definition stage_margin_delta ::
  "sql_rules \<Rightarrow> fund_env \<Rightarrow> amount \<Rightarrow> session \<Rightarrow> (bool \<times> fund_msg) \<times> session" where
  "stage_margin_delta sq en delta ss =
     (case ensure_funds_initialized sq en ss of
        (Inl e, s1) \<Rightarrow> ((False, OpError e), s1)
      | (Inr None, s1) \<Rightarrow> ((False, NotInitialized), s1)
      | (Inr (Some f), s1) \<Rightarrow>
          case delta of
            Inl e \<Rightarrow> ((False, OpError e), s1)
          | Inr d \<Rightarrow>
              if d = 0 then ((True, NoChange), s1)
              else
                case en_fail en StageUpdate of
                  Some e \<Rightarrow> ((False, OpError e), s1)
                | None \<Rightarrow>
                    if \<not> staged_guard sq d f
                    then ((False, if 0 < d then ShortOfStaged d else StageTooMuch (- d)), s1)
                    else
                      case en_fail en StageExpire of
                        Some e \<Rightarrow> ((False, OpError e), put_funds (staged_row sq d f) s1)
                      | None \<Rightarrow> ((True, Staged d), put_funds (staged_row sq d f) s1))"

section \<open>The scheduled reset\<close>

text \<open>Instants are microseconds of the Indian wall clock, counted from midnight of 1 January 1970, a Thursday.\<close>

definition weekday_name :: "int \<Rightarrow> string" where
  "weekday_name now =
     [''Thursday'', ''Friday'', ''Saturday'', ''Sunday'', ''Monday'', ''Tuesday'', ''Wednesday'']
       ! nat ((now div day_length) mod 7)"

fun split_colon :: "string \<Rightarrow> string list" where
  "split_colon [] = [[]]"
| "split_colon (c # cs) =
     (if c = CHR '':'' then [] # split_colon cs
      else case split_colon cs of [] \<Rightarrow> [[c]] | w # ws \<Rightarrow> (c # w) # ws)"

definition reset_instant :: "string \<Rightarrow> int \<Rightarrow> int result" where
  "reset_instant hhmm now =
     (case split_colon hhmm of
        [h, m] \<Rightarrow>
          rbind (int_of_str h) (\<lambda>hour. rbind (int_of_str m) (\<lambda>minute.
            if 0 \<le> hour \<and> hour \<le> 23 \<and> 0 \<le> minute \<and> minute \<le> 59
            then Ret ((now div day_length) * day_length + (hour * 60 + minute) * 60000000)
            else Raise ValueError))
      | _ \<Rightarrow> Raise ValueError)"

definition reset_row :: "fund_env \<Rightarrow> funds \<Rightarrow> funds" where
  "reset_row en f =
     \<lparr> fd_capital = en_capital en, fd_available = en_capital en, fd_used = 0, fd_realized = 0,
       fd_today = Some 0, fd_unrealized = 0, fd_total = 0, fd_last_reset = en_now en,
       fd_resets = fd_resets f + 1 \<rparr>"

text \<open>Two commits: the row first, then the deletion of the positions and the holdings.\<close>

definition reset_funds :: "sql_rules \<Rightarrow> fund_env \<Rightarrow> funds \<Rightarrow> session \<Rightarrow> session" where
  "reset_funds sq en f ss =
     (case en_fail en OpCommit of
        Some e \<Rightarrow> rollback (put_funds (reset_row en f) ss)
      | None \<Rightarrow>
          (let s1 = commit sq (put_funds (reset_row en f) ss) in
           case en_fail en ResetDelete of
             Some e \<Rightarrow> rollback s1
           | None \<Rightarrow> commit sq (s1\<lparr>ss_cur := (ss_cur s1)\<lparr>lg_positions := [], lg_holdings := []\<rparr>\<rparr>)))"

definition check_and_reset_funds ::
  "sql_rules \<Rightarrow> fund_env \<Rightarrow> string \<Rightarrow> string \<Rightarrow> funds \<Rightarrow> session \<Rightarrow> session" where
  "check_and_reset_funds sq en reset_day reset_time f ss =
     (if str_lower reset_day = ''never'' then ss
      else if weekday_name (en_now en) \<noteq> reset_day then ss
      else
        case reset_instant reset_time (en_now en) of
          Inl e \<Rightarrow> ss
        | Inr due \<Rightarrow>
            if due \<le> en_now en \<and> fd_last_reset f < due then reset_funds sq en f ss else ss)"

record funds_view =
  fv_availablecash :: pyfloat
  fv_collateral :: pyfloat
  fv_m2munrealized :: pyfloat
  fv_m2mrealized :: pyfloat
  fv_total_realized :: pyfloat
  fv_today_realized :: pyfloat
  fv_utiliseddebits :: pyfloat
  fv_grossexposure :: pyfloat
  fv_totalpnl :: pyfloat
  fv_last_reset :: int
  fv_reset_count :: int

definition view_of :: "funds \<Rightarrow> funds_view" where
  "view_of f =
     (let today = to_double (case fd_today f of None \<Rightarrow> 0 | Some t \<Rightarrow> t) in
      \<lparr> fv_availablecash = to_double (fd_available f), fv_collateral = 0,
        fv_m2munrealized = to_double (fd_unrealized f), fv_m2mrealized = today,
        fv_total_realized = to_double (fd_realized f), fv_today_realized = today,
        fv_utiliseddebits = to_double (fd_used f), fv_grossexposure = to_double (fd_used f),
        fv_totalpnl = to_double (fd_total f), fv_last_reset = fd_last_reset f,
        fv_reset_count = fd_resets f \<rparr>)"

definition get_funds :: "sql_rules \<Rightarrow> fund_env \<Rightarrow> string \<Rightarrow> string \<Rightarrow> session \<Rightarrow> funds_view option \<times> session" where
  "get_funds sq en reset_day reset_time ss =
     (case ensure_funds_initialized sq en ss of
        (Inl e, s1) \<Rightarrow> (None, s1)
      | (Inr None, s1) \<Rightarrow> (None, s1)
      | (Inr (Some f), s1) \<Rightarrow>
          (let s2 = check_and_reset_funds sq en reset_day reset_time f s1 in
           (map_option view_of (lg_funds (ss_cur s2)), s2)))"

section \<open>The margin of a trade\<close>

definition crypto_exchanges :: "string set" where
  "crypto_exchanges = {''CRYPTO''}"

definition fno_exchanges :: "string set" where
  "fno_exchanges = {''NFO'', ''BFO'', ''MCX'', ''CDS'', ''BCD'', ''NCDEX'', ''NCO''} \<union> crypto_exchanges"

definition ends_with :: "string \<Rightarrow> string \<Rightarrow> bool" where
  "ends_with s suf = (length suf \<le> length s \<and> drop (length s - length suf) s = suf)"

definition is_option :: "string \<Rightarrow> string \<Rightarrow> bool" where
  "is_option symbol exch = (exch \<in> fno_exchanges \<and> (ends_with symbol ''CE'' \<or> ends_with symbol ''PE''))"

definition is_future :: "string \<Rightarrow> string \<Rightarrow> bool" where
  "is_future symbol exch =
     (if exch \<in> crypto_exchanges then \<not> (ends_with symbol ''CE'' \<or> ends_with symbol ''PE'')
      else exch \<in> fno_exchanges - crypto_exchanges \<and> ends_with symbol ''FUT'')"

text \<open>\<open>cfg key default\<close> is \<open>Decimal(get_config(key, default))\<close>; an exception falls back to one.\<close>

definition get_leverage ::
  "(string \<Rightarrow> string \<Rightarrow> amount) \<Rightarrow> string \<Rightarrow> string \<Rightarrow> string \<Rightarrow> string option \<Rightarrow> rat" where
  "get_leverage cfg exch product symbol action =
     (case
        (if exch \<in> {''NSE'', ''BSE''} then
           (if product = ''MIS'' then cfg ''equity_mis_leverage'' ''5''
            else cfg ''equity_cnc_leverage'' ''1'')
         else if is_future symbol exch then cfg ''futures_leverage'' ''10''
         else if is_option symbol exch then
           (if action = Some ''BUY'' then cfg ''option_buy_leverage'' ''1''
            else cfg ''option_sell_leverage'' ''1'')
         else Ret 1)
      of Inl e \<Rightarrow> 1 | Inr l \<Rightarrow> l)"

datatype margin_msg = MarginSymbolNotFound | MarginCalculated | MarginError pyexc

definition calculate_margin_required ::
  "(string \<Rightarrow> string \<Rightarrow> amount) \<Rightarrow> (string \<Rightarrow> string \<Rightarrow> bool result) \<Rightarrow> string \<Rightarrow> string \<Rightarrow> string \<Rightarrow>
     int result \<Rightarrow> amount \<Rightarrow> string option \<Rightarrow> rat option \<times> margin_msg" where
  "calculate_margin_required cfg known symbol exch product quantity price action =
     (case rbind quantity (\<lambda>n. rbind price (\<lambda>p. rbind (known symbol exch) (\<lambda>k.
        if \<not> k then Ret None
        else rbind (ddiv (dmul (of_int \<bar>n\<bar>) p) (get_leverage cfg exch product symbol action)) (\<lambda>m. Ret (Some m)))))
      of Inl e \<Rightarrow> (None, MarginError e)
       | Inr None \<Rightarrow> (None, MarginSymbolNotFound)
       | Inr (Some m) \<Rightarrow> (Some m, MarginCalculated))"

section \<open>Reconciliation\<close>

definition margin_or_zero :: "rat option \<Rightarrow> rat" where
  "margin_or_zero m = (case m of None \<Rightarrow> 0 | Some x \<Rightarrow> x)"

definition dsum :: "rat list \<Rightarrow> rat" where
  "dsum xs = foldl dadd 0 xs"

definition position_margin :: "ledger \<Rightarrow> rat" where
  "position_margin l =
     dsum (map (\<lambda>p. margin_or_zero (pos_margin p)) (filter (\<lambda>p. pos_quantity p \<noteq> 0) (lg_positions l)))"

definition active_gtt_margin :: "ledger \<Rightarrow> rat" where
  "active_gtt_margin l =
     dsum (map (\<lambda>g. margin_or_zero (gtt_margin g)) (filter (\<lambda>g. gtt_status g = ''active'') (lg_gtts l)))"

datatype reconcile_msg = GttUnavailable | NoFundsRecord | NoDiscrepancy | Reconciled rat | DetectedOnly rat
  | ReconcileError pyexc

definition reconcile_margin ::
  "sql_rules \<Rightarrow> fund_env \<Rightarrow> bool \<Rightarrow> session \<Rightarrow> (bool \<times> rat \<times> reconcile_msg) \<times> session" where
  "reconcile_margin sq en auto_fix ss =
     (case en_fail en PositionsQuery of
        Some e \<Rightarrow> ((False, 0, ReconcileError e), rollback ss)
      | None \<Rightarrow>
          case en_fail en GttQuery of
            Some e \<Rightarrow> ((False, 0, GttUnavailable), ss)
          | None \<Rightarrow>
              (let held = dadd (position_margin (ss_cur ss)) (active_gtt_margin (ss_cur ss)) in
               case en_fail en FundsQuery of
                 Some e \<Rightarrow> ((False, 0, ReconcileError e), rollback ss)
               | None \<Rightarrow>
                   case lg_funds (ss_cur ss) of
                     None \<Rightarrow> ((False, 0, NoFundsRecord), ss)
                   | Some f \<Rightarrow>
                       (let discrepancy = dsub (fd_used f) held in
                        if discrepancy = 0 then ((False, 0, NoDiscrepancy), ss)
                        else if \<not> auto_fix then ((True, discrepancy, DetectedOnly discrepancy), ss)
                        else
                          (let s1 = put_funds (f\<lparr>fd_used := held,
                                       fd_available := dadd (fd_available f) discrepancy\<rparr>) ss in
                           case en_fail en OpCommit of
                             Some e \<Rightarrow> ((False, 0, ReconcileError e), rollback s1)
                           | None \<Rightarrow> ((True, discrepancy, Reconciled discrepancy), commit sq s1)))))"

definition validate_margin_consistency :: "fund_env \<Rightarrow> session \<Rightarrow> bool \<times> rat" where
  "validate_margin_consistency en ss =
     (if en_fail en PositionsQuery \<noteq> None \<or> en_fail en FundsQuery \<noteq> None then (True, 0)
      else
        case lg_funds (ss_cur ss) of
          None \<Rightarrow> (True, 0)
        | Some f \<Rightarrow>
            (let discrepancy = dsub (fd_used f) (position_margin (ss_cur ss)) in
             if discrepancy \<noteq> 0 then (False, discrepancy) else (True, 0)))"

section \<open>All users\<close>

text \<open>
  The jobs run in a session of their own with nothing staged, so the rows of one user are a
  session by themselves. The count of the reset job counts the users it tried.
\<close>

fun reset_each ::
  "sql_rules \<Rightarrow> (string \<Rightarrow> fund_env result) \<Rightarrow> (string \<times> session) list \<Rightarrow> nat \<times> (string \<times> session) list" where
  "reset_each sq envs [] = (0, [])"
| "reset_each sq envs ((user, ss) # rest) =
     (let (n, rest') = reset_each sq envs rest in
      case lg_funds (ss_cur ss) of
        None \<Rightarrow> (n, (user, ss) # rest')
      | Some f \<Rightarrow>
          case envs user of
            Inl e \<Rightarrow> (n, (user, ss) # rest')
          | Inr en \<Rightarrow> (n + 1, (user, reset_funds sq en f ss) # rest'))"

record reconcile_summary =
  rs_checked :: nat
  rs_found :: nat
  rs_released :: rat

fun reconcile_each ::
  "sql_rules \<Rightarrow> (string \<Rightarrow> fund_env) \<Rightarrow> (string \<times> session) list \<Rightarrow> reconcile_summary
     \<Rightarrow> reconcile_summary \<times> (string \<times> session) list" where
  "reconcile_each sq envs [] acc = (acc, [])"
| "reconcile_each sq envs ((user, ss) # rest) acc =
     (if lg_funds (ss_cur ss) = None then
        (let (acc', rest') = reconcile_each sq envs rest acc in (acc', (user, ss) # rest'))
      else
        (let ((found, x, msg), ss') = reconcile_margin sq (envs user) True ss;
             acc1 = acc\<lparr>rs_checked := rs_checked acc + 1\<rparr>;
             acc2 = (if found then acc1\<lparr>rs_found := rs_found acc1 + 1,
                                        rs_released := dadd (rs_released acc1) x\<rparr> else acc1);
             (acc', rest') = reconcile_each sq envs rest acc2
         in (acc', (user, ss') # rest')))"

definition reconcile_all_users_margin ::
  "sql_rules \<Rightarrow> (string \<Rightarrow> fund_env) \<Rightarrow> (string \<times> session) list
     \<Rightarrow> (nat \<times> nat \<times> pyfloat) \<times> (string \<times> session) list" where
  "reconcile_all_users_margin sq envs users =
     (let (acc, users') = reconcile_each sq envs users \<lparr>rs_checked = 0, rs_found = 0, rs_released = 0\<rparr>
      in ((rs_checked acc, rs_found acc, to_double (rs_released acc)), users'))"

end
