(* ===== verification/Accounts.thy ===== *)
theory Accounts
  imports Main
begin

text \<open>
  The interface of a ledger: events move a state whose worth changes by a known amount at every
  event that stays within the ledger's limits. The client gets that over a whole history the
  worth is the opening worth plus the flows of the history, and that the ledger's invariant
  holds at the end. The sandbox account is an instance.
\<close>

fun all_fit :: "('s \<Rightarrow> 'e \<Rightarrow> 's) \<Rightarrow> ('s \<Rightarrow> 'e \<Rightarrow> bool) \<Rightarrow> 's \<Rightarrow> 'e list \<Rightarrow> bool" where
  "all_fit step fits s [] = True"
| "all_fit step fits s (e # es) = (fits s e \<and> all_fit step fits (step s e) es)"

fun total_flow :: "('s \<Rightarrow> 'e \<Rightarrow> 's) \<Rightarrow> ('s \<Rightarrow> 'e \<Rightarrow> 'm::comm_monoid_add) \<Rightarrow> 's \<Rightarrow> 'e list \<Rightarrow> 'm" where
  "total_flow step flow s [] = 0"
| "total_flow step flow s (e # es) = flow s e + total_flow step flow (step s e) es"

locale accounts =
  fixes step :: "'s \<Rightarrow> 'e \<Rightarrow> 's"
    and ok :: "'s \<Rightarrow> bool"
    and fits :: "'s \<Rightarrow> 'e \<Rightarrow> bool"
    and worth :: "'s \<Rightarrow> 'm::comm_monoid_add"
    and flow :: "'s \<Rightarrow> 'e \<Rightarrow> 'm"
  assumes ok_step: "ok s \<Longrightarrow> fits s e \<Longrightarrow> ok (step s e)"
    and worth_step: "ok s \<Longrightarrow> fits s e \<Longrightarrow> worth (step s e) = worth s + flow s e"
begin

lemma ok_history: "ok s \<Longrightarrow> all_fit step fits s es \<Longrightarrow> ok (foldl step s es)"
  by (induction es arbitrary: s) (auto simp: ok_step)

lemma worth_history:
  "ok s \<Longrightarrow> all_fit step fits s es \<Longrightarrow> worth (foldl step s es) = worth s + total_flow step flow s es"
  by (induction es arbitrary: s) (auto simp: ok_step worth_step add.assoc)

end

end
