(* ===== verification/Fund_Ledger.thy ===== *)
theory Fund_Ledger
  imports Fund_Manager Accounts Ratchet
begin

text \<open>
  What the sandbox account promises. The operations of \<open>sandbox/fund_manager.py\<close> become the
  events of a machine, and the lemmas say that the machine is a ledger: it refines a book of
  four exact figures, no margin is ever negative, and a refused operation leaves the database
  as it was. The hypotheses on the database are \<open>exact_rules\<close> (a \<open>DECIMAL(15,2)\<close> column returns an
  amount of whole cents below \<open>10^13\<close> as it was stored, and the database adds, subtracts and
  compares such amounts exactly) and \<open>sign_rules\<close> (rounding never turns a non-negative figure
  negative).
\<close>

section \<open>What is assumed of the database\<close>

definition exact_rules :: "sql_rules \<Rightarrow> bool" where
  "exact_rules sq =
     ((\<forall>x. money x \<longrightarrow> sql_col sq x = x) \<and>
      (\<forall>x y. money x \<and> money y \<and> fits_column (x - y) \<longrightarrow> sql_col sq (sql_sub sq x y) = x - y) \<and>
      (\<forall>x y. money x \<and> money y \<and> fits_column (x + y) \<longrightarrow> sql_col sq (sql_add sq x y) = x + y) \<and>
      (\<forall>x y. money x \<and> money y \<longrightarrow> sql_ge sq x y = (y \<le> x)))"

definition sign_rules :: "sql_rules \<Rightarrow> bool" where
  "sign_rules sq =
     ((\<forall>x. 0 \<le> x \<longrightarrow> 0 \<le> sql_col sq x) \<and>
      (\<forall>x y. 0 \<le> x \<and> 0 \<le> y \<longrightarrow> 0 \<le> sql_add sq x y) \<and>
      (\<forall>x y. sql_ge sq x (- y) \<longrightarrow> 0 \<le> sql_add sq x y))"

text \<open>A database that rounds to cents and is otherwise exact has both.\<close>

definition ideal_sql :: sql_rules where
  "ideal_sql = \<lparr> sql_col = (\<lambda>x. of_int (round_half_even (x * 100)) / 100), sql_sub = (-), sql_add = (+),
                 sql_ge = (\<lambda>x y. y \<le> x) \<rparr>"

lemma ideal_col: "cents x \<Longrightarrow> sql_col ideal_sql x = x"
  by (auto simp: ideal_sql_def cents_iff)

lemma ideal_arith: "sql_sub ideal_sql = (-)" "sql_add ideal_sql = (+)" "sql_ge ideal_sql x y = (y \<le> x)"
  by (simp_all add: ideal_sql_def)

lemma exact_ideal: "exact_rules ideal_sql"
  by (simp add: exact_rules_def money_def ideal_col ideal_arith cents_add cents_diff)

lemma sign_ideal: "sign_rules ideal_sql"
  by (auto simp: sign_rules_def ideal_sql_def intro!: round_half_even_ge)

section \<open>Events\<close>

datatype fund_op =
    BlockOp amount | ReleaseOp amount amount | TransferOp amount | CreditOp amount
  | UnrealizedOp amount | AvailableOp amount | StageOp amount | CommitTx | RollbackTx
  | ResetFunds | ReconcileOp bool

type_synonym fund_event = "fund_env \<times> fund_op"

text \<open>Whether the operation reports success, and the session it leaves.\<close>

fun fund_exec :: "sql_rules \<Rightarrow> fund_event \<Rightarrow> session \<Rightarrow> bool \<times> session" where
  "fund_exec sq (en, BlockOp a) s = (let ((ok, m), s') = block_margin sq en a s in (ok, s'))"
| "fund_exec sq (en, ReleaseOp a p) s = (let ((ok, m), s') = release_margin sq en a p s in (ok, s'))"
| "fund_exec sq (en, TransferOp a) s = (let ((ok, m), s') = transfer_margin_to_holdings sq en a s in (ok, s'))"
| "fund_exec sq (en, CreditOp a) s = (let ((ok, m), s') = credit_sale_proceeds sq en a s in (ok, s'))"
| "fund_exec sq (en, UnrealizedOp u) s = (let ((ok, m), s') = update_unrealized_pnl sq en u s in (ok, s'))"
| "fund_exec sq (en, AvailableOp a) s = (let ((ok, m), s') = check_margin_available sq en a s in (ok, s'))"
| "fund_exec sq (en, StageOp d) s = (let ((ok, m), s') = stage_margin_delta sq en d s in (ok, s'))"
| "fund_exec sq (en, CommitTx) s =
     (if en_fail en OpCommit = None then (True, commit sq s) else (False, rollback s))"
| "fund_exec sq (en, RollbackTx) s = (True, rollback s)"
| "fund_exec sq (en, ResetFunds) s =
     (case lg_funds (ss_cur s) of
        None \<Rightarrow> (False, s)
      | Some f \<Rightarrow> (en_fail en OpCommit = None, reset_funds sq en f s))"
| "fund_exec sq (en, ReconcileOp repair) s = (let ((found, x, m), s') = reconcile_margin sq en repair s in (found, s'))"

definition fund_step :: "sql_rules \<Rightarrow> session \<Rightarrow> fund_event \<Rightarrow> session" where
  "fund_step sq s ev = snd (fund_exec sq ev s)"

section \<open>What an operation can do to the session\<close>

lemma ensure_some [simp]:
  "lg_funds (ss_cur s) = Some f \<Longrightarrow>
   ensure_funds_initialized sq en s = (case en_fail en FundsQuery of Some e \<Rightarrow> (Raise e, s) | None \<Rightarrow> (Ret (Some f), s))"
  by (simp add: ensure_funds_initialized_def split: option.splits)

lemma rollback_put [simp]: "rollback (put_funds f s) = rollback s"
  by (simp add: rollback_def put_funds_def)

lemma put_funds_sel [simp]:
  "ss_db (put_funds f s) = ss_db s" "lg_funds (ss_cur (put_funds f s)) = Some f"
  "lg_positions (ss_cur (put_funds f s)) = lg_positions (ss_cur s)"
  "lg_gtts (ss_cur (put_funds f s)) = lg_gtts (ss_cur s)"
  by (simp_all add: put_funds_def)

lemma rollback_sel [simp]: "ss_db (rollback s) = ss_db s" "ss_cur (rollback s) = ss_db s"
  by (simp_all add: rollback_def)

lemma commit_sel [simp]:
  "ss_db (commit sq s) = ss_cur (commit sq s)"
  "lg_funds (ss_cur (commit sq s)) = map_option (stored_funds sq) (lg_funds (ss_cur s))"
  "lg_positions (ss_cur (commit sq s)) = lg_positions (ss_cur s)"
  "lg_gtts (ss_cur (commit sq s)) = lg_gtts (ss_cur s)"
  by (simp_all add: commit_def Let_def)

lemma locked_op_cases:
  assumes "lg_funds (ss_cur s) = Some f"
  obtains (raised) e where "locked_op sq en body s = ((False, OpError e), rollback s)"
  | (refused) msg where "body f = Ret (Refuse msg)" "locked_op sq en body s = ((False, msg), s)"
  | (accepted) f' msg where "body f = Ret (Accept f' msg)" "en_fail en OpCommit = None"
      "locked_op sq en body s = ((True, msg), commit sq (put_funds f' s))"
proof (cases "body f")
  case (Inr v)
  with assms that show ?thesis
    by (cases v; cases "en_fail en FundsQuery"; cases "en_fail en OpCommit") (auto simp: locked_op_def)
qed (use assms raised in \<open>cases "en_fail en FundsQuery"; auto simp: locked_op_def\<close>)

section \<open>Rows in exact cents\<close>

definition today_of :: "funds \<Rightarrow> rat" where
  "today_of f = (case fd_today f of None \<Rightarrow> 0 | Some t \<Rightarrow> t)"

definition row_ok :: "funds \<Rightarrow> bool" where
  "row_ok f =
     (money (fd_capital f) \<and> money (fd_available f) \<and> money (fd_used f) \<and> money (fd_realized f) \<and>
      money (today_of f) \<and> money (fd_unrealized f) \<and> money (fd_realized f + fd_unrealized f) \<and>
      fd_total f = fd_realized f + fd_unrealized f)"

definition row_size :: "funds \<Rightarrow> rat" where
  "row_size f = \<bar>fd_available f\<bar> + \<bar>fd_used f\<bar> + \<bar>fd_realized f\<bar> + \<bar>fd_unrealized f\<bar> + \<bar>today_of f\<bar>"

definition row_equity :: "funds \<Rightarrow> rat" where
  "row_equity f = fd_available f + fd_used f"

lemma stored_exact: "exact_rules sq \<Longrightarrow> row_ok f \<Longrightarrow> stored_funds sq f = f"
  by (cases "fd_today f") (auto simp: stored_funds_def exact_rules_def row_ok_def today_of_def)

lemma money_dadd: "cents x \<Longrightarrow> cents y \<Longrightarrow> \<bar>x + y\<bar> < 10 ^ 13 \<Longrightarrow> dadd x y = x + y \<and> money (x + y)"
  by (simp add: dadd_def money_def fits_column_def cents_add ctx28_exact)

lemma money_dsub: "cents x \<Longrightarrow> cents y \<Longrightarrow> \<bar>x - y\<bar> < 10 ^ 13 \<Longrightarrow> dsub x y = x - y \<and> money (x - y)"
  by (simp add: dsub_def money_def fits_column_def cents_diff ctx28_exact)

lemma moneyI: "cents x \<Longrightarrow> \<bar>x\<bar> < 10 ^ 13 \<Longrightarrow> money x"
  by (simp add: money_def fits_column_def)

lemma money_cents: "money x \<Longrightarrow> cents x"
  by (simp add: money_def)

text \<open>The row each body accepts, in exact arithmetic.\<close>

lemma block_exact:
  assumes f: "row_ok f" and a: "cents a" "row_size f + \<bar>a\<bar> < 10 ^ 13"
  shows "block_body (Ret a) f =
      (if a \<le> 0 then Ret (Refuse (BlockNotPositive a))
       else if fd_available f < a then Ret (Refuse (ShortOf a (fd_available f)))
       else Ret (Accept (f\<lparr>fd_available := fd_available f - a, fd_used := fd_used f + a\<rparr>) (Blocked a)))"
    and "row_ok (f\<lparr>fd_available := fd_available f - a, fd_used := fd_used f + a\<rparr>)"
proof -
  have "cents (fd_available f)" "cents (fd_used f)" using f by (auto simp: row_ok_def money_cents)
  moreover have "\<bar>fd_available f - a\<bar> < 10 ^ 13" "\<bar>fd_used f + a\<bar> < 10 ^ 13"
    using a(2) unfolding row_size_def by linarith+
  ultimately have "dsub (fd_available f) a = fd_available f - a \<and> money (fd_available f - a)"
      "dadd (fd_used f) a = fd_used f + a \<and> money (fd_used f + a)"
    using a by (intro money_dsub money_dadd; simp)+
  with f show "block_body (Ret a) f =
      (if a \<le> 0 then Ret (Refuse (BlockNotPositive a))
       else if fd_available f < a then Ret (Refuse (ShortOf a (fd_available f)))
       else Ret (Accept (f\<lparr>fd_available := fd_available f - a, fd_used := fd_used f + a\<rparr>) (Blocked a)))"
    "row_ok (f\<lparr>fd_available := fd_available f - a, fd_used := fd_used f + a\<rparr>)"
    by (simp_all add: block_body_def row_ok_def today_of_def)
qed

definition released_row :: "rat \<Rightarrow> rat \<Rightarrow> funds \<Rightarrow> funds" where
  "released_row a p f =
     f\<lparr> fd_used := fd_used f - a, fd_available := fd_available f + a + p, fd_realized := fd_realized f + p,
        fd_today := Some (today_of f + p), fd_total := fd_realized f + p + fd_unrealized f \<rparr>"

lemma release_exact:
  assumes f: "row_ok f" and a: "cents a" "cents p" "row_size f + (\<bar>a\<bar> + \<bar>p\<bar>) < 10 ^ 13"
  shows "release_body (Ret a) (Ret p) f =
      (if a < 0 then Ret (Refuse (ReleaseNegative a))
       else if fd_used f < a then Ret (Refuse (ReleaseTooMuch a (fd_used f)))
       else Ret (Accept (released_row a p f) (Released a p)))"
    and "row_ok (released_row a p f)"
proof -
  have c: "cents (fd_available f)" "cents (fd_used f)" "cents (fd_realized f)" "cents (fd_unrealized f)"
      "cents (today_of f)" using f by (auto simp: row_ok_def money_cents)
  have b: "\<bar>fd_available f + a\<bar> < 10 ^ 13" "\<bar>fd_available f + a + p\<bar> < 10 ^ 13" "\<bar>fd_used f - a\<bar> < 10 ^ 13"
      "\<bar>fd_realized f + p\<bar> < 10 ^ 13" "\<bar>today_of f + p\<bar> < 10 ^ 13"
      "\<bar>fd_realized f + p + fd_unrealized f\<bar> < 10 ^ 13"
    using a(3) unfolding row_size_def by linarith+
  note d = money_dadd [OF c(1) a(1) b(1)] money_dadd [OF cents_add [OF c(1) a(1)] a(2) b(2)]
    money_dsub [OF c(2) a(1) b(3)] money_dadd [OF c(3) a(2) b(4)] money_dadd [OF c(5) a(2) b(5)]
    money_dadd [OF cents_add [OF c(3) a(2)] c(4) b(6)]
  from d f show "row_ok (released_row a p f)"
    by (simp add: released_row_def row_ok_def today_of_def)
  from d show "release_body (Ret a) (Ret p) f =
      (if a < 0 then Ret (Refuse (ReleaseNegative a))
       else if fd_used f < a then Ret (Refuse (ReleaseTooMuch a (fd_used f)))
       else Ret (Accept (released_row a p f) (Released a p)))"
    by (simp add: release_body_def released_row_def Let_def today_of_def [symmetric])
qed

lemma transfer_exact:
  assumes f: "row_ok f" and a: "cents a" "row_size f + \<bar>a\<bar> < 10 ^ 13"
  shows "transfer_body (Ret a) f =
      (if a \<le> 0 then Ret (Refuse (TransferNotPositive a))
       else if fd_used f < a then Ret (Refuse (TransferTooMuch a (fd_used f)))
       else Ret (Accept (f\<lparr>fd_used := fd_used f - a\<rparr>) (Transferred a)))"
    and "row_ok (f\<lparr>fd_used := fd_used f - a\<rparr>)"
proof -
  have "cents (fd_used f)" using f by (auto simp: row_ok_def money_cents)
  moreover have "\<bar>fd_used f - a\<bar> < 10 ^ 13" using a(2) unfolding row_size_def by linarith
  ultimately have d: "dsub (fd_used f) a = fd_used f - a \<and> money (fd_used f - a)" using a by (intro money_dsub)
  then show "row_ok (f\<lparr>fd_used := fd_used f - a\<rparr>)" using f by (simp add: row_ok_def today_of_def)
  from d show "transfer_body (Ret a) f =
      (if a \<le> 0 then Ret (Refuse (TransferNotPositive a))
       else if fd_used f < a then Ret (Refuse (TransferTooMuch a (fd_used f)))
       else Ret (Accept (f\<lparr>fd_used := fd_used f - a\<rparr>) (Transferred a)))"
    by (simp add: transfer_body_def)
qed

lemma credit_exact:
  assumes f: "row_ok f" and a: "cents a" "row_size f + \<bar>a\<bar> < 10 ^ 13"
  shows "credit_body (Ret a) f =
      (if a \<le> 0 then Ret (Refuse (CreditNotPositive a))
       else Ret (Accept (f\<lparr>fd_available := fd_available f + a\<rparr>) (Credited a)))"
    and "row_ok (f\<lparr>fd_available := fd_available f + a\<rparr>)"
proof -
  have "cents (fd_available f)" using f by (auto simp: row_ok_def money_cents)
  moreover have "\<bar>fd_available f + a\<bar> < 10 ^ 13" using a(2) unfolding row_size_def by linarith
  ultimately have d: "dadd (fd_available f) a = fd_available f + a \<and> money (fd_available f + a)"
    using a by (intro money_dadd)
  then show "row_ok (f\<lparr>fd_available := fd_available f + a\<rparr>)" using f by (simp add: row_ok_def today_of_def)
  from d show "credit_body (Ret a) f =
      (if a \<le> 0 then Ret (Refuse (CreditNotPositive a))
       else Ret (Accept (f\<lparr>fd_available := fd_available f + a\<rparr>) (Credited a)))"
    by (simp add: credit_body_def)
qed

lemma unrealized_exact:
  assumes f: "row_ok f" and u: "cents u" "row_size f + \<bar>u\<bar> < 10 ^ 13"
  shows "unrealized_body (Ret u) f =
      Ret (Accept (f\<lparr>fd_unrealized := u, fd_total := fd_realized f + u\<rparr>) UnrealizedUpdated)"
    and "row_ok (f\<lparr>fd_unrealized := u, fd_total := fd_realized f + u\<rparr>)"
proof -
  have "cents (fd_realized f)" using f by (auto simp: row_ok_def money_cents)
  moreover have "\<bar>fd_realized f + u\<bar> < 10 ^ 13" "\<bar>u\<bar> < 10 ^ 13" using u(2) unfolding row_size_def by linarith+
  ultimately have d: "dadd (fd_realized f) u = fd_realized f + u \<and> money (fd_realized f + u)" "money u"
    using u money_dadd [of "fd_realized f" u] moneyI [of u] by blast+
  then show "row_ok (f\<lparr>fd_unrealized := u, fd_total := fd_realized f + u\<rparr>)" using f
    by (simp add: row_ok_def today_of_def)
  from d show "unrealized_body (Ret u) f =
      Ret (Accept (f\<lparr>fd_unrealized := u, fd_total := fd_realized f + u\<rparr>) UnrealizedUpdated)"
    by (simp add: unrealized_body_def)
qed

lemma staged_exact:
  assumes sq: "exact_rules sq" and f: "row_ok f" and d: "cents d" "row_size f + \<bar>d\<bar> < 10 ^ 13"
  shows "staged_guard sq d f = (if 0 < d then d \<le> fd_available f else - d \<le> fd_used f)"
    and "staged_row sq d f = f\<lparr>fd_available := fd_available f - d, fd_used := fd_used f + d\<rparr>"
    and "row_ok (f\<lparr>fd_available := fd_available f - d, fd_used := fd_used f + d\<rparr>)"
proof -
  have b: "\<bar>d\<bar> < 10 ^ 13" using d(2) unfolding row_size_def by linarith
  have m: "money d" "money (- d)" using d(1) b by (auto intro!: moneyI cents_minus simp del: power_numeral)
  have "fits_column (fd_available f - d)" "fits_column (fd_used f + d)"
    using d(2) unfolding row_size_def fits_column_def by linarith+
  with m f sq show "staged_guard sq d f = (if 0 < d then d \<le> fd_available f else - d \<le> fd_used f)"
      "staged_row sq d f = f\<lparr>fd_available := fd_available f - d, fd_used := fd_used f + d\<rparr>"
    by (auto simp: staged_guard_def staged_row_def exact_rules_def row_ok_def)
  from block_exact(2) [OF f d] show "row_ok (f\<lparr>fd_available := fd_available f - d, fd_used := fd_used f + d\<rparr>)" .
qed

section \<open>The ledger\<close>

definition books_ok :: "session \<Rightarrow> bool" where
  "books_ok s =
     (case (lg_funds (ss_db s), lg_funds (ss_cur s)) of
        (Some g, Some f) \<Rightarrow> row_ok g \<and> row_ok f \<and> row_equity g = row_equity f
      | _ \<Rightarrow> False)"

definition equity :: "session \<Rightarrow> rat" where
  "equity s = (case lg_funds (ss_cur s) of None \<Rightarrow> 0 | Some f \<Rightarrow> row_equity f)"

definition amount_list :: "amount \<Rightarrow> rat list" where
  "amount_list a = (case a of Inl e \<Rightarrow> [] | Inr x \<Rightarrow> [x])"

fun op_amounts :: "fund_env \<Rightarrow> ledger \<Rightarrow> fund_op \<Rightarrow> rat list" where
  "op_amounts en l (BlockOp a) = amount_list a"
| "op_amounts en l (ReleaseOp a p) = amount_list a @ amount_list p"
| "op_amounts en l (TransferOp a) = amount_list a"
| "op_amounts en l (CreditOp a) = amount_list a"
| "op_amounts en l (UnrealizedOp u) = amount_list u"
| "op_amounts en l (StageOp d) = amount_list d"
| "op_amounts en l ResetFunds = [en_capital en]"
| "op_amounts en l (ReconcileOp repair) = [position_margin l, active_gtt_margin l]"
| "op_amounts en l _ = []"

text \<open>An event fits when its amounts are whole cents and no figure it can produce overflows a column.\<close>

definition event_fits :: "session \<Rightarrow> fund_event \<Rightarrow> bool" where
  "event_fits s ev =
     (case lg_funds (ss_cur s) of
        None \<Rightarrow> False
      | Some f \<Rightarrow>
          (let xs = op_amounts (fst ev) (ss_cur s) (snd ev) in
           list_all cents xs \<and> row_size f + sum_list (map abs xs) < 10 ^ 13))"

text \<open>What an accepted event brings into the account from outside.\<close>

definition event_flow :: "sql_rules \<Rightarrow> session \<Rightarrow> fund_event \<Rightarrow> rat" where
  "event_flow sq s ev =
     (if \<not> fst (fund_exec sq ev s) then 0
      else
        case snd ev of
          ReleaseOp a (Inr p) \<Rightarrow> p
        | CreditOp (Inr a) \<Rightarrow> a
        | TransferOp (Inr a) \<Rightarrow> - a
        | ResetFunds \<Rightarrow> en_capital (fst ev) - equity s
        | _ \<Rightarrow> 0)"

lemma books_okE:
  assumes "books_ok s"
  obtains f g where "lg_funds (ss_cur s) = Some f" "lg_funds (ss_db s) = Some g" "row_ok f" "row_ok g"
    "row_equity g = row_equity f"
  using assms by (auto simp: books_ok_def split: option.splits)

lemma books_rollback: "books_ok s \<Longrightarrow> books_ok (rollback s) \<and> equity (rollback s) = equity s"
  by (auto simp: books_ok_def equity_def split: option.splits)

lemma books_commit:
  assumes "exact_rules sq" "lg_funds (ss_cur s) = Some f" "row_ok f"
  shows "books_ok (commit sq s) \<and> equity (commit sq s) = row_equity f"
  using assms by (simp add: books_ok_def equity_def stored_exact)

lemma locked_books:
  assumes "exact_rules sq" "books_ok s" "lg_funds (ss_cur s) = Some f"
    and acc: "\<And>f' m. body f = Ret (Accept f' m) \<Longrightarrow> row_ok f' \<and> row_equity f' = row_equity f + d"
  shows "books_ok (snd (locked_op sq en body s)) \<and>
    equity (snd (locked_op sq en body s)) = equity s + (if fst (fst (locked_op sq en body s)) then d else 0)"
  using assms(3)
proof (cases rule: locked_op_cases [of s f sq en body])
  case (accepted f' msg)
  then show ?thesis using assms(1,3) acc [of f' msg] books_commit [of sq "put_funds f' s" f']
    by (simp add: equity_def)
qed (use assms books_rollback [of s] in auto)

lemmas op_defs_locked = block_margin_def release_margin_def transfer_margin_to_holdings_def
  credit_sale_proceeds_def update_unrealized_pnl_def

lemma stage_books:
  assumes sq: "exact_rules sq" and ok: "books_ok s" and f: "lg_funds (ss_cur s) = Some f"
    and d: "\<And>x. delta = Ret x \<Longrightarrow> cents x \<and> row_size f + \<bar>x\<bar> < 10 ^ 13"
  shows "books_ok (snd (stage_margin_delta sq en delta s)) \<and> equity (snd (stage_margin_delta sq en delta s)) = equity s"
proof (cases delta)
  case (Inl e)
  then show ?thesis using ok f by (auto simp: stage_margin_delta_def split: option.splits)
next
  case (Inr x)
  from ok f have r: "row_ok f" by (auto elim: books_okE)
  with d [OF Inr] sq have st: "row_ok (staged_row sq x f)" "row_equity (staged_row sq x f) = row_equity f"
    using staged_exact(2,3) [of sq f x] by (simp_all add: row_equity_def)
  have "books_ok (put_funds (staged_row sq x f) s) \<and> equity (put_funds (staged_row sq x f) s) = equity s"
    using st ok f by (auto simp: books_ok_def equity_def split: option.splits)
  with Inr ok f show ?thesis
    by (auto simp: stage_margin_delta_def split: option.splits)
qed

lemma reset_books:
  assumes sq: "exact_rules sq" and ok: "books_ok s" and f: "lg_funds (ss_cur s) = Some f" and c: "money (en_capital en)"
  shows "books_ok (reset_funds sq en f s) \<and>
    equity (reset_funds sq en f s) = (if en_fail en OpCommit = None then en_capital en else equity s)"
proof -
  have m0: "money 0" by (simp add: money_def fits_column_def)
  have r: "row_ok (reset_row en f)" "row_equity (reset_row en f) = en_capital en"
    using c m0 by (simp_all add: row_ok_def reset_row_def today_of_def row_equity_def)
  let ?s1 = "commit sq (put_funds (reset_row en f) s)"
  have s1: "books_ok ?s1" "equity ?s1 = en_capital en" "lg_funds (ss_cur ?s1) = Some (reset_row en f)"
    using books_commit [OF sq _ r(1), of "put_funds (reset_row en f) s"] r stored_exact [OF sq r(1)] by auto
  let ?s2 = "?s1\<lparr>ss_cur := (ss_cur ?s1)\<lparr>lg_positions := [], lg_holdings := []\<rparr>\<rparr>"
  have "books_ok (commit sq ?s2) \<and> equity (commit sq ?s2) = en_capital en"
    using books_commit [OF sq _ r(1), of ?s2] s1(3) r(2) by simp
  with s1 books_rollback [OF s1(1)] books_rollback [OF ok] show ?thesis
    by (auto simp: reset_funds_def Let_def split: option.splits)
qed

lemma held_exact:
  assumes "cents p" "cents g" "\<bar>p\<bar> + \<bar>g\<bar> < 10 ^ 13"
  shows "dadd p g = p + g" and "money (p + g)"
  using assms money_dadd [of p g] by auto

lemma discrepancy_exact:
  assumes r: "row_ok f" and h: "cents p" "cents g" "row_size f + (\<bar>p\<bar> + \<bar>g\<bar>) < 10 ^ 13"
  shows "dadd p g = p + g" and "dsub (fd_used f) (p + g) = fd_used f - (p + g)"
    and "dadd (fd_available f) (fd_used f - (p + g)) = fd_available f + (fd_used f - (p + g))"
    and "row_ok (f\<lparr>fd_used := p + g, fd_available := fd_available f + (fd_used f - (p + g))\<rparr>)"
proof -
  have c: "cents (fd_used f)" "cents (fd_available f)" "cents (p + g)" "cents (fd_used f - (p + g))"
    using r h by (auto simp: row_ok_def money_cents cents_add cents_diff)
  have b: "\<bar>p + g\<bar> < 10 ^ 13" "\<bar>fd_used f - (p + g)\<bar> < 10 ^ 13"
      "\<bar>fd_available f + (fd_used f - (p + g))\<bar> < 10 ^ 13"
    using h(3) unfolding row_size_def by linarith+
  note d = money_dadd [OF h(1,2) b(1)] money_dsub [OF c(1,3) b(2)] money_dadd [OF c(2,4) b(3)]
  from d show "dadd p g = p + g" "dsub (fd_used f) (p + g) = fd_used f - (p + g)"
      "dadd (fd_available f) (fd_used f - (p + g)) = fd_available f + (fd_used f - (p + g))" by auto
  from d r show "row_ok (f\<lparr>fd_used := p + g, fd_available := fd_available f + (fd_used f - (p + g))\<rparr>)"
    by (simp add: row_ok_def today_of_def)
qed

lemma reconcile_books:
  assumes sq: "exact_rules sq" and ok: "books_ok s" and f: "lg_funds (ss_cur s) = Some f"
    and h: "cents (position_margin (ss_cur s))" "cents (active_gtt_margin (ss_cur s))"
      "row_size f + (\<bar>position_margin (ss_cur s)\<bar> + \<bar>active_gtt_margin (ss_cur s)\<bar>) < 10 ^ 13"
  shows "books_ok (snd (reconcile_margin sq en repair s)) \<and> equity (snd (reconcile_margin sq en repair s)) = equity s"
proof -
  from ok f have r: "row_ok f" by (auto elim: books_okE)
  note d = discrepancy_exact [OF r h]
  let ?f = "f\<lparr>fd_used := position_margin (ss_cur s) + active_gtt_margin (ss_cur s),
    fd_available := fd_available f + (fd_used f - (position_margin (ss_cur s) + active_gtt_margin (ss_cur s)))\<rparr>"
  have "books_ok (commit sq (put_funds ?f s)) \<and> equity (commit sq (put_funds ?f s)) = equity s"
    using books_commit [OF sq _ d(4), of "put_funds ?f s"] f by (simp add: row_equity_def equity_def)
  with ok books_rollback [OF ok] f show ?thesis
    by (auto simp: reconcile_margin_def Let_def d(1-3) split: option.splits)
qed

lemma fits_amount: "event_fits s (en, op) \<Longrightarrow> lg_funds (ss_cur s) = Some f \<Longrightarrow>
    op_amounts en (ss_cur s) op = [x] \<Longrightarrow> cents x \<and> row_size f + \<bar>x\<bar> < 10 ^ 13"
  by (simp add: event_fits_def Let_def)

lemma fits_amount2: "event_fits s (en, op) \<Longrightarrow> lg_funds (ss_cur s) = Some f \<Longrightarrow>
    op_amounts en (ss_cur s) op = [x, y] \<Longrightarrow> cents x \<and> cents y \<and> row_size f + (\<bar>x\<bar> + \<bar>y\<bar>) < 10 ^ 13"
  by (simp add: event_fits_def Let_def)

lemma row_equity_released [simp]: "row_equity (released_row a p f) = row_equity f + p"
  by (simp add: row_equity_def released_row_def)

lemma body_raised:
  "block_body (Inl e) f = Inl e" "release_body (Inl e) p f = Inl e" "release_body (Ret a) (Inl e) f = Inl e"
  "transfer_body (Inl e) f = Inl e" "credit_body (Inl e) f = Inl e" "unrealized_body (Inl e) f = Inl e"
  by (simp_all add: block_body_def release_body_def transfer_body_def credit_body_def unrealized_body_def)

lemma fund_exec_locked:
  "fund_exec sq (en, BlockOp a) s = (fst (fst (locked_op sq en (block_body a) s)), snd (locked_op sq en (block_body a) s))"
  "fund_exec sq (en, ReleaseOp a p) s =
     (fst (fst (locked_op sq en (release_body a p) s)), snd (locked_op sq en (release_body a p) s))"
  "fund_exec sq (en, TransferOp a) s =
     (fst (fst (locked_op sq en (transfer_body a) s)), snd (locked_op sq en (transfer_body a) s))"
  "fund_exec sq (en, CreditOp a) s = (fst (fst (locked_op sq en (credit_body a) s)), snd (locked_op sq en (credit_body a) s))"
  "fund_exec sq (en, UnrealizedOp a) s =
     (fst (fst (locked_op sq en (unrealized_body a) s)), snd (locked_op sq en (unrealized_body a) s))"
  by (simp_all add: op_defs_locked case_prod_beta)

declare fund_exec.simps(1-5) [simp del]

lemma locked_raised:
  assumes "lg_funds (ss_cur s) = Some f" "body f = Inl e"
  shows "\<not> fst (fst (locked_op sq en body s))"
  using assms(1) by (cases rule: locked_op_cases [of s f sq en body]) (use assms in auto)

lemma locked_refused:
  assumes "lg_funds (ss_cur s) = Some f" "\<And>f' m. body f \<noteq> Ret (Accept f' m)"
  shows "\<not> fst (fst (locked_op sq en body s)) \<and> ss_db (snd (locked_op sq en body s)) = ss_db s"
  using assms(1) by (cases rule: locked_op_cases [of s f sq en body]) (use assms in auto)

lemma locked_failed:
  assumes "lg_funds (ss_cur s) = Some f" "\<not> fst (fst (locked_op sq en body s))"
  shows "ss_db (snd (locked_op sq en body s)) = ss_db s"
  using assms(1) by (cases rule: locked_op_cases [of s f sq en body]) (use assms in auto)

lemma fund_step_books:
  assumes sq: "exact_rules sq" and ok: "books_ok s" and fit: "event_fits s (en, op)"
  shows "books_ok (fund_step sq s (en, op)) \<and> equity (fund_step sq s (en, op)) = equity s + event_flow sq s (en, op)"
proof -
  from ok obtain f where f: "lg_funds (ss_cur s) = Some f" and r: "row_ok f" by (auto elim: books_okE)
  note lb = locked_books [OF sq ok f] and defs = fund_step_def event_flow_def fund_exec_locked
  show ?thesis
  proof (cases op)
    case (BlockOp a)
    have "row_ok f' \<and> row_equity f' = row_equity f + 0" if "block_body a f = Ret (Accept f' m)" for f' m
      using that fits_amount [OF fit f] block_exact [OF r] BlockOp
      by (cases a) (auto simp: amount_list_def row_equity_def body_raised split: if_splits)
    from lb [of "block_body a" 0, OF this] BlockOp show ?thesis by (simp add: defs)
  next
    case (ReleaseOp a p)
    show ?thesis
    proof (cases p)
      case (Inl e)
      then have none: "release_body a p f \<noteq> Ret (Accept f' m)" for f' m
        by (cases a) (auto simp: body_raised)
      from none lb [of "release_body a p" 0] ReleaseOp Inl show ?thesis by (simp add: defs)
    next
      case (Inr q)
      have "row_ok f' \<and> row_equity f' = row_equity f + q" if "release_body a p f = Ret (Accept f' m)" for f' m
        using that fits_amount2 [OF fit f] release_exact [OF r] ReleaseOp Inr
        by (cases a) (auto simp: amount_list_def body_raised split: if_splits)
      from lb [of "release_body a p" q, OF this] ReleaseOp Inr show ?thesis by (simp add: defs)
    qed
  next
    case (TransferOp a)
    show ?thesis
    proof (cases a)
      case (Inl e)
      then show ?thesis using lb [of "transfer_body a" 0] TransferOp by (simp add: defs body_raised)
    next
      case (Inr x)
      have "row_ok f' \<and> row_equity f' = row_equity f + - x" if "transfer_body a f = Ret (Accept f' m)" for f' m
        using that fits_amount [OF fit f] transfer_exact [OF r] TransferOp Inr
        by (auto simp: amount_list_def row_equity_def split: if_splits)
      from lb [of "transfer_body a" "- x", OF this] TransferOp Inr show ?thesis by (simp add: defs)
    qed
  next
    case (CreditOp a)
    show ?thesis
    proof (cases a)
      case (Inl e)
      then show ?thesis using lb [of "credit_body a" 0] CreditOp by (simp add: defs body_raised)
    next
      case (Inr x)
      have "row_ok f' \<and> row_equity f' = row_equity f + x" if "credit_body a f = Ret (Accept f' m)" for f' m
        using that fits_amount [OF fit f] credit_exact [OF r] CreditOp Inr
        by (auto simp: amount_list_def row_equity_def split: if_splits)
      from lb [of "credit_body a" x, OF this] CreditOp Inr show ?thesis by (simp add: defs)
    qed
  next
    case (UnrealizedOp a)
    have "row_ok f' \<and> row_equity f' = row_equity f + 0" if "unrealized_body a f = Ret (Accept f' m)" for f' m
      using that fits_amount [OF fit f] unrealized_exact [OF r] UnrealizedOp
      by (cases a) (auto simp: amount_list_def row_equity_def body_raised)
    from lb [of "unrealized_body a" 0, OF this] UnrealizedOp show ?thesis by (simp add: defs)
  next
    case (StageOp d)
    have "cents x \<and> row_size f + \<bar>x\<bar> < 10 ^ 13" if "d = Ret x" for x
      using fits_amount [OF fit f] StageOp that by (simp add: amount_list_def)
    from stage_books [OF sq ok f, of d, OF this] StageOp show ?thesis by (simp add: defs case_prod_beta)
  next
    case ResetFunds
    have b: "cents (en_capital en) \<and> row_size f + \<bar>en_capital en\<bar> < 10 ^ 13"
      using fits_amount [OF fit f] ResetFunds by simp
    then have "\<bar>en_capital en\<bar> < 10 ^ 13" unfolding row_size_def by linarith
    with b have "money (en_capital en)" by (intro moneyI) auto
    from reset_books [OF sq ok f this] ResetFunds f show ?thesis by (simp add: defs equity_def)
  next
    case (ReconcileOp repair)
    from fits_amount2 [OF fit f] ReconcileOp reconcile_books [OF sq ok f, of en repair]
    show ?thesis by (simp add: defs case_prod_beta)
  qed (use ok f r books_rollback [OF ok] books_commit [OF sq f r] in
        \<open>auto simp: defs check_margin_available_def equity_def split: option.splits sum.splits\<close>)
qed

interpretation sandbox_account: accounts "fund_step sq" "\<lambda>s. exact_rules sq \<and> books_ok s" event_fits equity "event_flow sq" for sq
  by unfold_locales (use fund_step_books in \<open>force+\<close>)


definition sample_funds :: funds where
  "sample_funds = \<lparr> fd_capital = 1000, fd_available = 900, fd_used = 100, fd_realized = 0, fd_today = Some 0,
     fd_unrealized = 0, fd_total = 0, fd_last_reset = 0, fd_resets = 0 \<rparr>"

definition sample_ledger :: ledger where
  "sample_ledger = \<lparr> lg_funds = Some sample_funds, lg_positions = [\<lparr>pos_quantity = 10, pos_margin = Some 60\<rparr>],
     lg_holdings = [], lg_gtts = [\<lparr>gtt_status = ''active'', gtt_margin = Some 30\<rparr>] \<rparr>"

definition sample_account :: session where
  "sample_account = \<lparr> ss_db = sample_ledger, ss_cur = sample_ledger \<rparr>"

definition calm :: fund_env where
  "calm = \<lparr> en_capital = 1000, en_now = 0, en_fail = (\<lambda>_. None) \<rparr>"

lemma sample_cur [simp]: "lg_funds (ss_cur sample_account) = Some sample_funds"
  by (simp add: sample_account_def sample_ledger_def)

lemma sample_row_ok: "row_ok sample_funds"
  by (simp add: sample_funds_def row_ok_def today_of_def money_def fits_column_def)

lemma sample_books: "books_ok sample_account"
  using sample_row_ok by (simp add: books_ok_def sample_account_def sample_ledger_def)

lemma sample_release:
  "fund_exec ideal_sql (calm, ReleaseOp (Ret 40) (Ret 5)) sample_account =
     (True, commit ideal_sql (put_funds (released_row 40 5 sample_funds) sample_account))"
proof -
  have fit: "cents 40" "cents 5" "row_size sample_funds + (\<bar>40\<bar> + \<bar>5\<bar>) < 10 ^ 13"
    by (simp_all add: row_size_def sample_funds_def today_of_def)
  from release_exact(1) [OF sample_row_ok fit] show ?thesis
    by (simp add: fund_exec_locked locked_op_def calm_def) (simp add: sample_funds_def)
qed


section \<open>No negative margin\<close>

definition margins_ok :: "ledger \<Rightarrow> bool" where
  "margins_ok l =
     ((case lg_funds l of None \<Rightarrow> True | Some f \<Rightarrow> 0 \<le> fd_used f) \<and>
      list_all (\<lambda>p. 0 \<le> margin_or_zero (pos_margin p)) (lg_positions l) \<and>
      list_all (\<lambda>g. 0 \<le> margin_or_zero (gtt_margin g)) (lg_gtts l))"

definition margin_safe :: "session \<Rightarrow> bool" where
  "margin_safe s = (margins_ok (ss_db s) \<and> margins_ok (ss_cur s))"

lemma dadd_nonneg: "0 \<le> x \<Longrightarrow> 0 \<le> y \<Longrightarrow> 0 \<le> dadd x y"
  by (simp add: dadd_def ctx28_nonneg)

lemma dsum_nonneg: "list_all (\<lambda>x. 0 \<le> x) xs \<Longrightarrow> 0 \<le> dsum xs"
proof -
  have "list_all (\<lambda>x. 0 \<le> x) xs \<Longrightarrow> 0 \<le> a \<Longrightarrow> 0 \<le> foldl dadd a xs" for a
    by (induction xs arbitrary: a) (auto simp: dadd_nonneg)
  then show "list_all (\<lambda>x. 0 \<le> x) xs \<Longrightarrow> 0 \<le> dsum xs" by (simp add: dsum_def)
qed

lemma held_nonneg: "margins_ok l \<Longrightarrow> 0 \<le> dadd (position_margin l) (active_gtt_margin l)"
  by (intro dadd_nonneg)
    (auto simp: margins_ok_def position_margin_def active_gtt_margin_def list_all_iff intro!: dsum_nonneg)

lemma safe_rollback: "margin_safe s \<Longrightarrow> margin_safe (rollback s)"
  by (simp add: margin_safe_def)

lemma safe_put: "margin_safe s \<Longrightarrow> 0 \<le> fd_used f \<Longrightarrow> margin_safe (put_funds f s)"
  by (simp add: margin_safe_def margins_ok_def)

lemma safe_commit: "sign_rules sq \<Longrightarrow> margin_safe s \<Longrightarrow> margin_safe (commit sq s)"
  by (auto simp: margin_safe_def margins_ok_def sign_rules_def stored_funds_def split: option.splits)

lemma safe_init: "sign_rules sq \<Longrightarrow> margin_safe s \<Longrightarrow> margin_safe (snd (initialize_funds sq en s))"
  by (auto simp: initialize_funds_def new_funds_def safe_rollback split: option.splits intro!: safe_commit safe_put)

lemma safe_ensure:
  assumes "sign_rules sq" "margin_safe s" "ensure_funds_initialized sq en s = (r, s1)"
  shows "margin_safe s1" and "r = Ret (Some f) \<Longrightarrow> 0 \<le> fd_used f"
proof -
  show s1: "margin_safe s1"
    using assms safe_init [of sq s en]
    by (auto simp: ensure_funds_initialized_def case_prod_beta split: option.splits if_splits)
  show "0 \<le> fd_used f" if "r = Ret (Some f)"
    using that s1 assms(3)
    by (auto simp: ensure_funds_initialized_def case_prod_beta margin_safe_def margins_ok_def split: option.splits if_splits)
qed

lemma safe_locked:
  assumes sq: "sign_rules sq" and s: "margin_safe s"
    and body: "\<And>f f' m. 0 \<le> fd_used f \<Longrightarrow> body f = Ret (Accept f' m) \<Longrightarrow> 0 \<le> fd_used f'"
  shows "margin_safe (snd (locked_op sq en body s))"
proof -
  obtain r s1 where e: "ensure_funds_initialized sq en s = (r, s1)" by (metis surj_pair)
  note safe = safe_ensure [OF sq s e]
  show ?thesis using safe e
    by (auto simp: locked_op_def safe_rollback split: sum.splits option.splits verdict.splits
        intro!: safe_commit [OF sq] safe_put dest: body)
qed

lemma bodies_nonneg:
  "0 \<le> fd_used f \<Longrightarrow> block_body a f = Ret (Accept f' m) \<Longrightarrow> 0 \<le> fd_used f'"
  "0 \<le> fd_used f \<Longrightarrow> release_body a p f = Ret (Accept f' m) \<Longrightarrow> 0 \<le> fd_used f'"
  "0 \<le> fd_used f \<Longrightarrow> transfer_body a f = Ret (Accept f' m) \<Longrightarrow> 0 \<le> fd_used f'"
  "0 \<le> fd_used f \<Longrightarrow> credit_body a f = Ret (Accept f' m) \<Longrightarrow> 0 \<le> fd_used f'"
  "0 \<le> fd_used f \<Longrightarrow> unrealized_body a f = Ret (Accept f' m) \<Longrightarrow> 0 \<le> fd_used f'"
  by (auto simp: block_body_def release_body_def transfer_body_def credit_body_def unrealized_body_def
      rbind_Ret dadd_nonneg dsub_def ctx28_nonneg Let_def split: if_splits)

lemma safe_stage:
  assumes sq: "sign_rules sq" and s: "margin_safe s"
  shows "margin_safe (snd (stage_margin_delta sq en delta s))"
proof -
  obtain r s1 where e: "ensure_funds_initialized sq en s = (r, s1)" by (metis surj_pair)
  have "0 \<le> fd_used (staged_row sq d f)" if "0 \<le> fd_used f" "staged_guard sq d f" for d f
    using that sq by (cases "0 < d")
      (force simp: staged_guard_def staged_row_def sign_rules_def)+
  with safe_ensure [OF sq s e] e show ?thesis
    by (auto simp: stage_margin_delta_def split: sum.splits option.splits intro!: safe_put)
qed

lemma safe_reset:
  assumes sq: "sign_rules sq" and s: "margin_safe s"
  shows "margin_safe (reset_funds sq en f s)"
proof -
  have "margin_safe (commit sq (put_funds (reset_row en f) s))"
    using s by (intro safe_commit [OF sq] safe_put) (simp_all add: reset_row_def)
  moreover from this have "margin_safe (commit sq (commit sq (put_funds (reset_row en f) s)
      \<lparr>ss_cur := (ss_cur (commit sq (put_funds (reset_row en f) s)))\<lparr>lg_positions := [], lg_holdings := []\<rparr>\<rparr>))"
    by (intro safe_commit [OF sq]) (auto simp: margin_safe_def margins_ok_def)
  ultimately show ?thesis using s
    by (auto simp: reset_funds_def Let_def safe_rollback split: option.splits)
qed

lemma safe_reconcile:
  assumes sq: "sign_rules sq" and s: "margin_safe s"
  shows "margin_safe (snd (reconcile_margin sq en repair s))"
  using s held_nonneg [of "ss_cur s"]
  by (auto simp: reconcile_margin_def Let_def safe_rollback margin_safe_def [of s] split: option.splits
      intro!: safe_commit [OF sq] safe_put)

lemma safe_step:
  assumes sq: "sign_rules sq" and s: "margin_safe s"
  shows "margin_safe (snd (fund_exec sq ev s))"
proof (cases ev)
  case (Pair en op)
  note locked = safe_locked [OF sq s, where en = en]
  show ?thesis
  proof (cases op)
    case (AvailableOp a)
    obtain r s1 where e: "ensure_funds_initialized sq en s = (r, s1)" by (metis surj_pair)
    from safe_ensure(1) [OF sq s e] e Pair AvailableOp show ?thesis
      by (auto simp: check_margin_available_def split: sum.splits option.splits)
  next
    case ResetFunds
    with Pair s safe_reset [OF sq s] show ?thesis by (cases "lg_funds (ss_cur s)") auto
  qed (simp_all add: Pair fund_exec_locked case_prod_beta s safe_rollback [OF s] safe_commit [OF sq s]
        safe_stage [OF sq s] safe_reconcile [OF sq s] locked [OF bodies_nonneg(1)] locked [OF bodies_nonneg(2)]
        locked [OF bodies_nonneg(3)] locked [OF bodies_nonneg(4)] locked [OF bodies_nonneg(5)])
qed

interpretation margin_latch: latch "\<lambda>ev s. snd (fund_exec sq ev s)" "\<lambda>s. sign_rules sq \<and> margin_safe s" "\<lambda>_. False" for sq
  by unfold_locales (auto intro: safe_step)

text \<open>The blocked margin is never negative. From an account whose margins are not negative, no sequence of
  operations, staged changes, commits, rollbacks, resets and reconciliations, whatever fails in between,
  makes the committed or the visible margin negative; and releasing or transferring
  more than is blocked is refused and leaves the database as it was.\<close>

theorem margin_never_negative:
  assumes "sign_rules sq" "margin_safe s"
  shows "margin_safe (foldl (fund_step sq) s evs) \<and>
    (\<forall>f en a p. lg_funds (ss_cur (foldl (fund_step sq) s evs)) = Some f \<and> fd_used f < a \<longrightarrow>
       \<not> fst (fund_exec sq (en, ReleaseOp (Ret a) p) (foldl (fund_step sq) s evs)) \<and>
       \<not> fst (fund_exec sq (en, TransferOp (Ret a)) (foldl (fund_step sq) s evs)) \<and>
       ss_db (fund_step sq (foldl (fund_step sq) s evs) (en, ReleaseOp (Ret a) p)) = ss_db (foldl (fund_step sq) s evs) \<and>
       ss_db (fund_step sq (foldl (fund_step sq) s evs) (en, TransferOp (Ret a))) = ss_db (foldl (fund_step sq) s evs))"
proof -
  let ?t = "foldl (fund_step sq) s evs"
  have "foldl (fund_step sq) s evs = fold (\<lambda>ev s. snd (fund_exec sq ev s)) evs s"
    by (simp add: foldl_conv_fold fund_step_def)
  then have safe: "margin_safe ?t" using margin_latch.held_run [of sq s evs] assms by (simp add: list_all_iff)
  have "\<not> fst (fund_exec sq (en, op) ?t) \<and> ss_db (fund_step sq ?t (en, op)) = ss_db ?t"
    if f: "lg_funds (ss_cur ?t) = Some f" "fd_used f < a" "op = ReleaseOp (Ret a) p \<or> op = TransferOp (Ret a)"
    for f en a p op
  proof -
    have "release_body (Ret a) p f \<noteq> Ret (Accept f' m)" "transfer_body (Ret a) f \<noteq> Ret (Accept f' m)" for f' m
      using f(2) by (auto simp: release_body_def transfer_body_def rbind_Ret split: if_splits)
    then show ?thesis using f(1,3) locked_refused [of ?t f "release_body (Ret a) p" sq en]
        locked_refused [of ?t f "transfer_body (Ret a)" sq en]
      by (auto simp: fund_step_def fund_exec_locked)
  qed
  with safe show ?thesis by blast
qed

theorem margin_never_negative_witness:
  "margin_safe (foldl (fund_step ideal_sql) sample_account [(calm, StageOp (Ret (- 40))), (calm, CommitTx)]) \<and>
   \<not> fst (fund_exec ideal_sql (calm, ReleaseOp (Ret 101) (Ret 0)) (foldl (fund_step ideal_sql) sample_account []))"
proof -
  have s: "margin_safe sample_account"
    by (simp add: margin_safe_def margins_ok_def sample_account_def sample_ledger_def sample_funds_def margin_or_zero_def)
  have used: "fd_used sample_funds = 100" by (simp add: sample_funds_def)
  from margin_never_negative [OF sign_ideal s, of "[(calm, StageOp (Ret (- 40))), (calm, CommitTx)]"]
    margin_never_negative [OF sign_ideal s, of "[]"] used
  show ?thesis by auto
qed

text \<open>A failed operation changes nothing that is stored. For an account that exists, whenever an operation
  reports failure, because a guard refused it, an amount did not parse or the database raised, the committed
  rows are exactly those before it.\<close>

theorem failure_changes_nothing:
  assumes "lg_funds (ss_cur s) = Some f" "\<not> fst (fund_exec sq ev s)"
  shows "ss_db (fund_step sq s ev) = ss_db s"
proof (cases ev)
  case (Pair en op)
  have locked: "\<not> fst (fst (locked_op sq en body s)) \<Longrightarrow> ss_db (snd (locked_op sq en body s)) = ss_db s" for body
    using locked_failed [OF assms(1)] .
  have reset: "en_fail en OpCommit \<noteq> None \<Longrightarrow> ss_db (reset_funds sq en f s) = ss_db s"
    by (auto simp: reset_funds_def)
  show ?thesis
  proof (cases op)
    case (StageOp d)
    with assms(1) Pair show ?thesis
      by (auto simp: fund_step_def stage_margin_delta_def split: option.splits sum.splits)
  next
    case (AvailableOp a)
    with assms(1) Pair show ?thesis
      by (auto simp: fund_step_def check_margin_available_def split: option.splits sum.splits)
  next
    case (ReconcileOp repair)
    with assms Pair show ?thesis
      by (auto simp: fund_step_def reconcile_margin_def Let_def split: option.splits if_splits)
  qed (use assms Pair locked reset in \<open>auto simp: fund_step_def fund_exec_locked split: if_splits\<close>)
qed

theorem failure_changes_nothing_witness:
  "ss_db (fund_step ideal_sql sample_account (calm, BlockOp (Raise ValueError))) = ss_db sample_account"
  by (rule failure_changes_nothing [OF sample_cur])
    (use locked_raised [OF sample_cur, of "block_body (Raise ValueError)" ValueError] in
      \<open>simp add: fund_exec_locked body_raised\<close>)

section \<open>The book\<close>

text \<open>
  The abstract account: four exact figures and no database. An operation is refused (\<open>None\<close>)
  or moves the figures; a staged change is a block or a release of margin.
\<close>

record book =
  bk_cash :: rat
  bk_margin :: rat
  bk_profit :: rat
  bk_paper :: rat

definition book_of :: "funds \<Rightarrow> book" where
  "book_of f = \<lparr> bk_cash = fd_available f, bk_margin = fd_used f, bk_profit = fd_realized f, bk_paper = fd_unrealized f \<rparr>"

fun book_op :: "fund_op \<Rightarrow> book \<Rightarrow> book option" where
  "book_op (BlockOp (Inr a)) b =
     (if 0 < a \<and> a \<le> bk_cash b then Some (b\<lparr>bk_cash := bk_cash b - a, bk_margin := bk_margin b + a\<rparr>) else None)"
| "book_op (ReleaseOp (Inr a) (Inr p)) b =
     (if 0 \<le> a \<and> a \<le> bk_margin b
      then Some (b\<lparr>bk_cash := bk_cash b + a + p, bk_margin := bk_margin b - a, bk_profit := bk_profit b + p\<rparr>) else None)"
| "book_op (TransferOp (Inr a)) b =
     (if 0 < a \<and> a \<le> bk_margin b then Some (b\<lparr>bk_margin := bk_margin b - a\<rparr>) else None)"
| "book_op (CreditOp (Inr a)) b = (if 0 < a then Some (b\<lparr>bk_cash := bk_cash b + a\<rparr>) else None)"
| "book_op (UnrealizedOp (Inr u)) b = Some (b\<lparr>bk_paper := u\<rparr>)"
| "book_op (AvailableOp (Inr a)) b = (if a \<le> bk_cash b then Some b else None)"
| "book_op (StageOp (Inr d)) b =
     (if d = 0 then Some b
      else if (if 0 < d then d \<le> bk_cash b else - d \<le> bk_margin b)
      then Some (b\<lparr>bk_cash := bk_cash b - d, bk_margin := bk_margin b + d\<rparr>) else None)"
| "book_op CommitTx b = Some b"
| "book_op _ b = None"

fun booking :: "fund_op \<Rightarrow> bool" where
  "booking (BlockOp (Inr a)) = True"
| "booking (ReleaseOp (Inr a) (Inr p)) = True"
| "booking (TransferOp (Inr a)) = True"
| "booking (CreditOp (Inr a)) = True"
| "booking (UnrealizedOp (Inr u)) = True"
| "booking (AvailableOp (Inr a)) = True"
| "booking (StageOp (Inr d)) = True"
| "booking CommitTx = True"
| "booking _ = False"

definition book_step :: "book \<Rightarrow> fund_event \<Rightarrow> book" where
  "book_step b ev = (case book_op (snd ev) b of None \<Rightarrow> b | Some b' \<Rightarrow> b')"

definition session_book :: "session \<Rightarrow> book option" where
  "session_book s = map_option book_of (lg_funds (ss_cur s))"

definition quiet_booking :: "fund_event \<Rightarrow> bool" where
  "quiet_booking ev = (en_fail (fst ev) = (\<lambda>_. None) \<and> booking (snd ev))"

lemma booking_cases:
  assumes "booking op"
  obtains (block) a where "op = BlockOp (Ret a)" | (release) a p where "op = ReleaseOp (Ret a) (Ret p)"
    | (transfer) a where "op = TransferOp (Ret a)" | (credit) a where "op = CreditOp (Ret a)"
    | (paper) a where "op = UnrealizedOp (Ret a)" | (query) a where "op = AvailableOp (Ret a)"
    | (stage) a where "op = StageOp (Ret a)" | (tx) "op = CommitTx"
  using assms by (cases op rule: booking.cases) auto

lemma locked_quiet:
  assumes "lg_funds (ss_cur s) = Some f" "en_fail en = (\<lambda>_. None)"
  shows "body f = Ret (Accept f' m) \<Longrightarrow> locked_op sq en body s = ((True, m), commit sq (put_funds f' s))"
    and "body f = Ret (Refuse m) \<Longrightarrow> locked_op sq en body s = ((False, m), s)"
  using assms by (simp_all add: locked_op_def)

lemma locked_book:
  assumes sq: "exact_rules sq" and f: "lg_funds (ss_cur s) = Some f" and en: "en_fail en = (\<lambda>_. None)"
    and body: "body f = (if P then Ret (Accept f' m) else if Q then Ret (Refuse m1) else Ret (Refuse m2))"
    and r: "row_ok f'"
  shows "fst (fst (locked_op sq en body s)) = P \<and>
    session_book (snd (locked_op sq en body s)) = Some (if P then book_of f' else book_of f)"
  using body r f locked_quiet(1) [OF f en, where body = body and f' = f'] locked_quiet(2) [OF f en, where body = body]
  by (auto simp: session_book_def stored_exact [OF sq] split: if_splits)

lemma refines_step:
  assumes sq: "exact_rules sq" and ok: "books_ok s" and fit: "event_fits s ev" and q: "quiet_booking ev"
    and b: "session_book s = Some b"
  shows "fst (fund_exec sq ev s) = (book_op (snd ev) b \<noteq> None) \<and> session_book (fund_step sq s ev) = Some (book_step b ev)"
proof -
  obtain en op where ev: "ev = (en, op)" by (cases ev)
  from ok obtain f where f: "lg_funds (ss_cur s) = Some f" and r: "row_ok f" by (auto elim: books_okE)
  from q ev have en: "en_fail en = (\<lambda>_. None)" and bk: "booking op" by (auto simp: quiet_booking_def)
  from b f have b': "b = book_of f" by (simp add: session_book_def)
  note fit1 = fits_amount [OF fit [unfolded ev] f] and fit2 = fits_amount2 [OF fit [unfolded ev] f]
  note lb = locked_book [OF sq f en]
  note defs = ev fund_step_def fund_exec_locked book_step_def b' book_of_def
  from bk show ?thesis
  proof (cases rule: booking_cases)
    case (block a)
    then have c: "cents a \<and> row_size f + \<bar>a\<bar> < 10 ^ 13" using fit1 by (simp add: amount_list_def)
    have "block_body (Ret a) f = (if 0 < a \<and> a \<le> fd_available f
        then Ret (Accept (f\<lparr>fd_available := fd_available f - a, fd_used := fd_used f + a\<rparr>) (Blocked a))
        else if a \<le> 0 then Ret (Refuse (BlockNotPositive a)) else Ret (Refuse (ShortOf a (fd_available f))))"
      using block_exact(1) [OF r] c by auto
    from lb [where body = "block_body (Ret a)", OF this] block_exact(2) [OF r] c block show ?thesis by (auto simp: defs)
  next
    case (release a p)
    then have c: "cents a \<and> cents p \<and> row_size f + (\<bar>a\<bar> + \<bar>p\<bar>) < 10 ^ 13" using fit2 by (simp add: amount_list_def)
    have "release_body (Ret a) (Ret p) f = (if 0 \<le> a \<and> a \<le> fd_used f
        then Ret (Accept (released_row a p f) (Released a p))
        else if a < 0 then Ret (Refuse (ReleaseNegative a)) else Ret (Refuse (ReleaseTooMuch a (fd_used f))))"
      using release_exact(1) [OF r] c by auto
    from lb [where body = "release_body (Ret a) (Ret p)", OF this] release_exact(2) [OF r] c release show ?thesis by (auto simp: defs released_row_def)
  next
    case (transfer a)
    then have c: "cents a \<and> row_size f + \<bar>a\<bar> < 10 ^ 13" using fit1 by (simp add: amount_list_def)
    have "transfer_body (Ret a) f = (if 0 < a \<and> a \<le> fd_used f
        then Ret (Accept (f\<lparr>fd_used := fd_used f - a\<rparr>) (Transferred a))
        else if a \<le> 0 then Ret (Refuse (TransferNotPositive a)) else Ret (Refuse (TransferTooMuch a (fd_used f))))"
      using transfer_exact(1) [OF r] c by auto
    from lb [where body = "transfer_body (Ret a)", OF this] transfer_exact(2) [OF r] c transfer show ?thesis by (auto simp: defs)
  next
    case (credit a)
    then have c: "cents a \<and> row_size f + \<bar>a\<bar> < 10 ^ 13" using fit1 by (simp add: amount_list_def)
    have "credit_body (Ret a) f = (if 0 < a
        then Ret (Accept (f\<lparr>fd_available := fd_available f + a\<rparr>) (Credited a))
        else if a \<le> 0 then Ret (Refuse (CreditNotPositive a)) else Ret (Refuse (CreditNotPositive a)))"
      using credit_exact(1) [OF r] c by auto
    from lb [where body = "credit_body (Ret a)", OF this] credit_exact(2) [OF r] c credit show ?thesis by (auto simp: defs)
  next
    case (paper u)
    then have c: "cents u \<and> row_size f + \<bar>u\<bar> < 10 ^ 13" using fit1 by (simp add: amount_list_def)
    have "unrealized_body (Ret u) f = (if True
        then Ret (Accept (f\<lparr>fd_unrealized := u, fd_total := fd_realized f + u\<rparr>) UnrealizedUpdated)
        else if True then Ret (Refuse NoChange) else Ret (Refuse NoChange))"
      using unrealized_exact(1) [OF r] c by auto
    from lb [where body = "unrealized_body (Ret u)", OF this] unrealized_exact(2) [OF r] c paper show ?thesis by (auto simp: defs)
  next
    case (query a)
    then show ?thesis using f en by (auto simp: defs check_margin_available_def session_book_def)
  next
    case (stage d)
    then have c: "cents d \<and> row_size f + \<bar>d\<bar> < 10 ^ 13" using fit1 by (simp add: amount_list_def)
    note st = staged_exact [OF sq r conjunct1 [OF c] conjunct2 [OF c]]
    from f en stage st(1,2) show ?thesis
      by (auto simp: defs stage_margin_delta_def session_book_def)
  next
    case tx
    then show ?thesis using f en by (simp add: defs session_book_def stored_exact [OF sq r])
  qed
qed

lemma refines_run:
  assumes "exact_rules sq" "books_ok s" "session_book s = Some b" "all_fit (fund_step sq) event_fits s evs"
    "list_all quiet_booking evs"
  shows "session_book (foldl (fund_step sq) s evs) = Some (foldl book_step b evs)"
  using assms(2-)
proof (induction evs arbitrary: s b)
  case (Cons ev evs)
  then have st: "books_ok (fund_step sq s ev)" "session_book (fund_step sq s ev) = Some (book_step b ev)"
    using fund_step_books [OF assms(1), of s "fst ev" "snd ev"] refines_step [OF assms(1), of s ev b] by auto
  with Cons.IH [OF st] Cons.prems show ?case by simp
qed simp



section \<open>Reconciliation\<close>

lemma margins_commit_put [simp]:
  "position_margin (ss_cur (commit sq (put_funds f s))) = position_margin (ss_cur s)"
  "active_gtt_margin (ss_cur (commit sq (put_funds f s))) = active_gtt_margin (ss_cur s)"
  by (simp_all add: position_margin_def active_gtt_margin_def)

lemma reconcile_step:
  assumes sq: "exact_rules sq" and ok: "books_ok s" and f: "lg_funds (ss_cur s) = Some f"
    and h: "cents (position_margin (ss_cur s))" "cents (active_gtt_margin (ss_cur s))"
      "row_size f + (\<bar>position_margin (ss_cur s)\<bar> + \<bar>active_gtt_margin (ss_cur s)\<bar>) < 10 ^ 13"
    and en: "en_fail en = (\<lambda>_. None)"
  defines "held \<equiv> position_margin (ss_cur s) + active_gtt_margin (ss_cur s)"
  shows "reconcile_margin sq en True s =
    (if fd_used f = held then ((False, 0, NoDiscrepancy), s)
     else ((True, fd_used f - held, Reconciled (fd_used f - held)),
           commit sq (put_funds (f\<lparr>fd_used := held, fd_available := fd_available f + (fd_used f - held)\<rparr>) s)))"
proof -
  from ok f have r: "row_ok f" by (auto elim: books_okE)
  note d = discrepancy_exact [OF r h]
  show ?thesis using f en by (simp add: reconcile_margin_def Let_def d(1-3) held_def)
qed

lemma fits_again:
  assumes "row_size f + (\<bar>p\<bar> + \<bar>g\<bar>) < 10 ^ 13" "cents p" "cents g"
  shows "dadd p g = p + g" "dsub (p + g) (p + g) = 0" "dsub (p + g) p = g"
proof -
  have b: "\<bar>p + g\<bar> < 10 ^ 13" "\<bar>p + g - p\<bar> < 10 ^ 13" using assms(1) unfolding row_size_def by linarith+
  from money_dadd [OF assms(2,3) b(1)] show "dadd p g = p + g" by simp
  from money_dsub [OF cents_add [OF assms(2,3)] assms(2) b(2)] show "dsub (p + g) p = g" by simp
qed (simp add: dsub_def ctx28_def)

text \<open>Reconciliation settles the margin for good. When the database does not fail, a repair reports a discrepancy
  exactly when the blocked margin differs from what the open positions and the active triggers hold, and reports that
  difference; afterwards the blocked margin is what they hold, no money appeared or vanished, and the next
  reconciliation finds nothing. The cheaper validation, which leaves the triggers out, then still complains
  by exactly the margin of the active triggers.\<close>

theorem reconcile_settles:
  assumes "exact_rules sq" "books_ok s" "event_fits s (en, ReconcileOp True)" "en_fail en = (\<lambda>_. None)"
    "lg_funds (ss_cur s) = Some f"
    "reconcile_margin sq en True s = ((found, amount, msg), s')"
  shows "found = (fd_used f \<noteq> position_margin (ss_cur s) + active_gtt_margin (ss_cur s)) \<and>
    amount = fd_used f - (position_margin (ss_cur s) + active_gtt_margin (ss_cur s)) \<and>
    (\<exists>f'. lg_funds (ss_cur s') = Some f' \<and> fd_used f' = position_margin (ss_cur s') + active_gtt_margin (ss_cur s')) \<and>
    equity s' = equity s \<and>
    reconcile_margin sq en repair s' = ((False, 0, NoDiscrepancy), s') \<and>
    active_gtt_margin (ss_cur s') = active_gtt_margin (ss_cur s) \<and>
    validate_margin_consistency en s' = (active_gtt_margin (ss_cur s) = 0, active_gtt_margin (ss_cur s))"
proof -
  let ?p = "position_margin (ss_cur s)" and ?g = "active_gtt_margin (ss_cur s)"
  from fits_amount2 [OF assms(3,5)] have h: "cents ?p" "cents ?g" "row_size f + (\<bar>?p\<bar> + \<bar>?g\<bar>) < 10 ^ 13" by simp_all
  note step = reconcile_step [OF assms(1,2,5) h assms(4)]
  note again = fits_again [OF h(3,1,2)]
  from assms(2,5) have r: "row_ok f" by (auto elim: books_okE)
  let ?f = "f\<lparr>fd_used := ?p + ?g, fd_available := fd_available f + (fd_used f - (?p + ?g))\<rparr>"
  let ?t = "commit sq (put_funds ?f s)"
  have out: "found = (fd_used f \<noteq> ?p + ?g) \<and> amount = fd_used f - (?p + ?g) \<and> s' = (if fd_used f = ?p + ?g then s else ?t)"
    using assms(6) unfolding step by (cases "fd_used f = ?p + ?g") auto
  have ft: "lg_funds (ss_cur ?t) = Some ?f" using stored_exact [OF assms(1) discrepancy_exact(4) [OF r h]] by simp
  obtain f' where cur: "lg_funds (ss_cur s') = Some f'" "fd_used f' = ?p + ?g"
    and m: "position_margin (ss_cur s') = ?p" "active_gtt_margin (ss_cur s') = ?g"
    using out ft assms(5) by (cases "fd_used f = ?p + ?g") (simp_all del: commit_sel)
  from cur m have "reconcile_margin sq en repair s' = ((False, 0, NoDiscrepancy), s')"
    using assms(4) by (simp add: reconcile_margin_def Let_def again)
  moreover from cur m have "validate_margin_consistency en s' = (?g = 0, ?g)"
    using assms(4) by (simp add: validate_margin_consistency_def Let_def again)
  moreover have "equity s' = equity s"
    using reconcile_books [OF assms(1,2,5) h, of en True] assms(6) by simp
  ultimately show ?thesis using out cur m by simp
qed

lemma sample_margins: "position_margin (ss_cur sample_account) = 60" "active_gtt_margin (ss_cur sample_account) = 30"
  using money_dadd [of 0 60] money_dadd [of 0 30]
  by (simp_all add: position_margin_def active_gtt_margin_def sample_account_def sample_ledger_def margin_or_zero_def dsum_def)

theorem reconcile_settles_witness:
  "\<exists>msg s'. reconcile_margin ideal_sql calm True sample_account = ((True, 10, msg), s') \<and>
     validate_margin_consistency calm s' = (False, 30)"
proof -
  obtain r s' where rs: "reconcile_margin ideal_sql calm True sample_account = (r, s')" by (rule prod.exhaust)
  obtain found amount msg where "r = (found, amount, msg)" by (cases r)
  with rs have e: "reconcile_margin ideal_sql calm True sample_account = ((found, amount, msg), s')" by simp
  have fit: "event_fits sample_account (calm, ReconcileOp True)"
    by (simp add: event_fits_def sample_margins) (simp add: row_size_def sample_funds_def today_of_def)
  have q: "en_fail calm = (\<lambda>_. None)" by (simp add: calm_def)
  have used: "fd_used sample_funds = 100" by (simp add: sample_funds_def)
  from reconcile_settles [OF exact_ideal sample_books fit q sample_cur e, of True]
  have "found" "amount = 10" "validate_margin_consistency calm s' = (False, 30)"
    unfolding sample_margins used by simp_all
  with e show ?thesis by auto
qed

end
