(* ===== verification/Recovery.thy ===== *)
theory Recovery
  imports Run_Lifecycle
begin

text \<open>
  Boot recovery: \<open>strategy_module/recovery.py\<close>. A run that was open when the process died is rebuilt
  from its order rows, which say what is held, and its newest checkpoint, which says where the
  risk had got to. An order row is the dictionary \<open>order_to_dict\<close> returns, a checkpoint the
  one \<open>checkpoint_to_dict\<close> returns; the legs inside a checkpoint are the run's own legs, since JSON
  gives them back as they were. The warning logs are left out. The database, the acknowledgement
  repair and the strategy row are data of a run's recovery.
\<close>

section \<open>Order status, in one place\<close>

definition filled_statuses :: "string set" where
  "filled_statuses = {''complete'', ''completed'', ''filled'', ''fill'', ''executed'', ''traded'', ''trade'',
     ''success'', ''successful''}"

definition cancelled_statuses :: "string set" where
  "cancelled_statuses = {''cancelled'', ''canceled'', ''cancel'', ''expired'', ''lapsed''}"

definition rejected_statuses :: "string set" where
  "rejected_statuses = {''rejected'', ''reject'', ''failed'', ''failure'', ''error'', ''invalid''}"

definition pending_statuses :: "string set" where
  "pending_statuses = {''pending'', ''queued'', ''validation_pending'', ''transit''}"

definition status_text :: "string \<Rightarrow> string" where
  "status_text raw =
     map (\<lambda>c. if c = CHR ''-'' \<or> c = CHR '' '' then CHR ''_'' else c) (str_lower (str_strip raw))"

text \<open>Everything that is neither filled, cancelled, rejected nor pending is a working order, known word or not.\<close>

definition normalise_order_status :: "string \<Rightarrow> entry_state" where
  "normalise_order_status raw =
     (let t = status_text raw in
      if t \<in> filled_statuses then EComplete
      else if t \<in> cancelled_statuses then ECancelled
      else if t \<in> rejected_statuses then ERejected
      else if t \<in> pending_statuses then EPending
      else EOpen)"

definition order_is_filled :: "string \<Rightarrow> bool" where
  "order_is_filled raw = (normalise_order_status raw = EComplete)"

definition order_is_dead :: "string \<Rightarrow> bool" where
  "order_is_dead raw = (normalise_order_status raw = ECancelled \<or> normalise_order_status raw = ERejected)"

definition order_is_working :: "string \<Rightarrow> bool" where
  "order_is_working raw = (normalise_order_status raw = EPending \<or> normalise_order_status raw = EOpen)"

definition position_from_action :: "string \<Rightarrow> string result" where
  "position_from_action action =
     (let t = str_upper (str_strip action) in
      if t = ''BUY'' then Ret ''B'' else if t = ''SELL'' then Ret ''S'' else Raise ValueError)"

definition normalise_position :: "string option \<Rightarrow> string result" where
  "normalise_position v =
     (let t = str_upper (str_strip (case v of None \<Rightarrow> [] | Some s \<Rightarrow> s)) in
      if t = ''B'' \<or> t = ''S'' then Ret t else Raise ValueError)"

definition float_of :: "pyval \<Rightarrow> pyfloat option \<Rightarrow> pyfloat option result" where
  "float_of v d =
     (if v = VNone then Ret d
      else case py_float v of
             Inl TypeError \<Rightarrow> Ret d
           | Inl ValueError \<Rightarrow> Ret d
           | Inl e \<Rightarrow> Raise e
           | Inr x \<Rightarrow> Ret (Some x))"

text \<open>Python's \<open>or\<close> between an optional float and a fallback.\<close>

definition float_or :: "pyfloat option \<Rightarrow> pyfloat \<Rightarrow> pyfloat" where
  "float_or v d = (case v of None \<Rightarrow> d | Some x \<Rightarrow> if ftruthy x then x else d)"

section \<open>Rows\<close>

record order_line =
  ol_id :: int
  ol_leg :: int
  ol_kind :: string
  ol_ref :: "string option"
  ol_symbol :: string
  ol_exchange :: string
  ol_action :: string
  ol_qty :: int
  ol_price :: "pyfloat option"
  ol_status :: string
  ol_avg :: "pyfloat option"
  ol_filled :: "int option"

text \<open>What a checkpoint says of one position: nothing, a live leg, or the outgoing half of a flip.\<close>

datatype witness = Silent | OfLeg leg | OfOutgoing superseded_pos

fun w_entry_avg :: "witness \<Rightarrow> pyfloat option" where
  "w_entry_avg Silent = None"
| "w_entry_avg (OfLeg l) = Some (entry_avg l)"
| "w_entry_avg (OfOutgoing s) = Some (sp_entry_avg s)"

fun w_ref :: "witness \<Rightarrow> string option" where
  "w_ref Silent = None"
| "w_ref (OfLeg l) = position_ref l"
| "w_ref (OfOutgoing s) = sp_position_ref s"

fun w_position :: "witness \<Rightarrow> string option" where
  "w_position Silent = None"
| "w_position (OfLeg l) = Some (position l)"
| "w_position (OfOutgoing s) = Some (sp_position s)"

fun w_exit_kind :: "witness \<Rightarrow> string option" where
  "w_exit_kind Silent = None"
| "w_exit_kind (OfLeg l) = exit_kind l"
| "w_exit_kind (OfOutgoing s) = sp_exit_kind s"

fun w_exit_order :: "witness \<Rightarrow> int option" where
  "w_exit_order Silent = None"
| "w_exit_order (OfLeg l) = exit_order_id l"
| "w_exit_order (OfOutgoing s) = sp_exit_order_id s"

fun w_entry_order :: "witness \<Rightarrow> int option" where
  "w_entry_order Silent = None"
| "w_entry_order (OfLeg l) = entry_order_id l"
| "w_entry_order (OfOutgoing s) = sp_entry_order_id s"

fun w_leg :: "witness \<Rightarrow> leg option" where
  "w_leg (OfLeg l) = Some l"
| "w_leg _ = None"

definition w_get :: "(leg \<Rightarrow> 'a option) \<Rightarrow> witness \<Rightarrow> 'a option" where
  "w_get field w = (case w_leg w of None \<Rightarrow> None | Some l \<Rightarrow> field l)"

record cfg_leg =
  cl_sl :: pyval
  cl_target :: pyval
  cl_trail_x :: pyval
  cl_trail_y :: pyval
  cl_lots :: pyval

definition no_cfg :: cfg_leg where
  "no_cfg = \<lparr>cl_sl = VNone, cl_target = VNone, cl_trail_x = VNone, cl_trail_y = VNone, cl_lots = VNone\<rparr>"

section \<open>Reading the rows\<close>

definition order_rank :: "order_line \<Rightarrow> int" where
  "order_rank = ol_id"

definition positive_whole :: "int option \<Rightarrow> int option result" where
  "positive_whole q = whole_qty (case q of None \<Rightarrow> VNone | Some n \<Rightarrow> VInt n)"

definition usable_fill_price :: "pyfloat option \<Rightarrow> pyfloat option" where
  "usable_fill_price p = (case p of None \<Rightarrow> None | Some x \<Rightarrow> if price_ok x then Some x else None)"

definition decisive :: "order_line list \<Rightarrow> order_line option" where
  "decisive orders =
     (let pick = (\<lambda>P. filter (\<lambda>x. P (ol_status x)) orders) in
      if pick order_is_filled \<noteq> [] then Some (List.last (pick order_is_filled))
      else if pick order_is_working \<noteq> [] then Some (List.last (pick order_is_working))
      else if pick order_is_dead \<noteq> [] then Some (List.last (pick order_is_dead))
      else if orders \<noteq> [] then Some (List.last orders) else None)"

definition checkpoint_says_entry_filled :: "witness \<Rightarrow> bool" where
  "checkpoint_says_entry_filled w =
     (case w_leg w of
        None \<Rightarrow> False
      | Some l \<Rightarrow> entry_status l = EComplete \<or> (status l = Open \<or> status l = Closed) \<and> ftruthy (entry_avg l))"

definition checkpoint_says_exit_filled :: "witness \<Rightarrow> bool" where
  "checkpoint_says_exit_filled w =
     (case w_leg w of None \<Rightarrow> False | Some l \<Rightarrow> status l = Closed \<or> exit_avg l \<noteq> None)"

definition checkpoint_for_position :: "witness \<Rightarrow> string option \<Rightarrow> witness" where
  "checkpoint_for_position w ref =
     (case w_leg w of
        None \<Rightarrow> Silent
      | Some l \<Rightarrow>
          if position_ref l = ref then w
          else case superseded l of
                 None \<Rightarrow> Silent
               | Some s \<Rightarrow> if sp_position_ref s = ref then OfOutgoing s else Silent)"

definition recovered_entry_status :: "entry_state option \<Rightarrow> bool \<Rightarrow> witness \<Rightarrow> entry_state" where
  "recovered_entry_status order_status filled w =
     (if filled then EComplete
      else case order_status of
             Some st \<Rightarrow> st
           | None \<Rightarrow> (case w_leg w of None \<Rightarrow> EPending | Some l \<Rightarrow> entry_status l))"

definition risk_params :: "witness \<Rightarrow> cfg_leg \<Rightarrow> (pyval \<times> pyval \<times> pyval \<times> pyval \<times> int) result" where
  "risk_params w cfg =
     (let field = (\<lambda>f. case w_leg w of None \<Rightarrow> VNone | Some l \<Rightarrow> f l);
          level = (\<lambda>x. case x of None \<Rightarrow> VNone | Some v \<Rightarrow> VFloat v) in
      rbind (float_of (cl_sl cfg) None) (\<lambda>csl.
      rbind (float_of (cl_target cfg) None) (\<lambda>ctg.
      rbind (float_of (cl_trail_x cfg) (Some 0)) (\<lambda>cx.
      rbind (float_of (cl_trail_y cfg) (Some 0)) (\<lambda>cy.
      rbind (float_of (cl_lots cfg) (Some (Fin 1))) (\<lambda>cl.
      rbind (trunc_int (float_or cl (Fin 1))) (\<lambda>clots.
      rbind (float_of (field sl_pts) csl) (\<lambda>slv.
      rbind (float_of (field target_pts) ctg) (\<lambda>tgv.
      rbind (float_of (field trail_x) (Some (float_or cx 0))) (\<lambda>xv.
      rbind (float_of (field trail_y) (Some (float_or cy 0))) (\<lambda>yv.
      rbind (py_float (VInt clots)) (\<lambda>clf.
      rbind (float_of (field (\<lambda>l. VInt (lots l))) (Some clf)) (\<lambda>lv.
      rbind (if lv \<noteq> None \<and> ftruthy (the lv) then trunc_int (the lv) else Ret clots) (\<lambda>n.
      Ret (level slv, level tgv, VFloat (float_or xv 0), VFloat (float_or yv 0), n)))))))))))))))"

section \<open>A leg from one entry and one exit\<close>

record rebuilt =
  rb_leg :: leg
  rb_authoritative :: bool

definition leg_identity :: "string \<Rightarrow> order_line option \<Rightarrow> witness \<Rightarrow> (pyid \<times> string \<times> string \<times> int) result" where
  "leg_identity key identity w =
     rbind
       (case identity of
          Some x \<Rightarrow> Ret (IdInt (ol_leg x), ol_symbol x, ol_exchange x, ol_qty x)
        | None \<Rightarrow>
            (case w_leg w of
               None \<Rightarrow> Raise ValueError
             | Some l \<Rightarrow> rbind (rbind (py_float (VInt (qty l))) trunc_int) (\<lambda>q. Ret (leg_id l, symbol l, exchange l, q))))
       (\<lambda>(lid, s, e, q). if s = [] \<or> e = [] then Raise ValueError else Ret (lid, s, e, q))"

text \<open>The exit order and kind kept on the leg: those of a working exit, the kind of a filled one, nothing of a
  dead one, and the checkpoint's word where there is no row.\<close>

definition kept_exit :: "order_line option \<Rightarrow> bool \<Rightarrow> bool \<Rightarrow> witness \<Rightarrow> int option \<times> string option" where
  "kept_exit exit_row filled_out working w =
     (case exit_row of
        Some x \<Rightarrow>
          if working then (Some (ol_id x), Some (ol_kind x))
          else if filled_out then (None, Some (ol_kind x))
          else (None, None)
      | None \<Rightarrow>
          if filled_out then (None, w_exit_kind w) else (w_exit_order w, w_exit_kind w))"

text \<open>What the rows say happened: the size the entry left, what the exits took off it, and the status.\<close>

record disposition =
  dp_entry_filled :: bool
  dp_qty :: int
  dp_applied :: int
  dp_remaining :: int
  dp_exit_filled :: bool
  dp_exit_working :: bool
  dp_status :: leg_status

definition row_is :: "(string \<Rightarrow> bool) \<Rightarrow> order_line option \<Rightarrow> bool" where
  "row_is P x = (case x of None \<Rightarrow> False | Some r \<Rightarrow> P (ol_status r))"

definition leg_disposition ::
  "order_line option \<Rightarrow> order_line option \<Rightarrow> witness \<Rightarrow> int \<Rightarrow> disposition result" where
  "leg_disposition entry exit_row w qty0 =
     rbind (case entry of
              None \<Rightarrow> Ret None
            | Some x \<Rightarrow> if order_is_dead (ol_status x) then positive_whole (ol_filled x) else Ret None) (\<lambda>partial.
     let no_row = (entry = None \<and> exit_row = None);
         entry_dead = (row_is order_is_dead entry \<and> partial = None);
         entry_filled = (partial \<noteq> None \<or> row_is order_is_filled entry \<or>
                         \<not> entry_dead \<and> checkpoint_says_entry_filled w);
         qty1 = (case partial of None \<Rightarrow> qty0 | Some q \<Rightarrow> q);
         exit_working = row_is order_is_working exit_row;
         exit_filled = (row_is order_is_filled exit_row \<or> exit_working \<and> checkpoint_says_exit_filled w \<or>
                        no_row \<and> checkpoint_says_exit_filled w) in
     rbind (case exit_row of None \<Rightarrow> Ret None | Some x \<Rightarrow> positive_whole (ol_filled x)) (\<lambda>reported.
     let applied = (if exit_filled then min qty1 (case reported of None \<Rightarrow> qty1 | Some r \<Rightarrow> r)
                    else if row_is order_is_dead exit_row then (case reported of None \<Rightarrow> 0 | Some r \<Rightarrow> min qty1 r)
                    else 0);
         remaining = max 0 (qty1 - applied);
         st = (if applied > 0 \<and> remaining = 0 then Closed
               else if entry_filled then Open
               else if entry_dead then Rejected
               else if no_row \<and> w_get (\<lambda>l. Some (status l)) w = Some Rejected then Rejected
               else Configured) in
     Ret \<lparr> dp_entry_filled = entry_filled, dp_qty = (if st = Open \<and> applied > 0 then remaining else qty1),
           dp_applied = applied, dp_remaining = remaining, dp_exit_filled = exit_filled,
           dp_exit_working = exit_working, dp_status = st \<rparr>))"

definition entry_average :: "bool \<Rightarrow> order_line option \<Rightarrow> witness \<Rightarrow> pyfloat" where
  "entry_average filled_in entry w =
     (if filled_in
      then float_or (case entry of None \<Rightarrow> None | Some x \<Rightarrow> ol_avg x)
             (float_or (w_entry_avg w) (float_or (case entry of None \<Rightarrow> None | Some x \<Rightarrow> ol_price x) 0))
      else 0)"

definition exit_average :: "disposition \<Rightarrow> order_line option \<Rightarrow> witness \<Rightarrow> pyfloat option" where
  "exit_average d exit_row w =
     (if dp_applied d > 0
      then option_or (usable_fill_price (case exit_row of None \<Rightarrow> None | Some x \<Rightarrow> ol_avg x))
             (option_or (usable_fill_price (w_get exit_avg w))
               (usable_fill_price (case exit_row of None \<Rightarrow> None | Some x \<Rightarrow> ol_price x)))
      else None)"

definition booked_figure :: "string \<Rightarrow> disposition \<Rightarrow> pyfloat \<Rightarrow> pyfloat option \<Rightarrow> witness \<Rightarrow> pyfloat" where
  "booked_figure pos d avg_in avg_out w =
     (let stored = float_or (w_get (\<lambda>l. Some (realized_pnl l)) w) 0 in
      case avg_out of
        Some p \<Rightarrow> if dp_applied d > 0 \<and> \<not> ftruthy stored \<and> ftruthy avg_in
                  then round_trip pos avg_in p (dp_applied d) else stored
      | None \<Rightarrow> stored)"

text \<open>The rebuilt dictionary has no unit of risk; a missing unit is read as points.\<close>

definition assemble_leg ::
  "pyid \<times> string \<times> string \<Rightarrow> string \<Rightarrow> disposition \<Rightarrow> order_line option \<Rightarrow> order_line option \<Rightarrow> witness
     \<Rightarrow> pyval \<times> pyval \<times> pyval \<times> pyval \<times> int \<Rightarrow> leg" where
  "assemble_leg ident pos d entry exit_row w params =
     (let (lid, s, e) = ident; (sl, tg, tx, ty, n) = params;
          avg_in = entry_average (dp_entry_filled d) entry w; avg_out = exit_average d exit_row w;
          (kept_id, kept_kind) = kept_exit exit_row (dp_exit_filled d \<and> dp_remaining d = 0) (dp_exit_working d) w in
      \<lparr> leg_id = lid, position = pos, symbol = s, exchange = e, lots = n, qty = dp_qty d,
        position_ref = option_or (case entry of None \<Rightarrow> None | Some x \<Rightarrow> ol_ref x)
          (option_or (case exit_row of None \<Rightarrow> None | Some x \<Rightarrow> ol_ref x) (w_ref w)),
        entry_order_id = (case entry of Some x \<Rightarrow> Some (ol_id x) | None \<Rightarrow> w_entry_order w),
        entry_status = recovered_entry_status (map_option (\<lambda>x. normalise_order_status (ol_status x)) entry)
                         (dp_entry_filled d) w,
        entry_filled_qty = 0, entry_avg = avg_in,
        exit_order_id = kept_id, exit_claim_token = None, exit_kind = kept_kind, exit_avg = avg_out,
        leg_ltp = w_get leg_ltp w,
        mtm = (if dp_status d = Closed then 0 else float_or (w_get (\<lambda>l. Some (mtm l)) w) 0),
        realized_pnl = booked_figure pos d avg_in avg_out w, status = dp_status d, tick_source = ''ws'',
        risk_unit = ''points'', sl_pts = sl, target_pts = tg, trail_x = tx, trail_y = ty,
        effective_sl = w_get effective_sl w, effective_target = w_get effective_target w,
        trail_active = (case w_leg w of None \<Rightarrow> False | Some l \<Rightarrow> trail_active l),
        leg_highest = w_get leg_highest w, leg_lowest = w_get leg_lowest w, superseded = None \<rparr>)"

definition rebuild_legacy_leg ::
  "string \<Rightarrow> order_line list \<Rightarrow> order_line list \<Rightarrow> witness \<Rightarrow> cfg_leg \<Rightarrow> rebuilt result" where
  "rebuild_legacy_leg key entries exits w cfg =
     (let entry = decisive entries; exit_row = decisive exits in
      rbind (leg_identity key (option_or entry exit_row) w) (\<lambda>(lid, s, e, qty0).
      rbind (case entry of Some x \<Rightarrow> position_from_action (ol_action x) | None \<Rightarrow> normalise_position (w_position w)) (\<lambda>pos.
      rbind (leg_disposition entry exit_row w qty0) (\<lambda>d.
      rbind (risk_params w cfg) (\<lambda>params.
      Ret \<lparr> rb_leg = assemble_leg (lid, s, e) pos d entry exit_row w params,
            rb_authoritative = (w_leg w \<noteq> None \<or> \<not> dp_applied d > 0 \<or>
              entry_average (dp_entry_filled d) entry w > 0 \<and> exit_average d exit_row w \<noteq> None) \<rparr>)))))"

section \<open>A position from its exact order group\<close>

datatype manual_reason =
    UnlinkedAcks | EmptyReference | ExitsWithoutEntry | LegacyExitsWithoutEntry | SeveralLegacyEntries
  | NoEntryRow | SeveralWorkingExits | WorkingExitWithoutOwner | MoreThanTwoHeld | OlderWorkingEntry
  | DifferentInstruments

datatype recovery_error = Manual manual_reason | Broken pyexc

type_synonym 'a recovery = "recovery_error + 'a"

definition cbind :: "'a recovery \<Rightarrow> ('a \<Rightarrow> 'b recovery) \<Rightarrow> 'b recovery" where
  "cbind r f = (case r of Inl e \<Rightarrow> Inl e | Inr x \<Rightarrow> f x)"

definition attempt_py :: "'a result \<Rightarrow> 'a recovery" where
  "attempt_py r = (case r of Inl e \<Rightarrow> Inl (Broken e) | Inr x \<Rightarrow> Inr x)"

lemma cbind_simps [simp]: "cbind (Inl e) f = Inl e" "cbind (Inr x) f = f x"
  by (simp_all add: cbind_def)

lemma attempt_py_simps [simp]: "attempt_py (Inl e) = Inl (Broken e)" "attempt_py (Inr x) = Inr x"
  by (simp_all add: attempt_py_def)

lemma cbind_Inr: "cbind r f = Inr y \<longleftrightarrow> (\<exists>x. r = Inr x \<and> f x = Inr y)"
  by (cases r) auto

lemma attempt_Inr [simp]: "attempt_py r = Inr x \<longleftrightarrow> r = Inr x"
  by (cases r) auto

text \<open>The exits of a position, oldest first, taken off what the entry filled.\<close>

record exit_fold =
  xf_remaining :: int
  xf_realized :: pyfloat
  xf_covered :: bool
  xf_last :: "pyfloat option"

definition exit_quantity :: "int \<Rightarrow> order_line \<Rightarrow> int result" where
  "exit_quantity remaining x =
     rbind (positive_whole (ol_filled x)) (\<lambda>reported.
       case reported of
         Some r \<Rightarrow> Ret (min remaining r)
       | None \<Rightarrow>
           if order_is_filled (ol_status x)
           then rbind (positive_whole (Some (ol_qty x))) (\<lambda>q.
                  Ret (min remaining (case q of None \<Rightarrow> remaining | Some n \<Rightarrow> n)))
           else Ret 0)"

fun fold_exits :: "string \<Rightarrow> pyfloat \<Rightarrow> order_line list \<Rightarrow> exit_fold \<Rightarrow> exit_fold result" where
  "fold_exits pos entry [] acc = Ret acc"
| "fold_exits pos entry (x # xs) acc =
     rbind (exit_quantity (xf_remaining acc) x) (\<lambda>applied.
     if applied = 0 then fold_exits pos entry xs acc
     else
       let price = option_or (usable_fill_price (ol_avg x)) (usable_fill_price (ol_price x));
           acc' = acc\<lparr>xf_remaining := xf_remaining acc - applied, xf_last := option_or price (xf_last acc)\<rparr> in
       fold_exits pos entry xs
         (case price of
            Some p \<Rightarrow> if entry > 0 then acc'\<lparr>xf_realized := xf_realized acc + round_trip pos entry p applied\<rparr>
                      else acc'\<lparr>xf_covered := False\<rparr>
          | None \<Rightarrow> acc'\<lparr>xf_covered := False\<rparr>))"

record recovered_position =
  rp_rank :: int
  rp_leg :: leg
  rp_covered :: bool

definition max_rank :: "order_line list \<Rightarrow> int" where
  "max_rank entries = foldl max (order_rank (hd entries)) (map order_rank (tl entries))"

definition entry_is_filled :: "order_line \<Rightarrow> int option \<Rightarrow> witness \<Rightarrow> bool" where
  "entry_is_filled entry reported w =
     (reported \<noteq> None \<or> order_is_filled (ol_status entry) \<or>
      \<not> order_is_dead (ol_status entry) \<and> checkpoint_says_entry_filled w)"

definition entry_size :: "order_line \<Rightarrow> int option \<Rightarrow> int" where
  "entry_size entry reported =
     max 0 (case reported of
              None \<Rightarrow> ol_qty entry
            | Some r \<Rightarrow> min (if ol_qty entry = 0 then r else ol_qty entry) r)"

definition referenced_status :: "order_line \<Rightarrow> bool \<Rightarrow> exit_fold \<Rightarrow> leg_status" where
  "referenced_status entry filled_in acc =
     (if filled_in then (if xf_remaining acc > 0 then Open else Closed)
      else if order_is_dead (ol_status entry) then Rejected
      else Configured)"

definition referenced_leg ::
  "leg \<Rightarrow> string option \<Rightarrow> order_line \<Rightarrow> bool \<Rightarrow> int \<Rightarrow> exit_fold \<Rightarrow> order_line option \<Rightarrow> witness \<Rightarrow> leg" where
  "referenced_leg base ref entry filled_in whole acc active w =
     (let st = referenced_status entry filled_in acc in
      base
        \<lparr> qty := (if st = Open then xf_remaining acc else if st = Closed then whole else qty base),
          entry_status := (if filled_in then EComplete else normalise_order_status (ol_status entry)),
          position_ref := ref, entry_order_id := Some (ol_id entry),
          entry_avg := entry_average filled_in (Some entry) w,
          exit_order_id := map_option ol_id active, exit_claim_token := None,
          exit_kind := map_option ol_kind active, exit_avg := xf_last acc,
          realized_pnl := xf_realized acc, status := st,
          mtm := (if st = Closed then 0 else float_or (w_get (\<lambda>l. Some (mtm l)) w) 0),
          superseded := None \<rparr>)"

definition working_exits :: "order_line list \<Rightarrow> order_line list" where
  "working_exits exits = filter (\<lambda>x. order_is_working (ol_status x)) exits"

definition active_exit :: "order_line list \<Rightarrow> order_line option" where
  "active_exit exits = (if working_exits exits = [] then None else Some (List.last (working_exits exits)))"

definition rebuild_referenced_position ::
  "string \<Rightarrow> string option \<Rightarrow> order_line list \<Rightarrow> order_line list \<Rightarrow> witness \<Rightarrow> cfg_leg \<Rightarrow> recovered_position recovery" where
  "rebuild_referenced_position key ref entries exits w cfg =
     (case decisive entries of
        None \<Rightarrow> Inl (Manual NoEntryRow)
      | Some entry \<Rightarrow>
          (if length (working_exits exits) > 1 then Inl (Manual SeveralWorkingExits)
           else
             cbind (attempt_py (rebuild_legacy_leg key entries exits w cfg)) (\<lambda>base.
             cbind (attempt_py (positive_whole (ol_filled entry))) (\<lambda>reported.
             let filled_in = entry_is_filled entry reported w;
                 whole = entry_size entry reported;
                 start = \<lparr>xf_remaining = (if filled_in then whole else 0), xf_realized = 0,
                          xf_covered = True, xf_last = None\<rparr> in
             cbind (attempt_py (fold_exits (position (rb_leg base)) (entry_average filled_in (Some entry) w)
                                  (sort_key order_rank exits) start)) (\<lambda>acc.
             if active_exit exits \<noteq> None \<and> (\<not> filled_in \<or> xf_remaining acc \<le> 0) then Inl (Manual WorkingExitWithoutOwner)
             else
               Inr \<lparr> rp_rank = max_rank entries,
                     rp_leg = referenced_leg (rb_leg base) ref entry filled_in whole acc (active_exit exits) w,
                     rp_covered = xf_covered acc \<rparr>)))))"

section \<open>A leg from all its positions\<close>

text \<open>\<open>sum\<close> over floats is compensated (Neumaier) since Python 3.12, the version the project requires.\<close>

definition comp_add :: "pyfloat \<times> pyfloat \<Rightarrow> pyfloat \<Rightarrow> pyfloat \<times> pyfloat" where
  "comp_add acc x =
     (let (hi, lo) = acc; t = hi + x in
      (t, if abs x \<le> abs hi then lo + ((hi - t) + x) else lo + ((x - t) + hi)))"

fun py_sum :: "pyfloat list \<Rightarrow> pyfloat" where
  "py_sum [] = 0"
| "py_sum (x # xs) =
     (let (hi, lo) = foldl comp_add (x, 0) xs in if ftruthy lo \<and> isfinite lo then hi + lo else hi)"

fun dedupe :: "'a list \<Rightarrow> 'a list" where
  "dedupe [] = []"
| "dedupe (x # xs) = x # dedupe (filter (\<lambda>y. y \<noteq> x) xs)"

fun collect :: "('a \<Rightarrow> 'b recovery) \<Rightarrow> 'a list \<Rightarrow> 'b list recovery" where
  "collect f [] = Inr []"
| "collect f (x # xs) = cbind (f x) (\<lambda>y. cbind (collect f xs) (\<lambda>ys. Inr (y # ys)))"

definition position_requires_management :: "leg \<Rightarrow> bool" where
  "position_requires_management l = (status l = Open \<or> entry_status l = EPending \<or> entry_status l = EOpen)"

definition outgoing_of :: "leg \<Rightarrow> superseded_pos" where
  "outgoing_of l =
     \<lparr> sp_exit_order_id = exit_order_id l, sp_exit_claim_token = None, sp_exit_kind = exit_kind l,
       sp_entry_order_id = entry_order_id l, sp_position_ref = position_ref l, sp_position = position l,
       sp_entry_avg = entry_avg l, sp_qty = qty l \<rparr>"

definition same_whole :: "int \<Rightarrow> int \<Rightarrow> bool result" where
  "same_whole a b = rbind (positive_whole (Some a)) (\<lambda>x. rbind (positive_whole (Some b)) (\<lambda>y. Ret (x = y)))"

definition checkpoint_observed_shape :: "witness \<Rightarrow> leg \<Rightarrow> bool result" where
  "checkpoint_observed_shape w l =
     (case w_leg w of
        None \<Rightarrow> Ret False
      | Some c \<Rightarrow>
          if position_ref c \<noteq> position_ref l \<or> status c \<noteq> status l then Ret False
          else
            rbind (same_whole (qty c) (qty l)) (\<lambda>same.
            if \<not> same then Ret False
            else
              case (superseded c, superseded l) of
                (None, None) \<Rightarrow> Ret True
              | (Some a, Some b) \<Rightarrow>
                  if sp_position_ref a = sp_position_ref b then same_whole (sp_qty a) (sp_qty b) else Ret False
              | _ \<Rightarrow> Ret False))"

definition checkpoint_realized :: "witness \<Rightarrow> leg \<Rightarrow> pyfloat option result" where
  "checkpoint_realized w l =
     rbind (checkpoint_observed_shape w l) (\<lambda>seen.
       Ret (if seen then w_get (\<lambda>c. Some (realized_pnl c)) (checkpoint_for_position w (position_ref l)) else None))"

text \<open>The live side is the newest position that still needs managing, the outgoing side the one before it.\<close>

definition live_and_outgoing :: "recovered_position list \<Rightarrow> leg recovery" where
  "live_and_outgoing positions =
     (let managed = filter (\<lambda>p. position_requires_management (rp_leg p)) positions in
      if length managed > 2 then Inl (Manual MoreThanTwoHeld)
      else if managed = [] then Inr (rp_leg (List.last positions))
      else
        let live = rp_leg (List.last managed) in
        if length managed < 2 then Inr live
        else
          let outgoing = rp_leg (hd managed) in
          if status outgoing \<noteq> Open then Inl (Manual OlderWorkingEntry)
          else if symbol outgoing \<noteq> symbol live \<or> exchange outgoing \<noteq> exchange live
          then Inl (Manual DifferentInstruments)
          else Inr (live\<lparr>superseded := Some (outgoing_of outgoing)\<rparr>))"

definition group_position ::
  "string \<Rightarrow> order_line list \<Rightarrow> witness \<Rightarrow> cfg_leg \<Rightarrow> string option \<Rightarrow> recovered_position recovery" where
  "group_position key referenced w cfg ref =
     (let group = filter (\<lambda>x. ol_ref x = ref) referenced;
          group_entries = filter (\<lambda>x. ol_kind x = ''entry'') group in
      if group_entries = [] then Inl (Manual ExitsWithoutEntry)
      else rebuild_referenced_position key ref group_entries (filter (\<lambda>x. ol_kind x \<noteq> ''entry'') group)
             (checkpoint_for_position w ref) cfg)"

definition legacy_position ::
  "string \<Rightarrow> order_line list \<Rightarrow> order_line list \<Rightarrow> witness \<Rightarrow> cfg_leg \<Rightarrow> recovered_position list recovery" where
  "legacy_position key entries exits w cfg =
     (let legacy_entries = filter (\<lambda>x. ol_ref x = None) entries; legacy_exits = filter (\<lambda>x. ol_ref x = None) exits in
      if legacy_exits \<noteq> [] \<and> legacy_entries = [] then Inl (Manual LegacyExitsWithoutEntry)
      else if length legacy_entries > 1 then Inl (Manual SeveralLegacyEntries)
      else if legacy_entries = [] then Inr []
      else cbind (rebuild_referenced_position key None legacy_entries legacy_exits (checkpoint_for_position w None) cfg)
             (\<lambda>p. Inr [p]))"

definition rebuild_leg ::
  "string \<Rightarrow> order_line list \<Rightarrow> order_line list \<Rightarrow> witness \<Rightarrow> cfg_leg \<Rightarrow> rebuilt recovery" where
  "rebuild_leg key entries exits w cfg =
     (let referenced = filter (\<lambda>x. ol_ref x \<noteq> None) (sort_key order_rank (entries @ exits)) in
      if referenced = [] then attempt_py (rebuild_legacy_leg key entries exits w cfg)
      else if list_ex (\<lambda>x. ol_ref x = Some []) referenced then Inl (Manual EmptyReference)
      else
        cbind (collect (group_position key referenced w cfg) (dedupe (map ol_ref referenced))) (\<lambda>groups.
        cbind (legacy_position key entries exits w cfg) (\<lambda>legacy.
        let positions = sort_key rp_rank (groups @ legacy) in
        cbind (live_and_outgoing positions) (\<lambda>live.
        let durable = py_sum (map (\<lambda>p. realized_pnl (rp_leg p)) positions) in
        if list_all rp_covered positions
        then (case checkpoint_realized w live of
                Inl e \<Rightarrow> Inl (Broken e)
              | Inr c \<Rightarrow> Inr \<lparr>rb_leg = live\<lparr>realized_pnl := durable\<rparr>, rb_authoritative = True\<rparr>)
        else
          cbind (attempt_py (checkpoint_realized w live)) (\<lambda>seen.
            case seen of
              Some x \<Rightarrow> Inr \<lparr>rb_leg = live\<lparr>realized_pnl := x\<rparr>, rb_authoritative = True\<rparr>
            | None \<Rightarrow> Inr \<lparr>rb_leg = live\<lparr>realized_pnl := durable\<rparr>, rb_authoritative = False\<rparr>)))))"

section \<open>The run\<close>

definition is_entry :: "order_line \<Rightarrow> bool" where
  "is_entry x = (ol_kind x = ''entry'')"

definition leg_key :: "order_line \<Rightarrow> string" where
  "leg_key x = id_str (IdInt (ol_leg x))"

definition leg_keys :: "order_line list \<Rightarrow> checkpoint option \<Rightarrow> string list" where
  "leg_keys orders cp =
     dedupe (map leg_key (filter is_entry orders) @ map leg_key (filter (\<lambda>x. \<not> is_entry x) orders) @
             (case cp of None \<Rightarrow> [] | Some c \<Rightarrow> dkeys (ck_legs c)))"

definition witness_of :: "checkpoint option \<Rightarrow> string \<Rightarrow> witness" where
  "witness_of cp key =
     (case cp of None \<Rightarrow> Silent | Some c \<Rightarrow> (case dget (ck_legs c) key of None \<Rightarrow> Silent | Some l \<Rightarrow> OfLeg l))"

definition rebuild_one ::
  "order_line list \<Rightarrow> checkpoint option \<Rightarrow> (string, cfg_leg) dict \<Rightarrow> string \<Rightarrow> rebuilt recovery" where
  "rebuild_one orders cp cfgs key =
     rebuild_leg key (filter (\<lambda>x. is_entry x \<and> leg_key x = key) orders)
       (filter (\<lambda>x. \<not> is_entry x \<and> leg_key x = key) orders) (witness_of cp key)
       (case dget cfgs key of None \<Rightarrow> no_cfg | Some c \<Rightarrow> c)"

definition keyed :: "rebuilt list \<Rightarrow> (string, rebuilt) dict" where
  "keyed bs = foldl (\<lambda>d b. dset (id_str (leg_id (rb_leg b))) b d) [] bs"

definition derives_realized :: "order_line list \<Rightarrow> checkpoint option \<Rightarrow> bool" where
  "derives_realized orders cp = (list_ex (\<lambda>x. ol_ref x \<noteq> None) orders \<or> cp = None)"

definition rebuild_state ::
  "int \<Rightarrow> int \<Rightarrow> order_line list \<Rightarrow> checkpoint option \<Rightarrow> (string, cfg_leg) dict \<Rightarrow> bool
     \<Rightarrow> (run \<times> (string, rebuilt) dict) recovery" where
  "rebuild_state rid sid orders cp cfgs stop_requested =
     cbind (collect (rebuild_one orders cp cfgs) (leg_keys orders cp)) (\<lambda>bs.
     let built = keyed bs;
         derive = derives_realized orders cp;
         figure = (\<lambda>f. case cp of None \<Rightarrow> 0 | Some c \<Rightarrow> f c);
         realized = (if derive then py_sum (map (\<lambda>b. realized_pnl (rb_leg b)) (dvalues built)) else figure ck_realized);
         lock = (case cp of None \<Rightarrow> None | Some c \<Rightarrow> ck_lock_floor c) in
     Inr (\<lparr> run_id = rid, strategy_id = sid, pnl_realized = realized, pnl_unrealized = figure ck_unrealized,
            pnl_total = (if derive then realized + figure ck_unrealized else figure ck_total),
            pnl_peak = figure ck_peak, pnl_trough = figure ck_trough, run_lock_armed = (lock \<noteq> None),
            run_lock_floor = lock,
            trail_to_entry_active = (case cp of None \<Rightarrow> False | Some c \<Rightarrow> ck_trail_to_entry c),
            tick_source_degraded = False, stopping = stop_requested, signal_entry_claims = [],
            legs = map (\<lambda>(k, b). (k, rb_leg b)) built \<rparr>, built))"

section \<open>Recovering\<close>

record durable_run =
  rw_strategy :: int
  rw_stopped :: bool
  rw_stop_reason :: "string option"

record closing =
  cf_realized :: pyfloat
  cf_peak :: pyfloat
  cf_trough :: pyfloat

text \<open>What the database and the repair of acknowledgements answer, and which of the three terminal updates wins.\<close>

record recover_env =
  rv_row :: "durable_run option result"
  rv_unresolved :: "int result"
  rv_orders :: "order_line list"
  rv_checkpoint :: "checkpoint option"
  rv_cfgs :: "(string, cfg_leg) dict"
  rv_release :: "string \<Rightarrow> closing \<Rightarrow> bool"
  rv_empty :: "string \<Rightarrow> closing \<Rightarrow> bool"
  rv_detach :: "string \<Rightarrow> closing \<Rightarrow> bool"

datatype recover_result =
    AlreadyLive "(string \<times> string) set"
  | RunNotFound
  | AlreadyStopped
  | Resumed "(string \<times> string) set" bool
  | FoundFlat bool
  | NeedsManual manual_reason
  | Unrecoverable pyexc bool

definition final_pnl :: "checkpoint option \<Rightarrow> run \<Rightarrow> (string, rebuilt) dict \<Rightarrow> closing" where
  "final_pnl cp r built =
     \<lparr> cf_realized = (if list_all rb_authoritative (dvalues built)
                      then py_sum (map (\<lambda>b. realized_pnl (rb_leg b)) (dvalues built)) else pnl_realized r),
       cf_peak = (case cp of None \<Rightarrow> 0 | Some c \<Rightarrow> ck_peak c),
       cf_trough = (case cp of None \<Rightarrow> 0 | Some c \<Rightarrow> ck_trough c) \<rparr>"

definition recovery_finalise ::
  "recover_env \<Rightarrow> string \<Rightarrow> closing \<Rightarrow> int \<Rightarrow> registry \<Rightarrow> bool \<times> registry" where
  "recovery_finalise ev why figures rid reg =
     (if rv_release ev why figures \<or> rv_empty ev why figures \<or> rv_detach ev why figures
      then (True, clear_run_state rid reg) else (False, reg))"

definition try_recover :: "recover_env \<Rightarrow> int \<Rightarrow> registry \<Rightarrow> (recover_result \<times> registry) recovery" where
  "try_recover ev rid reg =
     (case get_run_state reg rid of
        Some r \<Rightarrow> Inr (AlreadyLive (subscribed_symbols r), reg)
      | None \<Rightarrow>
          cbind (attempt_py (rv_row ev)) (\<lambda>row.
            case row of
              None \<Rightarrow> Inr (RunNotFound, reg)
            | Some rw \<Rightarrow>
                if rw_stopped rw then Inr (AlreadyStopped, reg)
                else
                  cbind (attempt_py (rv_unresolved ev)) (\<lambda>unresolved.
                  if unresolved \<noteq> 0 then Inl (Manual UnlinkedAcks)
                  else
                    cbind (rebuild_state rid (rw_strategy rw) (rv_orders ev) (rv_checkpoint ev) (rv_cfgs ev)
                             (rw_stop_reason rw \<noteq> None)) (\<lambda>(r, built).
                    if subscribed_symbols r = {}
                    then (let why = (case rw_stop_reason rw of None \<Rightarrow> ''manual'' | Some t \<Rightarrow> if t = [] then ''manual'' else t);
                              (won, reg') = recovery_finalise ev why (final_pnl (rv_checkpoint ev) r built) rid reg in
                          Inr (FoundFlat won, reg'))
                    else Inr (Resumed (subscribed_symbols r)
                                (derives_realized (rv_orders ev) (rv_checkpoint ev) \<longrightarrow> list_all rb_authoritative (dvalues built)),
                              hydrate_run_state rid r reg)))))"

definition recover_run :: "recover_env \<Rightarrow> int \<Rightarrow> registry \<Rightarrow> recover_result \<times> registry" where
  "recover_run ev rid reg =
     (case try_recover ev rid reg of
        Inr (out, reg') \<Rightarrow> (out, reg')
      | Inl (Manual why) \<Rightarrow> (NeedsManual why, reg)
      | Inl (Broken e) \<Rightarrow>
          (case rv_row ev of
             Inr (Some rw) \<Rightarrow>
               (let (won, reg') = recovery_finalise ev ''recovery_failed''
                      \<lparr>cf_realized = 0, cf_peak = 0, cf_trough = 0\<rparr> rid reg
                in (Unrecoverable e won, reg'))
           | _ \<Rightarrow> (Unrecoverable e False, reg)))"

text \<open>\<open>recover_all\<close>: every open run in turn; the answer names the instruments of the runs that came back.\<close>

fun resumed_symbols :: "recover_result \<Rightarrow> (string \<times> string) set option" where
  "resumed_symbols (AlreadyLive syms) = Some syms"
| "resumed_symbols (Resumed syms known) = Some syms"
| "resumed_symbols _ = None"

fun recover_each ::
  "(int \<Rightarrow> recover_env) \<Rightarrow> int list \<Rightarrow> (int, (string \<times> string) set) dict \<Rightarrow> registry
     \<Rightarrow> (int, (string \<times> string) set) dict \<times> registry" where
  "recover_each evs [] acc reg = (acc, reg)"
| "recover_each evs (rid # rids) acc reg =
     (let (out, reg') = recover_run (evs rid) rid reg in
      recover_each evs rids (case resumed_symbols out of None \<Rightarrow> acc | Some syms \<Rightarrow> dset rid syms acc) reg')"

definition recover_all ::
  "(int \<Rightarrow> recover_env) \<Rightarrow> int list result \<Rightarrow> registry \<Rightarrow> (int, (string \<times> string) set) dict \<times> registry" where
  "recover_all evs open_runs reg =
     (case open_runs of Inl e \<Rightarrow> ([], reg) | Inr rids \<Rightarrow> recover_each evs rids [] reg)"

end
