(* ===== verification/Recovery_Facts.thy ===== *)
theory Recovery_Facts
  imports Recovery Run_Claims
begin

text \<open>
  The facts boot recovery rests on: whatever rows and checkpoint it is given, the run it installs is
  well formed, every way a run's recovery can end, and what the exits of a position take off it.
\<close>

section \<open>Sides and owners of rebuilt legs\<close>

lemma position_from_action_side: "position_from_action a = Ret p \<Longrightarrow> p \<in> {''B'', ''S''}"
  by (auto simp: position_from_action_def Let_def split: if_splits)

lemma normalise_position_side: "normalise_position v = Ret p \<Longrightarrow> p \<in> {''B'', ''S''}"
  by (auto simp: normalise_position_def Let_def split: if_splits)

definition sound_leg :: "leg \<Rightarrow> bool" where
  "sound_leg l = (position l \<in> {''B'', ''S''} \<and> exit_claim_token l = None \<and> superseded l = None)"

lemma legacy_sound:
  assumes "rebuild_legacy_leg key entries exits w cfg = Ret b"
  shows "sound_leg (rb_leg b)"
proof -
  obtain ident pos d params entry exit_row where
      "rb_leg b = assemble_leg ident pos d entry exit_row w params" "pos \<in> {''B'', ''S''}"
    using assms
    by (auto simp: rebuild_legacy_leg_def Let_def rbind_Ret
        dest!: position_from_action_side normalise_position_side split: option.splits)
  then show ?thesis by (auto simp: sound_leg_def assemble_leg_def Let_def case_prod_beta)
qed

lemma referenced_cases:
  assumes "rebuild_referenced_position key ref entries exits w cfg = Inr p"
  obtains entry base reported acc where "decisive entries = Some entry"
    "rebuild_legacy_leg key entries exits w cfg = Ret base" "positive_whole (ol_filled entry) = Ret reported"
    "fold_exits (position (rb_leg base)) (entry_average (entry_is_filled entry reported w) (Some entry) w)
       (sort_key order_rank exits)
       \<lparr>xf_remaining = (if entry_is_filled entry reported w then entry_size entry reported else 0), xf_realized = 0,
        xf_covered = True, xf_last = None\<rparr> = Ret acc"
    "rp_leg p = referenced_leg (rb_leg base) ref entry (entry_is_filled entry reported w) (entry_size entry reported) acc
       (active_exit exits) w"
    "rp_covered p = xf_covered acc" "rp_rank p = max_rank entries"
    "active_exit exits \<noteq> None \<longrightarrow> entry_is_filled entry reported w \<and> xf_remaining acc > 0"
proof (cases "decisive entries")
  case (Some entry)
  with assms have few: "\<not> length (working_exits exits) > 1" by (auto simp: rebuild_referenced_position_def)
  note body = assms [unfolded rebuild_referenced_position_def Some option.case if_not_P [OF few] Let_def cbind_Inr attempt_Inr]
  then obtain base reported acc where r: "rebuild_legacy_leg key entries exits w cfg = Ret base"
    "positive_whole (ol_filled entry) = Ret reported"
    "fold_exits (position (rb_leg base)) (entry_average (entry_is_filled entry reported w) (Some entry) w)
       (sort_key order_rank exits)
       \<lparr>xf_remaining = (if entry_is_filled entry reported w then entry_size entry reported else 0), xf_realized = 0,
        xf_covered = True, xf_last = None\<rparr> = Ret acc"
    and p: "(if active_exit exits \<noteq> None \<and> (\<not> entry_is_filled entry reported w \<or> xf_remaining acc \<le> 0)
       then Inl (Manual WorkingExitWithoutOwner)
       else Inr \<lparr>rp_rank = max_rank entries, rp_leg = referenced_leg (rb_leg base) ref entry
         (entry_is_filled entry reported w) (entry_size entry reported) acc (active_exit exits) w,
         rp_covered = xf_covered acc\<rparr>) = Inr p"
    by blast
  from p show ?thesis by (intro that [OF Some r]) (auto split: if_splits)
qed (use assms in \<open>simp add: rebuild_referenced_position_def\<close>)

lemma referenced_sound:
  assumes "rebuild_referenced_position key ref entries exits w cfg = Inr p"
  shows "sound_leg (rp_leg p)"
  using assms
proof (cases rule: referenced_cases)
  case (1 entry base reported acc)
  from legacy_sound [OF 1(2)] 1(5) show ?thesis by (simp add: sound_leg_def referenced_leg_def Let_def)
qed

lemma collect_all: "collect f xs = Inr ys \<Longrightarrow> y \<in> set ys \<Longrightarrow> \<exists>x \<in> set xs. f x = Inr y"
  by (induction xs arbitrary: ys) (auto simp: cbind_Inr)

lemma collect_length: "collect f xs = Inr ys \<Longrightarrow> length ys = length xs"
  by (induction xs arbitrary: ys) (auto simp: cbind_Inr)

lemma group_sound: "group_position key referenced w cfg ref = Inr p \<Longrightarrow> sound_leg (rp_leg p)"
  by (auto simp: group_position_def Let_def dest: referenced_sound split: if_splits)

lemma legacy_position_sound:
  "legacy_position key entries exits w cfg = Inr ps \<Longrightarrow> list_all (\<lambda>p. sound_leg (rp_leg p)) ps"
  by (auto simp: legacy_position_def Let_def cbind_Inr dest: referenced_sound split: if_splits)

lemma dedupe_empty [simp]: "dedupe xs = [] \<longleftrightarrow> xs = []"
  by (cases xs) auto

lemma set_dedupe [simp]: "set (dedupe xs) = set xs"
  by (induction xs rule: dedupe.induct) auto

lemma distinct_dedupe: "distinct (dedupe xs)"
  by (induction xs rule: dedupe.induct) auto

lemma live_cases:
  assumes "live_and_outgoing ps = Inr l"
  obtains (flat) "filter (\<lambda>p. position_requires_management (rp_leg p)) ps = []" "l = rp_leg (List.last ps)"
  | (one) p where "filter (\<lambda>p. position_requires_management (rp_leg p)) ps = [p]" "l = rp_leg p"
  | (two) p q where "filter (\<lambda>p. position_requires_management (rp_leg p)) ps = [p, q]"
      "l = (rp_leg q)\<lparr>superseded := Some (outgoing_of (rp_leg p))\<rparr>" "status (rp_leg p) = Open"
      "symbol (rp_leg p) = symbol (rp_leg q)" "exchange (rp_leg p) = exchange (rp_leg q)"
proof (cases "filter (\<lambda>p. position_requires_management (rp_leg p)) ps" rule: remdups_adj.cases)
  case 1
  with assms show ?thesis by (intro flat) (simp_all add: live_and_outgoing_def)
next
  case (2 p)
  with assms show ?thesis by (intro one [of p]) (auto simp: live_and_outgoing_def Let_def)
next
  case (3 p q rest)
  with assms have "rest = []" by (cases rest) (simp_all add: live_and_outgoing_def Let_def)
  with 3 assms show ?thesis
    by (intro two [of p q]) (auto simp: live_and_outgoing_def Let_def split: if_splits)
qed

lemma live_wf:
  assumes "live_and_outgoing ps = Inr l" "ps \<noteq> []" and all: "list_all (\<lambda>p. sound_leg (rp_leg p)) ps"
  shows "leg_wf uu n l \<and> exit_claim_token l = None"
proof -
  have in_ps: "p \<in> set (filter (\<lambda>p. position_requires_management (rp_leg p)) ps) \<Longrightarrow> sound_leg (rp_leg p)" for p
    using all by (auto simp: list_all_iff)
  from assms(1) show ?thesis
  proof (cases rule: live_cases)
    case flat
    with all last_in_set [OF assms(2)] show ?thesis by (auto simp: list_all_iff leg_wf_def sound_leg_def)
  next
    case (one p)
    with in_ps [of p] show ?thesis by (auto simp: leg_wf_def sound_leg_def)
  next
    case (two p q)
    with in_ps [of p] in_ps [of q] show ?thesis by (auto simp: leg_wf_def sound_leg_def outgoing_of_def)
  qed
qed

lemma referenced_leg_cases:
  assumes "rebuild_leg key entries exits w cfg = Inr b"
  obtains (legacy) "rebuild_legacy_leg key entries exits w cfg = Ret b"
  | (positions) groups legacy live x where
      "filter (\<lambda>x. ol_ref x \<noteq> None) (sort_key order_rank (entries @ exits)) \<noteq> []"
      "collect (group_position key (filter (\<lambda>x. ol_ref x \<noteq> None) (sort_key order_rank (entries @ exits))) w cfg)
         (dedupe (map ol_ref (filter (\<lambda>x. ol_ref x \<noteq> None) (sort_key order_rank (entries @ exits))))) = Inr groups"
      "legacy_position key entries exits w cfg = Inr legacy"
      "live_and_outgoing (sort_key rp_rank (groups @ legacy)) = Inr live" "rb_leg b = live\<lparr>realized_pnl := x\<rparr>"
proof (cases "filter (\<lambda>x. ol_ref x \<noteq> None) (sort_key order_rank (entries @ exits)) = []")
  case True
  with assms show ?thesis by (intro legacy) (simp add: rebuild_leg_def)
next
  case False
  let ?ref = "filter (\<lambda>x. ol_ref x \<noteq> None) (sort_key order_rank (entries @ exits))"
  from assms False have "\<not> list_ex (\<lambda>x. ol_ref x = Some []) ?ref" by (auto simp: rebuild_leg_def Let_def)
  note body = assms [unfolded rebuild_leg_def Let_def if_not_P [OF False] if_not_P [OF this] cbind_Inr]
  then obtain groups legacy live where g: "collect (group_position key ?ref w cfg) (dedupe (map ol_ref ?ref)) = Inr groups"
      "legacy_position key entries exits w cfg = Inr legacy" "live_and_outgoing (sort_key rp_rank (groups @ legacy)) = Inr live"
    and rest: "(if list_all rp_covered (sort_key rp_rank (groups @ legacy))
       then (case checkpoint_realized w live of Inl e \<Rightarrow> Inl (Broken e)
             | Inr c \<Rightarrow> Inr \<lparr>rb_leg = live\<lparr>realized_pnl := py_sum (map (\<lambda>p. realized_pnl (rp_leg p)) (sort_key rp_rank (groups @ legacy)))\<rparr>, rb_authoritative = True\<rparr>)
       else cbind (attempt_py (checkpoint_realized w live)) (\<lambda>seen. case seen of
              Some x \<Rightarrow> Inr \<lparr>rb_leg = live\<lparr>realized_pnl := x\<rparr>, rb_authoritative = True\<rparr>
            | None \<Rightarrow> Inr \<lparr>rb_leg = live\<lparr>realized_pnl := py_sum (map (\<lambda>p. realized_pnl (rp_leg p)) (sort_key rp_rank (groups @ legacy)))\<rparr>, rb_authoritative = False\<rparr>)) = Inr b"
    by blast
  from rest obtain x where "rb_leg b = live\<lparr>realized_pnl := x\<rparr>"
    by (auto simp: cbind_Inr split: if_splits sum.splits option.splits)
  with positions [OF False g] show ?thesis .
qed

lemma rebuild_leg_wf:
  assumes "rebuild_leg key entries exits w cfg = Inr b"
  shows "leg_wf uu n (rb_leg b) \<and> exit_claim_token (rb_leg b) = None"
  using assms
proof (cases rule: referenced_leg_cases)
  case legacy
  from legacy_sound [OF this] show ?thesis by (auto simp: sound_leg_def leg_wf_def)
next
  case (positions groups legacy live x)
  let ?ps = "sort_key rp_rank (groups @ legacy)"
  from collect_length [OF positions(2)] positions(1) have "groups \<noteq> []" by auto
  then have "?ps \<noteq> []" by (metis append_is_Nil_conv set_empty set_sort)
  moreover have "list_all (\<lambda>p. sound_leg (rp_leg p)) ?ps"
    using collect_all [OF positions(2)] legacy_position_sound [OF positions(3)]
    by (auto simp: list_all_iff dest!: group_sound)
  ultimately have "leg_wf uu n live \<and> exit_claim_token live = None" by (rule live_wf [OF positions(4)])
  with positions(5) show ?thesis by (simp add: leg_wf_def)
qed

section \<open>The rebuilt run\<close>

definition keyed_built :: "(string, rebuilt) dict \<Rightarrow> bool" where
  "keyed_built d = (distinct (dkeys d) \<and> (\<forall>(k, b) \<in> set d. k = id_str (leg_id (rb_leg b))))"

lemma keyed_built_keyed: "keyed_built (keyed bs) \<and> snd ` set (keyed bs) \<subseteq> set bs"
proof -
  have "keyed_built d \<and> snd ` set d \<subseteq> B \<Longrightarrow> set bs \<subseteq> B \<Longrightarrow>
    keyed_built (foldl (\<lambda>d b. dset (id_str (leg_id (rb_leg b))) b d) d bs) \<and>
    snd ` set (foldl (\<lambda>d b. dset (id_str (leg_id (rb_leg b))) b d) d bs) \<subseteq> B" for d B
  proof (induction bs arbitrary: d)
    case (Cons b bs)
    have "keyed_built (dset (id_str (leg_id (rb_leg b))) b d) \<and> snd ` set (dset (id_str (leg_id (rb_leg b))) b d) \<subseteq> B"
      using Cons.prems by (force simp: keyed_built_def distinct_update dest!: set_update)
    with Cons show ?case by simp
  qed simp
  from this [of "[]" "set bs"] show ?thesis by (simp add: keyed_def keyed_built_def)
qed

lemma rebuild_state_wf:
  assumes "rebuild_state rid sid orders cp cfgs stop = Inr (r, built)"
  shows "run_wf uu n r \<and> list_all (\<lambda>l. exit_claim_token l = None) (dvalues (legs r)) \<and> signal_entry_claims r = []"
proof -
  obtain bs where bs: "collect (rebuild_one orders cp cfgs) (leg_keys orders cp) = Inr bs"
    and l: "legs r = map (\<lambda>(k, b). (k, rb_leg b)) (keyed bs)" "signal_entry_claims r = []"
    using assms by (auto simp: rebuild_state_def Let_def cbind_Inr)
  have wf: "leg_wf uu n (rb_leg b) \<and> exit_claim_token (rb_leg b) = None" if "b \<in> set bs" for b
    using collect_all [OF bs that] rebuild_leg_wf by (auto simp: rebuild_one_def)
  have keys: "map fst (legs r) = map fst (keyed bs)"
    by (simp add: l case_prod_beta comp_def)
  have "keyed_legs (legs r)"
    using keyed_built_keyed [of bs] unfolding keyed_legs_def keys by (auto simp: keyed_built_def l)
  moreover have "\<forall>x \<in> snd ` set (legs r). leg_wf uu n x \<and> exit_claim_token x = None"
    using keyed_built_keyed [of bs] wf by (fastforce simp: l)
  ultimately show ?thesis using l(2) by (auto simp: run_wf_def list_all_iff)
qed

section \<open>Recovering into the registry\<close>

lemma run_state_hydrate: "run_state (hydrate_run_state rid r reg) x = (if x = rid then Some r else run_state reg x)"
  by (auto simp: hydrate_run_state_def run_state_def put_run_def get_state_lock_def lock_for_def dict_simps)

lemma recovery_finalise_cases:
  "recovery_finalise ev why figures rid reg = (True, clear_run_state rid reg) \<or>
   recovery_finalise ev why figures rid reg = (False, reg)"
  by (simp add: recovery_finalise_def)

lemma try_recover_cases:
  assumes "try_recover ev rid reg = Inr (out, reg')"
  obtains (live) r where "run_state reg rid = Some r" "out = AlreadyLive (subscribed_symbols r)" "reg' = reg"
  | (idle) "run_state reg rid = None" "resumed_symbols out = None" "reg' = reg"
  | (dropped) "run_state reg rid = None" "resumed_symbols out = None" "reg' = clear_run_state rid reg"
  | (resumed) r known built sid stop where "run_state reg rid = None"
      "rebuild_state rid sid (rv_orders ev) (rv_checkpoint ev) (rv_cfgs ev) stop = Inr (r, built)"
      "out = Resumed (subscribed_symbols r) known" "subscribed_symbols r \<noteq> {}" "reg' = hydrate_run_state rid r reg"
proof (cases "run_state reg rid")
  case (Some r)
  with assms show ?thesis by (intro live [of r]) (auto simp: try_recover_def get_run_state_def)
next
  case None
  with assms obtain row where row: "rv_row ev = Inr row" by (auto simp: try_recover_def get_run_state_def cbind_Inr)
  show ?thesis
  proof (cases row)
    case None
    with \<open>run_state reg rid = None\<close> row assms show ?thesis
      by (intro idle) (auto simp: try_recover_def get_run_state_def)
  next
    case (Some rw)
    show ?thesis
    proof (cases "rw_stopped rw")
      case True
      with \<open>run_state reg rid = None\<close> row Some assms show ?thesis
        by (intro idle) (auto simp: try_recover_def get_run_state_def)
    next
      case False
      note body = assms [unfolded try_recover_def get_run_state_def \<open>run_state reg rid = None\<close> row Some
          attempt_py_simps cbind_simps option.case if_not_P [OF False]]
      then obtain n where n: "rv_unresolved ev = Ret n" "n = 0"
        by (auto simp: cbind_Inr split: if_splits)
      with body obtain r built where r:
          "rebuild_state rid (rw_strategy rw) (rv_orders ev) (rv_checkpoint ev) (rv_cfgs ev) (rw_stop_reason rw \<noteq> None) = Inr (r, built)"
        by (auto simp: cbind_Inr)
      show ?thesis
      proof (cases "subscribed_symbols r = {}")
        case True
        let ?why = "case rw_stop_reason rw of None \<Rightarrow> ''manual'' | Some t \<Rightarrow> if t = [] then ''manual'' else t"
        obtain won reg1 where rf: "recovery_finalise ev ?why (final_pnl (rv_checkpoint ev) r built) rid reg = (won, reg1)"
          by (rule prod.exhaust)
        from body n r True rf have "out = FoundFlat won" "reg' = reg1" by simp_all
        moreover have "reg1 = reg \<or> reg1 = clear_run_state rid reg"
          using recovery_finalise_cases [of ev ?why "final_pnl (rv_checkpoint ev) r built" rid reg] rf by auto
        ultimately show ?thesis
          using idle [OF \<open>run_state reg rid = None\<close>] dropped [OF \<open>run_state reg rid = None\<close>] by auto
      next
        case False
        with body n r show ?thesis
          by (intro resumed [OF \<open>run_state reg rid = None\<close> r, of "derives_realized (rv_orders ev) (rv_checkpoint ev) \<longrightarrow> list_all rb_authoritative (dvalues built)"]) auto
      qed
    qed
  qed
qed

definition reports_live :: "registry \<Rightarrow> int \<Rightarrow> (string \<times> string) set \<Rightarrow> bool" where
  "reports_live reg rid syms =
     (case run_state reg rid of None \<Rightarrow> False | Some r \<Rightarrow> subscribed_symbols r = syms)"

lemma recover_run_cases:
  assumes "recover_run ev rid reg = (out, reg')"
  obtains (live) r where "run_state reg rid = Some r" "resumed_symbols out = Some (subscribed_symbols r)" "reg' = reg"
  | (idle) "run_state reg rid = None" "resumed_symbols out = None" "reg' = reg"
  | (dropped) "run_state reg rid = None" "resumed_symbols out = None" "reg' = clear_run_state rid reg"
  | (resumed) r built sid stop where "run_state reg rid = None"
      "rebuild_state rid sid (rv_orders ev) (rv_checkpoint ev) (rv_cfgs ev) stop = Inr (r, built)"
      "resumed_symbols out = Some (subscribed_symbols r)" "reg' = hydrate_run_state rid r reg"
proof (cases "try_recover ev rid reg")
  case (Inr o')
  with assms have "try_recover ev rid reg = Inr (out, reg')" by (auto simp: recover_run_def split: prod.splits)
  then show ?thesis
  proof (cases rule: try_recover_cases)
    case (resumed r known built sid stop)
    show ?thesis by (rule that(4) [OF resumed(1,2)]) (simp_all add: resumed)
  qed (use live idle dropped in auto)
next
  case (Inl err)
  then have none: "run_state reg rid = None"
    by (cases "run_state reg rid") (auto simp: try_recover_def get_run_state_def)
  show ?thesis
  proof (cases err)
    case (Manual why)
    with Inl assms none show ?thesis by (intro idle) (auto simp: recover_run_def)
  next
    case (Broken e)
    obtain won reg1 where rf: "recovery_finalise ev ''recovery_failed'' \<lparr>cf_realized = 0, cf_peak = 0, cf_trough = 0\<rparr> rid reg
        = (won, reg1)" by (rule prod.exhaust)
    then have "reg1 = reg \<or> reg1 = clear_run_state rid reg"
      using recovery_finalise_cases [of ev "''recovery_failed''" "\<lparr>cf_realized = 0, cf_peak = 0, cf_trough = 0\<rparr>" rid reg] by auto
    with Inl Broken assms rf have "resumed_symbols out = None \<and> (reg' = reg \<or> reg' = clear_run_state rid reg)"
      by (auto simp: recover_run_def split: sum.splits option.splits)
    with idle [OF none] dropped [OF none] show ?thesis by auto
  qed
qed

lemma recover_run_safe:
  assumes reach: "reachable uu reg" and run: "recover_run ev rid reg = (out, reg')"
  shows "reachable uu reg'"
    and "x \<noteq> rid \<or> run_state reg x \<noteq> None \<Longrightarrow> run_state reg' x = run_state reg x"
    and "resumed_symbols out = Some syms \<Longrightarrow> reports_live reg' rid syms"
proof -
  from run have "reachable uu reg' \<and> (x \<noteq> rid \<or> run_state reg x \<noteq> None \<longrightarrow> run_state reg' x = run_state reg x) \<and>
      (resumed_symbols out = Some syms \<longrightarrow> reports_live reg' rid syms)"
  proof (cases rule: recover_run_cases)
    case (live r)
    with reach show ?thesis by (simp add: reports_live_def)
  next
    case idle
    with reach show ?thesis by simp
  next
    case dropped
    have "reachable uu (exec uu rid ClearRun reg)" by (rule reachable.step [OF reach]) (simp add: action_ok_def)
    with dropped show ?thesis by (auto simp: run_state_clear)
  next
    case (resumed r built sid stop)
    have "action_ok uu reg (Hydrate r)" using rebuild_state_wf [OF resumed(2)] by (simp add: action_ok_def)
    then have "reachable uu (exec uu rid (Hydrate r) reg)" by (rule reachable.step [OF reach])
    with resumed show ?thesis by (auto simp: run_state_hydrate reports_live_def)
  qed
  then show "reachable uu reg'" "x \<noteq> rid \<or> run_state reg x \<noteq> None \<Longrightarrow> run_state reg' x = run_state reg x"
    "resumed_symbols out = Some syms \<Longrightarrow> reports_live reg' rid syms" by blast+
qed

lemma recover_each_safe:
  assumes "reachable uu reg" "\<And>y syms. dget acc y = Some syms \<Longrightarrow> reports_live reg y syms"
    and "recover_each evs rids acc reg = (acc', reg')"
  shows "reachable uu reg' \<and> (\<forall>y syms. dget acc' y = Some syms \<longrightarrow> reports_live reg' y syms) \<and>
    (\<forall>x. x \<notin> set rids \<or> run_state reg x \<noteq> None \<longrightarrow> run_state reg' x = run_state reg x)"
  using assms
proof (induction rids arbitrary: acc reg)
  case Nil
  then show ?case by auto
next
  case (Cons rid rids)
  obtain out reg1 where r: "recover_run (evs rid) rid reg = (out, reg1)" by (rule prod.exhaust)
  note safe = recover_run_safe [OF Cons.prems(1) r]
  let ?acc = "case resumed_symbols out of None \<Rightarrow> acc | Some syms \<Rightarrow> dset rid syms acc"
  have kept: "reports_live reg1 y syms" if "reports_live reg y syms" for y syms
    using that safe(2) [of y] by (cases "run_state reg y") (simp_all add: reports_live_def)
  have acc1: "reports_live reg1 y syms" if "dget ?acc y = Some syms" for y syms
    using that safe(3) Cons.prems(2) kept by (auto simp: dict_simps split: option.splits if_splits)
  have "recover_each evs rids ?acc reg1 = (acc', reg')" using Cons.prems(3) r by simp
  note later = Cons.IH [OF safe(1) acc1 this]
  have "run_state reg' x = run_state reg x" if "x \<notin> set (rid # rids) \<or> run_state reg x \<noteq> None" for x
    using that safe(2) [of x] later by (metis list.set_intros(1) list.set_intros(2))
  with later show ?case by blast
qed

section \<open>What a recovered position holds\<close>

definition sized :: "order_line \<Rightarrow> bool" where
  "sized x = (0 < ol_qty x \<and> ol_qty x < 2 ^ 53 \<and>
     (case ol_filled x of None \<Rightarrow> True | Some q \<Rightarrow> 0 \<le> q \<and> q < 2 ^ 53))"

definition reported_fill :: "order_line \<Rightarrow> int option" where
  "reported_fill x = (case ol_filled x of None \<Rightarrow> None | Some q \<Rightarrow> if q > 0 then Some q else None)"

text \<open>What an exit order takes off a position by itself.\<close>

definition exit_takes :: "order_line \<Rightarrow> int" where
  "exit_takes x =
     (case reported_fill x of Some q \<Rightarrow> q | None \<Rightarrow> if order_is_filled (ol_status x) then ol_qty x else 0)"

definition held_after :: "witness \<Rightarrow> order_line \<Rightarrow> order_line list \<Rightarrow> int" where
  "held_after w entry exits =
     max 0 ((if entry_is_filled entry (reported_fill entry) w
             then (case reported_fill entry of None \<Rightarrow> ol_qty entry | Some q \<Rightarrow> min (ol_qty entry) q) else 0)
            - sum_list (map exit_takes exits))"

lemma positive_whole_None [simp]: "positive_whole None = Ret None"
  by (simp add: positive_whole_def whole_qty_def)

lemma positive_whole_int: "\<bar>n\<bar> < 2 ^ 53 \<Longrightarrow> positive_whole (Some n) = Ret (if n > 0 then Some n else None)"
  by (simp add: positive_whole_def whole_qty_def to_double_of_int)

lemma positive_whole_filled: "sized x \<Longrightarrow> positive_whole (ol_filled x) = Ret (reported_fill x)"
  by (cases "ol_filled x") (simp_all add: sized_def reported_fill_def positive_whole_int)

lemma exit_quantity_sized: "sized x \<Longrightarrow> exit_quantity remaining x = Ret (if exit_takes x = 0 then 0 else min remaining (exit_takes x))"
proof -
  assume s: "sized x"
  then have "positive_whole (Some (ol_qty x)) = Ret (Some (ol_qty x))" by (simp add: sized_def positive_whole_int)
  moreover have "reported_fill x = Some q \<Longrightarrow> q > 0" for q by (auto simp: reported_fill_def split: option.splits if_splits)
  ultimately show ?thesis using s positive_whole_filled [OF s]
    by (cases "reported_fill x") (auto simp: exit_quantity_def exit_takes_def sized_def)
qed

lemma exit_takes_nonneg: "sized x \<Longrightarrow> 0 \<le> exit_takes x"
  by (auto simp: exit_takes_def reported_fill_def sized_def split: option.splits)

lemma fold_exits_remaining:
  assumes "list_all sized xs" "0 \<le> xf_remaining acc" "fold_exits pos entry xs acc = Ret acc'"
  shows "xf_remaining acc' = max 0 (xf_remaining acc - sum_list (map exit_takes xs))"
  using assms
proof (induction xs arbitrary: acc)
  case (Cons x xs)
  let ?t = "exit_takes x"
  have t: "0 \<le> ?t" and q: "exit_quantity (xf_remaining acc) x = Ret (if ?t = 0 then 0 else min (xf_remaining acc) ?t)"
    using Cons.prems(1) exit_takes_nonneg exit_quantity_sized by auto
  have rest: "0 \<le> sum_list (map exit_takes xs)"
    using Cons.prems(1) by (intro sum_list_nonneg) (auto simp: list_all_iff exit_takes_nonneg)
  show ?case
  proof (cases "(if ?t = 0 then 0 else min (xf_remaining acc) ?t) = 0")
    case True
    with Cons.IH [of acc] Cons.prems q t rest show ?thesis by (auto split: if_splits)
  next
    case False
    then obtain acc1 where a: "fold_exits pos entry xs acc1 = Ret acc'"
        "xf_remaining acc1 = xf_remaining acc - min (xf_remaining acc) ?t"
      using Cons.prems(3) q by (fastforce simp: Let_def split: option.splits if_splits)
    with Cons.IH [of acc1] Cons.prems(1,2) t rest show ?thesis by auto
  qed
qed simp

lemma sum_sorted: "sum_list (map f (sort_key g xs)) = (sum_list (map f xs) :: int)"
  by (metis mset_map mset_sort sum_mset_sum_list)

end
