(* ===== verification/Recovery_Claims.thy ===== *)
theory Recovery_Claims
  imports Recovery_Facts
begin

text \<open>
  What boot recovery promises: the invariants of the registry go on holding and no other run is
  touched; a position holds exactly what its entry filled less what its exits filled; and a run
  whose rows and checkpoint agree is read back as the run that wrote them.
\<close>

section \<open>What is written\<close>

definition entry_row_of :: "leg \<Rightarrow> order_line" where
  "entry_row_of l =
     \<lparr> ol_id = the (entry_order_id l), ol_leg = (case leg_id l of IdInt n \<Rightarrow> n | IdStr s \<Rightarrow> 0),
       ol_kind = ''entry'', ol_ref = position_ref l, ol_symbol = symbol l, ol_exchange = exchange l,
       ol_action = (if position l = ''B'' then ''BUY'' else ''SELL''), ol_qty = qty l, ol_price = None,
       ol_status = ''complete'', ol_avg = Some (entry_avg l), ol_filled = Some (qty l) \<rparr>"

text \<open>A configured level comes back as a float of the same value.\<close>

fun float_level :: "pyval \<Rightarrow> pyval" where
  "float_level (VInt n) = VFloat (Fin (of_int n))"
| "float_level v = v"

definition level_ok :: "pyval \<Rightarrow> pyval \<Rightarrow> bool" where
  "level_ok configured v =
     (case v of VNone \<Rightarrow> configured = VNone | VInt n \<Rightarrow> \<bar>n\<bar> < 2 ^ 53 | VFloat x \<Rightarrow> True | _ \<Rightarrow> False)"

definition cfg_ok :: "cfg_leg \<Rightarrow> bool" where
  "cfg_ok cfg =
     (list_all (\<lambda>v. v = VNone \<or> level_ok VNone v) [cl_sl cfg, cl_target cfg, cl_trail_x cfg, cl_trail_y cfg] \<and>
      (cl_lots cfg = VNone \<or> (\<exists>n. cl_lots cfg = VInt n \<and> 0 < n \<and> n < 2 ^ 53)))"

text \<open>A leg at rest: one filled position, no exit ever sent, nothing outgoing.\<close>

definition settled :: "cfg_leg \<Rightarrow> leg \<Rightarrow> bool" where
  "settled cfg l =
     ((\<exists>n. leg_id l = IdInt n) \<and> position l \<in> {''B'', ''S''} \<and> symbol l \<noteq> [] \<and> exchange l \<noteq> [] \<and>
      0 < qty l \<and> qty l < 2 ^ 53 \<and> 0 < lots l \<and> lots l < 2 ^ 53 \<and>
      (\<exists>s. position_ref l = Some s \<and> s \<noteq> []) \<and> (\<exists>n. entry_order_id l = Some n) \<and>
      entry_status l = EComplete \<and> status l = Open \<and> ftruthy (entry_avg l) \<and>
      exit_order_id l = None \<and> exit_claim_token l = None \<and> exit_kind l = None \<and> exit_avg l = None \<and>
      superseded l = None \<and> realized_pnl l = 0 \<and>
      level_ok (cl_sl cfg) (sl_pts l) \<and> level_ok (cl_target cfg) (target_pts l) \<and>
      trail_x l \<noteq> VNone \<and> level_ok VNone (trail_x l) \<and> trail_y l \<noteq> VNone \<and> level_ok VNone (trail_y l))"

definition as_recovered :: "leg \<Rightarrow> leg" where
  "as_recovered l =
     l\<lparr>entry_filled_qty := 0, tick_source := ''ws'', risk_unit := ''points'',
       sl_pts := float_level (sl_pts l), target_pts := float_level (target_pts l),
       trail_x := float_level (trail_x l), trail_y := float_level (trail_y l)\<rparr>"

section \<open>One leg\<close>

lemma float_or_same [simp]: "float_or (Some x) 0 = x"
  by (simp add: float_or_def ftruthy_def)

lemma float_of_level:
  "level_ok c v \<Longrightarrow> float_of v d = Ret (case float_level v of VFloat x \<Rightarrow> Some x | _ \<Rightarrow> d)"
  by (cases v) (auto simp: level_ok_def float_of_def to_double_of_int)

lemma float_level_cases: "level_ok c v \<Longrightarrow> (v = VNone \<and> c = VNone) \<or> (\<exists>x. float_level v = VFloat x)"
  by (cases v) (auto simp: level_ok_def)

lemma float_of_cfg: "v = VNone \<or> level_ok VNone v \<Longrightarrow> \<exists>x. float_of v d = Ret x \<and> (v = VNone \<longrightarrow> x = d)"
  using float_of_level [of VNone v d] by (auto simp: float_of_def)

lemma trunc_of_int [simp]: "trunc_int (Fin (of_int n)) = Ret n"
  by simp

lemma float_of_whole: "0 < n \<Longrightarrow> n < 2 ^ 53 \<Longrightarrow> float_of (VInt n) d = Ret (Some (Fin (of_int n)))"
  by (simp add: float_of_def to_double_of_int)

lemma ftruthy_whole: "0 < n \<Longrightarrow> ftruthy (Fin (of_int n))"
  by (simp add: ftruthy_def zero_pyfloat_def)

lemma cfg_lots:
  assumes "cfg_ok cfg"
  obtains cl n where "float_of (cl_lots cfg) (Some (Fin 1)) = Ret cl" "trunc_int (float_or cl (Fin 1)) = Ret n" "0 < n" "n < 2 ^ 53"
proof (cases "cl_lots cfg = VNone")
  case True
  then show ?thesis
    using trunc_of_int [of 1] ftruthy_whole [of 1] by (intro that [of "Some (Fin 1)" 1]) (simp_all add: float_of_def float_or_def)
next
  case False
  with assms obtain n where "cl_lots cfg = VInt n" "0 < n" "n < 2 ^ 53" by (auto simp: cfg_ok_def)
  then show ?thesis
    by (intro that [of "Some (Fin (of_int n))" n]) (simp_all add: float_of_whole float_or_def ftruthy_whole)
qed

lemma risk_params_settled:
  assumes "cfg_ok cfg" "settled cfg l"
  shows "risk_params (OfLeg l) cfg =
    Ret (float_level (sl_pts l), float_level (target_pts l), float_level (trail_x l), float_level (trail_y l), lots l)"
proof -
  obtain csl where csl: "float_of (cl_sl cfg) None = Ret csl" "cl_sl cfg = VNone \<longrightarrow> csl = None"
    using assms(1) float_of_cfg [of "cl_sl cfg" None] by (auto simp: cfg_ok_def)
  obtain ctg where ctg: "float_of (cl_target cfg) None = Ret ctg" "cl_target cfg = VNone \<longrightarrow> ctg = None"
    using assms(1) float_of_cfg [of "cl_target cfg" None] by (auto simp: cfg_ok_def)
  obtain cx where cx: "float_of (cl_trail_x cfg) (Some 0) = Ret cx"
    using assms(1) float_of_cfg [of "cl_trail_x cfg" "Some 0"] by (auto simp: cfg_ok_def)
  obtain cy where cy: "float_of (cl_trail_y cfg) (Some 0) = Ret cy"
    using assms(1) float_of_cfg [of "cl_trail_y cfg" "Some 0"] by (auto simp: cfg_ok_def)
  obtain cl n where cl: "float_of (cl_lots cfg) (Some (Fin 1)) = Ret cl" "trunc_int (float_or cl (Fin 1)) = Ret n"
      "0 < n" "n < 2 ^ 53" by (rule cfg_lots [OF assms(1)])
  have lots: "0 < lots l" "lots l < 2 ^ 53" using assms(2) by (auto simp: settled_def)
  have lv: "level_ok (cl_sl cfg) (sl_pts l)" "level_ok (cl_target cfg) (target_pts l)"
      "level_ok VNone (trail_x l)" "level_ok VNone (trail_y l)" "trail_x l \<noteq> VNone" "trail_y l \<noteq> VNone"
    using assms(2) by (auto simp: settled_def)
  obtain x y where xy: "float_level (trail_x l) = VFloat x" "float_level (trail_y l) = VFloat y"
    using float_level_cases lv by blast
  have n: "py_float (VInt n) = Ret (Fin (of_int n))" using cl(3,4) by (simp add: to_double_of_int)
  show ?thesis
    using float_level_cases [OF lv(1)] float_level_cases [OF lv(2)] csl ctg lots
    by (auto simp: risk_params_def cx cy cl(1,2) n lv(1-4) [THEN float_of_level] xy float_of_whole ftruthy_whole
        simp del: py_float.simps)
qed

lemma status_words [simp]: "order_is_filled ''complete''" "\<not> order_is_dead ''complete''" "\<not> order_is_working ''complete''"
    "normalise_order_status ''complete'' = EComplete"
  by code_simp+

lemma action_words [simp]: "position_from_action ''BUY'' = Ret ''B''" "position_from_action ''SELL'' = Ret ''S''"
  by code_simp+

lemma decisive_single [simp]: "decisive [x] = Some x"
  by (simp add: decisive_def)

lemma decisive_none [simp]: "decisive [] = None"
  by (simp add: decisive_def)

lemma settled_base:
  assumes "cfg_ok cfg" "settled cfg l"
  shows "rebuild_legacy_leg key [entry_row_of l] [] (OfLeg l) cfg = Ret \<lparr>rb_leg = as_recovered l, rb_authoritative = True\<rparr>"
proof -
  have q: "0 < qty l" "qty l < 2 ^ 53" using assms(2) by (auto simp: settled_def)
  have whole: "positive_whole (Some (qty l)) = Ret (Some (qty l))" using q by (simp add: positive_whole_int)
  obtain n where n: "leg_id l = IdInt n" "position l \<in> {''B'', ''S''}" using assms(2) by (auto simp: settled_def)
  have ident: "leg_identity key (Some (entry_row_of l)) (OfLeg l) = Ret (leg_id l, symbol l, exchange l, qty l)"
    using assms(2) by (auto simp: leg_identity_def entry_row_of_def settled_def)
  have d: "leg_disposition (Some (entry_row_of l)) None (OfLeg l) (qty l) =
      Ret \<lparr>dp_entry_filled = True, dp_qty = qty l, dp_applied = 0, dp_remaining = qty l, dp_exit_filled = False,
           dp_exit_working = False, dp_status = Open\<rparr>"
    using q by (simp add: leg_disposition_def entry_row_of_def row_is_def Let_def)
  have pos: "position_from_action (ol_action (entry_row_of l)) = Ret (position l)"
    using n by (auto simp: entry_row_of_def)
  have leg: "assemble_leg (leg_id l, symbol l, exchange l) (position l) \<lparr>dp_entry_filled = True, dp_qty = qty l,
      dp_applied = 0, dp_remaining = qty l, dp_exit_filled = False, dp_exit_working = False, dp_status = Open\<rparr>
      (Some (entry_row_of l)) None (OfLeg l)
      (float_level (sl_pts l), float_level (target_pts l), float_level (trail_x l), float_level (trail_y l), lots l) =
    as_recovered l"
    using assms(2)
    by (cases l) (auto simp: assemble_leg_def as_recovered_def entry_row_of_def settled_def entry_average_def
         exit_average_def kept_exit_def recovered_entry_status_def w_get_def float_or_def booked_figure_def ftruthy_def Let_def)
  show ?thesis
    by (simp add: rebuild_legacy_leg_def ident d pos risk_params_settled [OF assms] leg)
qed

lemma settled_position:
  assumes "cfg_ok cfg" "settled cfg l"
  shows "rebuild_referenced_position key (position_ref l) [entry_row_of l] [] (OfLeg l) cfg =
    Inr \<lparr>rp_rank = the (entry_order_id l), rp_leg = as_recovered l, rp_covered = True\<rparr>"
proof -
  have q: "0 < qty l" "qty l < 2 ^ 53" using assms(2) by (auto simp: settled_def)
  have whole: "positive_whole (Some (qty l)) = Ret (Some (qty l))" using q by (simp add: positive_whole_int)
  have leg: "referenced_leg (as_recovered l) (position_ref l) (entry_row_of l) True (qty l)
      \<lparr>xf_remaining = qty l, xf_realized = 0, xf_covered = True, xf_last = None\<rparr> None (OfLeg l) = as_recovered l"
    using assms(2)
    by (cases l) (auto simp: referenced_leg_def referenced_status_def as_recovered_def entry_row_of_def settled_def
        entry_average_def w_get_def float_or_def ftruthy_def Let_def)
  show ?thesis
    using q settled_base [OF assms, of key] leg
    by (simp add: rebuild_referenced_position_def working_exits_def active_exit_def Let_def entry_is_filled_def
        entry_size_def max_rank_def order_rank_def) (simp add: entry_row_of_def whole)
qed

lemma same_whole_refl: "0 < n \<Longrightarrow> n < 2 ^ 53 \<Longrightarrow> same_whole n n = Ret True"
  by (simp add: same_whole_def positive_whole_int)

lemma settled_leg:
  assumes "cfg_ok cfg" "settled cfg l"
  shows "rebuild_leg key [entry_row_of l] [] (OfLeg l) cfg = Inr \<lparr>rb_leg = as_recovered l, rb_authoritative = True\<rparr>"
proof -
  obtain s where s: "position_ref l = Some s" "s \<noteq> []" using assms(2) by (auto simp: settled_def)
  have q: "0 < qty l" "qty l < 2 ^ 53" "realized_pnl l = 0" "superseded l = None" "status l = Open" using assms(2) by (auto simp: settled_def)
  have row: "ol_ref (entry_row_of l) = Some s" "ol_kind (entry_row_of l) = ''entry''"
    by (simp_all add: entry_row_of_def s)
  have w: "checkpoint_for_position (OfLeg l) (Some s) = OfLeg l"
    by (simp add: checkpoint_for_position_def s)
  have live: "live_and_outgoing [\<lparr>rp_rank = r, rp_leg = as_recovered l, rp_covered = True\<rparr>] = Inr (as_recovered l)" for r
    by (simp add: live_and_outgoing_def Let_def position_requires_management_def as_recovered_def q)
  have same: "as_recovered l\<lparr>realized_pnl := 0\<rparr> = as_recovered l"
    by (cases l) (use q in \<open>simp add: as_recovered_def\<close>)
  have seen: "\<exists>c. checkpoint_realized (OfLeg l) (as_recovered l) = Ret c"
    using q by (simp add: checkpoint_realized_def checkpoint_observed_shape_def same_whole_refl as_recovered_def)
  from seen obtain c where c: "checkpoint_realized (OfLeg l) (as_recovered l) = Ret c" by blast
  have r0: "realized_pnl (as_recovered l) = 0" by (simp add: as_recovered_def q)
  have group: "group_position key [entry_row_of l] (OfLeg l) cfg (Some s) =
      Inr \<lparr>rp_rank = the (entry_order_id l), rp_leg = as_recovered l, rp_covered = True\<rparr>"
    using settled_position [OF assms, of key] by (simp add: group_position_def Let_def row w s)
  have legacy: "legacy_position key [entry_row_of l] [] (OfLeg l) cfg = Inr []"
    by (simp add: legacy_position_def row)
  have referenced: "filter (\<lambda>x. ol_ref x \<noteq> None) (sort_key order_rank ([entry_row_of l] @ [])) = [entry_row_of l]"
    by (simp add: row)
  show ?thesis
    unfolding rebuild_leg_def referenced
    by (simp add: row s group legacy live r0 same c ftruthy_def)
qed

section \<open>The run\<close>

definition config_of :: "(string, cfg_leg) dict \<Rightarrow> string \<Rightarrow> cfg_leg" where
  "config_of cfgs key = (case dget cfgs key of None \<Rightarrow> no_cfg | Some c \<Rightarrow> c)"

definition at_rest :: "(string, cfg_leg) dict \<Rightarrow> run \<Rightarrow> bool" where
  "at_rest cfgs r =
     (keyed_legs (legs r) \<and> legs r \<noteq> [] \<and>
      list_all (\<lambda>(k, l). cfg_ok (config_of cfgs k) \<and> settled (config_of cfgs k) l) (legs r))"

definition restored :: "int \<Rightarrow> int \<Rightarrow> bool \<Rightarrow> run \<Rightarrow> run" where
  "restored rid sid stop r =
     r\<lparr>run_id := rid, strategy_id := sid, pnl_realized := 0, pnl_total := 0 + pnl_unrealized r,
       run_lock_armed := (run_lock_floor r \<noteq> None), tick_source_degraded := False, stopping := stop,
       signal_entry_claims := [], legs := map (\<lambda>(k, l). (k, as_recovered l)) (legs r)\<rparr>"

lemma dedupe_twice: "distinct xs \<Longrightarrow> dedupe (xs @ xs) = xs"
proof -
  have "set ys \<subseteq> set xs \<Longrightarrow> distinct xs \<Longrightarrow> dedupe (xs @ ys) = xs" for xs ys :: "'a list"
  proof (induction xs arbitrary: ys)
    case (Cons x xs)
    have "filter (\<lambda>y. y \<noteq> x) xs = xs" using Cons.prems by (auto simp: filter_id_conv)
    with Cons.IH [of "filter (\<lambda>y. y \<noteq> x) ys"] Cons.prems show ?case by auto
  qed (simp add: subset_iff)
  then show "distinct xs \<Longrightarrow> dedupe (xs @ xs) = xs" by simp
qed

lemma keyed_distinct:
  "distinct (map fst d) \<Longrightarrow> (\<forall>(k, b) \<in> set d. k = id_str (leg_id (rb_leg b))) \<Longrightarrow> keyed (map snd d) = d"
proof -
  have "distinct (map fst (a @ d)) \<Longrightarrow> (\<forall>(k, b) \<in> set d. k = id_str (leg_id (rb_leg b))) \<Longrightarrow>
    foldl (\<lambda>d b. dset (id_str (leg_id (rb_leg b))) b d) a (map snd d) = a @ d" for a
  proof (induction d arbitrary: a)
    case (Cons x d)
    obtain k b where x: "x = (k, b)" "k = id_str (leg_id (rb_leg b))" using Cons.prems(2) by (cases x) auto
    have "dset k b a = a @ [(k, b)]"
      using Cons.prems(1) x(1) by (induction a) auto
    with Cons.IH [of "a @ [(k, b)]"] Cons.prems x show ?case by simp
  qed simp
  from this [of "[]"] show "distinct (map fst d) \<Longrightarrow> (\<forall>(k, b) \<in> set d. k = id_str (leg_id (rb_leg b))) \<Longrightarrow> ?thesis"
    by (simp add: keyed_def)
qed

lemma py_sum_zeros: "(\<forall>x \<in> set xs. x = 0) \<Longrightarrow> py_sum xs = 0"
proof (cases xs)
  case (Cons x ys)
  assume z: "\<forall>x \<in> set xs. x = 0"
  have "comp_add (0, 0) 0 = (0, 0)" by (simp add: comp_add_def Let_def zero_pyfloat_def minus_pyfloat_def)
  then have "(\<forall>x \<in> set ys. x = 0) \<Longrightarrow> foldl comp_add (0, 0) ys = (0, 0)" for ys
    by (induction ys) simp_all
  with z Cons show ?thesis by (simp add: ftruthy_def)
qed simp

lemma collect_Ret: "(\<And>x. x \<in> set xs \<Longrightarrow> f x = Inr (g x)) \<Longrightarrow> collect f xs = Inr (map g xs)"
  by (induction xs) auto

lemma one_row:
  assumes "distinct (map fst d)" "\<forall>(k, l) \<in> set d. leg_key (entry_row_of l) = k" "(k, l) \<in> set d"
  shows "filter (\<lambda>x. is_entry x \<and> leg_key x = k) (map entry_row_of (dvalues d)) = [entry_row_of l]"
  using assms
proof (induction d)
  case (Cons x d)
  obtain k' l' where x: "x = (k', l')" by (cases x)
  have e: "is_entry (entry_row_of l)" for l by (simp add: is_entry_def entry_row_of_def)
  show ?case
  proof (cases "k' = k")
    case True
    with Cons.prems x have "l' = l" "\<forall>(k'', l'') \<in> set d. leg_key (entry_row_of l'') \<noteq> k" by (force+)
    with True x Cons.prems e show ?thesis by (auto simp: filter_empty_conv)
  next
    case False
    with Cons.prems x have "(k, l) \<in> set d" "leg_key (entry_row_of l') \<noteq> k" by auto
    with Cons x show ?thesis by simp
  qed
qed simp

lemma rest_leg:
  assumes "at_rest cfgs r" "(k, l) \<in> set (legs r)"
  shows "leg_key (entry_row_of l) = k" "k = id_str (leg_id (as_recovered l))" "dget (legs r) k = Some l" "status l = Open"
    "rebuild_one (map entry_row_of (dvalues (legs r))) (Some (snapshot_for_checkpoint r)) cfgs k =
       Inr \<lparr>rb_leg = as_recovered l, rb_authoritative = True\<rparr>"
proof -
  have d: "distinct (map fst (legs r))" "k = id_str (leg_id l)" and ok: "cfg_ok (config_of cfgs k)" "settled (config_of cfgs k) l"
    using assms by (auto simp: at_rest_def keyed_legs_def list_all_iff)
  have key: "leg_key (entry_row_of l') = k'" if "(k', l') \<in> set (legs r)" for k' l'
    using assms(1) that by (force simp: at_rest_def keyed_legs_def list_all_iff settled_def leg_key_def entry_row_of_def)
  show "leg_key (entry_row_of l) = k" by (rule key [OF assms(2)])
  show "k = id_str (leg_id (as_recovered l))" by (simp add: as_recovered_def d(2) [symmetric])
  show g: "dget (legs r) k = Some l" using d(1) assms(2) by simp
  show "status l = Open" using ok(2) by (simp add: settled_def)
  have rows: "filter (\<lambda>x. is_entry x \<and> leg_key x = k) (map entry_row_of (dvalues (legs r))) = [entry_row_of l]"
    by (rule one_row [OF d(1) _ assms(2)]) (use key in auto)
  have none: "filter (\<lambda>x. \<not> is_entry x \<and> leg_key x = k) (map entry_row_of (dvalues (legs r))) = []"
    by (auto simp: filter_empty_conv is_entry_def entry_row_of_def)
  show "rebuild_one (map entry_row_of (dvalues (legs r))) (Some (snapshot_for_checkpoint r)) cfgs k =
       Inr \<lparr>rb_leg = as_recovered l, rb_authoritative = True\<rparr>"
    unfolding rebuild_one_def rows none
    using settled_leg [OF ok] by (simp add: witness_of_def snapshot_for_checkpoint_def g config_of_def)
qed

lemma rebuild_state_at_rest:
  assumes "at_rest cfgs r"
  shows "rebuild_state rid sid (map entry_row_of (dvalues (legs r))) (Some (snapshot_for_checkpoint r)) cfgs stop =
    Inr (restored rid sid stop r,
      map (\<lambda>(k, l). (k, \<lparr>rb_leg = as_recovered l, rb_authoritative = True\<rparr>)) (legs r))"
proof -
  let ?rows = "map entry_row_of (dvalues (legs r))" and ?cp = "Some (snapshot_for_checkpoint r)"
  let ?b = "\<lambda>l. \<lparr>rb_leg = as_recovered l, rb_authoritative = True\<rparr>"
  let ?built = "map (\<lambda>(k, l). (k, ?b l)) (legs r)"
  have d: "distinct (map fst (legs r))" "legs r \<noteq> []" using assms by (auto simp: at_rest_def keyed_legs_def)
  have e: "is_entry (entry_row_of l)" "ol_ref (entry_row_of l) = position_ref l" for l
    by (simp_all add: is_entry_def entry_row_of_def)
  have rows_keys: "map leg_key ?rows = map fst (legs r)"
    using rest_leg(1) [OF assms] by (auto simp: comp_def)
  have entries: "filter is_entry ?rows = ?rows" "filter (\<lambda>x. \<not> is_entry x) ?rows = []"
    using e(1) by (auto simp: filter_id_conv filter_empty_conv)
  have keys: "leg_keys ?rows ?cp = map fst (legs r)"
    unfolding leg_keys_def entries rows_keys using dedupe_twice [OF d(1)] by (simp add: snapshot_for_checkpoint_def)
  have "collect (rebuild_one ?rows ?cp cfgs) (map fst (legs r)) = Inr (map (\<lambda>k. ?b (the (dget (legs r) k))) (map fst (legs r)))"
    by (rule collect_Ret) (use rest_leg(3,5) [OF assms] in auto)
  also have "map (\<lambda>k. ?b (the (dget (legs r) k))) (map fst (legs r)) = map snd ?built"
    using rest_leg(3) [OF assms] by auto
  finally have c: "collect (rebuild_one ?rows ?cp cfgs) (map fst (legs r)) = Inr (map snd ?built)" .
  have "keyed (map snd ?built) = ?built"
    by (rule keyed_distinct) (use d(1) rest_leg(2) [OF assms] in \<open>auto simp: case_prod_beta comp_def\<close>)
  moreover have "py_sum (map (\<lambda>b. realized_pnl (rb_leg b)) (dvalues ?built)) = 0"
    by (rule py_sum_zeros) (use assms in \<open>auto simp: at_rest_def list_all_iff settled_def as_recovered_def\<close>)
  moreover have "list_ex (\<lambda>x. ol_ref x \<noteq> None) ?rows"
    using d(2) assms by (cases "legs r") (auto simp: at_rest_def settled_def e)
  moreover have "map (\<lambda>(k, b). (k, rb_leg b)) ?built = map (\<lambda>(k, l). (k, as_recovered l)) (legs r)" by auto
  ultimately show ?thesis
    unfolding derives_realized_def rebuild_state_def keys c cbind_simps Let_def
    by (simp add: restored_def snapshot_for_checkpoint_def)
qed

text \<open>C39: What a run wrote down is what boot recovery reads back. For a run of any number of settled legs (one
  filled position each, no exit sent), the entry rows and the checkpoint the run wrote rebuild exactly that
  run: every leg with its position, size, average, prices, stop, target and trail state, and the peak,
  the trough and the armed profit floor of the run. What is not written down is what changes: the
  totals restart from the rows, the levels come back as floats, and the unit of a leg's risk
  numbers comes back as points whatever it was, so that a leg configured in percent does not.\<close>

theorem recovery_restores_run:
  assumes "at_rest (rv_cfgs ev) r" "run_state reg rid = None"
    "rv_row ev = Ret (Some rw)" "\<not> rw_stopped rw" "rv_unresolved ev = Ret 0"
    "rv_orders ev = map entry_row_of (dvalues (legs r))" "rv_checkpoint ev = Some (snapshot_for_checkpoint r)"
  shows "recover_run ev rid reg =
    (Resumed (subscribed_symbols r) True,
     hydrate_run_state rid (restored rid (rw_strategy rw) (rw_stop_reason rw \<noteq> None) r) reg)"
proof -
  let ?r = "restored rid (rw_strategy rw) (rw_stop_reason rw \<noteq> None) r"
  have same: "subscribed_symbols ?r = subscribed_symbols r"
    by (simp add: subscribed_symbols_def restored_def as_recovered_def filter_map comp_def case_prod_beta image_image)
  obtain k l where "(k, l) \<in> set (legs r)" using assms(1) by (cases "legs r") (auto simp: at_rest_def)
  with rest_leg(4) [OF assms(1) this] have "subscribed_symbols r \<noteq> {}" by (force simp: subscribed_symbols_def)
  with same rebuild_state_at_rest [OF assms(1), of rid "rw_strategy rw" "rw_stop_reason rw \<noteq> None"] show ?thesis
    using assms(2-) by (simp add: recover_run_def try_recover_def get_run_state_def list_all_iff case_prod_beta)
qed

section \<open>A recovered run\<close>

definition rest_leg_sample :: leg where
  "rest_leg_sample =
     \<lparr> leg_id = IdInt 1, position = ''S'', symbol = ''X'', exchange = ''NFO'', lots = 1, qty = 10,
       position_ref = Some ''p'', entry_order_id = Some 7, entry_status = EComplete, entry_filled_qty = 10,
       entry_avg = Fin 100, exit_order_id = None, exit_claim_token = None, exit_kind = None, exit_avg = None,
       leg_ltp = Some (Fin 90), mtm = Fin 100, realized_pnl = 0, status = Open, tick_source = ''rest'',
       risk_unit = ''percent'', sl_pts = VInt 2, target_pts = VNone, trail_x = VInt 0, trail_y = VInt 0,
       effective_sl = Some (Fin 102), effective_target = None, trail_active = False, leg_highest = None,
       leg_lowest = Some (Fin 90), superseded = None \<rparr>"

definition rest_run_sample :: run where
  "rest_run_sample =
     \<lparr> run_id = 1, strategy_id = 1, pnl_realized = 0, pnl_unrealized = Fin 100, pnl_total = Fin 100,
       pnl_peak = Fin 100, pnl_trough = 0, run_lock_armed = True, run_lock_floor = Some (Fin 50),
       trail_to_entry_active = False, tick_source_degraded = False, stopping = False, signal_entry_claims = [],
       legs = [(''1'', rest_leg_sample)] \<rparr>"

definition rest_env_sample :: recover_env where
  "rest_env_sample =
     \<lparr> rv_row = Ret (Some \<lparr>rw_strategy = 1, rw_stopped = False, rw_stop_reason = None\<rparr>), rv_unresolved = Ret 0,
       rv_orders = map entry_row_of (dvalues (legs rest_run_sample)),
       rv_checkpoint = Some (snapshot_for_checkpoint rest_run_sample), rv_cfgs = [],
       rv_release = (\<lambda>a b. False), rv_empty = (\<lambda>a b. False), rv_detach = (\<lambda>a b. False) \<rparr>"

lemma sample_at_rest: "at_rest [] rest_run_sample"
proof -
  have "str_of_int 1 = ''1''" by (simp add: str_of_int_eval)
  then show ?thesis
    by (simp add: at_rest_def rest_run_sample_def rest_leg_sample_def keyed_legs_def settled_def cfg_ok_def config_of_def
        no_cfg_def level_ok_def ftruthy_def zero_pyfloat_def)
qed

theorem recovery_restores_run_witness:
  "recover_run rest_env_sample 1 empty_registry =
     (Resumed {(''X'', ''NFO'')} True,
      hydrate_run_state 1
        (rest_run_sample\<lparr>pnl_total := 0 + Fin 100,
           legs := [(''1'', rest_leg_sample\<lparr>risk_unit := ''points'', tick_source := ''ws'', entry_filled_qty := 0,
              sl_pts := VFloat (Fin 2), trail_x := VFloat (Fin 0), trail_y := VFloat (Fin 0)\<rparr>)]\<rparr>) empty_registry)"
proof -
  have "at_rest (rv_cfgs rest_env_sample) rest_run_sample" using sample_at_rest by (simp add: rest_env_sample_def)
  from recovery_restores_run [OF this, of empty_registry 1 "\<lparr>rw_strategy = 1, rw_stopped = False, rw_stop_reason = None\<rparr>"]
  show ?thesis
    by (simp add: rest_env_sample_def run_state_def empty_registry_def lock_for_def)
      (simp add: rest_run_sample_def rest_leg_sample_def subscribed_symbols_def restored_def as_recovered_def)
qed

section \<open>The registry after a boot\<close>

text \<open>Recovery keeps every invariant of the registry. Whatever the database hands it for however many open
  runs, rows and checkpoints that contradict each other included, booting leaves a registry that is
  reachable, so that all that holds of reachable registries goes on holding; a run that was already
  live, and every run that was not asked for, is exactly as it was; and every run it reports
  is live afterwards and watches exactly the instruments reported.\<close>

theorem recovery_keeps_registry:
  assumes "reachable uu reg" "recover_all evs open_runs reg = (resumed, reg')"
  shows "reachable uu reg' \<and>
    (\<forall>rid. run_state reg rid \<noteq> None \<or> (\<forall>rids. open_runs = Ret rids \<longrightarrow> rid \<notin> set rids) \<longrightarrow>
       run_state reg' rid = run_state reg rid) \<and>
    (\<forall>rid syms. dget resumed rid = Some syms \<longrightarrow> reports_live reg' rid syms)"
proof (cases open_runs)
  case (Inl e)
  with assms show ?thesis by (simp add: recover_all_def)
next
  case (Inr rids)
  with assms have "recover_each evs rids [] reg = (resumed, reg')" by (simp add: recover_all_def)
  from recover_each_safe [OF assms(1) _ this] Inr show ?thesis by auto
qed

theorem recovery_keeps_registry_witness:
  "\<exists>resumed reg'. recover_all (\<lambda>rid. rest_env_sample) (Ret [1, 2]) empty_registry = (resumed, reg') \<and>
     reachable (\<lambda>n. []) reg' \<and> dget resumed 1 = Some {(''X'', ''NFO'')} \<and> reports_live reg' 1 {(''X'', ''NFO'')}"
proof -
  obtain resumed reg' where r: "recover_all (\<lambda>rid. rest_env_sample) (Ret [1, 2]) empty_registry = (resumed, reg')"
    by (rule prod.exhaust)
  have ev: "rv_cfgs rest_env_sample = []" "rv_row rest_env_sample = Ret (Some \<lparr>rw_strategy = 1, rw_stopped = False, rw_stop_reason = None\<rparr>)"
    "rv_unresolved rest_env_sample = Ret 0" "rv_orders rest_env_sample = map entry_row_of (dvalues (legs rest_run_sample))"
    "rv_checkpoint rest_env_sample = Some (snapshot_for_checkpoint rest_run_sample)"
    by (simp_all add: rest_env_sample_def)
  have one: "resumed_symbols (fst (recover_run rest_env_sample rid reg)) = Some {(''X'', ''NFO'')}"
    if "run_state reg rid = None" for rid reg
  proof -
    have "subscribed_symbols (restored rid 1 False rest_run_sample) = {(''X'', ''NFO'')}"
      by (simp add: subscribed_symbols_def restored_def rest_run_sample_def rest_leg_sample_def as_recovered_def)
    moreover have "recover_run rest_env_sample rid reg = (Resumed (subscribed_symbols (restored rid 1 False rest_run_sample)) True,
        hydrate_run_state rid (restored rid 1 False rest_run_sample) reg)"
      unfolding recover_run_def try_recover_def get_run_state_def that ev
      using rebuild_state_at_rest [OF sample_at_rest, of rid 1 False] calculation
      by (simp add: list_all_iff case_prod_beta)
    ultimately show ?thesis by simp
  qed
  have none: "run_state empty_registry 1 = None" by (simp add: run_state_def empty_registry_def lock_for_def)
  obtain out1 reg1 where r1: "recover_run rest_env_sample 1 empty_registry = (out1, reg1)" by (rule prod.exhaust)
  obtain out2 reg2 where r2: "recover_run rest_env_sample 2 reg1 = (out2, reg2)" by (rule prod.exhaust)
  have "resumed_symbols out1 = Some {(''X'', ''NFO'')}" using one [OF none] r1 by simp
  then have "dget resumed 1 = Some {(''X'', ''NFO'')}"
    using r r1 r2 by (auto simp: recover_all_def dict_simps split: option.splits)
  moreover from recovery_keeps_registry [OF reachable.start [of "\<lambda>n. []"] r]
  have "reachable (\<lambda>n. []) reg' \<and> (\<forall>rid syms. dget resumed rid = Some syms \<longrightarrow> reports_live reg' rid syms)" by blast
  ultimately show ?thesis using r by blast
qed

section \<open>What a recovered position holds\<close>

text \<open>C40: A recovered position holds exactly what its rows say. For sizes below \<open>2^53\<close>, a position is open exactly
  when its entry filled for more than its exits took, in whatever order the exits stand in the
  table, and its size is then that difference, never negative and never above the entry's own
  size. An entry that is dead and filled nothing holds nothing and needs no management, whatever
  the checkpoint says; and an exit is kept as in flight only over a position that is still held.\<close>

theorem recovered_quantity_exact:
  assumes "rebuild_referenced_position key ref entries exits w cfg = Inr p" "decisive entries = Some entry"
    "sized entry" "list_all sized exits"
  shows "(status (rp_leg p) = Open) = (held_after w entry exits > 0) \<and>
    (status (rp_leg p) = Open \<longrightarrow> qty (rp_leg p) = held_after w entry exits \<and> qty (rp_leg p) \<le> ol_qty entry) \<and>
    (order_is_dead (ol_status entry) \<and> reported_fill entry = None \<longrightarrow>
       status (rp_leg p) = Rejected \<and> \<not> position_requires_management (rp_leg p)) \<and>
    (exit_order_id (rp_leg p) \<noteq> None \<longrightarrow> status (rp_leg p) = Open)"
  using assms(1)
proof (cases rule: referenced_cases)
  case (1 entry' base reported acc)
  from 1(1) assms(2) have e: "entry' = entry" by simp
  have rep: "reported = reported_fill entry" using 1(3) positive_whole_filled [OF assms(3)] e by simp
  let ?in = "entry_is_filled entry (reported_fill entry) w"
  have rpos: "reported_fill entry = Some q \<Longrightarrow> q > 0" for q by (auto simp: reported_fill_def split: option.splits if_splits)
  have size: "entry_size entry (reported_fill entry) =
      (case reported_fill entry of None \<Rightarrow> ol_qty entry | Some q \<Rightarrow> min (ol_qty entry) q)"
    using assms(3) rpos by (auto simp: entry_size_def sized_def split: option.splits)
  have pos: "0 < entry_size entry (reported_fill entry)" "entry_size entry (reported_fill entry) \<le> ol_qty entry"
    using assms(3) rpos by (auto simp: size sized_def split: option.splits)
  have "list_all sized (sort_key order_rank exits)" using assms(4) by (simp add: list_all_iff)
  from fold_exits_remaining [OF this _ 1(4)] pos
  have left: "xf_remaining acc = held_after w entry exits"
    by (simp add: rep e sum_sorted held_after_def size)
  have taken: "0 \<le> sum_list (map exit_takes exits)"
    using assms(4) by (intro sum_list_nonneg) (auto simp: list_all_iff exit_takes_nonneg)
  then have bound: "held_after w entry exits \<le> ol_qty entry" "\<not> ?in \<Longrightarrow> held_after w entry exits = 0"
    using pos assms(3) by (auto simp: held_after_def size sized_def)
  have dead: "order_is_dead (ol_status entry) \<Longrightarrow> reported_fill entry = None \<Longrightarrow> \<not> ?in"
    by (auto simp: entry_is_filled_def order_is_dead_def order_is_filled_def)
  have leg: "rp_leg p = referenced_leg (rb_leg base) ref entry ?in (entry_size entry (reported_fill entry)) acc (active_exit exits) w"
    using 1(5) by (simp add: rep e)
  have st: "status (rp_leg p) = referenced_status entry ?in acc" and q: "status (rp_leg p) = Open \<Longrightarrow> qty (rp_leg p) = xf_remaining acc"
    and x: "exit_order_id (rp_leg p) = map_option ol_id (active_exit exits)"
    and es: "entry_status (rp_leg p) = (if ?in then EComplete else normalise_order_status (ol_status entry))"
    by (simp_all add: leg referenced_leg_def Let_def)
  have open_iff: "(status (rp_leg p) = Open) = (held_after w entry exits > 0)"
    using bound(2) by (auto simp: st referenced_status_def left)
  have "order_is_dead (ol_status entry) \<and> reported_fill entry = None \<longrightarrow>
       status (rp_leg p) = Rejected \<and> \<not> position_requires_management (rp_leg p)"
    using dead by (auto simp: position_requires_management_def st es referenced_status_def order_is_dead_def)
  moreover have "exit_order_id (rp_leg p) \<noteq> None \<longrightarrow> status (rp_leg p) = Open"
    using 1(8) open_iff by (auto simp: x left)
  ultimately show ?thesis using open_iff q left bound by simp
qed

definition part_entry :: order_line where
  "part_entry = (entry_row_of rest_leg_sample)\<lparr>ol_status := ''cancelled'', ol_filled := Some 6\<rparr>"

definition part_exit :: order_line where
  "part_exit = (entry_row_of rest_leg_sample)\<lparr>ol_id := 8, ol_kind := ''sl_hit'', ol_action := ''BUY'',
     ol_status := ''rejected'', ol_filled := Some 2\<rparr>"

theorem recovered_quantity_exact_witness:
  "\<exists>p. rebuild_referenced_position ''1'' (Some ''p'') [part_entry] [part_exit] Silent no_cfg = Inr p \<and>
     status (rp_leg p) = Open \<and> qty (rp_leg p) = 4"
proof -
  have words: "order_is_dead ''cancelled''" "\<not> order_is_filled ''cancelled''" "\<not> order_is_working ''cancelled''"
    "order_is_dead ''rejected''" "\<not> order_is_filled ''rejected''" "\<not> order_is_working ''rejected''" by code_simp+
  have "\<exists>p. rebuild_referenced_position ''1'' (Some ''p'') [part_entry] [part_exit] Silent no_cfg = Inr p"
    by (simp add: rebuild_referenced_position_def part_entry_def part_exit_def entry_row_of_def rest_leg_sample_def
        working_exits_def active_exit_def words rebuild_legacy_leg_def decisive_def leg_identity_def leg_disposition_def
        positive_whole_int row_is_def risk_params_def no_cfg_def float_of_def float_or_def exit_quantity_def Let_def
        ftruthy_def zero_pyfloat_def entry_is_filled_def entry_size_def)
  then obtain p where p: "rebuild_referenced_position ''1'' (Some ''p'') [part_entry] [part_exit] Silent no_cfg = Inr p" by blast
  have "decisive [part_entry] = Some part_entry" "sized part_entry" "list_all sized [part_exit]"
    by (simp_all add: part_entry_def part_exit_def entry_row_of_def rest_leg_sample_def sized_def)
  from recovered_quantity_exact [OF p this] p show ?thesis
    by (auto simp: held_after_def part_entry_def part_exit_def entry_row_of_def rest_leg_sample_def reported_fill_def
        exit_takes_def entry_is_filled_def)
qed

end
