(* ===== verification/Sandbox_Desk.thy ===== *)
theory Sandbox_Desk
  imports Fund_Manager
begin

text \<open>
  The simulated exchange of the sandbox: \<open>sandbox/execution_engine.py\<close>. One user's rows are a
  \<open>desk\<close>: the funds row, the orders, the trades, the positions, the holdings and the triggers that
  hold margin. Orders and positions are read and written one event at a time (the class lock), and
  every event starts from committed rows; which database call raises is data of the event, and
  what a \<open>DECIMAL\<close> column gives back is the \<open>sql_col\<close> of the rules. Prices of a quote are the
  outcome of \<open>Decimal(str(x))\<close>. Trade identifiers, timestamps, log lines, the published events and
  the market-data subscriptions are left out.
\<close>

section \<open>Rows\<close>

datatype trade_side = Buy | Sell

datatype order_type = MarketOrder | LimitOrder | StopLimit | StopMarket

datatype book_status = InBook | TriggerPending | Filled | Cancelled | Refused

datatype reject_cause = NotAllowed string | ExecutionError pyexc

record sandbox_order =
  so_id :: string
  so_symbol :: string
  so_exchange :: string
  so_side :: trade_side
  so_quantity :: int
  so_price :: "rat option"
  so_trigger :: "rat option"
  so_type :: order_type
  so_product :: string
  so_status :: book_status
  so_average :: "rat option"
  so_filled :: int
  so_pending :: int
  so_cause :: "reject_cause option"
  so_margin :: "rat option"
  so_gtt :: "int option"

record trade =
  td_order :: string
  td_symbol :: string
  td_exchange :: string
  td_product :: string
  td_side :: trade_side
  td_quantity :: int
  td_price :: rat

record book_position =
  bp_symbol :: string
  bp_exchange :: string
  bp_product :: string
  bp_quantity :: int
  bp_average :: rat
  bp_ltp :: rat
  bp_pnl :: rat
  bp_percent :: rat
  bp_accumulated :: rat
  bp_today :: "rat option"
  bp_margin :: "rat option"

record holding =
  hd_symbol :: string
  hd_exchange :: string
  hd_quantity :: int

record desk =
  dk_funds :: "funds option"
  dk_orders :: "sandbox_order list"
  dk_trades :: "trade list"
  dk_positions :: "book_position list"
  dk_holdings :: "holding list"
  dk_gtts :: "gtt list"

record quote =
  qt_ltp :: amount
  qt_bid :: amount
  qt_ask :: amount
  qt_high :: amount
  qt_low :: amount

datatype desk_call = TradeQuery | FillCommit | PositionQuery | PositionCommit | RejectCommit | StatusCommit
  | OrderQuery | OrderInsert | OrderCommit

text \<open>\<open>de_contract\<close> is the multiplier of a symbol, \<open>Decimal(str(float(contract_value)))\<close> or one.\<close>

record desk_env =
  de_sql :: sql_rules
  de_fund :: fund_env
  de_contract :: "string \<Rightarrow> string \<Rightarrow> amount"
  de_fail :: "desk_call \<Rightarrow> pyexc option"

section \<open>Reading and writing rows\<close>

definition find_order :: "string \<Rightarrow> desk \<Rightarrow> sandbox_order option" where
  "find_order oid d = List.find (\<lambda>x. so_id x = oid) (dk_orders d)"

definition put_order :: "sandbox_order \<Rightarrow> desk \<Rightarrow> desk" where
  "put_order ord d = d\<lparr>dk_orders := map (\<lambda>x. if so_id x = so_id ord then ord else x) (dk_orders d)\<rparr>"

type_synonym position_key = "string \<times> string \<times> string"

definition key_of :: "book_position \<Rightarrow> position_key" where
  "key_of p = (bp_symbol p, bp_exchange p, bp_product p)"

definition order_key :: "sandbox_order \<Rightarrow> position_key" where
  "order_key ord = (so_symbol ord, so_exchange ord, so_product ord)"

definition find_position :: "position_key \<Rightarrow> desk \<Rightarrow> book_position option" where
  "find_position k d = List.find (\<lambda>p. key_of p = k) (dk_positions d)"

text \<open>The row of the key is overwritten, or a new row is added.\<close>

definition put_position :: "book_position \<Rightarrow> desk \<Rightarrow> desk" where
  "put_position p d =
     d\<lparr>dk_positions :=
         (if find_position (key_of p) d = None then dk_positions d @ [p]
          else map (\<lambda>x. if key_of x = key_of p then p else x) (dk_positions d))\<rparr>"

definition stored_order :: "sql_rules \<Rightarrow> sandbox_order \<Rightarrow> sandbox_order" where
  "stored_order sq ord =
     ord\<lparr>so_price := map_option (sql_col sq) (so_price ord), so_trigger := map_option (sql_col sq) (so_trigger ord),
         so_average := map_option (sql_col sq) (so_average ord), so_margin := map_option (sql_col sq) (so_margin ord)\<rparr>"

definition stored_position :: "sql_rules \<Rightarrow> book_position \<Rightarrow> book_position" where
  "stored_position sq p =
     p\<lparr>bp_average := sql_col sq (bp_average p), bp_ltp := sql_col sq (bp_ltp p), bp_pnl := sql_col sq (bp_pnl p),
       bp_accumulated := sql_col sq (bp_accumulated p), bp_today := map_option (sql_col sq) (bp_today p), bp_margin := map_option (sql_col sq) (bp_margin p)\<rparr>"

text \<open>The rows the account sees, and an operation of the account run on them. The operations used
  here leave nothing staged, so that the funds row they leave is the committed one.\<close>

definition account_of :: "desk \<Rightarrow> session" where
  "account_of d =
     (let l = \<lparr> lg_funds = dk_funds d,
                lg_positions = map (\<lambda>p. \<lparr>pos_quantity = bp_quantity p, pos_margin = bp_margin p\<rparr>) (dk_positions d),
                lg_holdings = map hd_quantity (dk_holdings d), lg_gtts = dk_gtts d \<rparr>
      in \<lparr>ss_db = l, ss_cur = l\<rparr>)"

definition on_account :: "(session \<Rightarrow> 'a \<times> session) \<Rightarrow> desk \<Rightarrow> 'a \<times> desk" where
  "on_account f d = (let (x, s) = f (account_of d) in (x, d\<lparr>dk_funds := lg_funds (ss_cur s)\<rparr>))"

section \<open>The quote\<close>

text \<open>A last price outside the day's own range is stale; a missing range proves nothing.\<close>

definition quote_looks_stale :: "quote \<Rightarrow> bool" where
  "quote_looks_stale q =
     (case (qt_ltp q, qt_high q, qt_low q) of
        (Inr ltp, Inr high, Inr low) \<Rightarrow>
          if ltp \<le> 0 \<or> high \<le> 0 \<or> low \<le> 0 then False else \<not> (low \<le> ltp \<and> ltp \<le> high)
      | _ \<Rightarrow> False)"

section \<open>Netting a fill into the position\<close>

definition signed_quantity :: "trade_side \<Rightarrow> int \<Rightarrow> int" where
  "signed_quantity s n = (if s = Buy then n else - n)"

definition calculate_realized_pnl :: "int \<Rightarrow> rat \<Rightarrow> int \<Rightarrow> rat \<Rightarrow> rat \<Rightarrow> rat" where
  "calculate_realized_pnl old avg n price cv =
     (if old > 0 then dmul (dmul (dsub price avg) (of_int n)) cv
      else dmul (dmul (dsub avg price) (of_int n)) cv)"

definition opened_position :: "sandbox_order \<Rightarrow> rat \<Rightarrow> book_position" where
  "opened_position ord price =
     \<lparr> bp_symbol = so_symbol ord, bp_exchange = so_exchange ord, bp_product = so_product ord,
       bp_quantity = signed_quantity (so_side ord) (so_quantity ord), bp_average = price, bp_ltp = price,
       bp_pnl = 0, bp_percent = 0, bp_accumulated = 0, bp_today = Some 0,
       bp_margin = Some (margin_or_zero (so_margin ord)) \<rparr>"

definition reopened_position :: "sandbox_order \<Rightarrow> rat \<Rightarrow> book_position \<Rightarrow> book_position" where
  "reopened_position ord price p =
     p\<lparr>bp_quantity := signed_quantity (so_side ord) (so_quantity ord), bp_average := price, bp_ltp := price,
       bp_pnl := 0, bp_percent := 0, bp_margin := Some (margin_or_zero (so_margin ord))\<rparr>"

definition grown_position :: "sandbox_order \<Rightarrow> rat \<Rightarrow> book_position \<Rightarrow> book_position result" where
  "grown_position ord price p =
     (let old = bp_quantity p; new = signed_quantity (so_side ord) (so_quantity ord) in
      rbind (ddiv (dadd (dmul (of_int \<bar>old\<bar>) (bp_average p)) (dmul (of_int \<bar>new\<bar>) price)) (of_int (\<bar>old\<bar> + \<bar>new\<bar>)))
        (\<lambda>avg. Ret (p\<lparr>bp_quantity := old + new, bp_average := avg, bp_ltp := price,
           bp_margin := Some (dadd (margin_or_zero (bp_margin p)) (margin_or_zero (so_margin ord)))\<rparr>)))"

definition with_realized :: "rat \<Rightarrow> book_position \<Rightarrow> book_position" where
  "with_realized pnl p =
     p\<lparr>bp_accumulated := dadd (bp_accumulated p) pnl, bp_today := Some (dadd (margin_or_zero (bp_today p)) pnl)\<rparr>"

definition closed_position :: "rat \<Rightarrow> rat \<Rightarrow> book_position \<Rightarrow> book_position" where
  "closed_position price pnl p =
     (let q = with_realized pnl p in
      q\<lparr>bp_quantity := 0, bp_margin := Some 0, bp_ltp := price, bp_pnl := margin_or_zero (bp_today q), bp_percent := 0\<rparr>)"

text \<open>What is left of a reduced position, or the position on the other side after a reversal: the order's
  margin is multiplied by the share of the order that went through to the other side.\<close>

definition reduced_position :: "sandbox_order \<Rightarrow> rat \<Rightarrow> int \<Rightarrow> rat \<Rightarrow> book_position \<Rightarrow> book_position result" where
  "reduced_position ord price old remaining p =
     (let new = signed_quantity (so_side ord) (so_quantity ord) in
      if \<bar>new\<bar> > \<bar>old\<bar>
      then
        rbind (ddiv (of_int (\<bar>new\<bar> - \<bar>old\<bar>)) (of_int \<bar>new\<bar>)) (\<lambda>share.
          Ret (p\<lparr>bp_quantity := signed_quantity (so_side ord) (\<bar>new\<bar> - \<bar>old\<bar>), bp_average := price,
                 bp_margin := Some (dmul (margin_or_zero (so_margin ord)) share), bp_ltp := price\<rparr>))
      else Ret (p\<lparr>bp_quantity := old + new, bp_margin := Some remaining, bp_ltp := price\<rparr>))"

text \<open>
  The release of margin inside a fill. It commits, and with it whatever the fill had staged; an
  exception in it rolls the staged changes back; a refusal does neither.
\<close>

datatype release_effect = NotAsked | Committed | Undone | NotGranted

definition effect_of :: "bool \<times> fund_msg \<Rightarrow> release_effect" where
  "effect_of answer =
     (case answer of
        (True, msg) \<Rightarrow> Committed
      | (False, OpError e) \<Rightarrow> Undone
      | (False, NotInitialized) \<Rightarrow> Undone
      | (False, msg) \<Rightarrow> NotGranted)"

definition release_for :: "desk_env \<Rightarrow> rat \<Rightarrow> rat \<Rightarrow> desk \<Rightarrow> release_effect \<times> desk" where
  "release_for en margin pnl d =
     (if margin > 0
      then (let (answer, d') = on_account (release_margin (de_sql en) (de_fund en) (Ret margin) (Ret pnl)) d in
            (effect_of answer, d'))
      else (NotAsked, d))"

definition close_out :: "desk_env \<Rightarrow> sandbox_order \<Rightarrow> rat \<Rightarrow> book_position \<Rightarrow> desk \<Rightarrow> book_position result \<times> desk" where
  "close_out en ord price p d =
     (case de_contract en (so_symbol ord) (so_exchange ord) of
        Inl e \<Rightarrow> (Raise e, d)
      | Inr cv \<Rightarrow>
          (let pnl = calculate_realized_pnl (bp_quantity p) (bp_average p) \<bar>so_quantity ord\<bar> price cv;
               (effect, d') = release_for en (margin_or_zero (bp_margin p)) pnl d in
           (Ret (closed_position price pnl p), d')))"

definition reduce :: "desk_env \<Rightarrow> sandbox_order \<Rightarrow> rat \<Rightarrow> book_position \<Rightarrow> desk \<Rightarrow> book_position result \<times> desk" where
  "reduce en ord price p d =
     (let old = bp_quantity p; n = min \<bar>old\<bar> \<bar>so_quantity ord\<bar> in
      case de_contract en (so_symbol ord) (so_exchange ord) of
        Inl e \<Rightarrow> (Raise e, d)
      | Inr cv \<Rightarrow>
          (let pnl = calculate_realized_pnl old (bp_average p) n price cv; staged = with_realized pnl p;
               current = margin_or_zero (bp_margin p) in
           case ddiv (of_int n) (of_int \<bar>old\<bar>) of
             Inl e \<Rightarrow> (Raise e, d)
           | Inr share \<Rightarrow>
               (let margin = dmul current share; (effect, d') = release_for en margin pnl d;
                    p' = (case effect of Committed \<Rightarrow> stored_position (de_sql en) staged | Undone \<Rightarrow> p | _ \<Rightarrow> staged);
                    d'' = (if effect = Committed then put_position p' d' else d') in
                (reduced_position ord price old (dsub current margin) p', d''))))"

definition net_fill :: "desk_env \<Rightarrow> sandbox_order \<Rightarrow> rat \<Rightarrow> desk \<Rightarrow> book_position result \<times> desk" where
  "net_fill en ord price d =
     (let new = signed_quantity (so_side ord) (so_quantity ord) in
      case find_position (order_key ord) d of
        None \<Rightarrow> (Ret (opened_position ord price), d)
      | Some p \<Rightarrow>
          (let old = bp_quantity p in
           if old = 0 then (Ret (reopened_position ord price p), d)
           else if old + new = 0 then close_out en ord price p d
           else if old > 0 \<and> old + new > old \<or> old < 0 \<and> old + new < old then (grown_position ord price p, d)
           else reduce en ord price p d))"

text \<open>After the position is stored, a margin that no open position accounts for is given back.\<close>

definition settle_margin :: "desk_env \<Rightarrow> desk \<Rightarrow> desk" where
  "settle_margin en d =
     (if fst (validate_margin_consistency (de_fund en) (account_of d)) then d
      else snd (on_account (reconcile_margin (de_sql en) (de_fund en) True) d))"

definition update_position :: "desk_env \<Rightarrow> sandbox_order \<Rightarrow> rat \<Rightarrow> desk \<Rightarrow> unit result \<times> desk" where
  "update_position en ord price d =
     (case de_fail en PositionQuery of
        Some e \<Rightarrow> (Raise e, d)
      | None \<Rightarrow>
          (case net_fill en ord price d of
             (Inl e, d') \<Rightarrow> (Raise e, d')
           | (Inr p, d') \<Rightarrow>
               (case de_fail en PositionCommit of
                  Some e \<Rightarrow> (Raise e, d')
                | None \<Rightarrow> (Ret (), settle_margin en (put_position (stored_position (de_sql en) p) d')))))"

section \<open>Executing an order\<close>

definition trade_of :: "sql_rules \<Rightarrow> sandbox_order \<Rightarrow> rat \<Rightarrow> trade" where
  "trade_of sq ord price =
     \<lparr> td_order = so_id ord, td_symbol = so_symbol ord, td_exchange = so_exchange ord, td_product = so_product ord,
       td_side = so_side ord, td_quantity = so_quantity ord, td_price = sql_col sq price \<rparr>"

definition filled_order :: "rat \<Rightarrow> sandbox_order \<Rightarrow> sandbox_order" where
  "filled_order price ord =
     ord\<lparr>so_status := Filled, so_average := Some price, so_filled := so_quantity ord, so_pending := 0\<rparr>"

definition reject_order :: "desk_env \<Rightarrow> pyexc \<Rightarrow> sandbox_order \<Rightarrow> desk \<Rightarrow> desk" where
  "reject_order en e ord d =
     (if de_fail en RejectCommit \<noteq> None then d
      else put_order (ord\<lparr>so_status := Refused, so_cause := Some (ExecutionError e)\<rparr>) d)"

definition execute_order :: "desk_env \<Rightarrow> sandbox_order \<Rightarrow> rat \<Rightarrow> desk \<Rightarrow> desk" where
  "execute_order en ord price d =
     (case de_fail en FillCommit of
        Some e \<Rightarrow> reject_order en e ord d
      | None \<Rightarrow>
          (let ord' = stored_order (de_sql en) (filled_order price ord);
               d1 = put_order ord' (d\<lparr>dk_trades := dk_trades d @ [trade_of (de_sql en) ord price]\<rparr>) in
           case update_position en ord' price d1 of
             (Inr _, d2) \<Rightarrow> d2
           | (Inl e, d2) \<Rightarrow> reject_order en e ord' d2))"

section \<open>When an order executes\<close>

datatype decision = Wait | FillAt rat | ToBook

text \<open>A comparison with a price that is not set raises, and the order waits.\<close>

definition at_or_below :: "rat \<Rightarrow> rat option \<Rightarrow> bool" where
  "at_or_below x limit = (case limit of None \<Rightarrow> False | Some y \<Rightarrow> x \<le> y)"

definition at_or_above :: "rat \<Rightarrow> rat option \<Rightarrow> bool" where
  "at_or_above x limit = (case limit of None \<Rightarrow> False | Some y \<Rightarrow> y \<le> x)"

definition within_limit :: "trade_side \<Rightarrow> rat \<Rightarrow> rat option \<Rightarrow> bool" where
  "within_limit s x limit = (if s = Buy then at_or_below x limit else at_or_above x limit)"

definition triggered :: "trade_side \<Rightarrow> rat \<Rightarrow> rat option \<Rightarrow> bool" where
  "triggered s x level = (if s = Buy then at_or_above x level else at_or_below x level)"

definition trigger_decision :: "sandbox_order \<Rightarrow> rat \<Rightarrow> decision" where
  "trigger_decision ord ltp =
     (if \<not> triggered (so_side ord) ltp (so_trigger ord) then Wait
      else if so_type ord = StopMarket then FillAt ltp
      else if so_price ord = None then Wait
      else if within_limit (so_side ord) ltp (so_price ord) then FillAt ltp
      else ToBook)"

definition book_decision :: "sandbox_order \<Rightarrow> rat \<Rightarrow> rat \<Rightarrow> rat \<Rightarrow> decision" where
  "book_decision ord ltp bid ask =
     (case so_type ord of
        MarketOrder \<Rightarrow>
          if so_side ord = Buy then FillAt (if ask > 0 then ask else ltp) else FillAt (if bid > 0 then bid else ltp)
      | LimitOrder \<Rightarrow> if within_limit (so_side ord) ltp (so_price ord) then FillAt (the (so_price ord)) else Wait
      | StopLimit \<Rightarrow>
          if triggered (so_side ord) ltp (so_trigger ord) \<and> within_limit (so_side ord) ltp (so_price ord)
          then FillAt ltp else Wait
      | StopMarket \<Rightarrow> if triggered (so_side ord) ltp (so_trigger ord) then FillAt ltp else Wait)"

definition fill_decision :: "quote \<Rightarrow> sandbox_order \<Rightarrow> decision" where
  "fill_decision q ord =
     (case (qt_ltp q, qt_bid q, qt_ask q) of
        (Inr ltp, Inr bid, Inr ask) \<Rightarrow>
          if ltp \<le> 0 \<or> quote_looks_stale q then Wait
          else if so_status ord = TriggerPending then trigger_decision ord ltp
          else book_decision ord ltp bid ask
      | _ \<Rightarrow> Wait)"

definition process_order :: "desk_env \<Rightarrow> quote \<Rightarrow> sandbox_order \<Rightarrow> desk \<Rightarrow> desk" where
  "process_order en q ord d =
     (if de_fail en TradeQuery \<noteq> None then d
      else
        case List.find (\<lambda>t. td_order t = so_id ord) (dk_trades d) of
          Some t \<Rightarrow>
            if so_status ord = InBook \<and> de_fail en StatusCommit = None
            then put_order (stored_order (de_sql en) (filled_order (td_price t) ord)) d
            else d
        | None \<Rightarrow>
            (case fill_decision q ord of
               Wait \<Rightarrow> d
             | FillAt price \<Rightarrow> execute_order en ord price d
             | ToBook \<Rightarrow>
                 if de_fail en StatusCommit = None
                 then put_order (stored_order (de_sql en) (ord\<lparr>so_status := InBook\<rparr>)) d else d))"

definition is_pending :: "sandbox_order \<Rightarrow> bool" where
  "is_pending ord = (so_status ord = InBook \<or> so_status ord = TriggerPending)"

text \<open>One cycle over the orders that were pending when it started, each read again when its turn comes.\<close>

fun process_each ::
  "(string \<Rightarrow> desk_env) \<Rightarrow> (string \<times> string \<Rightarrow> quote option) \<Rightarrow> sandbox_order list \<Rightarrow> desk \<Rightarrow> desk" where
  "process_each envs quotes [] d = d"
| "process_each envs quotes (ord # ords) d =
     process_each envs quotes ords
       (case (quotes (so_symbol ord, so_exchange ord), find_order (so_id ord) d) of
          (Some q, Some row) \<Rightarrow> process_order (envs (so_id ord)) q row d
        | _ \<Rightarrow> d)"

definition check_and_execute_pending_orders ::
  "(string \<Rightarrow> desk_env) \<Rightarrow> (string \<times> string \<Rightarrow> quote option) \<Rightarrow> desk \<Rightarrow> desk" where
  "check_and_execute_pending_orders envs quotes d = process_each envs quotes (filter is_pending (dk_orders d)) d"

text \<open>A tick of the market feed, in \<open>sandbox/websocket_execution_engine.py\<close>: the last price stands for the
  bid and the ask, and there is no day range.\<close>

definition check_and_execute_order :: "desk_env \<Rightarrow> string \<Rightarrow> rat \<Rightarrow> desk \<Rightarrow> desk" where
  "check_and_execute_order en oid ltp d =
     (case find_order oid d of
        None \<Rightarrow> d
      | Some ord \<Rightarrow>
          if is_pending ord
          then process_order en \<lparr>qt_ltp = Ret ltp, qt_bid = Ret ltp, qt_ask = Ret ltp, qt_high = Ret 0, qt_low = Ret 0\<rparr> ord d
          else d)"

end
