(* ===== verification/Sandbox_Orders.thy ===== *)
theory Sandbox_Orders
  imports Sandbox_Desk
begin

text \<open>
  Placing, modifying and cancelling a simulated order: \<open>sandbox/order_manager.py\<close>. A request is the
  dictionary the REST layer hands over: the words are strings (empty when missing), the numbers are
  Python values of any type. \<open>Decimal(str(x))\<close>, the symbol table, the configuration, the clock and the
  quotes a request is answered with are data of the environment. The books and reports that only read
  rows are left out.
\<close>

section \<open>Requests and answers\<close>

record order_request =
  rq_symbol :: string
  rq_exchange :: string
  rq_action :: string
  rq_quantity :: pyval
  rq_price :: pyval
  rq_trigger :: pyval
  rq_price_type :: string
  rq_product :: string
  rq_gtt :: "int option"

record modify_request =
  mr_quantity :: "pyval option"
  mr_price :: pyval
  mr_trigger :: pyval

datatype order_msg =
    MissingField string | InvalidAction | InvalidPriceType | InvalidProduct | NrmlNotAllowed string
  | CncNotAllowed string | QuantityNotPositive | InvalidQuantity | RequiresPrice string | PriceNotPositive
  | InvalidPrice | RequiresTrigger string | TriggerNotPositive | InvalidTrigger | InvalidExchange
  | SymbolNotFound string string | NotLotMultiple int | AfterSquareOff int | NoMarketPrice string
  | InvalidMarginPrice order_type | MarginNotCalculated margin_msg | FundsRefused fund_msg
  | OrderNotFound string | NotModifiable book_status | NotCancellable book_status | NoPriceField order_type
  | NoTriggerField order_type

datatype order_answer = Accepted string | Denied order_msg | RejectedRow string | Crashed pyexc | Done string

text \<open>\<open>pm_info\<close> is the lot size of a known symbol; times of day are microseconds since midnight.\<close>

record place_env =
  pm_desk :: desk_env
  pm_decimal :: "pyval \<Rightarrow> amount"
  pm_info :: "string \<Rightarrow> string \<Rightarrow> int option option result"
  pm_cfg :: "string \<Rightarrow> string \<Rightarrow> amount"
  pm_square_off :: "string \<Rightarrow> int option"
  pm_now :: int
  pm_prefetched :: "quote option"
  pm_quotes :: "nat \<Rightarrow> quote option"
  pm_new_id :: string

definition valid_exchanges :: "string list" where
  "valid_exchanges = [''NSE'', ''NFO'', ''CDS'', ''BSE'', ''BFO'', ''BCD'', ''MCX'', ''NCDEX'', ''NCO'', ''NSE_INDEX'',
     ''BSE_INDEX'', ''MCX_INDEX'', ''GLOBAL_INDEX'', ''CRYPTO'']"

definition lot_exchanges :: "string list" where
  "lot_exchanges = [''NFO'', ''BFO'', ''CDS'', ''BCD'', ''MCX'', ''NCDEX'', ''CRYPTO'']"

fun order_type_of :: "string \<Rightarrow> order_type option" where
  "order_type_of t =
     (if t = ''MARKET'' then Some MarketOrder else if t = ''LIMIT'' then Some LimitOrder
      else if t = ''SL'' then Some StopLimit else if t = ''SL-M'' then Some StopMarket else None)"

section \<open>Validation\<close>

definition missing_field :: "order_request \<Rightarrow> string option" where
  "missing_field rq =
     (if rq_symbol rq = [] then Some ''symbol'' else if rq_exchange rq = [] then Some ''exchange''
      else if rq_action rq = [] then Some ''action'' else if \<not> py_truthy (rq_quantity rq) then Some ''quantity''
      else if rq_price_type rq = [] then Some ''price_type'' else if rq_product rq = [] then Some ''product'' else None)"

text \<open>A number that must be positive: absent, of the wrong kind, or too small; other exceptions escape.\<close>

definition positive_float :: "pyval \<Rightarrow> order_msg \<Rightarrow> order_msg \<Rightarrow> order_msg \<Rightarrow> order_msg option result" where
  "positive_float v absent small wrong =
     (if \<not> py_truthy v then Ret (Some absent)
      else case py_float v of
             Inl ValueError \<Rightarrow> Ret (Some wrong)
           | Inl TypeError \<Rightarrow> Ret (Some wrong)
           | Inl e \<Rightarrow> Raise e
           | Inr x \<Rightarrow> Ret (if x \<le> 0 then Some small else None))"

definition valid_quantity :: "pyval \<Rightarrow> order_msg option result" where
  "valid_quantity v =
     (case py_int v of
        Inl ValueError \<Rightarrow> Ret (Some InvalidQuantity)
      | Inl TypeError \<Rightarrow> Ret (Some InvalidQuantity)
      | Inl e \<Rightarrow> Raise e
      | Inr n \<Rightarrow> Ret (if n \<le> 0 then Some QuantityNotPositive else None))"

definition and_then :: "order_msg option result \<Rightarrow> order_msg option result \<Rightarrow> order_msg option result" where
  "and_then a b = rbind a (\<lambda>m. if m = None then b else Ret m)"

definition validate_order :: "order_request \<Rightarrow> order_msg option result" where
  "validate_order rq =
     (let action = str_upper (rq_action rq); kind = order_type_of (str_upper (rq_price_type rq));
          product = str_upper (rq_product rq); exch = str_upper (rq_exchange rq) in
      if missing_field rq \<noteq> None then Ret (Some (MissingField (the (missing_field rq))))
      else if action \<noteq> ''BUY'' \<and> action \<noteq> ''SELL'' then Ret (Some InvalidAction)
      else if kind = None then Ret (Some InvalidPriceType)
      else if product \<notin> {''CNC'', ''NRML'', ''MIS''} then Ret (Some InvalidProduct)
      else if exch \<in> {''NSE'', ''BSE''} \<and> product = ''NRML'' then Ret (Some (NrmlNotAllowed exch))
      else if exch \<in> set lot_exchanges \<and> product = ''CNC'' then Ret (Some (CncNotAllowed exch))
      else
        and_then (valid_quantity (rq_quantity rq))
          (and_then
            (if kind = Some LimitOrder \<or> kind = Some StopLimit
             then positive_float (rq_price rq) (RequiresPrice (rq_price_type rq)) PriceNotPositive InvalidPrice else Ret None)
            (and_then
              (if kind = Some StopLimit \<or> kind = Some StopMarket
               then positive_float (rq_trigger rq) (RequiresTrigger (rq_price_type rq)) TriggerNotPositive InvalidTrigger
               else Ret None)
              (Ret (if exch \<in> set valid_exchanges then None else Some InvalidExchange)))))"

record parsed_order =
  ps_symbol :: string
  ps_exchange :: string
  ps_side :: trade_side
  ps_quantity :: int
  ps_price :: "rat option"
  ps_trigger :: "rat option"
  ps_type :: order_type
  ps_product :: string

definition decimal_field :: "place_env \<Rightarrow> pyval \<Rightarrow> rat option result" where
  "decimal_field en v = (if py_truthy v then rbind (pm_decimal en v) (\<lambda>x. Ret (Some x)) else Ret None)"

text \<open>The numbers that do not apply to the kind of order are dropped.\<close>

definition parse_order :: "place_env \<Rightarrow> order_request \<Rightarrow> parsed_order result" where
  "parse_order en rq =
     (let kind = the (order_type_of (str_upper (rq_price_type rq))) in
      rbind (py_int (rq_quantity rq)) (\<lambda>n.
      rbind (decimal_field en (rq_price rq)) (\<lambda>price.
      rbind (decimal_field en (rq_trigger rq)) (\<lambda>trigger.
      Ret \<lparr> ps_symbol = rq_symbol rq, ps_exchange = str_upper (rq_exchange rq),
            ps_side = (if str_upper (rq_action rq) = ''BUY'' then Buy else Sell), ps_quantity = n,
            ps_price = (if kind = MarketOrder \<or> kind = StopMarket then None else price),
            ps_trigger = (if kind = MarketOrder \<or> kind = LimitOrder then None else trigger),
            ps_type = kind, ps_product = str_upper (rq_product rq) \<rparr>))))"

section \<open>Guards\<close>

definition lot_refusal :: "string \<Rightarrow> int \<Rightarrow> int option \<Rightarrow> order_msg option" where
  "lot_refusal exch n lot =
     (let size = (case lot of None \<Rightarrow> 1 | Some l \<Rightarrow> if l = 0 then 1 else l) in
      if exch \<in> set lot_exchanges \<and> n mod size \<noteq> 0 then Some (NotLotMultiple size) else None)"

definition parsed_key :: "parsed_order \<Rightarrow> position_key" where
  "parsed_key ps = (ps_symbol ps, ps_exchange ps, ps_product ps)"

definition held_quantity :: "parsed_order \<Rightarrow> desk \<Rightarrow> int" where
  "held_quantity ps d = (case find_position (parsed_key ps) d of None \<Rightarrow> 0 | Some p \<Rightarrow> bp_quantity p)"

definition opposes :: "trade_side \<Rightarrow> int \<Rightarrow> bool" where
  "opposes s held = (s = Buy \<and> held < 0 \<or> s = Sell \<and> held > 0)"

definition market_open :: int where
  "market_open = 9 * 60 * 60000000"

definition mis_refusal :: "place_env \<Rightarrow> parsed_order \<Rightarrow> desk \<Rightarrow> order_msg option" where
  "mis_refusal en ps d =
     (if ps_product ps \<noteq> ''MIS'' then None
      else case pm_square_off en (ps_exchange ps) of
             None \<Rightarrow> None
           | Some t \<Rightarrow>
               if (pm_now en \<ge> t \<or> pm_now en < market_open) \<and> \<not> opposes (ps_side ps) (held_quantity ps d)
               then Some (AfterSquareOff t) else None)"

definition held_shares :: "parsed_order \<Rightarrow> desk \<Rightarrow> int" where
  "held_shares ps d =
     (case List.find (\<lambda>h. hd_symbol h = ps_symbol ps \<and> hd_exchange h = ps_exchange ps) (dk_holdings d) of
        None \<Rightarrow> 0 | Some h \<Rightarrow> max 0 (hd_quantity h))"

definition cnc_rejection :: "parsed_order \<Rightarrow> desk \<Rightarrow> reject_cause option" where
  "cnc_rejection ps d =
     (if ps_side ps = Sell \<and> ps_product ps = ''CNC''
      then
        (let available = held_quantity ps d + held_shares ps d in
         if available \<le> 0 then Some (NotAllowed ''no positions or holdings'')
         else if ps_quantity ps > available then Some (NotAllowed ''more than available'')
         else None)
      else None)"

section \<open>The price of an order\<close>

definition usable_quote :: "quote option \<Rightarrow> quote option" where
  "usable_quote q =
     (case q of None \<Rightarrow> None | Some x \<Rightarrow> (case qt_ltp x of Inl e \<Rightarrow> None | Inr p \<Rightarrow> if p > 0 then Some x else None))"

text \<open>The prefetched quote, or the first usable one of three attempts.\<close>

definition working_quote :: "place_env \<Rightarrow> quote option" where
  "working_quote en =
     option_or (usable_quote (pm_prefetched en))
       (option_or (usable_quote (pm_quotes en 0))
         (option_or (usable_quote (pm_quotes en 1)) (usable_quote (pm_quotes en 2))))"

definition last_price :: "quote \<Rightarrow> rat" where
  "last_price q = (case qt_ltp q of Inl e \<Rightarrow> 0 | Inr p \<Rightarrow> p)"

record pricing =
  pr_price :: "rat option"
  pr_cached :: "quote option"
  pr_trigger_met :: bool

definition price_order :: "place_env \<Rightarrow> parsed_order \<Rightarrow> desk \<Rightarrow> pricing option" where
  "price_order en ps d =
     (let q = working_quote en; ltp = (case q of None \<Rightarrow> 0 | Some x \<Rightarrow> last_price x);
          fits = (q \<noteq> None \<and> within_limit (ps_side ps) ltp (ps_price ps));
          met = (q \<noteq> None \<and> triggered (ps_side ps) ltp (ps_trigger ps)) in
      case ps_type ps of
        MarketOrder \<Rightarrow>
          if q \<noteq> None then Some \<lparr>pr_price = Some ltp, pr_cached = q, pr_trigger_met = False\<rparr>
          else (case find_position (parsed_key ps) d of
                  None \<Rightarrow> None
                | Some p \<Rightarrow> if bp_ltp p > 0 then Some \<lparr>pr_price = Some (bp_ltp p), pr_cached = None, pr_trigger_met = False\<rparr>
                            else None)
      | LimitOrder \<Rightarrow> Some \<lparr>pr_price = ps_price ps, pr_cached = (if fits then q else None), pr_trigger_met = False\<rparr>
      | StopLimit \<Rightarrow> Some \<lparr>pr_price = ps_trigger ps, pr_cached = (if met \<and> fits then q else None), pr_trigger_met = met\<rparr>
      | StopMarket \<Rightarrow> Some \<lparr>pr_price = ps_trigger ps, pr_cached = (if met then q else None), pr_trigger_met = met\<rparr>)"

section \<open>Margin\<close>

definition side_name :: "trade_side \<Rightarrow> string" where
  "side_name s = (if s = Buy then ''BUY'' else ''SELL'')"

definition margin_of :: "place_env \<Rightarrow> parsed_order \<Rightarrow> int \<Rightarrow> rat \<Rightarrow> rat option \<times> margin_msg" where
  "margin_of en ps n price =
     calculate_margin_required (pm_cfg en)
       (\<lambda>s e. rbind (pm_info en s e) (\<lambda>x. Ret (x \<noteq> None)))
       (ps_symbol ps) (ps_exchange ps) (ps_product ps) (Ret n) (Ret price) (Some (side_name (ps_side ps)))"

text \<open>What new exposure needs: nothing for a reduction, the part beyond the position for a reversal.\<close>

definition exposure_margin :: "place_env \<Rightarrow> parsed_order \<Rightarrow> rat \<Rightarrow> rat \<Rightarrow> desk \<Rightarrow> rat option" where
  "exposure_margin en ps price required d =
     (let held = held_quantity ps d in
      if opposes (ps_side ps) held
      then if ps_quantity ps \<le> \<bar>held\<bar> then Some 0 else fst (margin_of en ps (ps_quantity ps - \<bar>held\<bar>) price)
      else Some required)"

definition needs_margin :: "trade_side \<Rightarrow> string \<Rightarrow> string \<Rightarrow> string \<Rightarrow> bool" where
  "needs_margin s symbol exch product =
     (s = Buy \<or> is_option symbol exch \<or> is_future symbol exch \<or> product = ''MIS'' \<or> product = ''NRML'')"

text \<open>The margin taken from the account for the order, or why it was not.\<close>

definition take_margin :: "place_env \<Rightarrow> parsed_order \<Rightarrow> rat option \<Rightarrow> desk \<Rightarrow> (order_answer + rat) \<times> desk" where
  "take_margin en ps margin d =
     (let sq = de_sql (pm_desk en); fe = de_fund (pm_desk en) in
      if \<not> needs_margin (ps_side ps) (ps_symbol ps) (ps_exchange ps) (ps_product ps) then (Inr 0, d)
      else
        case margin of
          None \<Rightarrow> (Inl (Crashed TypeError), d)
        | Some m \<Rightarrow>
            if \<not> m > 0 then (Inr m, d)
            else
              (let ((can, why), d1) = on_account (check_margin_available sq fe (Ret m)) d in
               if \<not> can then (Inl (Denied (FundsRefused why)), d1)
               else
                 (let ((ok, why2), d2) = on_account (block_margin sq fe (Ret m)) d1 in
                  if \<not> ok then (Inl (Denied (FundsRefused why2)), d2) else (Inr m, d2))))"

section \<open>Placing\<close>

definition new_row :: "place_env \<Rightarrow> order_request \<Rightarrow> parsed_order \<Rightarrow> rat \<Rightarrow> sandbox_order" where
  "new_row en rq ps price =
     \<lparr> so_id = pm_new_id en, so_symbol = ps_symbol ps, so_exchange = ps_exchange ps, so_side = ps_side ps,
       so_quantity = ps_quantity ps, so_price = (if ps_type ps = MarketOrder then Some price else ps_price ps),
       so_trigger = ps_trigger ps, so_type = ps_type ps, so_product = ps_product ps, so_status = InBook,
       so_average = None, so_filled = 0, so_pending = ps_quantity ps, so_cause = None, so_margin = Some 0,
       so_gtt = None \<rparr>"

text \<open>Order identifiers are unique, and so are the trigger legs that orders carry.\<close>

definition leg_claimed :: "int option \<Rightarrow> desk \<Rightarrow> bool" where
  "leg_claimed leg d = (leg \<noteq> None \<and> list_ex (\<lambda>x. so_gtt x = leg) (dk_orders d))"

definition insert_order :: "place_env \<Rightarrow> sandbox_order \<Rightarrow> desk \<Rightarrow> sandbox_order result \<times> desk" where
  "insert_order en ord d =
     (case de_fail (pm_desk en) OrderInsert of
        Some e \<Rightarrow> (Raise e, d)
      | None \<Rightarrow>
          if find_order (so_id ord) d \<noteq> None \<or> leg_claimed (so_gtt ord) d then (Raise DatabaseError, d)
          else (let row = stored_order (de_sql (pm_desk en)) ord in (Ret row, d\<lparr>dk_orders := dk_orders d @ [row]\<rparr>)))"

definition execute_now :: "place_env \<Rightarrow> pricing \<Rightarrow> sandbox_order \<Rightarrow> desk \<Rightarrow> desk" where
  "execute_now en pr row d =
     (case pr_cached pr of
        None \<Rightarrow> d
      | Some q \<Rightarrow>
          if quote_looks_stale q then d
          else if so_type row = MarketOrder then process_order (pm_desk en) q row d
          else if last_price q > 0 then execute_order (pm_desk en) row (last_price q) d
          else d)"

definition place_priced :: "place_env \<Rightarrow> order_request \<Rightarrow> parsed_order \<Rightarrow> pricing \<Rightarrow> rat \<Rightarrow> desk \<Rightarrow> order_answer \<times> desk" where
  "place_priced en rq ps pr price d =
     (case margin_of en ps (ps_quantity ps) price of
        (None, why) \<Rightarrow> (Denied (MarginNotCalculated why), d)
      | (Some required, _) \<Rightarrow>
          (case take_margin en ps (exposure_margin en ps price required d) d of
             (Inl refusal, d1) \<Rightarrow> (refusal, d1)
           | (Inr m, d1) \<Rightarrow>
               (case cnc_rejection ps d of
                  Some why \<Rightarrow>
                    (case insert_order en ((new_row en rq ps price)\<lparr>so_status := Refused, so_pending := 0, so_cause := Some why\<rparr>) d1 of
                       (Inl e, d2) \<Rightarrow> (Crashed e, d2)
                     | (Inr row, d2) \<Rightarrow> (RejectedRow (so_id row), d2))
                | None \<Rightarrow>
                    (let resting = (ps_type ps = StopLimit \<or> ps_type ps = StopMarket) \<and> \<not> pr_trigger_met pr in
                     case insert_order en ((new_row en rq ps price)\<lparr>so_status := (if resting then TriggerPending else InBook),
                            so_margin := Some m, so_gtt := rq_gtt rq\<rparr>) d1 of
                       (Inl e, d2) \<Rightarrow> (Crashed e, d2)
                     | (Inr row, d2) \<Rightarrow> (Accepted (so_id row), execute_now en pr row d2)))))"

definition place_checked :: "place_env \<Rightarrow> order_request \<Rightarrow> parsed_order \<Rightarrow> desk \<Rightarrow> order_answer \<times> desk" where
  "place_checked en rq ps d =
     (case pm_info en (ps_symbol ps) (ps_exchange ps) of
        Inl e \<Rightarrow> (Crashed e, d)
      | Inr None \<Rightarrow> (Denied (SymbolNotFound (ps_symbol ps) (ps_exchange ps)), d)
      | Inr (Some lot) \<Rightarrow>
          (case lot_refusal (ps_exchange ps) (ps_quantity ps) lot of
             Some why \<Rightarrow> (Denied why, d)
           | None \<Rightarrow>
               (case mis_refusal en ps d of
                  Some why \<Rightarrow> (Denied why, d)
                | None \<Rightarrow>
                    (case price_order en ps d of
                       None \<Rightarrow> (Denied (NoMarketPrice (ps_symbol ps)), d)
                     | Some pr \<Rightarrow>
                         (case pr_price pr of
                            None \<Rightarrow> (Denied (InvalidMarginPrice (ps_type ps)), d)
                          | Some price \<Rightarrow>
                              if price \<le> 0 then (Denied (InvalidMarginPrice (ps_type ps)), d)
                              else place_priced en rq ps pr price d)))))"

definition place_order :: "place_env \<Rightarrow> order_request \<Rightarrow> desk \<Rightarrow> order_answer \<times> desk" where
  "place_order en rq d =
     (case validate_order rq of
        Inl e \<Rightarrow> (Crashed e, d)
      | Inr (Some why) \<Rightarrow> (Denied why, d)
      | Inr None \<Rightarrow>
          (case parse_order en rq of
             Inl e \<Rightarrow> (Crashed e, d)
           | Inr ps \<Rightarrow>
               (case de_fail (pm_desk en) OrderQuery of
                  Some e \<Rightarrow> (Crashed e, d)
                | None \<Rightarrow> place_checked en rq ps d)))"

section \<open>Modifying\<close>

definition modified_quantity :: "place_env \<Rightarrow> pyval option \<Rightarrow> sandbox_order \<Rightarrow> (order_msg + sandbox_order) result" where
  "modified_quantity en v ord =
     (case v of
        None \<Rightarrow> Ret (Inr ord)
      | Some x \<Rightarrow>
          rbind (py_int x) (\<lambda>n.
          rbind (pm_info en (so_symbol ord) (so_exchange ord)) (\<lambda>info.
            case (case info of None \<Rightarrow> None | Some lot \<Rightarrow> lot_refusal (so_exchange ord) n lot) of
              Some why \<Rightarrow> Ret (Inl why)
            | None \<Rightarrow> Ret (Inr (ord\<lparr>so_quantity := n, so_pending := n\<rparr>)))))"

definition modified_prices :: "place_env \<Rightarrow> modify_request \<Rightarrow> sandbox_order \<Rightarrow> (order_msg + sandbox_order) result" where
  "modified_prices en mr ord =
     (if py_truthy (mr_price mr) \<and> \<not> (so_type ord = LimitOrder \<or> so_type ord = StopLimit)
      then Ret (Inl (NoPriceField (so_type ord)))
      else
        rbind (decimal_field en (mr_price mr)) (\<lambda>price.
        if py_truthy (mr_trigger mr) \<and> \<not> (so_type ord = StopLimit \<or> so_type ord = StopMarket)
        then Ret (Inl (NoTriggerField (so_type ord)))
        else
          rbind (decimal_field en (mr_trigger mr)) (\<lambda>trigger.
          Ret (Inr (ord\<lparr>so_price := option_or price (so_price ord), so_trigger := option_or trigger (so_trigger ord)\<rparr>)))))"

definition modify_order :: "place_env \<Rightarrow> string \<Rightarrow> modify_request \<Rightarrow> desk \<Rightarrow> order_answer \<times> desk" where
  "modify_order en oid mr d =
     (case de_fail (pm_desk en) OrderQuery of
        Some e \<Rightarrow> (Crashed e, d)
      | None \<Rightarrow>
          (case find_order oid d of
             None \<Rightarrow> (Denied (OrderNotFound oid), d)
           | Some ord \<Rightarrow>
               if \<not> is_pending ord then (Denied (NotModifiable (so_status ord)), d)
               else
                 (case modified_quantity en (mr_quantity mr) ord of
                    Inl e \<Rightarrow> (Crashed e, d)
                  | Inr (Inl why) \<Rightarrow> (Denied why, d)
                  | Inr (Inr ord1) \<Rightarrow>
                      (case modified_prices en mr ord1 of
                         Inl e \<Rightarrow> (Crashed e, d)
                       | Inr (Inl why) \<Rightarrow> (Denied why, d)
                       | Inr (Inr ord2) \<Rightarrow>
                           (case de_fail (pm_desk en) OrderCommit of
                              Some e \<Rightarrow> (Crashed e, d)
                            | None \<Rightarrow> (Done oid, put_order (stored_order (de_sql (pm_desk en)) ord2) d))))))"

section \<open>Cancelling\<close>

text \<open>Orders without a blocked margin fall back to the margin such an order would have needed.\<close>

definition fallback_price :: "place_env \<Rightarrow> sandbox_order \<Rightarrow> rat" where
  "fallback_price en ord =
     (if margin_or_zero (so_price ord) \<noteq> 0 then margin_or_zero (so_price ord)
      else case pm_quotes en 0 of
             None \<Rightarrow> 0
           | Some q \<Rightarrow> last_price q)"

definition order_margin_again :: "place_env \<Rightarrow> sandbox_order \<Rightarrow> rat \<Rightarrow> rat option" where
  "order_margin_again en ord price =
     fst (margin_of en \<lparr>ps_symbol = so_symbol ord, ps_exchange = so_exchange ord, ps_side = so_side ord,
       ps_quantity = so_quantity ord, ps_price = so_price ord, ps_trigger = so_trigger ord, ps_type = so_type ord,
       ps_product = so_product ord\<rparr> (so_quantity ord) price)"

definition margin_to_free :: "place_env \<Rightarrow> sandbox_order \<Rightarrow> rat option result" where
  "margin_to_free en ord =
     (if margin_or_zero (so_margin ord) > 0 then Ret (Some (margin_or_zero (so_margin ord)))
      else
        rbind (pm_info en (so_symbol ord) (so_exchange ord)) (\<lambda>info.
          if info \<noteq> None \<and> needs_margin (so_side ord) (so_symbol ord) (so_exchange ord) (so_product ord) \<and>
             fallback_price en ord > 0
          then (case order_margin_again en ord (fallback_price en ord) of
                  None \<Rightarrow> Ret None | Some m \<Rightarrow> Ret (if m = 0 then None else Some m))
          else Ret None))"

definition cancel_desk_order :: "place_env \<Rightarrow> string \<Rightarrow> desk \<Rightarrow> order_answer \<times> desk" where
  "cancel_desk_order en oid d =
     (case de_fail (pm_desk en) OrderQuery of
        Some e \<Rightarrow> (Crashed e, d)
      | None \<Rightarrow>
          (case find_order oid d of
             None \<Rightarrow> (Denied (OrderNotFound oid), d)
           | Some ord \<Rightarrow>
               if \<not> is_pending ord then (Denied (NotCancellable (so_status ord)), d)
               else
                 (case margin_to_free en ord of
                    Inl e \<Rightarrow> (Crashed e, d)
                  | Inr free \<Rightarrow>
                      (let (effect, d1) =
                             (case free of
                                None \<Rightarrow> (NotAsked, d)
                              | Some m \<Rightarrow>
                                  (let (answer, d') = on_account (release_margin (de_sql (pm_desk en)) (de_fund (pm_desk en)) (Ret m) (Ret 0)) d
                                   in (effect_of answer, d')));
                           d2 = put_order (stored_order (de_sql (pm_desk en)) (ord\<lparr>so_status := Cancelled\<rparr>)) d1 in
                       case de_fail (pm_desk en) OrderCommit of
                         Some e \<Rightarrow> (Crashed e, if effect = Committed then d2 else d1)
                       | None \<Rightarrow> (Done oid, if effect = Undone then d1 else d2)))))"

end
