(* ===== verification/Sandbox_Facts.thy ===== *)
theory Sandbox_Facts
  imports Sandbox_Orders
begin

text \<open>
  The sandbox desk as a machine whose events are the requests, the engine's cycles and the ticks,
  and what every event can do to the rows. Every event is a sequence of moves: an amendment of
  a pending order, one fill, one new order, or a change of the account or a position.
\<close>

section \<open>Events\<close>

datatype desk_event =
    PlaceEv place_env order_request | ModifyEv place_env string modify_request | CancelEv place_env string
  | CycleEv "string \<Rightarrow> desk_env" "string \<times> string \<Rightarrow> quote option" | TickEv desk_env string rat

fun desk_step :: "desk \<Rightarrow> desk_event \<Rightarrow> desk" where
  "desk_step d (PlaceEv en rq) = snd (place_order en rq d)"
| "desk_step d (ModifyEv en oid mr) = snd (modify_order en oid mr d)"
| "desk_step d (CancelEv en oid) = snd (cancel_desk_order en oid d)"
| "desk_step d (CycleEv envs quotes) = check_and_execute_pending_orders envs quotes d"
| "desk_step d (TickEv en oid ltp) = check_and_execute_order en oid ltp d"

text \<open>Every event sees the same database; a quiet one meets no exception of it.\<close>

definition env_sql :: "sql_rules \<Rightarrow> desk_env \<Rightarrow> bool" where
  "env_sql sq en = (de_sql en = sq)"

definition quiet_env :: "desk_env \<Rightarrow> bool" where
  "quiet_env en = ((\<forall>c. de_fail en c = None) \<and> (\<forall>s e. \<exists>x. de_contract en s e = Ret x))"

fun event_all :: "(desk_env \<Rightarrow> bool) \<Rightarrow> desk_event \<Rightarrow> bool" where
  "event_all P (PlaceEv en rq) = P (pm_desk en)"
| "event_all P (ModifyEv en oid mr) = P (pm_desk en)"
| "event_all P (CancelEv en oid) = P (pm_desk en)"
| "event_all P (CycleEv envs quotes) = (\<forall>oid. P (envs oid))"
| "event_all P (TickEv en oid ltp) = P en"

section \<open>Rows\<close>

lemma find_map_same:
  assumes "\<And>x. Q (g x) = Q x"
  shows "List.find Q (map g xs) = map_option g (List.find Q xs)"
  using assms by (induction xs) auto

lemma find_order_id: "find_order oid d = Some x \<Longrightarrow> so_id x = oid \<and> x \<in> set (dk_orders d)"
  by (auto simp: find_order_def find_Some_iff)

lemma find_order_put: "find_order oid (put_order row d) =
    (if oid = so_id row then map_option (\<lambda>_. row) (find_order oid d) else find_order oid d)"
proof -
  let ?g = "\<lambda>x. if so_id x = so_id row then row else x"
  have e: "find_order oid (put_order row d) = map_option ?g (find_order oid d)"
    unfolding find_order_def put_order_def by (simp add: find_map_same)
  show ?thesis
  proof (cases "find_order oid d")
    case (Some x)
    with find_order_id [OF Some] e show ?thesis by auto
  qed (use e in auto)
qed

lemma put_order_sel [simp]:
  "dk_trades (put_order row d) = dk_trades d" "dk_positions (put_order row d) = dk_positions d"
  "dk_funds (put_order row d) = dk_funds d" "dk_gtts (put_order row d) = dk_gtts d"
  "map so_id (dk_orders (put_order row d)) = map so_id (dk_orders d)"
  by (auto simp: put_order_def)

lemma find_order_mem:
  assumes "distinct (map so_id (dk_orders d))" "x \<in> set (dk_orders d)"
  shows "find_order (so_id x) d = Some x"
proof -
  have "distinct (map so_id xs) \<Longrightarrow> x \<in> set xs \<Longrightarrow> List.find (\<lambda>y. so_id y = so_id x) xs = Some x" for xs
    by (induction xs) (auto simp: rev_image_eqI)
  with assms show ?thesis by (simp add: find_order_def)
qed

definition held_of :: "position_key \<Rightarrow> desk \<Rightarrow> int" where
  "held_of k d = (case find_position k d of None \<Rightarrow> 0 | Some p \<Rightarrow> bp_quantity p)"

lemma find_position_key: "find_position k d = Some p \<Longrightarrow> key_of p = k \<and> p \<in> set (dk_positions d)"
  by (auto simp: find_position_def find_Some_iff)

lemma find_append: "List.find Q (xs @ ys) = (case List.find Q xs of None \<Rightarrow> List.find Q ys | Some x \<Rightarrow> Some x)"
  by (induction xs) auto

lemma find_position_put: "find_position k (put_position p d) = (if k = key_of p then Some p else find_position k d)"
proof (cases "find_position (key_of p) d")
  case None
  then show ?thesis
    by (auto simp: put_position_def find_position_def find_append split: option.splits)
next
  case (Some q)
  let ?g = "\<lambda>x. if key_of x = key_of p then p else x"
  have "find_position k (put_position p d) = map_option ?g (find_position k d)"
    using Some unfolding put_position_def find_position_def by (simp add: find_map_same)
  then show ?thesis
    using Some find_position_key [of k d] by (cases "find_position k d") auto
qed

lemma put_position_sel [simp]:
  "dk_orders (put_position p d) = dk_orders d" "dk_trades (put_position p d) = dk_trades d"
  "dk_funds (put_position p d) = dk_funds d" "dk_gtts (put_position p d) = dk_gtts d"
  by (simp_all add: put_position_def)

lemma held_put: "held_of k (put_position p d) = (if k = key_of p then bp_quantity p else held_of k d)"
  by (simp add: held_of_def find_position_put)

lemma held_same: "dk_positions d' = dk_positions d \<Longrightarrow> held_of k d' = held_of k d"
  by (simp add: held_of_def find_position_def)

lemma on_account_sel [simp]:
  "dk_orders (snd (on_account f d)) = dk_orders d" "dk_trades (snd (on_account f d)) = dk_trades d"
  "dk_positions (snd (on_account f d)) = dk_positions d"
  by (simp_all add: on_account_def split: prod.splits)

lemma stored_position_sel [simp]:
  "key_of (stored_position sq p) = key_of p" "bp_quantity (stored_position sq p) = bp_quantity p"
  by (simp_all add: stored_position_def key_of_def)

lemma stored_order_sel [simp]:
  "so_id (stored_order sq x) = so_id x" "so_status (stored_order sq x) = so_status x"
  "so_side (stored_order sq x) = so_side x" "so_quantity (stored_order sq x) = so_quantity x"
  "so_type (stored_order sq x) = so_type x" "order_key (stored_order sq x) = order_key x"
  "so_price (stored_order sq x) = map_option (sql_col sq) (so_price x)"
  "so_symbol (stored_order sq x) = so_symbol x" "so_exchange (stored_order sq x) = so_exchange x"
  "so_product (stored_order sq x) = so_product x"
  "so_margin (stored_order sq x) = map_option (sql_col sq) (so_margin x)"
  by (simp_all add: stored_order_def order_key_def)

section \<open>What a fill does to the positions\<close>

text \<open>A fill touches neither the orders nor the trades, and no position but its own; before the
  position itself is written, its size is what it was.\<close>

declare split_paired_All [simp del]

definition rows_kept :: "desk \<Rightarrow> desk \<Rightarrow> bool" where
  "rows_kept d d' = (dk_orders d' = dk_orders d \<and> dk_trades d' = dk_trades d \<and> (\<forall>k. held_of k d' = held_of k d))"

lemma rows_kept_refl [simp]: "rows_kept d d"
  by (simp add: rows_kept_def)

lemma rows_kept_trans: "rows_kept d d' \<Longrightarrow> rows_kept d' d'' \<Longrightarrow> rows_kept d d''"
  by (simp add: rows_kept_def)

lemma rows_kept_account: "rows_kept d (snd (on_account f d))"
  by (simp add: rows_kept_def held_of_def find_position_def)

lemma release_kept: "rows_kept d (snd (release_for en m pnl d))"
proof -
  obtain answer d' where a: "on_account (release_margin (de_sql en) (de_fund en) (Ret m) (Ret pnl)) d = (answer, d')"
    by (rule prod.exhaust)
  with rows_kept_account [of d "release_margin (de_sql en) (de_fund en) (Ret m) (Ret pnl)"] show ?thesis
    by (simp add: release_for_def)
qed

lemma close_kept: "rows_kept d (snd (close_out en ord price p d))"
  using release_kept [of d en "margin_or_zero (bp_margin p)"]
  by (auto simp: close_out_def Let_def split: sum.splits prod.splits) (metis snd_conv)+

lemma with_realized_sel [simp]: "key_of (with_realized pnl p) = key_of p" "bp_quantity (with_realized pnl p) = bp_quantity p"
  by (simp_all add: with_realized_def key_of_def)

lemma reduce_kept:
  assumes "find_position (order_key ord) d = Some p"
  shows "rows_kept d (snd (reduce en ord price p d))"
proof -
  have put: "rows_kept d (put_position q d')"
    if "rows_kept d d'" "key_of q = key_of p" "bp_quantity q = bp_quantity p" for q d'
  proof -
    have "key_of p = order_key ord" "held_of (order_key ord) d = bp_quantity p"
      using find_position_key [OF assms] assms by (simp_all add: held_of_def)
    with that show ?thesis by (simp add: rows_kept_def held_put)
  qed
  show ?thesis
  proof (cases "de_contract en (so_symbol ord) (so_exchange ord)")
    case (Inr cv)
    show ?thesis
    proof (cases "ddiv (of_int (min \<bar>bp_quantity p\<bar> \<bar>so_quantity ord\<bar>)) (of_int \<bar>bp_quantity p\<bar>)")
      case (Inr share)
      let ?pnl = "calculate_realized_pnl (bp_quantity p) (bp_average p) (min \<bar>bp_quantity p\<bar> \<bar>so_quantity ord\<bar>) price cv"
      obtain effect d' where r: "release_for en (dmul (margin_or_zero (bp_margin p)) share) ?pnl d = (effect, d')"
        by (rule prod.exhaust)
      have "rows_kept d d'" using release_kept [of d en "dmul (margin_or_zero (bp_margin p)) share" ?pnl] r by simp
      with put [of d'] show ?thesis
        using Inr r \<open>de_contract en _ _ = Inr cv\<close> by (simp add: reduce_def Let_def)
    qed (use Inr in \<open>simp add: reduce_def Let_def\<close>)
  qed (simp add: reduce_def)
qed

text \<open>The position a fill writes belongs to the order's key, and its size is the sum.\<close>

lemma net_fill_result:
  assumes "net_fill en ord price d = (r, d')"
  shows "rows_kept d d'" and "r = Ret p \<Longrightarrow> key_of p = order_key ord"
    and "r = Ret p \<Longrightarrow> 0 \<le> so_quantity ord \<Longrightarrow>
      bp_quantity p = held_of (order_key ord) d + signed_quantity (so_side ord) (so_quantity ord)"
proof -
  let ?new = "signed_quantity (so_side ord) (so_quantity ord)"
  have abs: "\<bar>?new\<bar> = \<bar>so_quantity ord\<bar>" by (simp add: signed_quantity_def)
  have "rows_kept d d' \<and> (r = Ret p \<longrightarrow> key_of p = order_key ord \<and>
      (0 \<le> so_quantity ord \<longrightarrow> bp_quantity p = held_of (order_key ord) d + ?new))"
  proof (cases "find_position (order_key ord) d")
    case None
    with assms show ?thesis
      by (auto simp: net_fill_def held_of_def opened_position_def key_of_def order_key_def)
  next
    case (Some q)
    have key: "key_of q = order_key ord" using find_position_key [OF Some] by simp
    have held: "held_of (order_key ord) d = bp_quantity q" by (simp add: held_of_def Some)
    consider (reopen) "bp_quantity q = 0" | (close) "bp_quantity q \<noteq> 0" "bp_quantity q + ?new = 0"
      | (grow) "bp_quantity q \<noteq> 0" "bp_quantity q + ?new \<noteq> 0"
          "bp_quantity q > 0 \<and> bp_quantity q + ?new > bp_quantity q \<or> bp_quantity q < 0 \<and> bp_quantity q + ?new < bp_quantity q"
      | (less) "bp_quantity q \<noteq> 0" "bp_quantity q + ?new \<noteq> 0"
          "\<not> (bp_quantity q > 0 \<and> bp_quantity q + ?new > bp_quantity q \<or> bp_quantity q < 0 \<and> bp_quantity q + ?new < bp_quantity q)"
      by blast
    then show ?thesis
    proof cases
      case reopen
      with assms Some key held show ?thesis
        by (auto simp: net_fill_def Let_def reopened_position_def key_of_def)
    next
      case close
      with assms Some have c: "close_out en ord price q d = (r, d')" by (simp add: net_fill_def Let_def)
      have "r = Ret p \<longrightarrow> key_of p = key_of q \<and> bp_quantity p = 0"
        using c by (auto simp: close_out_def closed_position_def with_realized_def key_of_def Let_def split: sum.splits prod.splits)
      with close_kept [of d en ord price q] c key held close show ?thesis by simp
    next
      case grow
      with assms Some have "r = grown_position ord price q" "d' = d" by (auto simp: net_fill_def Let_def)
      with key held show ?thesis by (auto simp: grown_position_def Let_def rbind_Ret key_of_def)
    next
      case less
      have c: "reduce en ord price q d = (r, d')"
        using assms unfolding net_fill_def Let_def Some option.case if_not_P [OF less(1)] if_not_P [OF less(2)] if_not_P [OF less(3)] .
      have "reduced_position ord price (bp_quantity q) m q' = Ret p \<Longrightarrow> key_of q' = key_of q \<Longrightarrow>
          key_of p = key_of q \<and> (0 \<le> so_quantity ord \<longrightarrow> bp_quantity p = bp_quantity q + ?new)" for m q'
        using less abs
        by (auto simp: reduced_position_def Let_def rbind_Ret key_of_def signed_quantity_def split: if_splits)
      then have "r = Ret p \<longrightarrow> key_of p = key_of q \<and> (0 \<le> so_quantity ord \<longrightarrow> bp_quantity p = bp_quantity q + ?new)"
        using c by (auto simp: reduce_def Let_def split: sum.splits prod.splits release_effect.splits)
      with reduce_kept [OF Some, of en price] c key held show ?thesis by simp
    qed
  qed
  then show "rows_kept d d'" "r = Ret p \<Longrightarrow> key_of p = order_key ord"
    "r = Ret p \<Longrightarrow> 0 \<le> so_quantity ord \<Longrightarrow> bp_quantity p = held_of (order_key ord) d + ?new" by blast+
qed

lemma settle_kept: "rows_kept d (settle_margin en d)"
  using rows_kept_account by (auto simp: settle_margin_def)

lemma rows_kept_put:
  "rows_kept d (put_position p d') \<longleftrightarrow>
     dk_orders d' = dk_orders d \<and> dk_trades d' = dk_trades d \<and>
     (\<forall>k. (if k = key_of p then bp_quantity p else held_of k d') = held_of k d)"
  by (simp add: rows_kept_def held_put)

text \<open>The whole update: the orders and trades stay, and when it succeeds the order's key, and no
  other, has moved by the signed size of the order.\<close>

lemma update_position_result:
  assumes "update_position en ord price d = (r, d')"
  shows "dk_orders d' = dk_orders d" "dk_trades d' = dk_trades d"
    and "r = Ret () \<Longrightarrow> 0 \<le> so_quantity ord \<Longrightarrow> held_of k d' =
      held_of k d + (if k = order_key ord then signed_quantity (so_side ord) (so_quantity ord) else 0)"
    and "r \<noteq> Ret () \<Longrightarrow> rows_kept d d'"
    and "quiet_env en \<Longrightarrow> r = Ret ()"
proof -
  obtain r1 d1 where n: "net_fill en ord price d = (r1, d1)" by (rule prod.exhaust)
  note nf = net_fill_result [OF n]
  have q: "quiet_env en \<Longrightarrow> \<exists>p. r1 = Ret p"
  proof -
    assume q: "quiet_env en"
    have dd: "y \<noteq> 0 \<Longrightarrow> \<exists>z. ddiv x y = Ret z" for x y by (simp add: ddiv_def)
    have c: "\<exists>x. de_contract en s e = Ret x" for s e using q by (simp add: quiet_env_def)
    then obtain cv where cv: "de_contract en (so_symbol ord) (so_exchange ord) = Ret cv" by blast
    have abs: "\<bar>signed_quantity (so_side ord) (so_quantity ord)\<bar> = \<bar>so_quantity ord\<bar>" by (simp add: signed_quantity_def)
    show "\<exists>p. r1 = Ret p"
    proof (cases "find_position (order_key ord) d")
      case None
      with n show ?thesis by (auto simp: net_fill_def)
    next
      case (Some p)
      have grow: "bp_quantity p \<noteq> 0 \<Longrightarrow> \<exists>q. grown_position ord price p = Ret q"
        by (auto simp: grown_position_def Let_def rbind_Ret ddiv_def abs)
      have red: "\<exists>q. reduced_position ord price old m p' = Ret q" for old m p'
        by (auto simp: reduced_position_def Let_def rbind_Ret ddiv_def abs)
      have less: "\<exists>q d2. reduce en ord price p d = (Ret q, d2)" if nz: "bp_quantity p \<noteq> 0"
      proof -
        let ?n = "min \<bar>bp_quantity p\<bar> \<bar>so_quantity ord\<bar>"
        obtain share where share: "ddiv (of_int ?n) (of_int \<bar>bp_quantity p\<bar>) = Ret share" using dd nz by fastforce
        obtain effect d2 where rel: "release_for en (dmul (margin_or_zero (bp_margin p)) share)
            (calculate_realized_pnl (bp_quantity p) (bp_average p) ?n price cv) d = (effect, d2)" by (rule prod.exhaust)
        show ?thesis using red unfolding reduce_def Let_def cv sum.case share rel prod.case by blast
      qed
      have close: "\<exists>q d2. close_out en ord price p d = (Ret q, d2)"
        by (auto simp: close_out_def Let_def cv split: prod.splits)
      from n Some grow less close show ?thesis
        by (auto simp: net_fill_def Let_def split: if_splits) metis+
    qed
  qed
  consider (query) e where "de_fail en PositionQuery = Some e" "r = Inl e" "d' = d"
    | (net) e where "r1 = Inl e" "r = Inl e" "d' = d1"
    | (commit) p e where "de_fail en PositionCommit = Some e" "r1 = Ret p" "r = Inl e" "d' = d1"
    | (stored) p where "r1 = Ret p" "r = Ret ()" "d' = settle_margin en (put_position (stored_position (de_sql en) p) d1)"
    using assms n by (cases "de_fail en PositionQuery"; cases r1; cases "de_fail en PositionCommit") (auto simp: update_position_def)
  then have all: "dk_orders d' = dk_orders d \<and> dk_trades d' = dk_trades d \<and>
     (r = Ret () \<longrightarrow> 0 \<le> so_quantity ord \<longrightarrow> held_of k d' =
        held_of k d + (if k = order_key ord then signed_quantity (so_side ord) (so_quantity ord) else 0)) \<and>
     (r \<noteq> Ret () \<longrightarrow> rows_kept d d')"
  proof cases
    case (stored p)
    let ?d = "put_position (stored_position (de_sql en) p) d1"
    have k: "rows_kept ?d (settle_margin en ?d)" by (rule settle_kept)
    have "held_of k ?d = (if k = order_key ord then bp_quantity p else held_of k d)"
      using nf(1) nf(2) [OF stored(1)] by (simp add: held_put rows_kept_def)
    with k stored nf(1) nf(3) [OF stored(1)] show ?thesis by (auto simp: rows_kept_def)
  qed (use nf(1) in \<open>auto simp: rows_kept_def\<close>)
  then show "dk_orders d' = dk_orders d" "dk_trades d' = dk_trades d"
    "r = Ret () \<Longrightarrow> 0 \<le> so_quantity ord \<Longrightarrow> held_of k d' =
      held_of k d + (if k = order_key ord then signed_quantity (so_side ord) (so_quantity ord) else 0)"
    "r \<noteq> Ret () \<Longrightarrow> rows_kept d d'" by blast+
  show "quiet_env en \<Longrightarrow> r = Ret ()"
  proof -
    assume "quiet_env en"
    with q assms n show ?thesis by (auto simp: update_position_def quiet_env_def)
  qed
qed

section \<open>Moves\<close>

definition price_stored :: "sql_rules \<Rightarrow> sandbox_order \<Rightarrow> bool" where
  "price_stored sq ord = (map_option (sql_col sq) (so_price ord) = so_price ord)"

definition priced_within :: "sandbox_order \<Rightarrow> rat \<Rightarrow> bool" where
  "priced_within ord price =
     (so_type ord = LimitOrder \<or> so_type ord = StopLimit \<longrightarrow> within_limit (so_side ord) price (so_price ord))"

definition same_terms :: "sql_rules \<Rightarrow> sandbox_order \<Rightarrow> sandbox_order \<Rightarrow> bool" where
  "same_terms sq ord ord' =
     (so_id ord' = so_id ord \<and> so_side ord' = so_side ord \<and> so_quantity ord' = so_quantity ord \<and>
      so_type ord' = so_type ord \<and> order_key ord' = order_key ord \<and>
      so_price ord' = map_option (sql_col sq) (so_price ord))"

definition trades_for :: "string \<Rightarrow> desk \<Rightarrow> trade list" where
  "trades_for oid d = filter (\<lambda>t. td_order t = oid) (dk_trades d)"

text \<open>\<open>calm\<close> says that no database call fails and that no order is given a size that is not positive.\<close>

inductive move :: "bool \<Rightarrow> sql_rules \<Rightarrow> desk \<Rightarrow> desk \<Rightarrow> bool" for calm sq where
  aside: "rows_kept d d' \<Longrightarrow> move calm sq d d'"
| amend: "find_order (so_id ord) d = Some ord \<Longrightarrow> is_pending ord \<Longrightarrow> so_id ord' = so_id ord \<Longrightarrow>
    so_status ord' \<noteq> Filled \<Longrightarrow> price_stored sq ord' \<Longrightarrow> (calm \<Longrightarrow> 0 < so_quantity ord \<Longrightarrow> 0 < so_quantity ord') \<Longrightarrow>
    dk_orders d' = dk_orders (put_order ord' d) \<Longrightarrow> dk_trades d' = dk_trades d \<Longrightarrow> (\<And>k. held_of k d' = held_of k d) \<Longrightarrow>
    move calm sq d d'"
| fill: "find_order (so_id ord) d = Some ord \<Longrightarrow> is_pending ord \<Longrightarrow> trades_for (so_id ord) d = [] \<Longrightarrow>
    same_terms sq ord ord' \<Longrightarrow> so_status ord' = Filled \<or> so_status ord' = Refused \<Longrightarrow>
    priced_within ord' (sql_col sq price) \<Longrightarrow>
    dk_orders d' = dk_orders (put_order ord' d) \<Longrightarrow> dk_trades d' = dk_trades d @ [trade_of sq ord price] \<Longrightarrow>
    (\<And>k. calm \<Longrightarrow> 0 < so_quantity ord \<Longrightarrow>
       held_of k d' = held_of k d + (if k = order_key ord then signed_quantity (so_side ord) (so_quantity ord) else 0)) \<Longrightarrow>
    move calm sq d d'"
| insert: "find_order (so_id ord) d = None \<Longrightarrow> so_status ord \<noteq> Filled \<Longrightarrow> price_stored sq ord \<Longrightarrow> 0 < so_quantity ord \<Longrightarrow>
    dk_orders d' = dk_orders d @ [ord] \<Longrightarrow> dk_trades d' = dk_trades d \<Longrightarrow> (\<And>k. held_of k d' = held_of k d) \<Longrightarrow>
    move calm sq d d'"

section \<open>The desk in order\<close>

text \<open>What storing a price is assumed to do: it keeps order and is idempotent.\<close>

definition col_rules :: "sql_rules \<Rightarrow> bool" where
  "col_rules sq = ((\<forall>x y. x \<le> y \<longrightarrow> sql_col sq x \<le> sql_col sq y) \<and> (\<forall>x. sql_col sq (sql_col sq x) = sql_col sq x))"

definition trade_matches :: "trade \<Rightarrow> sandbox_order \<Rightarrow> bool" where
  "trade_matches t ord =
     (td_order t = so_id ord \<and> (td_symbol t, td_exchange t, td_product t) = order_key ord \<and> td_side t = so_side ord \<and>
      td_quantity t = so_quantity ord \<and> priced_within ord (td_price t))"

text \<open>Order ids are distinct; every trade is the only one of its order, for its whole size and within
  its limit, and that order has ended; every filled order has its trade.\<close>

definition desk_ok :: "sql_rules \<Rightarrow> desk \<Rightarrow> bool" where
  "desk_ok sq d =
     (distinct (map so_id (dk_orders d)) \<and> distinct (map td_order (dk_trades d)) \<and>
      list_all (price_stored sq) (dk_orders d) \<and>
      list_all (\<lambda>t. case find_order (td_order t) d of None \<Rightarrow> False
                     | Some ord \<Rightarrow> \<not> is_pending ord \<and> trade_matches t ord) (dk_trades d) \<and>
      list_all (\<lambda>ord. so_status ord = Filled \<longrightarrow> so_id ord \<in> set (map td_order (dk_trades d))) (dk_orders d))"

lemma priced_col:
  assumes "col_rules sq" "priced_within ord price" "same_terms sq ord ord'"
  shows "priced_within ord' (sql_col sq price)"
  using assms
  by (auto simp: priced_within_def within_limit_def at_or_below_def at_or_above_def same_terms_def col_rules_def
      split: option.splits if_splits)

lemma find_order_eq: "dk_orders d' = dk_orders d \<Longrightarrow> find_order oid d' = find_order oid d"
  by (simp add: find_order_def)

lemma put_order_same:
  assumes "distinct (map so_id (dk_orders d))" "find_order (so_id ord) d = Some ord"
  shows "dk_orders (put_order ord d) = dk_orders d"
proof -
  have "ord = x" if "x \<in> set (dk_orders d)" "so_id x = so_id ord" for x
    using find_order_mem [OF assms(1) that(1)] that(2) assms(2) by simp
  then show ?thesis by (auto simp: put_order_def intro!: map_idI)
qed

lemma set_put_order: "y \<in> set (dk_orders (put_order row d)) \<Longrightarrow> y = row \<or> y \<in> set (dk_orders d) \<and> so_id y \<noteq> so_id row"
  by (auto simp: put_order_def split: if_splits)

lemma trades_for_none: "trades_for oid d = [] \<longleftrightarrow> oid \<notin> td_order ` set (dk_trades d)"
  by (auto simp: trades_for_def filter_empty_conv)

lemma move_ok:
  assumes sq: "col_rules sq" and "desk_ok sq d" "move calm sq d d'"
  shows "desk_ok sq d'"
  using assms(3)
proof cases
  case aside
  then have e: "dk_orders d' = dk_orders d" "dk_trades d' = dk_trades d" by (auto simp: rows_kept_def)
  with assms(2) show ?thesis unfolding desk_ok_def find_order_def e by simp
next
  case (amend ord ord')
  have f: "find_order oid d' = (if oid = so_id ord then Some ord' else find_order oid d)" for oid
    using amend(1,3) find_order_put [of oid ord' d] unfolding find_order_eq [OF amend(7)] by simp
  have t: "td_order t \<noteq> so_id ord" if "t \<in> set (dk_trades d)" for t
    using assms(2) amend(1,2) that by (auto simp: desk_ok_def list_all_iff split: option.splits)
  have "distinct (map so_id (dk_orders d'))" using amend(7) assms(2) by (simp add: desk_ok_def)
  moreover have "\<forall>y \<in> set (dk_orders d'). y = ord' \<or> y \<in> set (dk_orders d)"
    using amend(7) set_put_order by metis
  ultimately show ?thesis
    using assms(2) amend t by (auto simp: desk_ok_def list_all_iff f)
next
  case (fill ord ord' price)
  have f: "find_order oid d' = (if oid = so_id ord then Some ord' else find_order oid d)" for oid
    using fill(1,4) find_order_put [of oid ord' d] unfolding find_order_eq [OF fill(7)] by (simp add: same_terms_def)
  have new: "so_id ord \<notin> td_order ` set (dk_trades d)" using fill(3) by (simp add: trades_for_none)
  then have new': "td_order t \<noteq> so_id ord" if "t \<in> set (dk_trades d)" for t using that by force
  have m: "trade_matches (trade_of sq ord price) ord'"
    using fill by (simp add: trade_matches_def trade_of_def same_terms_def order_key_def)
  have st: "price_stored sq ord'" using fill(4) sq by (cases "so_price ord") (auto simp: price_stored_def same_terms_def col_rules_def)
  have "distinct (map so_id (dk_orders d'))" using fill(7) assms(2) by (simp add: desk_ok_def)
  moreover have "\<forall>y \<in> set (dk_orders d'). y = ord' \<or> y \<in> set (dk_orders d)"
    using fill(7) set_put_order by metis
  moreover have id: "so_id ord' = so_id ord" "td_order (trade_of sq ord price) = so_id ord"
    using fill(4) by (simp_all add: same_terms_def trade_of_def)
  moreover have "\<not> is_pending ord'" using fill(5) by (auto simp: is_pending_def)
  ultimately show ?thesis
    using assms(2) new new' m st by (auto simp: desk_ok_def list_all_iff f fill(8) split: option.splits)
next
  case (insert ord)
  have f: "find_order oid d' = (if oid = so_id ord then Some ord else find_order oid d)" for oid
    using insert(1,5) by (auto simp: find_order_def find_append split: option.splits)
  have "so_id ord \<notin> so_id ` set (dk_orders d)"
    using insert(1) by (force simp: find_order_def find_None_iff)
  with assms(2) insert(1) show ?thesis
    by (auto simp: desk_ok_def list_all_iff f insert split: option.splits)
qed

section \<open>Every operation is a sequence of moves\<close>

abbreviation moves :: "bool \<Rightarrow> sql_rules \<Rightarrow> desk \<Rightarrow> desk \<Rightarrow> bool" where
  "moves calm sq \<equiv> (move calm sq)\<^sup>*\<^sup>*"

lemma moves_ok: "(move calm sq)\<^sup>*\<^sup>* d d' \<Longrightarrow> col_rules sq \<Longrightarrow> desk_ok sq d \<Longrightarrow> desk_ok sq d'"
  by (induction rule: rtranclp_induct) (auto intro: move_ok)

lemma kept_moves: "rows_kept d d' \<Longrightarrow> (move calm sq)\<^sup>*\<^sup>* d d'"
  by (auto intro: aside)

definition env_fits :: "bool \<Rightarrow> sql_rules \<Rightarrow> desk_env \<Rightarrow> bool" where
  "env_fits calm sq en = (env_sql sq en \<and> (calm \<longrightarrow> quiet_env en))"

lemma put_order_put: "so_id b = so_id a \<Longrightarrow> dk_orders (put_order b (put_order a d)) = dk_orders (put_order b d)"
  by (auto simp: put_order_def)

lemma put_order_cong: "dk_orders d1 = dk_orders d2 \<Longrightarrow> dk_orders (put_order a d1) = dk_orders (put_order a d2)"
  by (simp add: put_order_def)

lemma held_put_order [simp]: "held_of k (put_order a d) = held_of k d"
  by (simp add: held_of_def find_position_def)

lemma execute_moves:
  assumes ok: "desk_ok sq d" and f: "find_order (so_id ord) d = Some ord" and p: "is_pending ord"
    and none: "trades_for (so_id ord) d = []" and en: "env_fits calm sq en"
    and bound: "\<And>ord'. same_terms sq ord ord' \<Longrightarrow> priced_within ord' (sql_col sq price)"
  shows "move calm sq d (execute_order en ord price d)"
proof -
  have ps: "price_stored sq ord" using ok find_order_id [OF f] by (auto simp: desk_ok_def list_all_iff)
  have distinct: "distinct (map so_id (dk_orders d))" using ok by (simp add: desk_ok_def)
  show ?thesis
  proof (cases "de_fail en FillCommit")
    case (Some e)
    show ?thesis
    proof (cases "de_fail en RejectCommit")
      case None
      show ?thesis
        by (rule amend [OF f p, of "ord\<lparr>so_status := Refused, so_cause := Some (ExecutionError e)\<rparr>"])
          (use Some None ps in \<open>auto simp: execute_order_def reject_order_def price_stored_def\<close>)
    qed (use Some in \<open>auto simp: execute_order_def reject_order_def intro: aside\<close>)
  next
    case None
    let ?ord = "stored_order (de_sql en) (filled_order price ord)"
    let ?d1 = "put_order ?ord (d\<lparr>dk_trades := dk_trades d @ [trade_of (de_sql en) ord price]\<rparr>)"
    have sq: "de_sql en = sq" using en by (simp add: env_fits_def env_sql_def)
    have terms: "same_terms sq ord ?ord"
      by (simp add: same_terms_def sq filled_order_def order_key_def)
    obtain r d2 where u: "update_position en ?ord price ?d1 = (r, d2)" by (rule prod.exhaust)
    note up = update_position_result [OF u]
    have o1: "dk_orders ?d1 = dk_orders (put_order ?ord d)" by (simp add: put_order_def)
    have held1: "held_of k ?d1 = held_of k d" for k by (simp add: held_of_def find_position_def)
    show ?thesis
    proof (cases r)
      case (Inr v)
      then have d2: "execute_order en ord price d = d2" using None u by (simp add: execute_order_def Let_def)
      show ?thesis unfolding d2
      proof (rule fill [OF f p none terms])
        show "dk_orders d2 = dk_orders (put_order ?ord d)" using up(1) o1 by simp
        show "dk_trades d2 = dk_trades d @ [trade_of sq ord price]" using up(2) by (simp add: sq)
        show "held_of k d2 = held_of k d + (if k = order_key ord then signed_quantity (so_side ord) (so_quantity ord) else 0)"
          if "calm" "0 < so_quantity ord" for k
          using up(3) [of k] Inr that held1 [of k] by (simp add: filled_order_def order_key_def)
      qed (use bound [OF terms] in \<open>simp_all add: filled_order_def\<close>)
    next
      case (Inl e)
      then have notcalm: "\<not> calm" using up(5) en by (auto simp: env_fits_def)
      let ?rej = "if de_fail en RejectCommit \<noteq> None then ?ord
        else ?ord\<lparr>so_status := Refused, so_cause := Some (ExecutionError e)\<rparr>"
      have d3: "execute_order en ord price d = reject_order en e ?ord d2"
        using None u Inl by (simp add: execute_order_def Let_def)
      have "dk_orders (reject_order en e ?ord d2) = dk_orders (put_order ?rej d)"
        using up(1) o1 by (auto simp: reject_order_def put_order_put put_order_cong [OF up(1)] put_order_cong [OF o1])
      moreover have "dk_trades (reject_order en e ?ord d2) = dk_trades d @ [trade_of sq ord price]"
        using up(2) by (simp add: reject_order_def sq)
      moreover have "same_terms sq ord ?rej" using terms by (simp add: same_terms_def order_key_def)
      ultimately show ?thesis unfolding d3
        by (intro fill [OF f p none, of sq ?rej]) (use bound [of ?rej] notcalm in \<open>auto simp: filled_order_def\<close>)
    qed
  qed
qed

lemma decision_within:
  assumes "fill_decision q ord = FillAt price"
  shows "priced_within ord price"
  using assms
  by (auto simp: fill_decision_def trigger_decision_def book_decision_def priced_within_def within_limit_def
      at_or_below_def at_or_above_def split: sum.splits if_splits order_type.splits option.splits)

lemma process_moves:
  assumes ok: "desk_ok sq d" and sq: "col_rules sq" and f: "find_order (so_id ord) d = Some ord" and p: "is_pending ord"
    and en: "env_fits calm sq en"
  shows "move calm sq d (process_order en q ord d)"
proof -
  have st: "price_stored sq ord" using ok find_order_id [OF f] by (auto simp: desk_ok_def list_all_iff)
  have none: "td_order t \<noteq> so_id ord" if "t \<in> set (dk_trades d)" for t
    using ok f p that by (auto simp: desk_ok_def list_all_iff split: option.splits)
  then have nf: "List.find (\<lambda>t. td_order t = so_id ord) (dk_trades d) = None" by (simp add: find_None_iff)
  have tf: "trades_for (so_id ord) d = []" using none by (auto simp: trades_for_def filter_empty_conv)
  show ?thesis
  proof (cases "de_fail en TradeQuery")
    case None
    show ?thesis
    proof (cases "fill_decision q ord")
      case Wait
      with None nf show ?thesis by (auto simp: process_order_def intro: aside)
    next
      case (FillAt price)
      with execute_moves [OF ok f p tf en priced_col [OF sq decision_within [OF FillAt]]] None nf show ?thesis by (simp add: process_order_def)
    next
      case ToBook
      show ?thesis
      proof (cases "de_fail en StatusCommit")
        case None
        let ?row = "stored_order (de_sql en) (ord\<lparr>so_status := InBook\<rparr>)"
        have ps: "price_stored sq ?row"
          using sq en by (cases "so_price ord") (auto simp: price_stored_def col_rules_def env_fits_def env_sql_def)
        show ?thesis
          by (rule amend [OF f p _ _ ps]) (use None \<open>de_fail en TradeQuery = None\<close> nf ToBook in \<open>auto simp: process_order_def\<close>)
      qed (use None nf ToBook in \<open>auto simp: process_order_def intro: aside\<close>)
    qed
  qed (auto simp: process_order_def intro: aside)
qed

text \<open>Processing one order leaves the rows of the others alone, so a cycle finds each order as pending as
  it was when the cycle started.\<close>

lemma execute_other: "oid \<noteq> so_id ord \<Longrightarrow> find_order oid (execute_order en ord price d) = find_order oid d"
proof -
  assume ne: "oid \<noteq> so_id ord"
  have rej: "find_order oid (reject_order en e x d') = find_order oid d'" if "so_id x = so_id ord" for e x d'
    using that ne by (simp add: reject_order_def find_order_put)
  have base: "find_order oid (d\<lparr>dk_trades := ts\<rparr>) = find_order oid d" for ts by (simp add: find_order_def)
  show ?thesis
  proof (cases "de_fail en FillCommit")
    case None
    let ?ord = "stored_order (de_sql en) (filled_order price ord)"
    let ?d1 = "put_order ?ord (d\<lparr>dk_trades := dk_trades d @ [trade_of (de_sql en) ord price]\<rparr>)"
    obtain r d2 where u: "update_position en ?ord price ?d1 = (r, d2)" by (rule prod.exhaust)
    have id: "so_id ?ord = so_id ord" by (simp add: filled_order_def)
    have "find_order oid d2 = find_order oid ?d1" by (rule find_order_eq [OF update_position_result(1) [OF u]])
    also have "\<dots> = find_order oid d" using ne id by (simp add: find_order_put base)
    finally have "find_order oid d2 = find_order oid d" .
    then show ?thesis using None u rej [OF id] by (cases r) (simp_all add: execute_order_def Let_def)
  qed (simp add: execute_order_def rej)
qed

lemma process_other: "oid \<noteq> so_id ord \<Longrightarrow> find_order oid (process_order en q ord d) = find_order oid d"
  by (auto simp: process_order_def find_order_put execute_other filled_order_def split: option.splits decision.splits)

lemma cycle_moves:
  assumes "col_rules sq" "\<And>oid. env_fits calm sq (envs oid)" "desk_ok sq d" "distinct (map so_id ords)"
    "\<And>ord. ord \<in> set ords \<Longrightarrow> \<exists>row. find_order (so_id ord) d = Some row \<and> is_pending row"
  shows "(move calm sq)\<^sup>*\<^sup>* d (process_each envs quotes ords d)"
  using assms(3-)
proof (induction ords arbitrary: d)
  case (Cons ord ords)
  obtain row where row: "find_order (so_id ord) d = Some row" "is_pending row" using Cons.prems(3) by fastforce
  have id: "so_id row = so_id ord" using find_order_id [OF row(1)] by simp
  with row have found: "find_order (so_id row) d = Some row" by simp
  let ?d = "case (quotes (so_symbol ord, so_exchange ord), find_order (so_id ord) d) of
      (Some q, Some row) \<Rightarrow> process_order (envs (so_id ord)) q row d | _ \<Rightarrow> d"
  have step: "(move calm sq)\<^sup>*\<^sup>* d ?d"
    using process_moves [OF Cons.prems(1) assms(1) found row(2) assms(2)] row by (auto split: option.splits)
  have other: "find_order oid ?d = find_order oid d" if "oid \<noteq> so_id ord" for oid
    using process_other [of oid row] that id row by (auto split: option.splits)
  have rest: "\<exists>row. find_order (so_id ord') ?d = Some row \<and> is_pending row" if m: "ord' \<in> set ords" for ord'
  proof -
    have "so_id ord' \<noteq> so_id ord" using Cons.prems(2) m by (metis distinct.simps(2) image_eqI list.set_map list.simps(9))
    with other [OF this] Cons.prems(3) [of ord'] m show ?thesis by simp
  qed
  have "distinct (map so_id ords)" using Cons.prems(2) by simp
  from Cons.IH [OF moves_ok [OF step assms(1) Cons.prems(1)] this rest]
  have "(move calm sq)\<^sup>*\<^sup>* ?d (process_each envs quotes ords ?d)" .
  with step have "(move calm sq)\<^sup>*\<^sup>* d (process_each envs quotes ords ?d)" by (rule rtranclp_trans)
  then show ?case by (simp only: process_each.simps)
qed simp

lemma engine_moves:
  assumes "col_rules sq" "\<And>oid. env_fits calm sq (envs oid)" "desk_ok sq d"
  shows "(move calm sq)\<^sup>*\<^sup>* d (check_and_execute_pending_orders envs quotes d)"
  unfolding check_and_execute_pending_orders_def
proof (rule cycle_moves [OF assms])
  show "distinct (map so_id (filter is_pending (dk_orders d)))"
    using assms(3) by (simp add: desk_ok_def distinct_map_filter)
  show "\<exists>row. find_order (so_id ord) d = Some row \<and> is_pending row" if "ord \<in> set (filter is_pending (dk_orders d))" for ord
    using that find_order_mem [of d ord] assms(3) by (auto simp: desk_ok_def)
qed

lemma tick_moves:
  assumes "col_rules sq" "env_fits calm sq en" "desk_ok sq d"
  shows "(move calm sq)\<^sup>*\<^sup>* d (check_and_execute_order en oid ltp d)"
proof (cases "find_order oid d")
  case (Some ord)
  have id: "so_id ord = oid" using find_order_id [OF Some] by simp
  with Some have "find_order (so_id ord) d = Some ord" by simp
  from process_moves [OF assms(3,1) this _ assms(2)] show ?thesis
    using Some by (auto simp: check_and_execute_order_def)
qed (simp add: check_and_execute_order_def)

section \<open>Requests as moves\<close>

lemma take_margin_kept: "rows_kept d (snd (take_margin en ps m d))"
proof (cases m)
  case (Some x)
  let ?check = "check_margin_available (de_sql (pm_desk en)) (de_fund (pm_desk en)) (Ret x)"
  let ?block = "block_margin (de_sql (pm_desk en)) (de_fund (pm_desk en)) (Ret x)"
  obtain can why d1 where c: "on_account ?check d = ((can, why), d1)" by (metis surj_pair)
  obtain ok why2 d2 where b: "on_account ?block d1 = ((ok, why2), d2)" by (metis surj_pair)
  have k1: "rows_kept d d1" using rows_kept_account [of d ?check] c by simp
  have k2: "rows_kept d1 d2" using rows_kept_account [of d1 ?block] b by simp
  show ?thesis using Some c b k1 rows_kept_trans [OF k1 k2] by (simp add: take_margin_def Let_def)
qed (simp add: take_margin_def Let_def)

lemma insert_moves:
  assumes "insert_order en ord d = (r, d')" "de_sql (pm_desk en) = sq" "col_rules sq" "so_status ord \<noteq> Filled" "0 < so_quantity ord"
  shows "move calm sq d d'" and "r = Ret row \<Longrightarrow> find_order (so_id row) d' = Some row \<and> row = stored_order sq ord"
proof -
  let ?row = "stored_order sq ord"
  have none: "find_order (so_id ?row) d = None \<Longrightarrow> dk_orders d' = dk_orders d @ [?row] \<Longrightarrow> find_order (so_id ?row) d' = Some ?row"
    by (simp add: find_order_def find_append)
  have ps: "price_stored sq ?row" using assms(3) by (cases "so_price ord") (auto simp: price_stored_def col_rules_def)
  show "move calm sq d d'"
  proof (cases "r")
    case (Inl e)
    with assms(1,2) show ?thesis by (auto simp: insert_order_def Let_def intro: aside split: option.splits if_splits)
  next
    case (Inr x)
    with assms(1,2) have "find_order (so_id ?row) d = None" "d' = d\<lparr>dk_orders := dk_orders d @ [?row]\<rparr>"
      by (auto simp: insert_order_def Let_def split: option.splits if_splits)
    with ps assms(4,5) show ?thesis by (intro insert [of ?row]) (simp_all add: held_of_def find_position_def)
  qed
  show "r = Ret row \<Longrightarrow> find_order (so_id row) d' = Some row \<and> row = ?row"
    using assms(1,2) none by (auto simp: insert_order_def Let_def split: option.splits if_splits)
qed

lemma validated_quantity:
  assumes "validate_order rq = Ret None" "parse_order en rq = Ret ps"
  shows "0 < ps_quantity ps"
proof -
  have "valid_quantity (rq_quantity rq) = Ret None"
    using assms(1) by (auto simp: validate_order_def Let_def and_then_def rbind_Ret split: if_splits)
  then have "\<exists>n. py_int (rq_quantity rq) = Ret n \<and> 0 < n"
    by (auto simp: valid_quantity_def split: sum.splits pyexc.splits if_splits)
  with assms(2) show ?thesis by (auto simp: parse_order_def Let_def rbind_Ret)
qed

lemma priced_cached:
  assumes "price_order en ps d = Some pr" "pr_cached pr = Some q" "ps_type ps \<noteq> MarketOrder"
  shows "ps_type ps = StopMarket \<or> within_limit (ps_side ps) (last_price q) (ps_price ps)"
  using assms by (cases "ps_type ps") (auto simp: price_order_def Let_def split: if_splits)

lemma within_limit_col:
  "col_rules sq \<Longrightarrow> within_limit s x limit \<Longrightarrow> within_limit s (sql_col sq x) (map_option (sql_col sq) limit)"
  by (auto simp: within_limit_def at_or_below_def at_or_above_def col_rules_def split: option.splits if_splits)

lemma pending_no_trade: "desk_ok sq d \<Longrightarrow> find_order oid d = Some ord \<Longrightarrow> is_pending ord \<Longrightarrow> trades_for oid d = []"
  by (auto simp: desk_ok_def list_all_iff trades_for_def filter_empty_conv split: option.splits)

lemma execute_now_moves:
  assumes ok: "desk_ok sq d" and sq: "col_rules sq" and en: "env_fits calm sq (pm_desk en)"
    and f: "find_order (so_id row) d = Some row" and p: "is_pending row"
    and type: "so_type row = ps_type ps" "so_side row = ps_side ps"
      "ps_type ps \<noteq> MarketOrder \<Longrightarrow> so_price row = map_option (sql_col sq) (ps_price ps)"
    and pr: "price_order en ps d0 = Some pr"
  shows "(move calm sq)\<^sup>*\<^sup>* d (execute_now en pr row d)"
proof (cases "pr_cached pr")
  case (Some q)
  note tf = pending_no_trade [OF ok f p]
  show ?thesis
  proof (cases "so_type row = MarketOrder")
    case True
    with process_moves [OF ok sq f p en, of q] Some show ?thesis by (auto simp: execute_now_def)
  next
    case False
    have "priced_within ord' (sql_col sq (last_price q))" if t: "same_terms sq row ord'" for ord'
    proof -
      have col: "map_option (sql_col sq) (map_option (sql_col sq) x) = map_option (sql_col sq) x" for x
        using sq by (cases x) (simp_all add: col_rules_def)
      have "ps_type ps = StopMarket \<or> within_limit (ps_side ps) (last_price q) (ps_price ps)"
        using priced_cached [OF pr Some] False type(1) by simp
      then have "ps_type ps = StopMarket \<or> within_limit (ps_side ps) (sql_col sq (last_price q)) (map_option (sql_col sq) (ps_price ps))"
        using within_limit_col [OF sq] by blast
      with t type False show ?thesis by (auto simp: priced_within_def same_terms_def col)
    qed
    from execute_moves [OF ok f p tf en this] False Some show ?thesis by (auto simp: execute_now_def)
  qed
qed (simp add: execute_now_def)

lemma new_row_sel [simp]:
  "so_side (new_row en rq ps price) = ps_side ps" "so_type (new_row en rq ps price) = ps_type ps"
  "so_quantity (new_row en rq ps price) = ps_quantity ps"
  "ps_type ps \<noteq> MarketOrder \<Longrightarrow> so_price (new_row en rq ps price) = ps_price ps"
  by (simp_all add: new_row_def)

lemma place_priced_moves:
  assumes ok: "desk_ok sq d" and sq: "col_rules sq" and en: "env_fits calm sq (pm_desk en)"
    and n: "0 < ps_quantity ps" and pr: "price_order en ps d0 = Some pr"
  shows "(move calm sq)\<^sup>*\<^sup>* d (snd (place_priced en rq ps pr price d))"
proof -
  have dsq: "de_sql (pm_desk en) = sq" using en by (simp add: env_fits_def env_sql_def)
  obtain required why where m: "margin_of en ps (ps_quantity ps) price = (required, why)" by (rule prod.exhaust)
  show ?thesis
  proof (cases required)
    case None
    with m show ?thesis by (simp add: place_priced_def)
  next
    case (Some r)
    obtain t d1 where t: "take_margin en ps (exposure_margin en ps price r d) d = (t, d1)" by (rule prod.exhaust)
    have k1: "(move calm sq)\<^sup>*\<^sup>* d d1" using take_margin_kept [of d en ps "exposure_margin en ps price r d"] t
      by (auto intro: aside)
    show ?thesis
    proof (cases t)
      case (Inl refusal)
      with m Some t k1 show ?thesis by (simp add: place_priced_def)
    next
      case (Inr x)
      note head = m Some t Inr
      show ?thesis
      proof (cases "cnc_rejection ps d")
        case cnc: (Some why)
        let ?row = "(new_row en rq ps price)\<lparr>so_status := Refused, so_pending := 0, so_cause := Some why\<rparr>"
        obtain r2 d2 where i: "insert_order en ?row d1 = (r2, d2)" by (rule prod.exhaust)
        have "move calm sq d1 d2" by (rule insert_moves(1) [OF i dsq sq]) (use n in auto)
        with k1 have "(move calm sq)\<^sup>*\<^sup>* d d2" by simp
        with head cnc i show ?thesis by (cases r2) (simp_all add: place_priced_def)
      next
        case None
        let ?st = "if (ps_type ps = StopLimit \<or> ps_type ps = StopMarket) \<and> \<not> pr_trigger_met pr then TriggerPending else InBook"
        let ?row = "(new_row en rq ps price)\<lparr>so_status := ?st, so_margin := Some x, so_gtt := rq_gtt rq\<rparr>"
        obtain r2 d2 where i: "insert_order en ?row d1 = (r2, d2)" by (rule prod.exhaust)
        have m2: "move calm sq d1 d2" by (rule insert_moves(1) [OF i dsq sq]) (use n in auto)
        with k1 have k2: "(move calm sq)\<^sup>*\<^sup>* d d2" by simp
        show ?thesis
        proof (cases r2)
          case (Inl e)
          with head None i k2 show ?thesis by (simp add: place_priced_def Let_def)
        next
          case row: (Inr row)
          have "find_order (so_id row) d2 = Some row" "row = stored_order sq ?row"
            using insert_moves(2) [OF i dsq sq _ _ row] n by auto
          then have "(move calm sq)\<^sup>*\<^sup>* d2 (execute_now en pr row d2)"
            by (intro execute_now_moves [OF moves_ok [OF k2 sq ok] sq en _ _ _ _ _ pr]) (auto simp: is_pending_def)
          with k2 have "(move calm sq)\<^sup>*\<^sup>* d (execute_now en pr row d2)" by (rule rtranclp_trans)
          with head None i row show ?thesis by (simp add: place_priced_def Let_def)
        qed
      qed
    qed
  qed
qed

lemma place_moves:
  assumes "desk_ok sq d" "col_rules sq" "env_fits calm sq (pm_desk en)"
  shows "(move calm sq)\<^sup>*\<^sup>* d (snd (place_order en rq d))"
proof (cases "validate_order rq")
  case (Inr v)
  show ?thesis
  proof (cases v)
    case None
    show ?thesis
    proof (cases "parse_order en rq")
      case parsed: (Inr ps)
      have n: "0 < ps_quantity ps" using validated_quantity [OF _ parsed] Inr None by simp
      from place_priced_moves [OF assms n] have
        "price_order en ps d = Some pr \<Longrightarrow> (move calm sq)\<^sup>*\<^sup>* d (snd (place_priced en rq ps pr price d))" for pr price .
      with Inr None parsed show ?thesis
        by (auto simp: place_order_def place_checked_def split: option.splits sum.splits)
    qed (simp add: place_order_def Inr None)
  qed (simp add: place_order_def Inr)
qed (simp add: place_order_def)

text \<open>A modification keeps the size positive when the one it asks for is.\<close>

definition positive_change :: "modify_request \<Rightarrow> bool" where
  "positive_change mr = (case mr_quantity mr of None \<Rightarrow> True | Some v \<Rightarrow> (case py_int v of Inl e \<Rightarrow> True | Inr n \<Rightarrow> 0 < n))"

lemma modified_quantity_sel:
  assumes "modified_quantity en v ord = Ret (Inr ord')"
  shows "so_id ord' = so_id ord" "so_status ord' = so_status ord"
    "(case v of None \<Rightarrow> True | Some x \<Rightarrow> (case py_int x of Inl e \<Rightarrow> True | Inr n \<Rightarrow> 0 < n)) \<Longrightarrow> 0 < so_quantity ord \<Longrightarrow>
       0 < so_quantity ord'"
  using assms by (auto simp: modified_quantity_def rbind_Ret split: option.splits)

lemma modified_prices_sel:
  "modified_prices en mr ord = Ret (Inr ord') \<Longrightarrow>
   so_id ord' = so_id ord \<and> so_status ord' = so_status ord \<and> so_quantity ord' = so_quantity ord"
  by (auto simp: modified_prices_def rbind_Ret split: if_splits)

lemma modify_moves:
  assumes ok: "desk_ok sq d" and sq: "col_rules sq" and en: "env_fits calm sq (pm_desk en)"
    and pos: "calm \<Longrightarrow> positive_change mr"
  shows "(move calm sq)\<^sup>*\<^sup>* d (snd (modify_order en oid mr d))"
proof -
  have dsq: "de_sql (pm_desk en) = sq" using en by (simp add: env_fits_def env_sql_def)
  consider (same) "snd (modify_order en oid mr d) = d"
    | (changed) ord ord1 ord2 where "find_order oid d = Some ord" "is_pending ord"
        "modified_quantity en (mr_quantity mr) ord = Ret (Inr ord1)" "modified_prices en mr ord1 = Ret (Inr ord2)"
        "snd (modify_order en oid mr d) = put_order (stored_order sq ord2) d"
  proof (cases "find_order oid d")
    case None
    with same show ?thesis by (simp add: modify_order_def split: option.splits)
  next
    case ord: (Some ord)
    show ?thesis
    proof (cases "is_pending ord \<and> de_fail (pm_desk en) OrderQuery = None \<and> de_fail (pm_desk en) OrderCommit = None")
      case False
      with ord have "snd (modify_order en oid mr d) = d"
        by (auto simp: modify_order_def split: option.splits sum.splits)
      then show ?thesis by (rule same)
    next
      case True
      consider (stop) "snd (modify_order en oid mr d) = d"
        | (go) ord1 ord2 where "modified_quantity en (mr_quantity mr) ord = Ret (Inr ord1)" "modified_prices en mr ord1 = Ret (Inr ord2)"
      proof (cases "modified_quantity en (mr_quantity mr) ord")
        case (Inl e)
        with True ord stop show ?thesis by (simp add: modify_order_def)
      next
        case q: (Inr answer)
        show ?thesis
        proof (cases answer)
          case (Inl why)
          with True ord q stop show ?thesis by (simp add: modify_order_def)
        next
          case a: (Inr ord1)
          show ?thesis
          proof (cases "modified_prices en mr ord1")
            case (Inl e)
            with True ord q a stop show ?thesis by (simp add: modify_order_def)
          next
            case p: (Inr answer2)
            with True ord q a stop go show ?thesis by (cases answer2) (simp_all add: modify_order_def)
          qed
        qed
      qed
      then show ?thesis
        by cases (use True ord same changed in \<open>simp_all add: modify_order_def dsq\<close>)
    qed
  qed
  then show ?thesis
  proof cases
    case (changed ord ord1 ord2)
    note q = modified_quantity_sel [OF changed(3)] and p = modified_prices_sel [OF changed(4)]
    have id: "so_id ord = oid" using find_order_id [OF changed(1)] by simp
    then have f: "find_order (so_id ord) d = Some ord" using changed(1) by simp
    have ps: "price_stored sq (stored_order sq ord2)"
      using sq by (cases "so_price ord2") (auto simp: price_stored_def col_rules_def)
    have "move calm sq d (put_order (stored_order sq ord2) d)"
      by (rule amend [OF f changed(2) _ _ ps])
        (use q p changed(2) pos in \<open>auto simp: is_pending_def positive_change_def\<close>)
    then show ?thesis using changed(5) by simp
  qed simp
qed

lemma cancel_moves:
  assumes ok: "desk_ok sq d" and sq: "col_rules sq" and en: "env_fits calm sq (pm_desk en)"
  shows "(move calm sq)\<^sup>*\<^sup>* d (snd (cancel_desk_order en oid d))"
proof -
  have dsq: "de_sql (pm_desk en) = sq" using en by (simp add: env_fits_def env_sql_def)
  have one: "(move calm sq)\<^sup>*\<^sup>* d (put_order (stored_order sq (ord\<lparr>so_status := Cancelled\<rparr>)) d1)"
    if "rows_kept d d1" "find_order oid d = Some ord" "is_pending ord" for d1 ord
  proof -
    have id: "so_id ord = oid" using find_order_id [OF that(2)] by simp
    have ps: "price_stored sq (stored_order sq (ord\<lparr>so_status := Cancelled\<rparr>))"
      using sq by (cases "so_price ord") (auto simp: price_stored_def col_rules_def)
    have "move calm sq d1 (put_order (stored_order sq (ord\<lparr>so_status := Cancelled\<rparr>)) d1)"
      by (rule amend [of "ord" d1, OF _ that(3) _ _ ps]) (use that(1,2) id in \<open>auto simp: rows_kept_def find_order_def\<close>)
    with aside [OF that(1), of calm sq] show ?thesis by (simp add: converse_rtranclp_into_rtranclp)
  qed
  have rel: "rows_kept d (snd (on_account f d))" for f :: "session \<Rightarrow> (bool \<times> fund_msg) \<times> session"
    by (rule rows_kept_account)
  have self: "rows_kept d d" by simp
  show ?thesis
  proof (cases "find_order oid d")
    case (Some ord)
    show ?thesis
    proof (cases "is_pending ord")
      case True
      show ?thesis
      proof (cases "margin_to_free en ord")
        case free: (Inr m)
        show ?thesis
        proof (cases m)
          case None
          have "snd (cancel_desk_order en oid d) \<in> {d, put_order (stored_order sq (ord\<lparr>so_status := Cancelled\<rparr>)) d}"
            using Some True free None by (simp add: cancel_desk_order_def dsq Let_def split: option.splits)
          with one [OF self Some True] show ?thesis by auto
        next
          case m: (Some x)
          let ?f = "release_margin sq (de_fund (pm_desk en)) (Ret x) (Ret 0)"
          obtain answer d1 where e: "on_account ?f d = (answer, d1)" by (rule prod.exhaust)
          have k: "rows_kept d d1" using rel [of ?f] e by simp
          have "snd (cancel_desk_order en oid d) \<in> {d, d1, put_order (stored_order sq (ord\<lparr>so_status := Cancelled\<rparr>)) d1}"
            using Some True free m e by (simp add: cancel_desk_order_def dsq Let_def split: option.splits)
          with one [OF k Some True] kept_moves [OF k] show ?thesis by auto
        qed
      qed (simp add: cancel_desk_order_def Some True split: option.splits)
    qed (simp add: cancel_desk_order_def Some split: option.splits)
  qed (simp add: cancel_desk_order_def split: option.splits)
qed

end
