(* ===== verification/Sandbox_Claims.thy ===== *)
theory Sandbox_Claims
  imports Sandbox_Facts Fund_Ledger
begin

text \<open>
  What holds of the simulated exchange over any history of requests, cycles and ticks, with database
  failures anywhere: an order fills at most once, whole, within its limit, and an ended
  order stays as it ended. Without failures the positions are the sums of the trades, and
  an order a quote can fill is filled by the cycle that sees the quote.
\<close>

section \<open>Histories are moves\<close>

fun sized_event :: "desk_event \<Rightarrow> bool" where
  "sized_event (ModifyEv en oid mr) = positive_change mr"
| "sized_event ev = True"

definition event_fits_desk :: "bool \<Rightarrow> sql_rules \<Rightarrow> desk_event \<Rightarrow> bool" where
  "event_fits_desk steady sq ev = (event_all (env_fits steady sq) ev \<and> (steady \<longrightarrow> sized_event ev))"

lemma step_moves:
  assumes "col_rules sq" "event_fits_desk steady sq ev" "desk_ok sq d"
  shows "(move steady sq)\<^sup>*\<^sup>* d (desk_step d ev)"
proof (cases ev)
  case (CycleEv envs quotes)
  with assms engine_moves [of sq steady envs d quotes] show ?thesis by (simp add: event_fits_desk_def)
qed (use assms in \<open>simp_all add: event_fits_desk_def place_moves modify_moves cancel_moves tick_moves\<close>)

lemma history_moves:
  assumes sq: "col_rules sq" and "\<forall>ev \<in> set evs. event_fits_desk steady sq ev" "desk_ok sq d"
  shows "(move steady sq)\<^sup>*\<^sup>* d (foldl desk_step d evs)"
  using assms(2,3)
proof (induction evs arbitrary: d)
  case (Cons ev evs)
  have s: "(move steady sq)\<^sup>*\<^sup>* d (desk_step d ev)" using step_moves [OF sq] Cons.prems by simp
  have "(move steady sq)\<^sup>*\<^sup>* (desk_step d ev) (foldl desk_step (desk_step d ev) evs)"
    using Cons.IH [of "desk_step d ev"] moves_ok [OF s sq] Cons.prems by simp
  with s show ?case by simp
qed simp

section \<open>What has ended stays\<close>

definition settled_kept :: "desk \<Rightarrow> desk \<Rightarrow> bool" where
  "settled_kept d d' =
     ((\<exists>ts. dk_trades d' = dk_trades d @ ts) \<and>
      (\<forall>oid ord. find_order oid d = Some ord \<and> \<not> is_pending ord \<longrightarrow>
         find_order oid d' = Some ord \<and> trades_for oid d' = trades_for oid d))"

lemma settled_refl: "settled_kept d d"
  by (simp add: settled_kept_def)

lemma settled_trans: "settled_kept d e \<Longrightarrow> settled_kept e f \<Longrightarrow> settled_kept d f"
  unfolding settled_kept_def by (metis append.assoc)

lemma move_settled:
  assumes "move steady sq d d'"
  shows "settled_kept d d'"
  using assms
proof cases
  case aside
  then show ?thesis by (auto simp: settled_kept_def rows_kept_def find_order_def trades_for_def)
next
  case (amend ord ord')
  have "find_order oid d' = (if oid = so_id ord then Some ord' else find_order oid d)" for oid
    using amend(1,3) find_order_put [of oid ord' d] unfolding find_order_eq [OF amend(7)] by simp
  with amend show ?thesis by (auto simp: settled_kept_def trades_for_def)
next
  case (fill ord ord' price)
  have "find_order oid d' = (if oid = so_id ord then Some ord' else find_order oid d)" for oid
    using fill(1,4) find_order_put [of oid ord' d] unfolding find_order_eq [OF fill(7)] by (simp add: same_terms_def)
  with fill show ?thesis by (auto simp: settled_kept_def trades_for_def trade_of_def)
next
  case (insert ord)
  then show ?thesis by (auto simp: settled_kept_def trades_for_def find_order_def find_append split: option.splits)
qed

lemma moves_settled: "(move steady sq)\<^sup>*\<^sup>* d d' \<Longrightarrow> settled_kept d d'"
  by (induction rule: rtranclp_induct) (auto intro: settled_refl settled_trans move_settled)

section \<open>Positions and trades\<close>

definition traded_of :: "position_key \<Rightarrow> trade list \<Rightarrow> int" where
  "traded_of k ts =
     sum_list (map (\<lambda>t. if (td_symbol t, td_exchange t, td_product t) = k
                        then signed_quantity (td_side t) (td_quantity t) else 0) ts)"

definition desk_balanced :: "desk \<Rightarrow> bool" where
  "desk_balanced d =
     (list_all (\<lambda>ord. 0 < so_quantity ord) (dk_orders d) \<and> (\<forall>k. held_of k d = traded_of k (dk_trades d)))"

lemma traded_append: "traded_of k (ts @ us) = traded_of k ts + traded_of k us"
  by (simp add: traded_of_def)

lemma traded_new: "traded_of k [trade_of sq ord price] =
    (if k = order_key ord then signed_quantity (so_side ord) (so_quantity ord) else 0)"
  by (auto simp: traded_of_def trade_of_def order_key_def)

declare split_paired_All [simp del]

lemma put_sizes:
  assumes "list_all (\<lambda>x. 0 < so_quantity x) (dk_orders d)" "0 < so_quantity row"
  shows "list_all (\<lambda>x. 0 < so_quantity x) (dk_orders (put_order row d))"
  using assms set_put_order [of _ row d] by (auto simp: list_all_iff)

lemma move_balanced:
  assumes "move True sq d d'" "desk_balanced d"
  shows "desk_balanced d'"
  using assms(1)
proof cases
  case aside
  with assms(2) show ?thesis by (simp add: desk_balanced_def rows_kept_def)
next
  case (amend ord ord')
  have "0 < so_quantity ord" using assms(2) find_order_id [OF amend(1)] by (simp add: desk_balanced_def list_all_iff)
  with assms(2) amend put_sizes [of d ord'] show ?thesis by (simp add: desk_balanced_def)
next
  case (fill ord ord' price)
  have "0 < so_quantity ord" using assms(2) find_order_id [OF fill(1)] by (simp add: desk_balanced_def list_all_iff)
  with assms(2) fill put_sizes [of d ord'] show ?thesis
    by (simp add: desk_balanced_def traded_append traded_new same_terms_def)
next
  case (insert ord)
  with assms(2) show ?thesis by (simp add: desk_balanced_def)
qed

lemma moves_balanced: "(move True sq)\<^sup>*\<^sup>* d d' \<Longrightarrow> desk_balanced d \<Longrightarrow> desk_balanced d'"
  by (induction rule: rtranclp_induct) (auto intro: move_balanced)


section \<open>A cycle fills what its quotes can fill\<close>

lemma execute_fills:
  assumes f: "find_order (so_id ord) d = Some ord" and q: "quiet_env en"
  shows "find_order (so_id ord) (execute_order en ord price d) = Some (stored_order (de_sql en) (filled_order price ord))"
    and "dk_trades (execute_order en ord price d) = dk_trades d @ [trade_of (de_sql en) ord price]"
proof -
  let ?ord = "stored_order (de_sql en) (filled_order price ord)"
  let ?d1 = "put_order ?ord (d\<lparr>dk_trades := dk_trades d @ [trade_of (de_sql en) ord price]\<rparr>)"
  obtain r d2 where u: "update_position en ?ord price ?d1 = (r, d2)" by (rule prod.exhaust)
  note up = update_position_result [OF u]
  have e: "execute_order en ord price d = d2"
    using up(5) [OF q] u q by (simp add: execute_order_def quiet_env_def Let_def)
  have "find_order (so_id ord) ?d1 = Some ?ord"
    using f by (simp add: find_order_put filled_order_def) (simp add: find_order_def)
  then show "find_order (so_id ord) (execute_order en ord price d) = Some ?ord"
    unfolding e by (simp add: find_order_eq [OF up(1)])
  show "dk_trades (execute_order en ord price d) = dk_trades d @ [trade_of (de_sql en) ord price]"
    unfolding e by (simp add: up(2))
qed

lemma process_fills:
  assumes ok: "desk_ok sq d" and f: "find_order (so_id ord) d = Some ord" and p: "is_pending ord" and q: "quiet_env en"
    and dec: "fill_decision quote ord = FillAt price"
  shows "find_order (so_id ord) (process_order en quote ord d) = Some (stored_order (de_sql en) (filled_order price ord))"
    and "trade_of (de_sql en) ord price \<in> set (dk_trades (process_order en quote ord d))"
proof -
  have "List.find (\<lambda>t. td_order t = so_id ord) (dk_trades d) = None"
    using pending_no_trade [OF ok f p] by (auto simp: trades_for_def filter_empty_conv find_None_iff)
  then have e: "process_order en quote ord d = execute_order en ord price d"
    using q dec by (simp add: process_order_def quiet_env_def)
  show "find_order (so_id ord) (process_order en quote ord d) = Some (stored_order (de_sql en) (filled_order price ord))"
    and "trade_of (de_sql en) ord price \<in> set (dk_trades (process_order en quote ord d))"
    unfolding e using execute_fills [OF f q, of price] by simp_all
qed

lemma cycle_fills:
  assumes sq: "col_rules sq" and en: "\<And>oid. env_fits True sq (envs oid)" and ok: "desk_ok sq d"
    and "distinct (map so_id ords)" "\<And>x. x \<in> set ords \<Longrightarrow> \<exists>row. find_order (so_id x) d = Some row \<and> is_pending row"
    and "ord \<in> set ords" "find_order (so_id ord) d = Some ord" "is_pending ord"
    and q: "quotes (so_symbol ord, so_exchange ord) = Some quote" "fill_decision quote ord = FillAt price"
  shows "find_order (so_id ord) (process_each envs quotes ords d) = Some (stored_order sq (filled_order price ord)) \<and>
    trade_of sq ord price \<in> set (dk_trades (process_each envs quotes ords d))"
  using assms(3-8)
proof (induction ords arbitrary: d)
  case (Cons x ords)
  obtain row where row: "find_order (so_id x) d = Some row" "is_pending row" using Cons.prems(3) by fastforce
  have id: "so_id row = so_id x" using find_order_id [OF row(1)] by simp
  with row have found: "find_order (so_id row) d = Some row" by simp
  let ?d = "case (quotes (so_symbol x, so_exchange x), find_order (so_id x) d) of
      (Some q, Some row) \<Rightarrow> process_order (envs (so_id x)) q row d | _ \<Rightarrow> d"
  have step: "(move True sq)\<^sup>*\<^sup>* d ?d"
    using process_moves [OF Cons.prems(1) sq found row(2) en] row by (auto split: option.splits)
  have ok': "desk_ok sq ?d" by (rule moves_ok [OF step sq Cons.prems(1)])
  have other: "find_order oid ?d = find_order oid d" if "oid \<noteq> so_id x" for oid
    using process_other [of oid row] that id row by (auto split: option.splits)
  have ne: "so_id y \<noteq> so_id x" if "y \<in> set ords" for y
    using Cons.prems(2) that by (metis distinct.simps(2) image_eqI list.set_map list.simps(9))
  have rest: "\<exists>row. find_order (so_id y) ?d = Some row \<and> is_pending row" if m: "y \<in> set ords" for y
    using other [OF ne [OF m]] Cons.prems(3) [of y] m by simp
  have dist: "distinct (map so_id ords)" using Cons.prems(2) by simp
  show ?case
  proof (cases "ord \<in> set ords")
    case True
    have "find_order (so_id ord) ?d = Some ord" using other [OF ne [OF True]] Cons.prems(5) by simp
    from Cons.IH [OF ok' dist rest True this Cons.prems(6)] show ?thesis by (simp only: process_each.simps)
  next
    case False
    then have x: "x = ord" using Cons.prems(4) by simp
    with row(1) Cons.prems(5) have r: "row = ord" by simp
    have sq': "de_sql (envs (so_id x)) = sq" and quiet: "quiet_env (envs (so_id x))"
      using en [of "so_id x"] by (auto simp: env_fits_def env_sql_def)
    have now: "find_order (so_id ord) ?d = Some (stored_order sq (filled_order price ord))"
      "trade_of sq ord price \<in> set (dk_trades ?d)"
      using process_fills [OF Cons.prems(1,5,6) quiet q(2)] q(1) row r sq' by (simp_all add: x)
    have "settled_kept ?d (process_each envs quotes ords ?d)"
      by (rule moves_settled, rule cycle_moves [OF sq en ok' dist rest])
    then have "find_order (so_id ord) (process_each envs quotes ords ?d) = Some (stored_order sq (filled_order price ord)) \<and>
        trade_of sq ord price \<in> set (dk_trades (process_each envs quotes ords ?d))"
      using now by (auto simp: settled_kept_def is_pending_def filled_order_def)
    then show ?thesis by (simp only: process_each.simps)
  qed
qed simp


section \<open>The margin after a fill\<close>

text \<open>The margins the reconciliation counts: of the open positions, and of the active triggers.\<close>

definition positions_margin :: "desk \<Rightarrow> rat" where
  "positions_margin d = position_margin (ss_cur (account_of d))"

definition gtts_margin :: "desk \<Rightarrow> rat" where
  "gtts_margin d = active_gtt_margin (ss_cur (account_of d))"

definition used_margin :: "desk \<Rightarrow> rat" where
  "used_margin d = (case dk_funds d of None \<Rightarrow> 0 | Some f \<Rightarrow> fd_used f)"

lemma account_sel [simp]:
  "lg_funds (ss_cur (account_of d)) = dk_funds d" "lg_funds (ss_db (account_of d)) = dk_funds d"
  by (simp_all add: account_of_def Let_def)

lemma margins_same:
  "dk_positions d' = dk_positions d \<Longrightarrow> dk_gtts d' = dk_gtts d \<Longrightarrow> positions_margin d' = positions_margin d \<and> gtts_margin d' = gtts_margin d"
  by (simp add: positions_margin_def gtts_margin_def account_of_def position_margin_def active_gtt_margin_def Let_def)

lemma on_account_gtts [simp]: "dk_gtts (snd (on_account f d)) = dk_gtts d"
  by (simp add: on_account_def split: prod.splits)

lemma on_account_funds: "dk_funds (snd (on_account f d)) = lg_funds (ss_cur (snd (f (account_of d))))"
  by (simp add: on_account_def split: prod.splits)

lemma settle_margin_used:
  assumes "\<forall>c. en_fail (de_fund en) c = None" "dk_funds d = Some f"
  defines "held \<equiv> dadd (positions_margin d) (gtts_margin d)"
  shows "dsub (used_margin (settle_margin en d)) (positions_margin d) = 0 \<or>
         dsub (used_margin (settle_margin en d)) held = 0 \<or> used_margin (settle_margin en d) = sql_col (de_sql en) held"
proof (cases "dsub (fd_used f) (positions_margin d) = 0")
  case True
  then show ?thesis
    using assms(1,2) by (simp add: settle_margin_def validate_margin_consistency_def used_margin_def positions_margin_def Let_def)
next
  case False
  then have settle: "settle_margin en d = snd (on_account (reconcile_margin (de_sql en) (de_fund en) True) d)"
    using assms(1,2) by (simp add: settle_margin_def validate_margin_consistency_def positions_margin_def Let_def)
  show ?thesis
    using assms(1,2) unfolding settle used_margin_def on_account_funds held_def positions_margin_def gtts_margin_def
    by (simp add: reconcile_margin_def Let_def stored_funds_def)
qed

lemma locked_funds: "lg_funds (ss_cur s) = Some f \<Longrightarrow> lg_funds (ss_db s) = Some g \<Longrightarrow>
    \<exists>f'. lg_funds (ss_cur (snd (locked_op sq en body s))) = Some f'"
  by (rule locked_op_cases [of s f sq en body]) auto

lemma release_funds: "dk_funds d = Some f \<Longrightarrow> \<exists>f'. dk_funds (snd (release_for en m pnl d)) = Some f'"
proof -
  assume f: "dk_funds d = Some f"
  obtain answer d' where a: "on_account (release_margin (de_sql en) (de_fund en) (Ret m) (Ret pnl)) d = (answer, d')"
    by (rule prod.exhaust)
  have "\<exists>f'. dk_funds d' = Some f'"
    using locked_funds [of "account_of d" f f] f a on_account_funds [of "release_margin (de_sql en) (de_fund en) (Ret m) (Ret pnl)" d]
    by (simp add: release_margin_def)
  with a f show ?thesis by (simp add: release_for_def)
qed

lemma net_fill_funds:
  assumes "dk_funds d = Some f"
  shows "\<exists>f'. dk_funds (snd (net_fill en ord price d)) = Some f'"
proof -
  have close: "\<exists>f'. dk_funds (snd (close_out en ord price p d)) = Some f'" for p
    using release_funds [OF assms] assms
    by (auto simp: close_out_def Let_def split: sum.splits prod.splits) (metis snd_conv)
  have red: "\<exists>f'. dk_funds (snd (reduce en ord price p d)) = Some f'" for p
    using release_funds [OF assms] assms
    by (auto simp: reduce_def Let_def split: sum.splits prod.splits) (metis snd_conv)+
  show ?thesis using assms close red by (auto simp: net_fill_def Let_def split: option.splits)
qed


section \<open>Claims\<close>

lemma fits_any: "event_all (env_sql sq) ev \<Longrightarrow> event_fits_desk False sq ev"
  by (cases ev) (auto simp: event_fits_desk_def env_fits_def)

text \<open>A desk with two pending orders and the margin of both blocked, for the witnesses.\<close>

definition still_env :: desk_env where
  "still_env = \<lparr> de_sql = ideal_sql, de_fund = calm, de_contract = (\<lambda>s e. Ret 1), de_fail = (\<lambda>c. None) \<rparr>"

definition sample_buy :: sandbox_order where
  "sample_buy = \<lparr> so_id = ''A'', so_symbol = ''X'', so_exchange = ''NSE'', so_side = Buy, so_quantity = 10,
     so_price = Some 100, so_trigger = None, so_type = LimitOrder, so_product = ''MIS'', so_status = InBook,
     so_average = None, so_filled = 0, so_pending = 10, so_cause = None, so_margin = Some 60, so_gtt = None \<rparr>"

definition sample_desk :: desk where
  "sample_desk = \<lparr> dk_funds = Some sample_funds,
     dk_orders = [sample_buy, sample_buy\<lparr>so_id := ''B'', so_price := Some 90, so_margin := Some 40\<rparr>],
     dk_trades = [], dk_positions = [], dk_holdings = [], dk_gtts = [] \<rparr>"

definition sample_quote :: quote where
  "sample_quote = \<lparr> qt_ltp = Ret 95, qt_bid = Ret 94, qt_ask = Ret 96, qt_high = Ret 99, qt_low = Ret 91 \<rparr>"

lemma ideal_col_rules: "col_rules ideal_sql"
proof -
  have m: "x \<le> y \<Longrightarrow> sql_col ideal_sql x \<le> sql_col ideal_sql y" for x y
    by (simp add: ideal_sql_def round_half_even_mono divide_right_mono)
  have i: "sql_col ideal_sql (sql_col ideal_sql x) = sql_col ideal_sql x" for x
    by (simp add: ideal_sql_def)
  from m i show ?thesis by (simp add: col_rules_def)
qed

lemma still_fits: "env_fits True ideal_sql still_env"
  by (simp add: env_fits_def env_sql_def quiet_env_def still_env_def)

lemma sample_desk_ok: "desk_ok ideal_sql sample_desk"
  by code_simp

lemma sample_balanced: "desk_balanced sample_desk"
  by (simp add: desk_balanced_def sample_desk_def sample_buy_def held_of_def find_position_def traded_of_def)

lemma desk_tick: "dk_trades (foldl desk_step sample_desk [TickEv still_env ''A'' 99]) = [trade_of ideal_sql sample_buy 100]"
  by code_simp









text \<open>C38: After a fill in which no call fails, the used margin is what the open positions hold, with or
  without the active triggers: nothing of what the pending orders have blocked is left in it.\<close>

theorem fill_settles_margin:
  assumes "quiet_env en" "\<forall>c. en_fail (de_fund en) c = None" "dk_funds d = Some f"
    and "update_position en ord price d = (r, d')"
  defines "held \<equiv> dadd (positions_margin d') (gtts_margin d')"
  shows "r = Ret () \<and> (dsub (used_margin d') (positions_margin d') = 0 \<or> dsub (used_margin d') held = 0 \<or>
    used_margin d' = sql_col (de_sql en) held)"
proof -
  have r: "r = Ret ()" by (rule update_position_result(5) [OF assms(4,1)])
  obtain d1 p where n: "net_fill en ord price d = (Ret p, d1)"
    "d' = settle_margin en (put_position (stored_position (de_sql en) p) d1)"
    using assms(1,4) r by (auto simp: update_position_def quiet_env_def split: sum.splits prod.splits)
  let ?d = "put_position (stored_position (de_sql en) p) d1"
  obtain f1 where f1: "dk_funds ?d = Some f1" using net_fill_funds [OF assms(3), of en ord price] n(1) by auto
  have m: "positions_margin d' = positions_margin ?d \<and> gtts_margin d' = gtts_margin ?d"
    unfolding n(2) by (rule margins_same) (simp_all add: settle_margin_def)
  with settle_margin_used [OF assms(2) f1] r show ?thesis by (simp add: held_def n(2) [symmetric])
qed

theorem fill_settles_margin_witness:
  "dk_funds sample_desk = Some sample_funds \<and> fd_used sample_funds = 100 \<and>
   used_margin (snd (update_position still_env sample_buy 100 sample_desk)) = 60"
proof -
  have q: "quiet_env still_env" and c: "\<forall>c. en_fail (de_fund still_env) c = None"
    by (simp_all add: quiet_env_def still_env_def calm_def)
  have f: "dk_funds sample_desk = Some sample_funds" by (simp add: sample_desk_def)
  let ?d = "snd (update_position still_env sample_buy 100 sample_desk)"
  have m: "positions_margin ?d = 60" "gtts_margin ?d = 0" "dsub (used_margin ?d) 60 = 0 \<longrightarrow> used_margin ?d = 60"
    by code_simp+
  have col: "sql_col (de_sql still_env) (dadd 60 0) = 60" "dadd 60 0 = (60 :: rat)" by code_simp+
  from fill_settles_margin [OF q c f prod.collapse [symmetric], of sample_buy 100] m col f show ?thesis
    by (auto simp: sample_funds_def)
qed


lemma release_not_undone:
  assumes "\<forall>c. en_fail en c = None"
  shows "effect_of (fst (release_margin sq en (Ret m) (Ret pnl) s)) \<noteq> Undone"
  using assms
  by (auto simp: release_margin_def locked_op_def release_body_def ensure_funds_initialized_def initialize_funds_def
      effect_of_def Let_def commit_def put_funds_def split: option.splits fund_msg.splits)

lemma cancel_done:
  assumes "cancel_desk_order en oid d = (Done oid', d')" "\<forall>c. en_fail (de_fund (pm_desk en)) c = None"
  obtains ord d1 where "find_order oid d = Some ord" "is_pending ord" "rows_kept d d1"
    "d' = put_order (stored_order (de_sql (pm_desk en)) (ord\<lparr>so_status := Cancelled\<rparr>)) d1"
proof -
  obtain ord where ord: "find_order oid d = Some ord" "is_pending ord"
    using assms(1) by (auto simp: cancel_desk_order_def split: option.splits if_splits)
  obtain m where free: "margin_to_free en ord = Ret m"
    using assms(1) ord by (auto simp: cancel_desk_order_def split: option.splits sum.splits)
  let ?row = "stored_order (de_sql (pm_desk en)) (ord\<lparr>so_status := Cancelled\<rparr>)"
  show thesis
  proof (cases m)
    case None
    have "d' = put_order ?row d"
      using assms(1) ord free None by (simp add: cancel_desk_order_def Let_def split: option.splits)
    then show thesis by (rule that [OF ord rows_kept_refl])
  next
    case m: (Some x)
    let ?f = "release_margin (de_sql (pm_desk en)) (de_fund (pm_desk en)) (Ret x) (Ret 0)"
    obtain answer d1 where e: "on_account ?f d = (answer, d1)" by (rule prod.exhaust)
    have "rows_kept d d1" using rows_kept_account [of d ?f] e by simp
    moreover have "effect_of answer \<noteq> Undone"
      using release_not_undone [OF assms(2), of "de_sql (pm_desk en)" x 0 "account_of d"] e
      by (auto simp: on_account_def split: prod.splits)
    then have "d' = put_order ?row d1"
      using assms(1) ord free m e by (simp add: cancel_desk_order_def Let_def split: option.splits)
    ultimately show thesis using that [OF ord] by blast
  qed
qed

text \<open>When a cancellation answers success, and no database call of the account failed in it, the
  order is cancelled and never trades, whatever requests, cycles and ticks follow.\<close>

theorem cancelled_never_fills:
  assumes "col_rules sq" "desk_ok sq d" "env_sql sq (pm_desk en)" "\<forall>c. en_fail (de_fund (pm_desk en)) c = None"
    and "cancel_desk_order en oid d = (Done oid', d')" "\<forall>ev \<in> set evs. event_all (env_sql sq) ev"
  shows "trades_for oid (foldl desk_step d' evs) = [] \<and>
    (\<exists>ord. find_order oid (foldl desk_step d' evs) = Some ord \<and> so_status ord = Cancelled)"
proof -
  have en: "env_fits False sq (pm_desk en)" using assms(3) by (simp add: env_fits_def)
  have ok: "desk_ok sq d'" using moves_ok [OF cancel_moves [OF assms(2,1) en] assms(1,2), of oid] assms(5) by simp
  from assms(5,4) obtain ord d1 where c: "find_order oid d = Some ord" "is_pending ord" "rows_kept d d1"
    "d' = put_order (stored_order (de_sql (pm_desk en)) (ord\<lparr>so_status := Cancelled\<rparr>)) d1" by (rule cancel_done)
  let ?row = "stored_order (de_sql (pm_desk en)) (ord\<lparr>so_status := Cancelled\<rparr>)"
  have f: "find_order oid d' = Some ?row"
    using c find_order_id [OF c(1)] by (simp add: find_order_put rows_kept_def find_order_eq [of d1 d])
  have t: "trades_for oid d' = []"
    using pending_no_trade [OF assms(2) c(1,2)] c(3,4) by (simp add: trades_for_def rows_kept_def)
  have "(move False sq)\<^sup>*\<^sup>* d' (foldl desk_step d' evs)"
    by (rule history_moves [OF assms(1) _ ok]) (use assms(6) fits_any in blast)
  moreover have "\<not> is_pending ?row" by (simp add: is_pending_def)
  ultimately have "find_order oid (foldl desk_step d' evs) = Some ?row \<and>
      trades_for oid (foldl desk_step d' evs) = trades_for oid d'"
    using f moves_settled unfolding settled_kept_def by metis
  with t show ?thesis by simp
qed

definition place_still :: place_env where
  "place_still = \<lparr> pm_desk = still_env, pm_decimal = (\<lambda>v. Inl TypeError), pm_info = (\<lambda>s e. Ret (Some (Some 1))),
     pm_cfg = (\<lambda>k v. Ret 1), pm_square_off = (\<lambda>e. None), pm_now = 0, pm_prefetched = None,
     pm_quotes = (\<lambda>n. None), pm_new_id = ''N'' \<rparr>"

theorem cancelled_never_fills_witness:
  "fst (cancel_desk_order place_still ''A'' sample_desk) = Done ''A'' \<and>
   trades_for ''A'' (foldl desk_step (snd (cancel_desk_order place_still ''A'' sample_desk)) [TickEv still_env ''A'' 99]) = []"
proof -
  have e: "env_sql ideal_sql (pm_desk place_still)" and c: "\<forall>c. en_fail (de_fund (pm_desk place_still)) c = None"
    and ev: "\<forall>ev \<in> set [TickEv still_env ''A'' 99]. event_all (env_sql ideal_sql) ev"
    by (simp_all add: env_sql_def place_still_def still_env_def calm_def)
  have a: "fst (cancel_desk_order place_still ''A'' sample_desk) = Done ''A''" by code_simp
  then have "cancel_desk_order place_still ''A'' sample_desk = (Done ''A'', snd (cancel_desk_order place_still ''A'' sample_desk))"
    by (simp add: prod_eq_iff)
  from cancelled_never_fills [OF ideal_col_rules sample_desk_ok e c this ev] a show ?thesis by simp
qed

text \<open>When the commit of the release fails, the rollback also undoes the cancellation, and the answer
  is success all the same.\<close>

definition failing_release :: place_env where
  "failing_release = place_still\<lparr>pm_desk := still_env\<lparr>de_fund := calm\<lparr>en_fail := (\<lambda>_. None)(OpCommit := Some OtherError)\<rparr>\<rparr>\<rparr>"

lemma cancel_answers_done_undone:
  "fst (cancel_desk_order failing_release ''A'' sample_desk) = Done ''A'' \<and>
   map is_pending (dk_orders (snd (cancel_desk_order failing_release ''A'' sample_desk))) = [True, True]"
  by code_simp

text \<open>Cancelling an order that blocked nothing, as one that only reduces a position does, frees the margin
  such an order would have needed: here the sixty of the position of the same desk are all freed.\<close>

definition covered_desk :: desk where
  "covered_desk = sample_desk\<lparr>dk_orders := [sample_buy\<lparr>so_id := ''S'', so_side := Sell, so_quantity := 1, so_price := Some 60, so_margin := Some 0\<rparr>]\<rparr>"

lemma cancel_frees_unblocked:
  "used_margin covered_desk = 100 \<and>
   used_margin (snd (cancel_desk_order place_still ''S'' covered_desk)) = 40"
  by code_simp

end
