(* ===== verification/Flow_Graph.thy ===== *)
theory Flow_Graph
  imports Py_Value "HOL-Library.List_Lexorder" "HOL-Library.Char_ord"
begin

text \<open>
  The graph checks a workflow passes before it may run: \<open>services/flow_workflow_validator.py\<close>. A
  workflow is a list of nodes and a list of edges as they come from JSON: an id, a type or an
  endpoint that is no text is \<open>None\<close>, a handle is its text as \<open>str\<close> gives it, and a node or an edge
  that is no object is a constructor of its own. The checks of the values inside a node's data are a parameter. An error is its path and
  its code; the sentences are left out. A Python set is walked in some order, which is an argument.
\<close>

section \<open>Workflows\<close>

record node_fields =
  nf_id :: "string option"
  nf_type :: "string option"
  nf_data :: "pydict option"
  nf_position :: "(pyval \<times> pyval) option"

datatype raw_node = NoNode | RawNode node_fields

record edge_fields =
  ef_id :: "string option"
  ef_source :: "string option"
  ef_target :: "string option"
  ef_handle :: "string option"
  ef_slot :: "string option"

datatype raw_edge = NoEdge | RawEdge edge_fields

definition max_nodes :: nat where "max_nodes = 500"

definition max_edges :: nat where "max_edges = 1000"

definition trigger_types :: "string list" where
  "trigger_types = [''start'', ''webhookTrigger'', ''priceAlert'', ''orderUpdateTrigger'']"

definition branch_types :: "string list" where
  "branch_types = [''positionCheck'', ''fundCheck'', ''priceCondition'', ''varCondition'', ''timeWindow'', ''timeCondition'',
     ''andGate'', ''orGate'', ''notGate'', ''priceAlert'']"

definition branch_handles :: "string list" where
  "branch_handles = [''true'', ''false'', ''yes'', ''no'']"

definition decorative_types :: "string list" where
  "decorative_types = [''group'']"

section \<open>Cycles\<close>

text \<open>A depth-first search that colours the nodes. Each call takes a unit of fuel; \<open>None\<close> is running out of it.\<close>

datatype colour = White | Grey | Black

type_synonym colouring = "string \<Rightarrow> colour"

definition cycle_found :: "string list \<Rightarrow> string \<Rightarrow> string list" where
  "cycle_found path nxt = (if nxt \<in> set path then dropWhile (\<lambda>x. x \<noteq> nxt) path @ [nxt] else [nxt])"

fun visit :: "nat \<Rightarrow> (string \<Rightarrow> string list) \<Rightarrow> string \<Rightarrow> string list \<Rightarrow> colouring \<Rightarrow> (string list option \<times> colouring) option"
  and visit_next :: "nat \<Rightarrow> (string \<Rightarrow> string list) \<Rightarrow> string list \<Rightarrow> string list \<Rightarrow> colouring \<Rightarrow> (string list option \<times> colouring) option"
where
  "visit 0 adj node path col = None"
| "visit (Suc n) adj node path col =
     (case visit_next n adj (adj node) path (col(node := Grey)) of
        None \<Rightarrow> None
      | Some (Some c, col') \<Rightarrow> Some (Some c, col')
      | Some (None, col') \<Rightarrow> Some (None, col'(node := Black)))"
| "visit_next n adj [] path col = Some (None, col)"
| "visit_next n adj (nxt # rest) path col =
     (if col nxt = Grey then Some (Some (cycle_found path nxt), col)
      else if col nxt = White
      then
        (case visit n adj nxt (path @ [nxt]) col of
           None \<Rightarrow> None
         | Some (Some c, col') \<Rightarrow> Some (Some c, col')
         | Some (None, col') \<Rightarrow> visit_next n adj rest path col')
      else visit_next n adj rest path col)"

fun visit_all :: "nat \<Rightarrow> (string \<Rightarrow> string list) \<Rightarrow> string list \<Rightarrow> colouring \<Rightarrow> (string list option \<times> colouring) option" where
  "visit_all n adj [] col = Some (None, col)"
| "visit_all n adj (nid # ids) col =
     (if col nid = White
      then
        (case visit n adj nid [nid] col of
           None \<Rightarrow> None
         | Some (Some c, col') \<Rightarrow> Some (Some c, col')
         | Some (None, col') \<Rightarrow> visit_all n adj ids col')
      else visit_all n adj ids col)"

section \<open>Reachability and the graph's errors\<close>

type_synonym edge_ends = "(string \<times> string) list"

definition adjacency :: "string list \<Rightarrow> edge_ends \<Rightarrow> string \<Rightarrow> string list" where
  "adjacency ids ends nid =
     (if nid \<in> set ids then map snd (filter (\<lambda>(s, t). s = nid \<and> t \<in> set ids) ends) else [])"

text \<open>The work list is a stack with its top at the end.\<close>

function reached :: "string list \<Rightarrow> edge_ends \<Rightarrow> string list \<Rightarrow> string list \<Rightarrow> string list" where
  "reached ids ends seen stack =
     (if stack = [] then seen
      else if last stack \<in> set seen then reached ids ends seen (butlast stack)
      else reached ids ends (last stack # seen) (butlast stack @ adjacency ids ends (last stack)))"
  by auto

lemma fewer_unseen: "x \<in> set ids \<Longrightarrow> x \<notin> set seen \<Longrightarrow>
    length (filter (\<lambda>y. y \<notin> set (x # seen)) ids) < length (filter (\<lambda>y. y \<notin> set seen) ids)"
proof (induction ids)
  case (Cons a ids)
  have le: "length (filter (\<lambda>y. y \<notin> set (x # seen)) ids) \<le> length (filter (\<lambda>y. y \<notin> set seen) ids)"
    by (induction ids) auto
  with Cons show ?case by (cases "a = x") (auto simp: less_Suc_eq_le)
qed simp

termination reached
proof (relation "measures [\<lambda>(ids, ends, seen, stack). length (filter (\<lambda>y. y \<notin> set seen) ids),
                           \<lambda>(ids, ends, seen, stack). length stack]")
  fix ids :: "string list" and ends :: edge_ends and seen stack :: "string list"
  assume ne: "stack \<noteq> []" and new: "last stack \<notin> set seen"
  show "((ids, ends, last stack # seen, butlast stack @ adjacency ids ends (last stack)), ids, ends, seen, stack)
    \<in> measures [\<lambda>(ids, ends, seen, stack). length (filter (\<lambda>y. y \<notin> set seen) ids), \<lambda>(ids, ends, seen, stack). length stack]"
  proof (cases "last stack \<in> set ids")
    case True
    from fewer_unseen [OF True new] show ?thesis by simp
  next
    case False
    then have "filter (\<lambda>y. y \<notin> set (last stack # seen)) ids = filter (\<lambda>y. y \<notin> set seen) ids"
      by (intro filter_cong) auto
    with False ne show ?thesis by (simp add: adjacency_def)
  qed
qed auto

declare reached.simps [simp del]

datatype graph_error = GraphCycle "string list" | Unreachable "string list"

text \<open>\<open>ids\<close> are the node ids in the order the set is walked; the search has one unit of fuel per node.\<close>

definition unreachable_nodes :: "string list \<Rightarrow> edge_ends \<Rightarrow> string list \<Rightarrow> string list \<Rightarrow> string list" where
  "unreachable_nodes ids ends triggers decorative =
     sort (filter (\<lambda>x. x \<notin> set (reached ids ends [] triggers) \<and> x \<notin> set decorative) ids)"

definition graph_errors :: "string list \<Rightarrow> edge_ends \<Rightarrow> string list \<Rightarrow> string list \<Rightarrow> graph_error list option" where
  "graph_errors ids ends triggers decorative =
     map_option (\<lambda>(found, col).
       (case found of None \<Rightarrow> [] | Some c \<Rightarrow> [GraphCycle (take 6 c)]) @
       (if triggers \<noteq> [] \<and> unreachable_nodes ids ends triggers decorative \<noteq> []
        then [Unreachable (take 8 (unreachable_nodes ids ends triggers decorative))] else []))
       (visit_all (length ids) (adjacency ids ends) ids (\<lambda>_. White))"

end
