(* ===== verification/Flow_Graph_Facts.thy ===== *)
theory Flow_Graph_Facts
  imports Flow_Graph
begin

text \<open>
  The searches of the validator meet their specification: with one unit of fuel per node the search
  for cycles always ends, it reports a cycle exactly when there is one, and the work list collects
  exactly the nodes that can be reached.
\<close>

section \<open>Fuel\<close>

definition whites :: "string list \<Rightarrow> colouring \<Rightarrow> nat" where
  "whites ids col = length (filter (\<lambda>x. col x = White) ids)"

definition no_whiter :: "colouring \<Rightarrow> colouring \<Rightarrow> bool" where
  "no_whiter col col' = (\<forall>x. col' x = White \<longrightarrow> col x = White)"

lemma whites_mono: "no_whiter col col' \<Longrightarrow> whites ids col' \<le> whites ids col"
  by (induction ids) (auto simp: whites_def no_whiter_def)

lemma whites_grey: "col x = White \<Longrightarrow> x \<in> set ids \<Longrightarrow> c \<noteq> White \<Longrightarrow> whites ids (col(x := c)) < whites ids col"
proof (induction ids)
  case (Cons a ids)
  have "whites ids (col(x := c)) \<le> whites ids col"
    using Cons.prems by (intro whites_mono) (auto simp: no_whiter_def)
  with Cons show ?case by (cases "a = x") (auto simp: whites_def)
qed simp

lemma no_whiter_trans: "no_whiter a b \<Longrightarrow> no_whiter b c \<Longrightarrow> no_whiter a c"
  by (simp add: no_whiter_def)

lemma visit_SucE:
  assumes "visit (Suc n) adj node path col = Some (r, col')"
  obtains col1 where "visit_next n adj (adj node) path (col(node := Grey)) = Some (r, col1)"
    "col' = (if r = None then col1(node := Black) else col1)"
proof (cases "visit_next n adj (adj node) path (col(node := Grey))")
  case (Some x)
  obtain r1 col1 where x: "x = (r1, col1)" by (rule prod.exhaust)
  have "r = r1 \<and> col' = (if r1 = None then col1(node := Black) else col1)"
    using assms Some x by (cases r1) auto
  with Some x show thesis by (intro that [of col1]) simp_all
qed (use assms in simp)

lemma visit_next_ConsE:
  assumes "visit_next n adj (nxt # rest) path col = Some (r, col')"
  obtains (grey) "col nxt = Grey" "r = Some (cycle_found path nxt)" "col' = col"
    | (found) c where "col nxt = White" "visit n adj nxt (path @ [nxt]) col = Some (Some c, col')" "r = Some c"
    | (later) col1 where "col nxt = White" "visit n adj nxt (path @ [nxt]) col = Some (None, col1)"
        "visit_next n adj rest path col1 = Some (r, col')"
    | (black) "col nxt = Black" "visit_next n adj rest path col = Some (r, col')"
proof (cases "col nxt")
  case White
  with assms obtain r1 col1 where v: "visit n adj nxt (path @ [nxt]) col = Some (r1, col1)"
    by (cases "visit n adj nxt (path @ [nxt]) col") auto
  show thesis
  proof (cases r1)
    case None
    show thesis by (rule later [OF White]) (use assms White v None in simp_all)
  next
    case (Some c)
    show thesis by (rule found [OF White, of c]) (use assms White v Some in simp_all)
  qed
next
  case Grey
  show thesis by (rule grey [OF Grey]) (use assms Grey in simp_all)
next
  case Black
  show thesis by (rule black [OF Black]) (use assms Black in simp_all)
qed

lemma visit_no_whiter:
  "visit n adj node path col = Some (r, col') \<Longrightarrow> no_whiter col col'"
  "visit_next n adj nexts path col = Some (r, col') \<Longrightarrow> no_whiter col col'"
proof (induction n adj node path col and n adj nexts path col arbitrary: r col' and r col' rule: visit_visit_next.induct)
  case (2 n adj node path col)
  from 2(2) obtain col1 where n: "visit_next n adj (adj node) path (col(node := Grey)) = Some (r, col1)"
    and col': "col' = (if r = None then col1(node := Black) else col1)" by (rule visit_SucE)
  have "no_whiter (col(node := Grey)) col1" by (rule 2(1) [OF n])
  then show ?case unfolding col' by (auto simp: no_whiter_def split: if_splits)
next
  case (4 n adj nxt rest path col)
  from 4(4) show ?case
  proof (cases rule: visit_next_ConsE)
    case (found c)
    with 4(1) show ?thesis by simp
  next
    case (later col1)
    then have "no_whiter col col1" "no_whiter col1 col'" using 4(1,2) by simp_all
    then show ?thesis by (rule no_whiter_trans)
  next
    case black
    with 4(3) show ?thesis by simp
  qed (simp add: no_whiter_def)
qed (simp_all add: no_whiter_def)

text \<open>A visit that may use as much fuel as there are white nodes never runs out of it.\<close>

lemma visit_enough:
  "\<forall>x. set (adj x) \<subseteq> set ids \<Longrightarrow> whites ids col \<le> n \<Longrightarrow> col node = White \<Longrightarrow> node \<in> set ids \<Longrightarrow>
     \<exists>r col'. visit n adj node path col = Some (r, col')"
  "\<forall>x. set (adj x) \<subseteq> set ids \<Longrightarrow> whites ids col \<le> n \<Longrightarrow> set nexts \<subseteq> set ids \<Longrightarrow>
     \<exists>r col'. visit_next n adj nexts path col = Some (r, col')"
proof (induction n adj node path col and n adj nexts path col rule: visit_visit_next.induct)
  case (1 adj node path col)
  have "whites ids col \<noteq> 0" using 1 by (auto simp: whites_def filter_empty_conv)
  with 1 show ?case by simp
next
  case (2 n adj node path col)
  have "whites ids (col(node := Grey)) \<le> n" using whites_grey [of col node ids Grey] 2 by simp
  then obtain r col1 where "visit_next n adj (adj node) path (col(node := Grey)) = Some (r, col1)" using 2 by blast
  then show ?case by (cases r) simp_all
next
  case (4 n adj nxt rest path col)
  show ?case
  proof (cases "col nxt = White")
    case True
    then obtain r col1 where v: "visit n adj nxt (path @ [nxt]) col = Some (r, col1)" using 4 by auto
    have "whites ids col1 \<le> n" using whites_mono [OF visit_no_whiter(1) [OF v], of ids] 4 by simp
    with v True 4 show ?thesis by (cases r) simp_all
  qed (use 4 in auto)
qed auto

lemma visit_all_enough:
  "\<forall>x. set (adj x) \<subseteq> set ids \<Longrightarrow> whites ids col \<le> n \<Longrightarrow> set nids \<subseteq> set ids \<Longrightarrow>
     \<exists>r col'. visit_all n adj nids col = Some (r, col')"
proof (induction n adj nids col rule: visit_all.induct)
  case (2 n adj nid nids col)
  show ?case
  proof (cases "col nid = White")
    case True
    then obtain r col1 where v: "visit n adj nid [nid] col = Some (r, col1)"
      using visit_enough(1) [of adj ids col n nid "[nid]"] 2 by auto
    have "whites ids col1 \<le> n" using whites_mono [OF visit_no_whiter(1) [OF v], of ids] 2 by simp
    with v True 2 show ?thesis by (cases r) simp_all
  qed (use 2 in auto)
qed simp

lemma adjacency_in: "y \<in> set (adjacency ids ends x) \<Longrightarrow> y \<in> set ids"
  by (cases "x \<in> set ids") (auto simp: adjacency_def)

lemma graph_search_ends: "\<exists>r col. visit_all (length ids) (adjacency ids ends) ids (\<lambda>_. White) = Some (r, col)"
  by (rule visit_all_enough [of _ ids]) (auto simp: whites_def dest: adjacency_in)

section \<open>Cycles\<close>

definition edge_rel :: "(string \<Rightarrow> string list) \<Rightarrow> (string \<times> string) set" where
  "edge_rel adj = {(x, y). y \<in> set (adj x)}"

text \<open>The black nodes are closed under the edges and lie on no cycle, and the grey ones are the path.\<close>

definition colours_ok :: "(string \<Rightarrow> string list) \<Rightarrow> colouring \<Rightarrow> bool" where
  "colours_ok adj col =
     (\<forall>x. col x = Black \<longrightarrow> (\<forall>y \<in> set (adj x). col y = Black) \<and> (x, x) \<notin> (edge_rel adj)\<^sup>+)"

definition on_path :: "(string \<Rightarrow> string list) \<Rightarrow> colouring \<Rightarrow> string list \<Rightarrow> bool" where
  "on_path adj col path = ((\<forall>x. col x = Grey \<longleftrightarrow> x \<in> set path) \<and> successively (\<lambda>x y. y \<in> set (adj x)) path)"

definition real_cycle :: "(string \<Rightarrow> string list) \<Rightarrow> string list \<Rightarrow> bool" where
  "real_cycle adj c = (2 \<le> length c \<and> hd c = last c \<and> successively (\<lambda>x y. y \<in> set (adj x)) c)"

lemma black_stays:
  assumes "colours_ok adj col" "(x, y) \<in> (edge_rel adj)\<^sup>*" "col x = Black"
  shows "col y = Black"
  using assms(2,3) by (induction rule: rtrancl_induct) (use assms(1) in \<open>auto simp: colours_ok_def edge_rel_def\<close>)

lemma blacken:
  assumes "colours_ok adj col" "col node \<noteq> Black" "\<forall>y \<in> set (adj node). col y = Black"
  shows "colours_ok adj (col(node := Black))"
proof -
  have "(node, node) \<notin> (edge_rel adj)\<^sup>+"
  proof
    assume "(node, node) \<in> (edge_rel adj)\<^sup>+"
    then obtain y where "(node, y) \<in> edge_rel adj" "(y, node) \<in> (edge_rel adj)\<^sup>*" by (metis tranclD)
    then have "col node = Black" using black_stays [OF assms(1)] assms(3) by (simp add: edge_rel_def)
    with assms(2) show False by simp
  qed
  with assms show ?thesis by (simp add: colours_ok_def)
qed

lemma successively_drop: "successively P xs \<Longrightarrow> successively P (drop n xs)"
  by (metis append_take_drop_id successively_append_iff)

lemma cycle_found_real:
  assumes "successively (\<lambda>x y. y \<in> set (adj x)) path" "nxt \<in> set path" "nxt \<in> set (adj (last path))"
  shows "real_cycle adj (cycle_found path nxt)"
proof -
  let ?c = "dropWhile (\<lambda>x. x \<noteq> nxt) path"
  have ne: "?c \<noteq> []" using assms(2) by (simp add: dropWhile_eq_Nil_conv)
  have hd: "hd ?c = nxt" using hd_dropWhile [of "\<lambda>x. x \<noteq> nxt" path] ne by simp
  have last: "last ?c = last path" using ne by (metis append_self_conv2 last_appendR takeWhile_dropWhile_id)
  have "successively (\<lambda>x y. y \<in> set (adj x)) ?c"
    using assms(1) by (simp add: dropWhile_eq_drop successively_drop)
  then show ?thesis
    using ne hd last assms(2,3) by (cases ?c) (auto simp: cycle_found_def real_cycle_def successively_append_iff simp del: append_Cons successively.simps(3) split: if_splits)
qed

lemma real_cycle_trancl: "real_cycle adj c \<Longrightarrow> (hd c, hd c) \<in> (edge_rel adj)\<^sup>+"
proof -
  have walk: "successively (\<lambda>x y. y \<in> set (adj x)) (x # y # xs) \<Longrightarrow> (x, last (y # xs)) \<in> (edge_rel adj)\<^sup>+" for x y xs
    by (induction xs arbitrary: x y) (auto simp: edge_rel_def intro: trancl_into_trancl2)
  assume c: "real_cycle adj c"
  then obtain x y xs where "c = x # y # xs" by (auto simp: real_cycle_def Suc_le_length_iff numeral_2_eq_2)
  with c walk [of x y xs] show ?thesis by (metis last_ConsR list.sel(1) list.distinct(1) real_cycle_def)
qed


text \<open>A visit that finds nothing leaves its node black and the grey nodes as they were; one that finds a
  cycle returns a real one.\<close>

lemma grey_in_path: "on_path adj col path \<Longrightarrow> col x = Grey \<longleftrightarrow> x \<in> set path"
  by (simp add: on_path_def)

lemma visit_finds:
  "visit n adj node path col = Some (r, col') \<Longrightarrow> colours_ok adj col \<Longrightarrow> col node = White \<Longrightarrow> path \<noteq> [] \<Longrightarrow> last path = node \<Longrightarrow>
     (\<forall>x. col x = Grey \<longleftrightarrow> x \<in> set (butlast path)) \<Longrightarrow> successively (\<lambda>x y. y \<in> set (adj x)) path \<Longrightarrow>
     (case r of
        Some c \<Rightarrow> real_cycle adj c
      | None \<Rightarrow> colours_ok adj col' \<and> col' node = Black \<and> (\<forall>x. col' x = Grey \<longleftrightarrow> x \<in> set (butlast path)) \<and>
                (\<forall>x. col x = Black \<longrightarrow> col' x = Black))"
  "visit_next n adj nexts path col = Some (r, col') \<Longrightarrow> colours_ok adj col \<Longrightarrow> path \<noteq> [] \<Longrightarrow> on_path adj col path \<Longrightarrow>
     set nexts \<subseteq> set (adj (last path)) \<Longrightarrow>
     (case r of
        Some c \<Rightarrow> real_cycle adj c
      | None \<Rightarrow> colours_ok adj col' \<and> (\<forall>x \<in> set nexts. col' x = Black) \<and> on_path adj col' path \<and>
                (\<forall>x. col x = Black \<longrightarrow> col' x = Black))"
proof (induction n adj node path col and n adj nexts path col arbitrary: r col' and r col' rule: visit_visit_next.induct)
  case (2 n adj node path col)
  from 2(2) obtain col1 where n: "visit_next n adj (adj node) path (col(node := Grey)) = Some (r, col1)"
    and col': "col' = (if r = None then col1(node := Black) else col1)" by (rule visit_SucE)
  have snoc: "set path = insert node (set (butlast path))"
    using 2(5,6) by (metis append_butlast_last_id list.set(1,2) set_append Un_insert_right sup_bot_right)
  have new: "node \<notin> set (butlast path)" using 2(4,7) by (metis colour.distinct(1))
  have ok: "colours_ok adj (col(node := Grey))"
    using 2(3,4) by (auto simp: colours_ok_def)
  have onp: "on_path adj (col(node := Grey)) path"
    using 2(7,8) snoc by (auto simp: on_path_def)
  note ih = 2(1) [OF n ok 2(5) onp]
  show ?case
  proof (cases r)
    case None
    with ih 2(6) have r: "colours_ok adj col1" "\<forall>x \<in> set (adj node). col1 x = Black" "on_path adj col1 path"
      "\<forall>x. (col(node := Grey)) x = Black \<longrightarrow> col1 x = Black" by auto
    have g: "col1 node = Grey" using r(3) snoc by (simp add: on_path_def)
    have "colours_ok adj (col1(node := Black))" by (rule blacken [OF r(1) _ r(2)]) (simp add: g)
    with None r(3,4) col' new snoc 2(4) show ?thesis by (auto simp: on_path_def)
  next
    case (Some c)
    with ih 2(6) show ?thesis by simp
  qed
next
  case (4 n adj nxt rest path col)
  note ok = 4(5) and ne = 4(6) and onp = 4(7) and sub = 4(8)
  from 4(4) show ?case
  proof (cases rule: visit_next_ConsE)
    case grey
    then have "nxt \<in> set path" using onp by (simp add: on_path_def)
    with cycle_found_real [of adj path nxt] onp sub grey show ?thesis by (simp add: on_path_def)
  next
    case (found c)
    have "real_cycle adj c"
      using 4(1) [OF _ _ found(2) ok] found(1) ne onp sub
      by (auto simp: on_path_def successively_append_iff)
    with found show ?thesis by simp
  next
    case (later col1)
    have v: "colours_ok adj col1" "col1 nxt = Black" "\<forall>x. col1 x = Grey \<longleftrightarrow> x \<in> set path" "\<forall>x. col x = Black \<longrightarrow> col1 x = Black"
      using 4(1) [OF _ _ later(2) ok] later(1) ne onp sub
      by (auto simp: on_path_def successively_append_iff)
    have onp1: "on_path adj col1 path" using v(3) onp by (simp add: on_path_def)
    have "\<not> col nxt = Grey" using later(1) by simp
    note ih = 4(2) [OF this later(1) later(2) refl refl later(3) v(1) ne onp1]
    from ih sub v show ?thesis
      by (cases r) (auto dest: black_stays)
  next
    case black
    with 4(3) [OF _ _ black(2) ok ne onp] sub show ?thesis by (cases r) auto
  qed
qed (auto)

lemma visit_all_finds:
  "visit_all n adj nids col = Some (r, col') \<Longrightarrow> colours_ok adj col \<Longrightarrow> \<forall>x. col x \<noteq> Grey \<Longrightarrow>
     (case r of Some c \<Rightarrow> real_cycle adj c
      | None \<Rightarrow> colours_ok adj col' \<and> (\<forall>x \<in> set nids. col' x = Black) \<and> (\<forall>x. col x = Black \<longrightarrow> col' x = Black))"
proof (induction n adj nids col arbitrary: r col' rule: visit_all.induct)
  case (2 n adj nid nids col)
  show ?case
  proof (cases "col nid = White")
    case True
    with 2(3) obtain r1 col1 where v: "visit n adj nid [nid] col = Some (r1, col1)"
      by (cases "visit n adj nid [nid] col") auto
    have one: "case r1 of Some c \<Rightarrow> real_cycle adj c
      | None \<Rightarrow> colours_ok adj col1 \<and> col1 nid = Black \<and> (\<forall>x. col1 x \<noteq> Grey) \<and> (\<forall>x. col x = Black \<longrightarrow> col1 x = Black)"
      using visit_finds(1) [OF v 2(4) True] 2(5) by (cases r1) auto
    show ?thesis
    proof (cases r1)
      case None
      with 2(3) True v have a: "visit_all n adj nids col1 = Some (r, col')" by simp
      from one None have o: "colours_ok adj col1" "col1 nid = Black" "\<forall>x. col1 x \<noteq> Grey" "\<forall>x. col x = Black \<longrightarrow> col1 x = Black"
        by simp_all
      from 2(1) [OF True v _ None a o(1,3)] o(2,4) show ?thesis by (cases r) auto
    qed (use 2(3) True v one in auto)
  next
    case False
    with 2(5) have b: "col nid = Black" by (metis colour.exhaust)
    from False 2(3) have a: "visit_all n adj nids col = Some (r, col')" by simp
    from 2(2) [OF False a 2(4,5)] b show ?thesis by (cases r) auto
  qed
qed auto

definition flow_rel :: "string list \<Rightarrow> edge_ends \<Rightarrow> (string \<times> string) set" where
  "flow_rel ids ends = {(x, y). (x, y) \<in> set ends \<and> x \<in> set ids \<and> y \<in> set ids}"

lemma edge_rel_adjacency: "edge_rel (adjacency ids ends) = flow_rel ids ends"
  by (force simp: edge_rel_def flow_rel_def adjacency_def split: if_splits)

lemma search_exact:
  assumes "visit_all (length ids) (adjacency ids ends) ids (\<lambda>_. White) = Some (r, col)"
  shows "r = None \<longleftrightarrow> acyclic (flow_rel ids ends)"
proof -
  have f: "case r of Some c \<Rightarrow> real_cycle (adjacency ids ends) c
      | None \<Rightarrow> colours_ok (adjacency ids ends) col \<and> (\<forall>x \<in> set ids. col x = Black) \<and> (\<forall>x. White = Black \<longrightarrow> col x = Black)"
    using visit_all_finds [OF assms] by (simp add: colours_ok_def)
  show ?thesis
  proof (cases r)
    case None
    have "(x, x) \<notin> (flow_rel ids ends)\<^sup>+" for x
    proof (cases "x \<in> set ids")
      case True
      with f None show ?thesis by (auto simp: colours_ok_def edge_rel_adjacency)
    next
      case False
      then show ?thesis by (auto simp: flow_rel_def dest: tranclD)
    qed
    with None show ?thesis by (simp add: acyclic_def)
  next
    case (Some c)
    with f real_cycle_trancl [of "adjacency ids ends" c] show ?thesis
      by (auto simp: acyclic_def edge_rel_adjacency)
  qed
qed

section \<open>Reachability\<close>

lemma reached_spec:
  assumes "\<forall>x \<in> set seen. set (adjacency ids ends x) \<subseteq> set seen \<union> set stack"
  defines "R \<equiv> set (reached ids ends seen stack)"
  shows "set seen \<union> set stack \<subseteq> R \<and> (\<forall>x \<in> R. set (adjacency ids ends x) \<subseteq> R) \<and>
    R \<subseteq> (flow_rel ids ends)\<^sup>* `` (set seen \<union> set stack)"
  using assms(1) unfolding R_def
proof (induction ids ends seen stack rule: reached.induct)
  case (1 ids ends seen stack)
  show ?case
  proof (cases "stack = []")
    case True
    with 1 show ?thesis by (auto simp: reached.simps [of ids ends seen "[]"])
  next
    case ne: False
    then have st: "set stack = insert (last stack) (set (butlast stack))"
      by (metis append_butlast_last_id list.set(1,2) set_append Un_insert_right sup_bot_right)
    show ?thesis
    proof (cases "last stack \<in> set seen")
      case True
      with ne have e: "reached ids ends seen stack = reached ids ends seen (butlast stack)" by (subst reached.simps) simp
      have "\<forall>x \<in> set seen. set (adjacency ids ends x) \<subseteq> set seen \<union> set (butlast stack)"
        using 1(3) True unfolding st by auto
      moreover have "set seen \<union> set stack = set seen \<union> set (butlast stack)" unfolding st using True by auto
      ultimately show ?thesis unfolding e using 1(1) [OF ne True] by argo
    next
      case False
      let ?n = "last stack" and ?stack = "butlast stack @ adjacency ids ends (last stack)"
      have e: "reached ids ends seen stack = reached ids ends (?n # seen) ?stack" using ne False by (subst reached.simps) simp
      have "\<forall>x \<in> set (?n # seen). set (adjacency ids ends x) \<subseteq> set (?n # seen) \<union> set ?stack"
        using 1(3) unfolding st by auto
      note ih = 1(2) [OF ne False this]
      have "set (adjacency ids ends ?n) \<subseteq> (flow_rel ids ends)\<^sup>* `` {?n}"
        using edge_rel_adjacency [of ids ends] by (auto simp: edge_rel_def)
      then have "(flow_rel ids ends)\<^sup>* `` (set (?n # seen) \<union> set ?stack) \<subseteq> (flow_rel ids ends)\<^sup>* `` (set seen \<union> set stack)"
        unfolding st by (auto intro: rtrancl_trans)
      moreover have "set seen \<union> set stack \<subseteq> set (?n # seen) \<union> set ?stack" unfolding st by auto
      ultimately show ?thesis unfolding e using ih by blast
    qed
  qed
qed

lemma reached_exact: "set (reached ids ends [] stack) = (flow_rel ids ends)\<^sup>* `` set stack"
proof -
  let ?R = "set (reached ids ends [] stack)"
  have s: "set stack \<subseteq> ?R" "\<forall>x \<in> ?R. set (adjacency ids ends x) \<subseteq> ?R" "?R \<subseteq> (flow_rel ids ends)\<^sup>* `` set stack"
    using reached_spec [of "[]" ids ends stack] by auto
  have "y \<in> ?R" if "(x, y) \<in> (flow_rel ids ends)\<^sup>*" "x \<in> ?R" for x y
    using that
  proof (induction rule: rtrancl_induct)
    case (step y z)
    then have "z \<in> set (adjacency ids ends y)" using edge_rel_adjacency [of ids ends] by (auto simp: edge_rel_def)
    with step s(2) show ?case by blast
  qed
  with s show ?thesis by blast
qed

lemma unreachable_exact:
  "set (unreachable_nodes ids ends triggers decorative) =
     {x \<in> set ids. x \<notin> (flow_rel ids ends)\<^sup>* `` set triggers \<and> x \<notin> set decorative}"
  by (auto simp: unreachable_nodes_def reached_exact)


end
