(* ===== verification/Flow_Validate.thy ===== *)
theory Flow_Validate
  imports Flow_Graph_Facts
begin

text \<open>
  The rest of the validator's structural checks, \<open>validate_workflow\<close>: sizes, ids, types, positions, edge
  endpoints, branch handles, gate slots and triggers, and the graph check on a workflow that passes
  them. The checks of the values inside one node's data are the parameter \<open>values\<close>.
\<close>

section \<open>Nodes\<close>

type_synonym flow_error = "string \<times> string"

definition node_types :: "string list" where
  "node_types = [''andGate'', ''barOffset'', ''basketOrder'', ''calendar'', ''cancelAllOrders'', ''cancelOrder'',
     ''closePositions'', ''delay'', ''expiry'', ''fundCheck'', ''funds'', ''getDepth'', ''getOrderStatus'', ''getQuote'', ''group'',
     ''history'', ''holdings'', ''holidays'', ''httpRequest'', ''indicator'', ''intervals'', ''log'', ''margin'',
     ''mathExpression'', ''modifyOrder'', ''multiQuotes'', ''notGate'', ''openPosition'', ''optionChain'', ''optionSymbol'',
     ''optionsMultiOrder'', ''optionsOrder'', ''orGate'', ''orderBook'', ''orderUpdateTrigger'', ''placeOrder'',
     ''positionBook'', ''positionCheck'', ''priceAlert'', ''priceCondition'', ''priorPeriodOhlc'', ''smartOrder'',
     ''splitOrder'', ''start'', ''strategyPnl'', ''subscribeDepth'', ''subscribeLtp'', ''subscribeQuote'', ''symbol'',
     ''syntheticFuture'', ''telegramAlert'', ''timeCondition'', ''timeWindow'', ''timings'', ''tradeBook'', ''unsubscribe'',
     ''varCondition'', ''variable'', ''waitUntil'', ''webhookTrigger'', ''whatsappAlert'']"

definition node_path :: "nat \<Rightarrow> string" where
  "node_path i = ''/nodes/'' @ str_of_int (int i)"

definition edge_path :: "nat \<Rightarrow> string" where
  "edge_path i = ''/edges/'' @ str_of_int (int i)"

fun json_number :: "pyval \<Rightarrow> bool" where
  "json_number (VInt n) = True"
| "json_number (VFloat x) = True"
| "json_number v = False"

definition blank :: "string option \<Rightarrow> bool" where
  "blank t = (case t of None \<Rightarrow> True | Some s \<Rightarrow> str_strip s = [])"

definition node_id_errors :: "string \<Rightarrow> node_fields \<Rightarrow> string list \<Rightarrow> flow_error list" where
  "node_id_errors base f ids =
     (if blank (nf_id f) then [(base @ ''/id'', ''required'')]
      else if the (nf_id f) \<in> set ids then [(base @ ''/id'', ''duplicate'')] else [])"

definition node_type_errors :: "string \<Rightarrow> node_fields \<Rightarrow> flow_error list" where
  "node_type_errors base f =
     (if nf_type f = None \<or> nf_type f = Some [] then [(base @ ''/type'', ''required'')]
      else if the (nf_type f) \<notin> set node_types then [(base @ ''/type'', ''unknown_node_type'')] else [])"

definition node_shape_errors :: "string \<Rightarrow> node_fields \<Rightarrow> flow_error list" where
  "node_shape_errors base f =
     (if nf_data f = None then [(base @ ''/data'', ''required'')] else []) @
     (case nf_position f of
        None \<Rightarrow> [(base @ ''/position'', ''required'')]
      | Some (x, y) \<Rightarrow>
          (if json_number x then [] else [(base @ ''/position/x'', ''invalid_type'')]) @
          (if json_number y then [] else [(base @ ''/position/y'', ''invalid_type'')]))"

definition is_trigger :: "node_fields \<Rightarrow> bool" where
  "is_trigger f = (case nf_type f of None \<Rightarrow> False | Some t \<Rightarrow> t \<in> set trigger_types)"

text \<open>\<open>values strict base type data\<close>: the errors of the values in a node's data.\<close>

type_synonym value_checks = "bool \<Rightarrow> string \<Rightarrow> string \<Rightarrow> pydict \<Rightarrow> flow_error list"

definition node_errors :: "value_checks \<Rightarrow> bool \<Rightarrow> string \<Rightarrow> node_fields \<Rightarrow> string list \<Rightarrow> flow_error list" where
  "node_errors values strict base f ids =
     node_id_errors base f ids @ node_type_errors base f @
     (case (nf_type f, nf_data f) of (Some t, Some data) \<Rightarrow> values strict base t data | _ \<Rightarrow> []) @
     node_shape_errors base f"

text \<open>The nodes in order: the errors, the ids met so far and the triggers. An id that is no text counts
  as a trigger's id under its text; only how many there are matters then.\<close>

fun check_nodes :: "value_checks \<Rightarrow> bool \<Rightarrow> nat \<Rightarrow> raw_node list \<Rightarrow> flow_error list \<times> string list \<times> string list
    \<Rightarrow> flow_error list \<times> string list \<times> string list" where
  "check_nodes values strict i [] acc = acc"
| "check_nodes values strict i (NoNode # ns) (errs, ids, trigs) =
     check_nodes values strict (Suc i) ns (errs @ [(node_path i, ''invalid_type'')], ids, trigs)"
| "check_nodes values strict i (RawNode f # ns) (errs, ids, trigs) =
     check_nodes values strict (Suc i) ns
       (errs @ node_errors values strict (node_path i) f ids,
        (if blank (nf_id f) \<or> the (nf_id f) \<in> set ids then ids else ids @ [the (nf_id f)]),
        (if is_trigger f then trigs @ [case nf_id f of None \<Rightarrow> [] | Some s \<Rightarrow> s] else trigs))"

section \<open>Edges\<close>

definition endpoint_errors :: "string \<Rightarrow> string \<Rightarrow> string option \<Rightarrow> string list \<Rightarrow> flow_error list" where
  "endpoint_errors base field value ids =
     (if value = None \<or> value = Some [] then [(base @ ''/'' @ field, ''required'')]
      else if ids \<noteq> [] \<and> the value \<notin> set ids then [(base @ ''/'' @ field, ''dangling_edge'')] else [])"

definition edge_errors :: "string \<Rightarrow> edge_fields \<Rightarrow> string list \<Rightarrow> string list \<Rightarrow> flow_error list" where
  "edge_errors base e ids seen =
     (if blank (ef_id e) then [(base @ ''/id'', ''required'')]
      else if the (ef_id e) \<in> set seen then [(base @ ''/id'', ''duplicate'')] else []) @
     endpoint_errors base ''source'' (ef_source e) ids @ endpoint_errors base ''target'' (ef_target e) ids"

fun check_edges :: "nat \<Rightarrow> raw_edge list \<Rightarrow> string list \<Rightarrow> string list \<Rightarrow> flow_error list" where
  "check_edges i [] ids seen = []"
| "check_edges i (NoEdge # es) ids seen = (edge_path i, ''invalid_type'') # check_edges (Suc i) es ids seen"
| "check_edges i (RawEdge e # es) ids seen =
     edge_errors (edge_path i) e ids seen @
     check_edges (Suc i) es ids (if blank (ef_id e) \<or> the (ef_id e) \<in> set seen then seen else seen @ [the (ef_id e)])"

text \<open>What the dictionaries by id give: the last node of the id.\<close>

definition last_node :: "raw_node list \<Rightarrow> string option \<Rightarrow> node_fields option" where
  "last_node nodes key =
     (case filter (\<lambda>n. case n of NoNode \<Rightarrow> False | RawNode f \<Rightarrow> key \<noteq> None \<and> nf_id f = key) nodes of
        [] \<Rightarrow> None
      | ns \<Rightarrow> (case last ns of NoNode \<Rightarrow> None | RawNode f \<Rightarrow> Some f))"

definition source_type :: "raw_node list \<Rightarrow> edge_fields \<Rightarrow> string option" where
  "source_type nodes e = (case last_node nodes (ef_source e) of None \<Rightarrow> None | Some f \<Rightarrow> nf_type f)"

definition handle_errors :: "raw_node list \<Rightarrow> string \<Rightarrow> edge_fields \<Rightarrow> flow_error list" where
  "handle_errors nodes base e =
     (case ef_handle e of
        None \<Rightarrow> []
      | Some h \<Rightarrow>
          if h = [] then []
          else
            case source_type nodes e of
              None \<Rightarrow> []
            | Some t \<Rightarrow>
                if t \<in> set branch_types
                then (if h \<in> set branch_handles then [] else [(base @ ''/sourceHandle'', ''invalid_source_handle'')])
                else if t \<noteq> [] then [(base @ ''/sourceHandle'', ''invalid_source_handle'')] else [])"

text \<open>The number of inputs of a gate; an infinite number escapes the handler as an \<open>OverflowError\<close>.\<close>

definition slot_count :: "pyval \<Rightarrow> int result" where
  "slot_count v =
     (if v = VNone \<or> v = VStr [] then Ret 2
      else case py_int v of
             Inl ValueError \<Rightarrow> Ret 2
           | Inl TypeError \<Rightarrow> Ret 2
           | Inl e \<Rightarrow> Raise e
           | Inr n \<Rightarrow> Ret (max n 1))"

definition gate_node :: "raw_node \<Rightarrow> node_fields option" where
  "gate_node n =
     (case n of
        NoNode \<Rightarrow> None
      | RawNode f \<Rightarrow>
          if (nf_type f = Some ''andGate'' \<or> nf_type f = Some ''orGate'') \<and> nf_data f \<noteq> None then Some f else None)"

fun gate_slots :: "raw_node list \<Rightarrow> (string option \<times> int) list result" where
  "gate_slots [] = Ret []"
| "gate_slots (n # ns) =
     (case gate_node n of
        None \<Rightarrow> gate_slots ns
      | Some f \<Rightarrow>
          rbind (slot_count (get_val (the (nf_data f)) ''inputCount'')) (\<lambda>k.
          rbind (gate_slots ns) (\<lambda>slots. Ret (slots @ [(nf_id f, k)]))))"

definition slot_number :: "string \<Rightarrow> int option" where
  "slot_number h =
     (let t = drop 6 h in
      if take 6 h = ''input-'' \<and> t \<noteq> [] \<and> list_all is_digit t then Some (int (digits_nat t 0)) else None)"

definition slot_errors :: "(string option \<times> int) list \<Rightarrow> string \<Rightarrow> edge_fields \<Rightarrow> flow_error list" where
  "slot_errors slots base e =
     (case ef_slot e of
        None \<Rightarrow> []
      | Some h \<Rightarrow>
          if h = [] then []
          else
            case map_of slots (ef_target e) of
              None \<Rightarrow> (if slot_number h \<noteq> None then [(base @ ''/targetHandle'', ''invalid_target_handle'')] else [])
            | Some k \<Rightarrow>
                (case slot_number h of
                   Some n \<Rightarrow> if n < k then [] else [(base @ ''/targetHandle'', ''invalid_target_handle'')]
                 | None \<Rightarrow> [(base @ ''/targetHandle'', ''invalid_target_handle'')]))"

fun each_edge :: "(string \<Rightarrow> edge_fields \<Rightarrow> flow_error list) \<Rightarrow> nat \<Rightarrow> raw_edge list \<Rightarrow> flow_error list" where
  "each_edge f i [] = []"
| "each_edge f i (NoEdge # es) = each_edge f (Suc i) es"
| "each_edge f i (RawEdge e # es) = f (edge_path i) e @ each_edge f (Suc i) es"

section \<open>The whole check\<close>

record workflow =
  wf_name :: "string option"
  wf_nodes :: "raw_node list option"
  wf_edges :: "raw_edge list option"

definition edge_ends_of :: "raw_edge list \<Rightarrow> edge_ends" where
  "edge_ends_of es =
     concat (map (\<lambda>e. case e of NoEdge \<Rightarrow> []
       | RawEdge x \<Rightarrow> (case (ef_source x, ef_target x) of (Some s, Some t) \<Rightarrow> [(s, t)] | _ \<Rightarrow> [])) es)"

definition decorative_ids :: "raw_node list \<Rightarrow> string list" where
  "decorative_ids ns =
     concat (map (\<lambda>n. case n of NoNode \<Rightarrow> []
       | RawNode f \<Rightarrow>
           (case (nf_type f, nf_id f) of (Some t, Some s) \<Rightarrow> if t \<in> set decorative_types then [s] else [] | _ \<Rightarrow> [])) ns)"

fun graph_code :: "graph_error \<Rightarrow> flow_error" where
  "graph_code (GraphCycle c) = (''/edges'', ''cycle'')"
| "graph_code (Unreachable xs) = (''/nodes'', ''unreachable'')"

definition shape_errors :: "bool \<Rightarrow> workflow \<Rightarrow> flow_error list" where
  "shape_errors require_name flow =
     (if require_name \<and> blank (wf_name flow) then [(''/name'', ''required'')] else []) @
     (if wf_nodes flow = None then [(''/nodes'', ''required'')] else []) @
     (if wf_edges flow = None then [(''/edges'', ''required'')] else []) @
     (if max_nodes < length (case wf_nodes flow of None \<Rightarrow> [] | Some ns \<Rightarrow> ns) then [(''/nodes'', ''too_large'')] else []) @
     (if max_edges < length (case wf_edges flow of None \<Rightarrow> [] | Some es \<Rightarrow> es) then [(''/edges'', ''too_large'')] else [])"

definition trigger_errors :: "bool \<Rightarrow> raw_node list \<Rightarrow> string list \<Rightarrow> flow_error list" where
  "trigger_errors strict nodes trigs =
     (if strict \<and> trigs = [] then [(''/nodes'', ''no_trigger'')]
      else if strict \<and> 1 < length trigs then [(''/nodes'', ''multiple_triggers'')] else [])"

text \<open>\<open>None\<close> is a payload that is no object; \<open>walk\<close> is the order in which the set of ids is walked.\<close>

definition validate_workflow ::
  "value_checks \<Rightarrow> (string list \<Rightarrow> string list) \<Rightarrow> bool \<Rightarrow> bool \<Rightarrow> workflow option \<Rightarrow> flow_error list result option" where
  "validate_workflow values walk require_name strict payload =
     (case payload of
        None \<Rightarrow> Some (Ret [(''/'', ''invalid_type'')])
      | Some flow \<Rightarrow>
          (let nodes = (case wf_nodes flow of None \<Rightarrow> [] | Some ns \<Rightarrow> ns);
               edges = (case wf_edges flow of None \<Rightarrow> [] | Some es \<Rightarrow> es);
               (errs1, ids, trigs) = check_nodes values strict 0 nodes (shape_errors require_name flow, [], []) in
           case gate_slots nodes of
             Inl e \<Rightarrow> Some (Raise e)
           | Inr slots \<Rightarrow>
               (let errs = errs1 @ check_edges 0 edges ids [] @ each_edge (handle_errors nodes) 0 edges @
                      each_edge (slot_errors slots) 0 edges @ trigger_errors strict nodes trigs in
                if strict \<and> errs = []
                then map_option (\<lambda>gs. Ret (map graph_code gs))
                       (graph_errors (walk ids) (edge_ends_of edges) trigs (decorative_ids nodes))
                else Some (Ret errs))))"

end
