(* ===== verification/Flow_Run.thy ===== *)
theory Flow_Run
  imports Flow_Validate
begin

text \<open>
  Running a workflow: \<open>execute_node_chain\<close> and \<open>execute_workflow\<close> of \<open>services/flow_executor_service.py\<close>.
  What a node does to the outside world and to the variables is its handler, a parameter that may answer
  anything and may raise; which nodes run, in what order, how often, and what follows from a node's
  answer is the walk modelled here. The log is left out. The lock of a workflow is a set of
  the workflows that are running.
\<close>

section \<open>The graph of a run\<close>

record flow_node =
  nd_id :: string
  nd_type :: string
  nd_data :: pydict

record flow_edge =
  ed_source :: string
  ed_target :: string
  ed_handle :: string

datatype node_answer = NoAnswer | Answered | NodeFailed string | Verdict bool | VerdictFailed string

text \<open>\<open>fl_blocked\<close> are the order fields that still hold an unresolved reference, as a message;
  \<open>fl_expiry\<close> the refusal of an option's expiry; \<open>fl_handler\<close> what a node's own method does.\<close>

record 'w flow =
  fl_nodes :: "flow_node list"
  fl_edges :: "flow_edge list"
  fl_blocked :: "flow_node \<Rightarrow> 'w \<Rightarrow> string option"
  fl_expiry :: "flow_node \<Rightarrow> 'w \<Rightarrow> string option"
  fl_handler :: "flow_node \<Rightarrow> 'w \<Rightarrow> node_answer result \<times> 'w"

record 'w flow_state =
  fs_world :: 'w
  fs_verdicts :: "(string, bool) dict"
  fs_visits :: "(string, nat) dict"
  fs_errors :: "(string \<times> string \<times> string) list"

datatype flow_stop = DepthExceeded | VisitsExceeded | NodeRaised pyexc | NoTrigger | NoApiKey

definition max_depth :: nat where "max_depth = 100"

definition max_visits :: nat where "max_visits = 500"

definition gate_types :: "string list" where
  "gate_types = [''andGate'', ''orGate'', ''notGate'']"

definition condition_types :: "string list" where
  "condition_types = [''priceCondition'', ''timeCondition'', ''timeWindow'', ''positionCheck'', ''fundCheck'', ''varCondition'']"

definition order_types :: "string list" where
  "order_types = [''placeOrder'', ''smartOrder'', ''optionsOrder'', ''optionsMultiOrder'', ''basketOrder'', ''splitOrder'',
     ''modifyOrder'', ''cancelOrder'', ''closePositions'']"

definition expiry_types :: "string list" where
  "expiry_types = [''optionSymbol'', ''optionChain'', ''syntheticFuture'']"

definition handled_types :: "string list" where
  "handled_types = [''placeOrder'', ''smartOrder'', ''optionsOrder'', ''modifyOrder'', ''optionsMultiOrder'', ''cancelOrder'',
     ''cancelAllOrders'', ''closePositions'', ''basketOrder'', ''splitOrder'', ''getQuote'', ''getDepth'', ''getOrderStatus'',
     ''openPosition'', ''history'', ''strategyPnl'', ''priorPeriodOhlc'', ''barOffset'', ''indicator'', ''symbol'',
     ''optionSymbol'', ''expiry'', ''intervals'', ''multiQuotes'', ''optionChain'', ''syntheticFuture'', ''calendar'',
     ''holidays'', ''timings'', ''orderBook'', ''tradeBook'', ''positionBook'', ''holdings'', ''funds'', ''margin'', ''delay'',
     ''waitUntil'', ''log'', ''variable'', ''mathExpression'', ''telegramAlert'', ''whatsappAlert'', ''httpRequest'',
     ''positionCheck'', ''fundCheck'', ''priceCondition'', ''varCondition'', ''timeWindow'', ''timeCondition'', ''priceAlert'',
     ''subscribeLtp'', ''subscribeQuote'', ''subscribeDepth'', ''unsubscribe'']"

definition true_handles :: "string list" where
  "true_handles = [''yes'', ''true'']"

definition false_handles :: "string list" where
  "false_handles = [''no'', ''false'']"

definition find_node :: "'w flow \<Rightarrow> string \<Rightarrow> flow_node option" where
  "find_node fl nid = List.find (\<lambda>n. nd_id n = nid) (fl_nodes fl)"

definition outgoing :: "'w flow \<Rightarrow> string \<Rightarrow> flow_edge list" where
  "outgoing fl nid = filter (\<lambda>e. ed_source e = nid) (fl_edges fl)"

definition incoming :: "'w flow \<Rightarrow> string \<Rightarrow> flow_edge list" where
  "incoming fl nid = filter (\<lambda>e. ed_target e = nid) (fl_edges fl)"

section \<open>Gates\<close>

definition execute_and_gate :: "bool list \<Rightarrow> bool" where
  "execute_and_gate inputs = (if inputs = [] then False else list_all (\<lambda>b. b) inputs)"

definition execute_or_gate :: "bool list \<Rightarrow> bool" where
  "execute_or_gate inputs = (if inputs = [] then False else list_ex (\<lambda>b. b) inputs)"

definition execute_not_gate :: "bool list \<Rightarrow> bool" where
  "execute_not_gate inputs = (\<not> (case inputs of [] \<Rightarrow> False | b # bs \<Rightarrow> b))"

definition gate_value :: "string \<Rightarrow> bool list \<Rightarrow> bool" where
  "gate_value t inputs =
     (if t = ''andGate'' then execute_and_gate inputs else if t = ''orGate'' then execute_or_gate inputs
      else execute_not_gate inputs)"

definition settled_inputs :: "'w flow \<Rightarrow> string \<Rightarrow> 'w flow_state \<Rightarrow> bool option list" where
  "settled_inputs fl nid st = map (\<lambda>e. dget (fs_verdicts st) (ed_source e)) (incoming fl nid)"

text \<open>The number of inputs the author configured, when it is a whole number; a boolean is one.\<close>

definition declared_inputs :: "flow_node \<Rightarrow> int" where
  "declared_inputs n =
     (case get_val (nd_data n) ''inputCount'' of VInt k \<Rightarrow> k | VBool b \<Rightarrow> (if b then 1 else 0) | _ \<Rightarrow> 0)"

section \<open>One node\<close>

datatype next_step = Stopped | Raised pyexc | Follow "flow_edge list"

definition record_error :: "flow_node \<Rightarrow> string \<Rightarrow> 'w flow_state \<Rightarrow> 'w flow_state" where
  "record_error n msg st = st\<lparr>fs_errors := fs_errors st @ [(nd_id n, nd_type n, msg)]\<rparr>"

definition leads_to_gate :: "'w flow \<Rightarrow> flow_edge \<Rightarrow> bool" where
  "leads_to_gate fl e = list_ex (\<lambda>n. nd_id n = ed_target e \<and> nd_type n \<in> set gate_types) (fl_nodes fl)"

definition branch_edge :: "flow_edge \<Rightarrow> bool" where
  "branch_edge e = (ed_handle e \<in> set true_handles \<or> ed_handle e \<in> set false_handles)"

definition taken_edge :: "'w flow \<Rightarrow> bool \<Rightarrow> flow_edge \<Rightarrow> bool" where
  "taken_edge fl b e =
     (leads_to_gate fl e \<or> (b \<and> ed_handle e \<in> set true_handles) \<or> (\<not> b \<and> ed_handle e \<in> set false_handles) \<or>
      \<not> branch_edge e)"

text \<open>What follows from an answer: a failure ends the branch, a condition that could not be evaluated takes
  neither branch, a verdict is recorded and takes its branch and every wire into a gate.\<close>

definition conclude :: "'w flow \<Rightarrow> flow_node \<Rightarrow> node_answer \<Rightarrow> 'w flow_state \<Rightarrow> next_step \<times> 'w flow_state" where
  "conclude fl n answer st =
     (case answer of
        NoAnswer \<Rightarrow> (Follow (outgoing fl (nd_id n)), st)
      | Answered \<Rightarrow> (Follow (outgoing fl (nd_id n)), st)
      | NodeFailed msg \<Rightarrow> (Stopped, record_error n msg st)
      | VerdictFailed msg \<Rightarrow> (Follow (filter (\<lambda>e. \<not> branch_edge e) (outgoing fl (nd_id n))), record_error n msg st)
      | Verdict b \<Rightarrow>
          (Follow (filter (taken_edge fl b) (outgoing fl (nd_id n))),
           st\<lparr>fs_verdicts := dset (nd_id n) b (fs_verdicts st)\<rparr>))"

definition gate_step :: "'w flow \<Rightarrow> flow_node \<Rightarrow> 'w flow_state \<Rightarrow> next_step \<times> 'w flow_state" where
  "gate_step fl n st =
     (let inputs = settled_inputs fl (nd_id n) st in
      if dget (fs_verdicts st) (nd_id n) \<noteq> None then (Stopped, st)
      else if list_ex (\<lambda>x. x = None) inputs then (Stopped, st)
      else if declared_inputs n > int (length inputs)
      then (Stopped, record_error n ''fewer inputs wired than configured'' st)
      else conclude fl n (Verdict (gate_value (nd_type n) (map the inputs))) st)"

definition node_step :: "'w flow \<Rightarrow> flow_node \<Rightarrow> 'w flow_state \<Rightarrow> next_step \<times> 'w flow_state" where
  "node_step fl n st =
     (if nd_type n \<in> set condition_types \<and> dget (fs_verdicts st) (nd_id n) \<noteq> None then (Stopped, st)
      else if nd_type n \<in> set order_types \<and> fl_blocked fl n (fs_world st) \<noteq> None
      then conclude fl n (NodeFailed (the (fl_blocked fl n (fs_world st)))) st
      else if nd_type n \<in> set expiry_types \<and> fl_expiry fl n (fs_world st) \<noteq> None
      then conclude fl n (NodeFailed (the (fl_expiry fl n (fs_world st)))) st
      else if nd_type n \<in> set gate_types then gate_step fl n st
      else if nd_type n \<in> set handled_types
      then (case fl_handler fl n (fs_world st) of
              (Inl e, w) \<Rightarrow> (Raised e, st\<lparr>fs_world := w\<rparr>)
            | (Inr answer, w) \<Rightarrow> conclude fl n answer (st\<lparr>fs_world := w\<rparr>))
      else conclude fl n NoAnswer st)"

section \<open>The walk\<close>

definition total_visits :: "'w flow_state \<Rightarrow> nat" where
  "total_visits st = sum_list (dvalues (fs_visits st))"

definition count_visit :: "string \<Rightarrow> 'w flow_state \<Rightarrow> 'w flow_state" where
  "count_visit nid st =
     st\<lparr>fs_visits := dset nid ((case dget (fs_visits st) nid of None \<Rightarrow> 0 | Some k \<Rightarrow> k) + 1) (fs_visits st)\<rparr>"

text \<open>An exception ends the whole run; what was done before it stays done. The walk ends because the
  depth is limited, whatever the graph: the measure is the depth left, then the edges left.\<close>

function execute_node_chain :: "'w flow \<Rightarrow> nat \<Rightarrow> string \<Rightarrow> 'w flow_state \<Rightarrow> flow_stop option \<times> 'w flow_state"
  and follow_edges :: "'w flow \<Rightarrow> nat \<Rightarrow> flow_edge list \<Rightarrow> 'w flow_state \<Rightarrow> flow_stop option \<times> 'w flow_state"
where
  "execute_node_chain fl depth nid st =
     (if depth > max_depth then (Some DepthExceeded, st)
      else if total_visits st \<ge> max_visits then (Some VisitsExceeded, st)
      else
        case find_node fl nid of
          None \<Rightarrow> (None, count_visit nid st)
        | Some n \<Rightarrow>
            (case node_step fl n (count_visit nid st) of
               (Stopped, st') \<Rightarrow> (None, st')
             | (Raised e, st') \<Rightarrow> (Some (NodeRaised e), st')
             | (Follow es, st') \<Rightarrow> follow_edges fl (Suc depth) es st'))"
| "follow_edges fl depth [] st = (None, st)"
| "follow_edges fl depth (e # es) st =
     (if ed_target e = [] then follow_edges fl depth es st
      else
        case execute_node_chain fl depth (ed_target e) st of
          (Some stop, st') \<Rightarrow> (Some stop, st')
        | (None, st') \<Rightarrow> follow_edges fl depth es st')"
  by pat_completeness auto

termination
  by (relation "measures [\<lambda>x. case x of Inl (fl, d, nid, st) \<Rightarrow> Suc max_depth - d | Inr (fl, d, es, st) \<Rightarrow> Suc max_depth - d,
                          \<lambda>x. case x of Inl (fl, d, nid, st) \<Rightarrow> 0 | Inr (fl, d, es, st) \<Rightarrow> length es]") auto

declare execute_node_chain.simps [simp del] follow_edges.simps [simp del]

definition start_node :: "'w flow \<Rightarrow> flow_node option" where
  "start_node fl = List.find (\<lambda>n. nd_type n \<in> set trigger_types) (fl_nodes fl)"

definition fresh_state :: "'w \<Rightarrow> 'w flow_state" where
  "fresh_state w = \<lparr>fs_world = w, fs_verdicts = [], fs_visits = [], fs_errors = []\<rparr>"

definition run_flow :: "'w flow \<Rightarrow> 'w \<Rightarrow> flow_stop option \<times> 'w flow_state" where
  "run_flow fl w =
     (case start_node fl of
        None \<Rightarrow> (Some NoTrigger, fresh_state w)
      | Some n \<Rightarrow> execute_node_chain fl 0 (nd_id n) (fresh_state w))"

section \<open>Executing a workflow\<close>

definition typed_nodes :: "raw_node list \<Rightarrow> flow_node list" where
  "typed_nodes ns =
     concat (map (\<lambda>n. case n of NoNode \<Rightarrow> []
       | RawNode f \<Rightarrow>
           (case (nf_id f, nf_type f) of
              (Some s, Some t) \<Rightarrow> [\<lparr>nd_id = s, nd_type = t, nd_data = (case nf_data f of None \<Rightarrow> Map.empty | Some d \<Rightarrow> d)\<rparr>]
            | _ \<Rightarrow> [])) ns)"

definition typed_edges :: "raw_edge list \<Rightarrow> flow_edge list" where
  "typed_edges es =
     concat (map (\<lambda>e. case e of NoEdge \<Rightarrow> []
       | RawEdge x \<Rightarrow>
           (case (ef_source x, ef_target x) of
              (Some s, Some t) \<Rightarrow> [\<lparr>ed_source = s, ed_target = t, ed_handle = (case ef_handle x of None \<Rightarrow> [] | Some h \<Rightarrow> h)\<rparr>]
            | _ \<Rightarrow> [])) es)"

record 'w engine =
  eg_values :: value_checks
  eg_walk :: "string list \<Rightarrow> string list"
  eg_blocked :: "flow_node \<Rightarrow> 'w \<Rightarrow> string option"
  eg_expiry :: "flow_node \<Rightarrow> 'w \<Rightarrow> string option"
  eg_handler :: "flow_node \<Rightarrow> 'w \<Rightarrow> node_answer result \<times> 'w"
  eg_api_key :: bool
  eg_record :: bool

definition flow_of :: "'w engine \<Rightarrow> workflow \<Rightarrow> 'w flow" where
  "flow_of eg flow =
     \<lparr>fl_nodes = typed_nodes (case wf_nodes flow of None \<Rightarrow> [] | Some ns \<Rightarrow> ns),
      fl_edges = typed_edges (case wf_edges flow of None \<Rightarrow> [] | Some es \<Rightarrow> es),
      fl_blocked = eg_blocked eg, fl_expiry = eg_expiry eg, fl_handler = eg_handler eg\<rparr>"

datatype run_answer =
    AlreadyRunning | WorkflowNotFound | NotRunnable "flow_error list" | NotRecorded | RunCrashed flow_stop
  | RunFailed "(string \<times> string \<times> string) list" | RunCompleted | CheckRaised pyexc

text \<open>The validator's check, with fuel that never runs out, the record of the run, the walk, and its
  outcome. The workflow's lock is free again afterwards.\<close>

definition execute_workflow ::
  "'w engine \<Rightarrow> int set \<Rightarrow> int \<Rightarrow> workflow option \<Rightarrow> 'w \<Rightarrow> run_answer option \<times> 'w" where
  "execute_workflow eg running wid stored w =
     (if wid \<in> running then (Some AlreadyRunning, w)
      else
        case stored of
          None \<Rightarrow> (Some WorkflowNotFound, w)
        | Some flow \<Rightarrow>
            (let checked = flow\<lparr>wf_nodes := Some (case wf_nodes flow of None \<Rightarrow> [] | Some ns \<Rightarrow> ns),
                                wf_edges := Some (case wf_edges flow of None \<Rightarrow> [] | Some es \<Rightarrow> es)\<rparr> in
             case validate_workflow (eg_values eg) (eg_walk eg) True True (Some checked) of
               None \<Rightarrow> (None, w)
             | Some (Inl e) \<Rightarrow> (Some (CheckRaised e), w)
             | Some (Inr errs) \<Rightarrow>
                 if errs \<noteq> [] then (Some (NotRunnable errs), w)
                 else if \<not> eg_record eg then (Some NotRecorded, w)
                 else if \<not> eg_api_key eg then (Some (RunCrashed NoApiKey), w)
                 else
                   (case run_flow (flow_of eg checked) w of
                      (Some stop, st) \<Rightarrow> (Some (RunCrashed stop), fs_world st)
                    | (None, st) \<Rightarrow>
                        (Some (if fs_errors st \<noteq> [] then RunFailed (fs_errors st) else RunCompleted), fs_world st))))"

end
