(* ===== verification/Flow_Claims.thy ===== *)
theory Flow_Claims
  imports Flow_Run
begin

text \<open>
  What holds of a run whatever its graph and its handlers: it ends within the visit limit, a condition
  answers once, a gate fires once and only on all of its inputs. And what the
  validator buys: a workflow it accepts is acyclic, so that a short one never meets the depth limit.
\<close>

lemmas walk_induct = execute_node_chain_follow_edges.induct

lemma find_node_id: "find_node fl nid = Some n \<Longrightarrow> nd_id n = nid \<and> n \<in> set (fl_nodes fl)"
  by (auto simp: find_node_def find_Some_iff)

text \<open>A property of the state that no visit and no step of a node breaks holds after the walk.\<close>

lemma walk_preserves:
  "(\<And>nid st. P st \<Longrightarrow> P (count_visit nid st)) \<Longrightarrow>
   (\<And>n st. find_node fl (nd_id n) = Some n \<Longrightarrow> P st \<Longrightarrow> P (snd (node_step fl n st))) \<Longrightarrow>
   P st \<Longrightarrow> P (snd (execute_node_chain fl depth nid st))"
  "(\<And>nid st. P st \<Longrightarrow> P (count_visit nid st)) \<Longrightarrow>
   (\<And>n st. find_node fl (nd_id n) = Some n \<Longrightarrow> P st \<Longrightarrow> P (snd (node_step fl n st))) \<Longrightarrow>
   P st \<Longrightarrow> P (snd (follow_edges fl depth es st))"
proof (induction fl depth nid st and fl depth es st rule: walk_induct)
  case (1 fl depth nid st)
  show ?case
  proof (cases "depth > max_depth \<or> total_visits st \<ge> max_visits")
    case True
    with 1(4) show ?thesis by (auto simp: execute_node_chain.simps)
  next
    case False
    then have g: "\<not> depth > max_depth" "\<not> total_visits st \<ge> max_visits" by simp_all
    have c: "P (count_visit nid st)" using 1(2,4) by blast
    show ?thesis
    proof (cases "find_node fl nid")
      case None
      with g c show ?thesis by (simp add: execute_node_chain.simps)
    next
      case (Some n)
      obtain nxt st1 where s: "node_step fl n (count_visit nid st) = (nxt, st1)" by (rule prod.exhaust)
      have p1: "P st1" using 1(3) [of n] c Some find_node_id [OF Some] s by (metis snd_conv)
      show ?thesis
      proof (cases nxt)
        case (Follow es)
        with 1(1) [OF g Some s [symmetric] Follow 1(2,3) p1] g Some s show ?thesis by (simp add: execute_node_chain.simps)
      qed (use g Some s p1 in \<open>simp_all add: execute_node_chain.simps\<close>)
    qed
  qed
next
  case (3 fl depth e es st)
  show ?case
  proof (cases "ed_target e = []")
    case True
    with 3 show ?thesis by (simp add: follow_edges.simps)
  next
    case False
    obtain stop st1 where s: "execute_node_chain fl depth (ed_target e) st = (stop, st1)" by (rule prod.exhaust)
    have p1: "P st1" using 3(2) [OF False 3(4,5,6)] s by simp
    show ?thesis
    proof (cases stop)
      case None
      with 3(3) [OF False s [symmetric] None 3(4,5) p1] False s show ?thesis by (simp add: follow_edges.simps)
    qed (use False s p1 in \<open>simp add: follow_edges.simps\<close>)
  qed
qed (simp add: follow_edges.simps)

section \<open>Bounded runs\<close>

lemma sum_dset: "sum_list (dvalues (dset k v d)) + (case dget d k of None \<Rightarrow> 0 | Some x \<Rightarrow> x) =
    sum_list (dvalues d) + (v :: nat)"
  by (induction d) auto

lemma total_count_visit: "total_visits (count_visit nid st) = Suc (total_visits st)"
  using sum_dset [of nid "(case dget (fs_visits st) nid of None \<Rightarrow> 0 | Some k \<Rightarrow> k) + 1" "fs_visits st"]
  by (simp add: total_visits_def count_visit_def)

lemma node_step_visits: "fs_visits (snd (node_step fl n st)) = fs_visits st"
  by (auto simp: node_step_def gate_step_def conclude_def record_error_def Let_def split: node_answer.splits sum.splits prod.splits)

text \<open>The visits of the walk: never above the limit, and at least one for every call of a handler.\<close>

lemma node_step_calls:
  assumes "\<And>n w. calls (snd (fl_handler fl n w)) \<le> calls w + (1 :: nat)"
  shows "calls (fs_world (snd (node_step fl n st))) \<le> calls (fs_world st) + 1"
  using assms [of n "fs_world st"]
  by (auto simp: node_step_def gate_step_def conclude_def record_error_def Let_def split: node_answer.splits sum.splits prod.splits)

definition within_visits :: "('w \<Rightarrow> nat) \<Rightarrow> 'w flow_state \<Rightarrow> 'w flow_state \<Rightarrow> bool" where
  "within_visits calls st st' =
     ((total_visits st \<le> max_visits \<longrightarrow> total_visits st' \<le> max_visits) \<and>
      calls (fs_world st') + total_visits st \<le> calls (fs_world st) + total_visits st')"

lemma within_refl: "within_visits calls st st"
  by (simp add: within_visits_def)

lemma within_trans: "within_visits calls a b \<Longrightarrow> within_visits calls b c \<Longrightarrow> within_visits calls a c"
  by (auto simp: within_visits_def)

lemma within_step:
  assumes "\<And>n w. calls (snd (fl_handler fl n w)) \<le> calls w + 1" "total_visits st < max_visits"
  shows "within_visits calls st (count_visit nid st)"
    and "within_visits calls st (snd (node_step fl n (count_visit nid st)))"
  using assms(2) node_step_calls [of calls fl, OF assms(1), of n "count_visit nid st"]
    node_step_visits [of fl n "count_visit nid st"] total_count_visit [of nid st]
  by (auto simp: within_visits_def total_visits_def) (auto simp: count_visit_def)

lemma walk_within:
  "(\<And>n w. calls (snd (fl_handler fl n w)) \<le> calls w + 1) \<Longrightarrow>
   within_visits calls st (snd (execute_node_chain fl depth nid st))"
  "(\<And>n w. calls (snd (fl_handler fl n w)) \<le> calls w + 1) \<Longrightarrow>
   within_visits calls st (snd (follow_edges fl depth es st))"
proof (induction fl depth nid st and fl depth es st rule: walk_induct)
  case (1 fl depth nid st)
  show ?case
  proof (cases "depth > max_depth \<or> total_visits st \<ge> max_visits")
    case True
    then show ?thesis by (auto simp: execute_node_chain.simps within_refl)
  next
    case False
    then have g: "\<not> depth > max_depth" "\<not> total_visits st \<ge> max_visits" by simp_all
    show ?thesis
    proof (cases "find_node fl nid")
      case None
      with g within_step(1) [of calls fl st nid, OF 1(2)] show ?thesis by (simp add: execute_node_chain.simps)
    next
      case (Some n)
      obtain nxt st1 where s: "node_step fl n (count_visit nid st) = (nxt, st1)" by (rule prod.exhaust)
      have w: "within_visits calls st st1" using within_step(2) [of calls fl st n nid, OF 1(2)] g s by simp
      show ?thesis
      proof (cases nxt)
        case (Follow es)
        with 1(1) [OF g Some s [symmetric] Follow 1(2)] g Some s w show ?thesis
          by (auto simp: execute_node_chain.simps intro: within_trans)
      qed (use g Some s w in \<open>simp_all add: execute_node_chain.simps\<close>)
    qed
  qed
next
  case (3 fl depth e es st)
  show ?case
  proof (cases "ed_target e = []")
    case True
    with 3 show ?thesis by (simp add: follow_edges.simps)
  next
    case False
    obtain stop st1 where s: "execute_node_chain fl depth (ed_target e) st = (stop, st1)" by (rule prod.exhaust)
    have w: "within_visits calls st st1" using 3(2) [OF False 3(4)] s by simp
    show ?thesis
    proof (cases stop)
      case None
      with 3(3) [OF False s [symmetric] None 3(4)] False s w show ?thesis
        by (auto simp: follow_edges.simps intro: within_trans)
    qed (use False s w in \<open>simp add: follow_edges.simps\<close>)
  qed
qed (simp add: follow_edges.simps within_refl)

lemma run_within:
  assumes "\<And>n w. calls (snd (fl_handler fl n w)) \<le> calls w + 1"
  shows "calls (fs_world (snd (run_flow fl w))) \<le> calls w + max_visits"
proof (cases "start_node fl")
  case (Some n)
  have "within_visits calls (fresh_state w) (snd (execute_node_chain fl 0 (nd_id n) (fresh_state w)))"
    by (rule walk_within(1) [OF assms])
  with Some show ?thesis by (simp add: run_flow_def within_visits_def fresh_state_def total_visits_def)
qed (simp add: run_flow_def fresh_state_def)

lemma validate_answers: "\<exists>r. validate_workflow values walk rn strict payload = Some r"
proof -
  have "\<exists>es. graph_errors ids ends trigs dec = Some es" for ids ends trigs dec
    using graph_search_ends [of ids ends] by (auto simp: graph_errors_def)
  then show ?thesis
    by (fastforce simp: validate_workflow_def Let_def split: option.splits prod.splits sum.splits)
qed

section \<open>Verdicts\<close>

definition once_types :: "string list" where
  "once_types = condition_types @ gate_types"

lemma gate_not_condition: "t \<in> set gate_types \<Longrightarrow> t \<notin> set condition_types \<and> t \<notin> set order_types \<and> t \<notin> set expiry_types"
  by (auto simp: gate_types_def condition_types_def order_types_def expiry_types_def)

text \<open>A step of a node records a verdict of that node only, and none over an earlier one of a condition or a gate.\<close>

lemma step_verdicts:
  "dget (fs_verdicts (snd (node_step fl n st))) k =
     dget (fs_verdicts st) k \<or> k = nd_id n \<and> (nd_type n \<in> set once_types \<longrightarrow> dget (fs_verdicts st) k = None)"
proof (cases "k = nd_id n")
  case True
  then show ?thesis
    by (auto simp: node_step_def gate_step_def conclude_def record_error_def once_types_def Let_def split: node_answer.splits sum.splits prod.splits)
next
  case False
  then show ?thesis
    by (auto simp: node_step_def gate_step_def conclude_def record_error_def dget_dset Let_def split: node_answer.splits sum.splits prod.splits)
qed

text \<open>The answers of one condition: none once its verdict is recorded.\<close>

definition answered_by :: "('w \<Rightarrow> nat) \<Rightarrow> string \<Rightarrow> 'w flow \<Rightarrow> bool" where
  "answered_by answers nid fl =
     (\<forall>n w. answers (snd (fl_handler fl n w)) =
        answers w + (if nd_id n = nid \<and> (\<exists>b. fst (fl_handler fl n w) = Ret (Verdict b)) then 1 else 0))"

definition once_answered :: "('w \<Rightarrow> nat) \<Rightarrow> string \<Rightarrow> nat \<Rightarrow> 'w flow_state \<Rightarrow> bool" where
  "once_answered answers nid k st =
     (answers (fs_world st) \<le> k + (if dget (fs_verdicts st) nid = None then 0 else 1))"

lemma answers_once_step:
  assumes a: "answered_by answers nid fl" and c: "find_node fl nid = Some c" "nd_type c \<in> set condition_types"
    and n: "find_node fl (nd_id n) = Some n" and st: "once_answered answers nid k st"
  shows "once_answered answers nid k (snd (node_step fl n st))"
proof (cases "nd_id n = nid")
  case False
  have h: "answers (snd (fl_handler fl n (fs_world st))) = answers (fs_world st)"
    using a False by (simp add: answered_by_def)
  have v: "dget (fs_verdicts (snd (node_step fl n st))) nid = dget (fs_verdicts st) nid"
    using step_verdicts [of fl n st nid] False by blast
  have "answers (fs_world (snd (node_step fl n st))) \<le> answers (fs_world st)"
    using h by (auto simp: node_step_def gate_step_def conclude_def record_error_def Let_def split: node_answer.splits sum.splits prod.splits)
  with st v show ?thesis by (simp add: once_answered_def)
next
  case True
  with n c have nc: "n = c" by simp
  have t: "nd_type n \<in> set condition_types" "nd_type n \<notin> set gate_types" "nd_type n \<notin> set order_types" "nd_type n \<notin> set expiry_types"
    "nd_type n \<in> set handled_types"
    using c(2) unfolding nc by (auto simp: gate_types_def condition_types_def order_types_def expiry_types_def handled_types_def)
  show ?thesis
  proof (cases "dget (fs_verdicts st) nid")
    case None
    obtain r w where h: "fl_handler fl n (fs_world st) = (r, w)" by (rule prod.exhaust)
    have "answers w = answers (fs_world st) + (if \<exists>b. r = Ret (Verdict b) then 1 else 0)"
      using a [unfolded answered_by_def, rule_format, of n "fs_world st"] True h by simp
    with st t h None True show ?thesis
      by (auto simp: node_step_def conclude_def record_error_def once_answered_def dget_dset split: node_answer.splits sum.splits)
  qed (use st t True in \<open>simp add: node_step_def\<close>)
qed

lemma once_answered_walk:
  assumes "answered_by answers nid fl" "find_node fl nid = Some c" "nd_type c \<in> set condition_types"
    "once_answered answers nid k st"
  shows "once_answered answers nid k (snd (execute_node_chain fl depth x st))"
  by (rule walk_preserves(1) [where P = "once_answered answers nid k"])
    (use assms answers_once_step [OF assms(1-3)] in \<open>auto simp: once_answered_def count_visit_def\<close>)

section \<open>Gates\<close>

definition settles :: "'w flow \<Rightarrow> string \<Rightarrow> bool" where
  "settles fl nid = (case find_node fl nid of None \<Rightarrow> False | Some m \<Rightarrow> nd_type m \<in> set once_types)"

definition gate_justified :: "'w flow \<Rightarrow> flow_node \<Rightarrow> bool \<Rightarrow> 'w flow_state \<Rightarrow> bool" where
  "gate_justified fl g b st =
     (\<exists>inputs. list_all2 (\<lambda>e v. settles fl (ed_source e) \<longrightarrow> dget (fs_verdicts st) (ed_source e) = Some v)
                (incoming fl (nd_id g)) inputs \<and>
        declared_inputs g \<le> int (length inputs) \<and> b = gate_value (nd_type g) inputs)"

definition gates_justified :: "'w flow \<Rightarrow> 'w flow_state \<Rightarrow> bool" where
  "gates_justified fl st =
     (\<forall>g b. find_node fl (nd_id g) = Some g \<and> nd_type g \<in> set gate_types \<and> dget (fs_verdicts st) (nd_id g) = Some b \<longrightarrow>
        gate_justified fl g b st)"

lemma justified_mono:
  assumes "gate_justified fl g b st"
    "\<And>k v. settles fl k \<Longrightarrow> dget (fs_verdicts st) k = Some v \<Longrightarrow> dget (fs_verdicts st') k = Some v"
  shows "gate_justified fl g b st'"
proof -
  from assms(1) obtain inputs where i: "list_all2 (\<lambda>e v. settles fl (ed_source e) \<longrightarrow> dget (fs_verdicts st) (ed_source e) = Some v)
      (incoming fl (nd_id g)) inputs" "declared_inputs g \<le> int (length inputs)" "b = gate_value (nd_type g) inputs"
    by (auto simp: gate_justified_def)
  have "list_all2 (\<lambda>e v. settles fl (ed_source e) \<longrightarrow> dget (fs_verdicts st') (ed_source e) = Some v) (incoming fl (nd_id g)) inputs"
    by (rule list_all2_mono [OF i(1)]) (use assms(2) in blast)
  with i(2,3) show ?thesis by (auto simp: gate_justified_def)
qed

text \<open>A gate whose verdict is new has read all its wires.\<close>

lemma gate_step_justified:
  assumes "nd_type g \<in> set gate_types" "dget (fs_verdicts st) (nd_id g) = None"
    "dget (fs_verdicts (snd (node_step fl g st))) (nd_id g) = Some b"
  shows "gate_justified fl g b st"
proof -
  let ?inputs = "settled_inputs fl (nd_id g) st"
  have g: "\<not> list_ex (\<lambda>x. x = None) ?inputs" "declared_inputs g \<le> int (length ?inputs)" "b = gate_value (nd_type g) (map the ?inputs)"
    using assms gate_not_condition [OF assms(1)]
    by (auto simp: node_step_def gate_step_def conclude_def record_error_def dget_dset Let_def split: if_splits)
  have "dget (fs_verdicts st) (ed_source e) = Some (the (dget (fs_verdicts st) (ed_source e)))" if "e \<in> set (incoming fl (nd_id g))" for e
  proof -
    have "dget (fs_verdicts st) (ed_source e) \<noteq> None"
    proof
      assume "dget (fs_verdicts st) (ed_source e) = None"
      then have "None \<in> set ?inputs" using that unfolding settled_inputs_def set_map by (metis imageI)
      with g(1) show False by (simp add: list_ex_iff)
    qed
    then show ?thesis by simp
  qed
  then have "list_all2 (\<lambda>e v. settles fl (ed_source e) \<longrightarrow> dget (fs_verdicts st) (ed_source e) = Some v)
      (incoming fl (nd_id g)) (map the ?inputs)"
    by (simp add: settled_inputs_def list_all2_map2 list.rel_map list_all2_same)
  with g(2,3) show ?thesis unfolding gate_justified_def by (intro exI [of _ "map the ?inputs"]) simp
qed

lemma gates_step:
  assumes n: "find_node fl (nd_id n) = Some n" and st: "gates_justified fl st"
  shows "gates_justified fl (snd (node_step fl n st))"
proof -
  let ?st = "snd (node_step fl n st)"
  have keep: "dget (fs_verdicts ?st) k = Some v" if "settles fl k" "dget (fs_verdicts st) k = Some v" for k v
    using step_verdicts [of fl n st k] that n by (auto simp: settles_def)
  show ?thesis
    unfolding gates_justified_def
  proof (intro allI impI)
    fix g b
    assume g: "find_node fl (nd_id g) = Some g \<and> nd_type g \<in> set gate_types \<and> dget (fs_verdicts ?st) (nd_id g) = Some b"
    have "gate_justified fl g b st"
    proof (cases "dget (fs_verdicts st) (nd_id g)")
      case None
      then have "dget (fs_verdicts ?st) (nd_id g) \<noteq> dget (fs_verdicts st) (nd_id g)" using g by simp
      with step_verdicts [of fl n st "nd_id g"] have "nd_id g = nd_id n" by blast
      with g n have e: "g = n" by (metis option.inject)
      show ?thesis by (rule gate_step_justified) (use g None in \<open>simp_all only: e\<close>)
    next
      case (Some v)
      have "settles fl (nd_id g)" using g by (simp add: settles_def once_types_def)
      from keep [OF this Some] have "dget (fs_verdicts ?st) (nd_id g) = Some v" .
      with g Some st show ?thesis by (auto simp: gates_justified_def)
    qed
    then show "gate_justified fl g b ?st" by (rule justified_mono) (rule keep)
  qed
qed

lemma gates_count: "gates_justified fl st \<Longrightarrow> gates_justified fl (count_visit nid st)"
  by (simp add: gates_justified_def gate_justified_def count_visit_def)

lemma gates_walk: "gates_justified fl st \<Longrightarrow> gates_justified fl (snd (execute_node_chain fl depth x st))"
  by (rule walk_preserves(1) [where P = "gates_justified fl"]) (rule gates_count gates_step; assumption)+

section \<open>Depth\<close>

definition run_rel :: "'w flow \<Rightarrow> (string \<times> string) set" where
  "run_rel fl = set (map (\<lambda>e. (ed_source e, ed_target e)) (fl_edges fl))"

definition below :: "'w flow \<Rightarrow> string \<Rightarrow> nat" where
  "below fl nid = card ((run_rel fl)\<^sup>* `` {nid})"

lemma finite_below: "finite ((run_rel fl)\<^sup>* `` {nid})"
proof -
  have "(run_rel fl)\<^sup>* `` {nid} \<subseteq> insert nid (snd ` run_rel fl)" by (auto elim: rtranclE simp: rev_image_eqI)
  then show ?thesis by (rule finite_subset) (simp add: run_rel_def)
qed

lemma below_pos: "0 < below fl nid"
  using finite_below [of fl nid] by (auto simp: below_def card_gt_0_iff)

lemma below_edge:
  assumes "acyclic (run_rel fl)" "(x, y) \<in> run_rel fl"
  shows "below fl y < below fl x"
  unfolding below_def
proof (rule psubset_card_mono [OF finite_below])
  have "x \<notin> (run_rel fl)\<^sup>* `` {y}"
  proof
    assume "x \<in> (run_rel fl)\<^sup>* `` {y}"
    then have "(x, x) \<in> (run_rel fl)\<^sup>+" using assms(2) by (metis Image_singleton_iff rtrancl_into_trancl2)
    with assms(1) show False by (simp add: acyclic_def)
  qed
  moreover have "(run_rel fl)\<^sup>* `` {y} \<subseteq> (run_rel fl)\<^sup>* `` {x}"
    using assms(2) by (auto intro: converse_rtrancl_into_rtrancl)
  moreover have "x \<in> (run_rel fl)\<^sup>* `` {x}" by simp
  ultimately show "(run_rel fl)\<^sup>* `` {y} \<subset> (run_rel fl)\<^sup>* `` {x}" by blast
qed

lemma conclude_edges: "conclude fl n a st = (Follow es, st') \<Longrightarrow> set es \<subseteq> set (outgoing fl (nd_id n))"
  by (auto simp: conclude_def split: node_answer.splits)

lemma step_edges: "node_step fl n st = (Follow es, st') \<Longrightarrow> set es \<subseteq> set (outgoing fl (nd_id n))"
  by (auto simp: node_step_def gate_step_def Let_def split: if_splits sum.splits prod.splits dest!: conclude_edges)

lemma walk_shallow:
  "acyclic (run_rel fl) \<Longrightarrow> depth + below fl nid \<le> Suc max_depth \<Longrightarrow>
     fst (execute_node_chain fl depth nid st) \<noteq> Some DepthExceeded"
  "acyclic (run_rel fl) \<Longrightarrow> \<forall>e \<in> set es. depth + below fl (ed_target e) \<le> Suc max_depth \<Longrightarrow>
     fst (follow_edges fl depth es st) \<noteq> Some DepthExceeded"
proof (induction fl depth nid st and fl depth es st rule: walk_induct)
  case (1 fl depth nid st)
  have d: "\<not> depth > max_depth" using 1(3) below_pos [of fl nid] by simp
  show ?case
  proof (cases "total_visits st \<ge> max_visits")
    case True
    with d show ?thesis by (simp add: execute_node_chain.simps)
  next
    case v: False
    show ?thesis
    proof (cases "find_node fl nid")
      case None
      with d v show ?thesis by (simp add: execute_node_chain.simps)
    next
      case (Some n)
      obtain nxt st1 where s: "node_step fl n (count_visit nid st) = (nxt, st1)" by (rule prod.exhaust)
      show ?thesis
      proof (cases nxt)
        case (Follow es)
        have "Suc depth + below fl (ed_target e) \<le> Suc max_depth" if "e \<in> set es" for e
        proof -
          have "e \<in> set (outgoing fl nid)" using step_edges [of fl n "count_visit nid st" es st1] s Follow find_node_id [OF Some] that by auto
          then have "(nid, ed_target e) \<in> run_rel fl" by (auto simp: outgoing_def run_rel_def)
          from below_edge [OF 1(2) this] 1(3) show ?thesis by simp
        qed
        with 1(1) [OF d v Some s [symmetric] Follow 1(2)] d v Some s Follow show ?thesis by (simp add: execute_node_chain.simps)
      qed (use d v Some s in \<open>simp_all add: execute_node_chain.simps\<close>)
    qed
  qed
next
  case (3 fl depth e es st)
  show ?case
  proof (cases "ed_target e = []")
    case True
    with 3 show ?thesis by (simp add: follow_edges.simps)
  next
    case False
    obtain stop st1 where s: "execute_node_chain fl depth (ed_target e) st = (stop, st1)" by (rule prod.exhaust)
    have h: "stop \<noteq> Some DepthExceeded" using 3(2) [OF False 3(4)] 3(5) s by simp
    show ?thesis
    proof (cases stop)
      case None
      with 3(3) [OF False s [symmetric] None 3(4)] 3(5) False s show ?thesis by (simp add: follow_edges.simps)
    qed (use False s h in \<open>simp add: follow_edges.simps\<close>)
  qed
qed (simp add: follow_edges.simps)

section \<open>What the validator accepts\<close>

lemma node_clean:
  assumes "node_errors values strict base f ids = []"
  obtains s t where "nf_id f = Some s" "nf_type f = Some t" "s \<notin> set ids" "\<not> blank (nf_id f)"
  using assms by (auto simp: node_errors_def node_id_errors_def node_type_errors_def blank_def split: if_splits option.splits)

lemma typed_nodes_simps:
  "typed_nodes [] = []"
  "nf_id f = Some s \<Longrightarrow> nf_type f = Some t \<Longrightarrow> typed_nodes (RawNode f # ns) =
     \<lparr>nd_id = s, nd_type = t, nd_data = (case nf_data f of None \<Rightarrow> Map.empty | Some d \<Rightarrow> d)\<rparr> # typed_nodes ns"
  by (simp_all add: typed_nodes_def)

lemma checked_nodes:
  "check_nodes values strict i ns (errs, ids, trigs) = ([], ids', trigs') \<Longrightarrow>
     errs = [] \<and> ids' = ids @ map nd_id (typed_nodes ns) \<and> length (typed_nodes ns) = length ns \<and>
     (distinct ids \<longrightarrow> distinct ids')"
proof (induction ns arbitrary: i errs ids trigs)
  case Nil
  then show ?case by (simp add: typed_nodes_simps)
next
  case (Cons n ns)
  show ?case
  proof (cases n)
    case NoNode
    with Cons.prems Cons.IH show ?thesis by fastforce
  next
    case (RawNode f)
    let ?errs = "errs @ node_errors values strict (node_path i) f ids"
    let ?ids = "if blank (nf_id f) \<or> the (nf_id f) \<in> set ids then ids else ids @ [the (nf_id f)]"
    let ?trigs = "if is_trigger f then trigs @ [case nf_id f of None \<Rightarrow> [] | Some s \<Rightarrow> s] else trigs"
    have "check_nodes values strict (Suc i) ns (?errs, ?ids, ?trigs) = ([], ids', trigs')"
      using Cons.prems RawNode by simp
    note ih = Cons.IH [OF this]
    then have "node_errors values strict (node_path i) f ids = []" by simp
    then obtain s t where f: "nf_id f = Some s" "nf_type f = Some t" "s \<notin> set ids" "\<not> blank (nf_id f)" by (rule node_clean)
    have "distinct ids \<longrightarrow> distinct ?ids" using f by simp
    with ih have d: "distinct ids \<longrightarrow> distinct ids'" by blast
    have "errs = [] \<and> ids' = ids @ map nd_id (typed_nodes (n # ns)) \<and> length (typed_nodes (n # ns)) = length (n # ns)"
      using ih f RawNode by (simp add: typed_nodes_simps)
    with d show ?thesis by blast
  qed
qed

lemma checked_edges:
  "check_edges i es ids seen = [] \<Longrightarrow> ids \<noteq> [] \<Longrightarrow>
     map (\<lambda>e. (ed_source e, ed_target e)) (typed_edges es) = edge_ends_of es \<and> set (edge_ends_of es) \<subseteq> set ids \<times> set ids"
proof (induction i es ids seen rule: check_edges.induct)
  case (3 i e es ids seen)
  have "edge_errors (edge_path i) e ids seen = []" using 3(2) by simp
  then obtain s t where "ef_source e = Some s" "ef_target e = Some t" "s \<in> set ids" "t \<in> set ids"
    using 3(3) by (auto simp: edge_errors_def endpoint_errors_def split: if_splits)
  with 3 show ?case by (auto simp: typed_edges_def edge_ends_of_def)
qed (simp_all add: typed_edges_def edge_ends_of_def)

text \<open>The whole: what an accepted workflow looks like to the executor.\<close>

lemma accepted_flow:
  assumes ok: "validate_workflow values walk rn True (Some flow) = Some (Ret [])"
    and fields: "wf_nodes flow = Some ns" "wf_edges flow = Some es" and walk: "\<And>xs. set (walk xs) = set xs"
  shows "distinct (map nd_id (typed_nodes ns)) \<and> length (typed_nodes ns) = length ns \<and> length ns \<le> max_nodes \<and>
    (\<forall>e \<in> set (typed_edges es). ed_source e \<in> nd_id ` set (typed_nodes ns) \<and> ed_target e \<in> nd_id ` set (typed_nodes ns)) \<and>
    acyclic (set (map (\<lambda>e. (ed_source e, ed_target e)) (typed_edges es)))"
proof -
  obtain errs1 ids trigs where n: "check_nodes values True 0 ns (shape_errors rn flow, [], []) = (errs1, ids, trigs)"
    by (metis prod_cases3)
  obtain slots where slots: "gate_slots ns = Ret slots"
    using ok fields n by (auto simp: validate_workflow_def Let_def split: sum.splits)
  let ?errs = "errs1 @ check_edges 0 es ids [] @ each_edge (handle_errors ns) 0 es @ each_edge (slot_errors slots) 0 es @
    trigger_errors True ns trigs"
  have e: "?errs = []" using ok fields n slots by (auto simp: validate_workflow_def Let_def split: if_splits)
  have g: "graph_errors (walk ids) (edge_ends_of es) trigs (decorative_ids ns) = Some []"
    using ok fields n slots e by (auto simp: validate_workflow_def Let_def)
  have n': "check_nodes values True 0 ns (shape_errors rn flow, [], []) = ([], ids, trigs)" using n e by simp
  have c: "shape_errors rn flow = []" "ids = map nd_id (typed_nodes ns)" "length (typed_nodes ns) = length ns" "distinct ids"
    using checked_nodes [OF n', unfolded append_Nil] distinct.simps(1) by blast+
  have "trigs \<noteq> []" using e by (auto simp: trigger_errors_def)
  then have "ns \<noteq> []" using n by auto
  then have ne: "ids \<noteq> []" using c(2,3) by auto
  have ends: "map (\<lambda>e. (ed_source e, ed_target e)) (typed_edges es) = edge_ends_of es" "set (edge_ends_of es) \<subseteq> set ids \<times> set ids"
    using checked_edges [of 0 es ids "[]"] e ne by simp_all
  have "acyclic (flow_rel (walk ids) (edge_ends_of es))"
    using g graph_search_ends [of "walk ids" "edge_ends_of es"] search_exact [of "walk ids" "edge_ends_of es"]
    by (auto simp: graph_errors_def split: option.splits)
  moreover have "flow_rel (walk ids) (edge_ends_of es) = set (edge_ends_of es)"
    using ends(2) walk by (auto simp: flow_rel_def)
  ultimately have "acyclic (set (map (\<lambda>e. (ed_source e, ed_target e)) (typed_edges es)))" unfolding ends(1) by simp
  moreover have "length ns \<le> max_nodes" using c(1) fields by (auto simp: shape_errors_def split: if_splits)
  moreover have "\<forall>e \<in> set (typed_edges es). (ed_source e, ed_target e) \<in> set ids \<times> set ids"
    using ends by (metis (no_types, lifting) image_eqI list.set_map subsetD)
  ultimately show ?thesis using c by auto
qed

section \<open>Claims\<close>

text \<open>A workflow for the witnesses: a condition reached by two paths, a gate and an order behind it.\<close>

definition raw_of :: "string \<Rightarrow> string \<Rightarrow> raw_node" where
  "raw_of nid t = RawNode \<lparr>nf_id = Some nid, nf_type = Some t, nf_data = Some Map.empty, nf_position = Some (VInt 0, VInt 0)\<rparr>"

definition raw_edge_of :: "string \<Rightarrow> string \<Rightarrow> string \<Rightarrow> string option \<Rightarrow> raw_edge" where
  "raw_edge_of eid s t h = RawEdge \<lparr>ef_id = Some eid, ef_source = Some s, ef_target = Some t, ef_handle = h, ef_slot = None\<rparr>"

definition sample_workflow :: workflow where
  "sample_workflow = \<lparr>wf_name = Some ''w'',
     wf_nodes = Some [raw_of ''s'' ''start'', raw_of ''a'' ''log'', raw_of ''c'' ''timeWindow'', raw_of ''g'' ''andGate'', raw_of ''o'' ''placeOrder''],
     wf_edges = Some [raw_edge_of ''1'' ''s'' ''a'' None, raw_edge_of ''2'' ''s'' ''c'' None, raw_edge_of ''3'' ''a'' ''c'' None,
       raw_edge_of ''4'' ''c'' ''g'' (Some ''true''), raw_edge_of ''5'' ''g'' ''o'' (Some ''true'')]\<rparr>"

definition sample_engine :: "nat engine" where
  "sample_engine = \<lparr>eg_values = (\<lambda>strict base t d. []), eg_walk = id, eg_blocked = (\<lambda>n w. None), eg_expiry = (\<lambda>n w. None),
     eg_handler = (\<lambda>n w. if nd_id n = ''c'' then (Ret (Verdict True), Suc w) else (Ret Answered, w)),
     eg_api_key = True, eg_record = True\<rparr>"

lemma sample_run:
  "dget (fs_visits (snd (run_flow (flow_of sample_engine sample_workflow) 0))) ''c'' = Some 2"
  "dget (fs_verdicts (snd (run_flow (flow_of sample_engine sample_workflow) 0))) ''g'' = Some True"
  "dget (fs_visits (snd (run_flow (flow_of sample_engine sample_workflow) 0))) ''o'' = Some 1"
  by code_simp+

text \<open>C31: Executing a workflow always ends with an answer, whatever its graph, cycles included, and whatever its
  nodes' methods do: the check never runs out of fuel, and the walk calls at most five hundred methods.\<close>

theorem workflow_always_ends:
  assumes "\<And>n w. calls (snd (eg_handler eg n w)) \<le> calls w + (1 :: nat)"
  shows "\<exists>answer w'. execute_workflow eg running wid stored w = (Some answer, w') \<and> calls w' \<le> calls w + max_visits"
proof -
  have "calls (fs_world (snd (run_flow (flow_of eg flow) w))) \<le> calls w + max_visits" for flow
    by (rule run_within) (use assms in \<open>simp add: flow_of_def\<close>)
  then have run: "run_flow (flow_of eg flow) w = (stop, st) \<Longrightarrow> calls (fs_world st) \<le> calls w + max_visits" for flow stop st
    by (metis snd_conv)
  show ?thesis
  proof (cases stored)
    case (Some flow)
    define checked where "checked = flow\<lparr>wf_nodes := Some (case wf_nodes flow of None \<Rightarrow> [] | Some ns \<Rightarrow> ns),
      wf_edges := Some (case wf_edges flow of None \<Rightarrow> [] | Some es \<Rightarrow> es)\<rparr>"
    obtain r where "validate_workflow (eg_values eg) (eg_walk eg) True True (Some checked) = Some r" using validate_answers by blast
    then show ?thesis
      using run [of checked] Some
      by (auto simp: execute_workflow_def checked_def Let_def split: sum.splits prod.splits option.splits)
  qed (simp add: execute_workflow_def)
qed

theorem workflow_always_ends_witness:
  "snd (execute_workflow sample_engine {} 1 (Some sample_workflow) 0) \<le> 500 \<and>
   fst (execute_workflow sample_engine {} 1 (Some sample_workflow) 0) = Some RunCompleted"
proof -
  have a: "fst (execute_workflow sample_engine {} 1 (Some sample_workflow) 0) = Some RunCompleted" by code_simp
  have "\<exists>answer w'. execute_workflow sample_engine {} 1 (Some sample_workflow) 0 = (Some answer, w') \<and> id w' \<le> id 0 + max_visits"
    by (rule workflow_always_ends) (simp add: sample_engine_def)
  with a show ?thesis by (auto simp: max_visits_def)
qed

text \<open>In one run a condition gives an answer at most once, by however many paths it is reached and
  whatever the other nodes do, so that what hangs on its branch is not started a second time.\<close>

theorem condition_answers_once:
  assumes "answered_by answers nid fl" "find_node fl nid = Some c" "nd_type c \<in> set condition_types"
  shows "answers (fs_world (snd (run_flow fl w))) \<le> answers w + 1"
proof (cases "start_node fl")
  case (Some n)
  have "once_answered answers nid (answers w) (fresh_state w)" by (simp add: once_answered_def fresh_state_def)
  from once_answered_walk [OF assms this, of 0 "nd_id n"] Some show ?thesis
    by (auto simp: run_flow_def once_answered_def split: if_splits)
qed (simp add: run_flow_def fresh_state_def)

theorem condition_answers_once_witness:
  "fs_world (snd (run_flow (flow_of sample_engine sample_workflow) 0)) \<le> 1 \<and>
   dget (fs_visits (snd (run_flow (flow_of sample_engine sample_workflow) 0))) ''c'' = Some 2"
proof -
  let ?c = "\<lparr>nd_id = ''c'', nd_type = ''timeWindow'', nd_data = Map.empty\<rparr>"
  have a: "answered_by id ''c'' (flow_of sample_engine sample_workflow)"
    by (auto simp: answered_by_def flow_of_def sample_engine_def)
  have c: "find_node (flow_of sample_engine sample_workflow) ''c'' = Some ?c"
    by (simp add: find_node_def flow_of_def sample_workflow_def raw_of_def typed_nodes_simps)
  have "nd_type ?c \<in> set condition_types" by (simp add: condition_types_def)
  from condition_answers_once [OF a c this, of 0] sample_run(1) show ?thesis by simp
qed

text \<open>When a run has recorded a verdict for a gate, every wire into the gate has been read, as many
  as the gate is configured for, the verdict is the gate's function of the values read, and the value
  read from each condition or gate is the verdict that node has at the end of the run.\<close>

theorem gate_reads_all_inputs:
  assumes "find_node fl (nd_id g) = Some g" "nd_type g \<in> set gate_types"
    and "dget (fs_verdicts (snd (run_flow fl w))) (nd_id g) = Some b"
  shows "\<exists>inputs. length inputs = length (incoming fl (nd_id g)) \<and> declared_inputs g \<le> int (length inputs) \<and>
    b = gate_value (nd_type g) inputs \<and>
    (\<forall>i < length inputs. settles fl (ed_source (incoming fl (nd_id g) ! i)) \<longrightarrow>
       dget (fs_verdicts (snd (run_flow fl w))) (ed_source (incoming fl (nd_id g) ! i)) = Some (inputs ! i))"
proof (cases "start_node fl")
  case (Some n)
  have "gates_justified fl (fresh_state w)" by (simp add: gates_justified_def fresh_state_def)
  from gates_walk [OF this, of 0 "nd_id n"] Some assms have "gate_justified fl g b (snd (run_flow fl w))"
    by (simp add: run_flow_def gates_justified_def)
  then show ?thesis by (auto simp: gate_justified_def list_all2_conv_all_nth)
qed (use assms in \<open>simp add: run_flow_def fresh_state_def\<close>)

theorem gate_reads_all_inputs_witness:
  "\<exists>inputs. length inputs = 1 \<and> True = gate_value ''andGate'' inputs \<and>
     dget (fs_verdicts (snd (run_flow (flow_of sample_engine sample_workflow) 0))) ''g'' = Some True"
proof -
  let ?fl = "flow_of sample_engine sample_workflow"
  let ?g = "\<lparr>nd_id = ''g'', nd_type = ''andGate'', nd_data = Map.empty\<rparr>"
  have g: "find_node ?fl (nd_id ?g) = Some ?g"
    by (simp add: find_node_def flow_of_def sample_workflow_def raw_of_def typed_nodes_simps)
  have t: "nd_type ?g \<in> set gate_types" by (simp add: gate_types_def)
  have v: "dget (fs_verdicts (snd (run_flow ?fl 0))) (nd_id ?g) = Some True" using sample_run(2) by simp
  have "length (incoming ?fl ''g'') = 1" by code_simp
  with gate_reads_all_inputs [OF g t v] v show ?thesis by auto
qed

text \<open>C32: A workflow the strict check accepts has no cycle and no edge out of its nodes, and if it has at
  most a hundred and one nodes its run never meets the depth limit.\<close>

theorem accepted_never_too_deep:
  assumes "validate_workflow (eg_values eg) walk rn True (Some flow) = Some (Ret [])"
    and "wf_nodes flow = Some ns" "wf_edges flow = Some es" "\<forall>xs. set (walk xs) = set xs" "length ns \<le> Suc max_depth"
  shows "acyclic (run_rel (flow_of eg flow)) \<and> fst (run_flow (flow_of eg flow) w) \<noteq> Some DepthExceeded"
proof -
  let ?fl = "flow_of eg flow"
  have "set (walk xs) = set xs" for xs using assms(4) by blast
  note a = accepted_flow [OF assms(1-3) this]
  have ac: "acyclic (run_rel ?fl)" using a assms(2,3) by (simp add: run_rel_def flow_of_def)
  show ?thesis
  proof (cases "start_node ?fl")
    case (Some n)
    have n: "nd_id n \<in> nd_id ` set (typed_nodes ns)"
      using Some assms(2) by (auto simp: start_node_def find_Some_iff flow_of_def)
    have sub: "snd ` run_rel ?fl \<subseteq> nd_id ` set (typed_nodes ns)"
      using a assms(2,3) by (auto simp: run_rel_def flow_of_def)
    have "y \<in> nd_id ` set (typed_nodes ns)" if r: "(nd_id n, y) \<in> (run_rel ?fl)\<^sup>*" for y
    proof (cases rule: rtranclE [OF r])
      case (2 z)
      then have "y \<in> snd ` run_rel ?fl" by force
      with sub show ?thesis by blast
    qed (use n in simp)
    then have "(run_rel ?fl)\<^sup>* `` {nd_id n} \<subseteq> nd_id ` set (typed_nodes ns)" by blast
    then have "below ?fl (nd_id n) \<le> card (nd_id ` set (typed_nodes ns))"
      unfolding below_def by (intro card_mono) simp_all
    also have "\<dots> \<le> length ns" using a card_length [of "map nd_id (typed_nodes ns)"] by simp
    finally have "0 + below ?fl (nd_id n) \<le> Suc max_depth" using assms(5) by simp
    from walk_shallow(1) [OF ac this] ac Some show ?thesis by (simp add: run_flow_def)
  qed (simp add: run_flow_def ac)
qed

theorem accepted_never_too_deep_witness:
  "fst (run_flow (flow_of sample_engine sample_workflow) 0) \<noteq> Some DepthExceeded"
proof -
  have v: "validate_workflow (eg_values sample_engine) id True True (Some sample_workflow) = Some (Ret [])" by code_simp
  obtain ns es where f: "wf_nodes sample_workflow = Some ns" "wf_edges sample_workflow = Some es" "length ns = 5"
    by (simp add: sample_workflow_def)
  show ?thesis
    by (rule accepted_never_too_deep [OF v f(1,2), THEN conjunct2]) (simp_all add: f(3) max_depth_def)
qed

end
