(* ===== verification/Spec2Isabelle.thy ===== *)
theory Spec2Isabelle
  imports Run_Stops Signal_Claims Order_Claims Fund_Ledger Recovery_Claims Sandbox_Claims Flow_Claims
begin

text \<open>
  A verification development of the trading platform's own core: the risk rules, the strategy runs
  that apply them, the order rows the runs live on, the recovery of runs at boot, the order services with
  their queue of orders to approve, the kill switch, the simulated exchange and the workflow engine. All of it is Python; the sources named below are under \<open>src/\<close>.

  \<^bold>\<open>How the parts interact.\<close> A strategy \<^emph>\<open>run\<close> is a dictionary in the process
  (\<open>services/strategy_module/state.py\<close>). Ticks reach the engine (\<open>engine.py\<close>), which asks the shared
  evaluators (\<open>services/risk\<close>) through an adapter (\<open>risk_adapter.py\<close>) whether a leg or the run
  must exit, claims the exit and sends it through the dispatcher (\<open>order_dispatch.py\<close>) to the broker
  or to the sandbox. Broker frames come back through \<open>order_events.py\<close>, are folded into the durable
  order row (\<open>database/strategy_module_db.py\<close>) and what they add is applied to the run as a fill.
  A strategy of the other kind has no start: an alert moves one leg at a time (\<open>signals.py\<close>).
  At boot \<open>recovery.py\<close> rebuilds the runs from the order rows and the last checkpoint. Orders that users send come
  in through the order services (\<open>services/place_order_service.py\<close> and its siblings); those of a user in semi-automatic
  mode wait in the Action Center until they are approved. Single, smart and basket orders pass the guard of
  the kill switch before the broker sees them. In sandbox mode orders are accepted, matched and netted by
  \<open>sandbox/\<close> against a simulated account. Beside the strategies, users draw \<^emph>\<open>workflows\<close>: graphs of nodes that
  \<open>flow_workflow_validator.py\<close> checks and \<open>flow_executor_service.py\<close> walks.

  \<^bold>\<open>Theories.\<close>
  \<^item> \<open>Py_Base\<close>, \<open>Py_Float\<close>, \<open>Py_Value\<close>, \<open>Py_Decimal\<close>: Python underneath: exceptions and results, strings,
    insertion-ordered dictionaries, IEEE doubles with correct rounding, untyped values and
    their conversions, the 28-digit decimal context.
  \<^item> \<open>Ratchet\<close>, \<open>Accounts\<close>: the two interfaces several components share, as locales: a quantity that
    only moves one way, and an account whose worth is accounted for by its events.
  \<^item> \<open>Risk_Models\<close>, \<open>Risk_Position\<close>, \<open>Risk_Aggregate\<close>: \<open>services/risk\<close>. A stop only tightens and stays
    within the best price seen, an exit is reported exactly when a level is crossed, unusable prices are
    inert, the profit lock's floor never falls.
  \<^item> \<open>Run_State\<close>, \<open>Run_Fills\<close>, \<open>Run_Exits\<close>, \<open>Run_Lifecycle\<close>: \<open>state.py\<close> and \<open>engine.py\<close>: the registry of
    runs, one atomic function per locked function, fills, exits, stops, and the machine of all
    its actions with its well-formedness invariant. \<open>Run_Claims\<close>, \<open>Run_Books\<close> and \<open>Run_Stops\<close> hold the
    properties: exclusive exit claims, no entry into a stopping run, exact books of a fill, a flip that
    keeps both sides, a stop that never abandons a position.
  \<^item> \<open>Risk_Adapter\<close>: \<open>risk_adapter.py\<close>; the ratchets lifted to any sequence of ticks of legs and runs.
  \<^item> \<open>Run_Laws\<close>: what every action of the registry's machine keeps, sending exits and stopping a run keep too; a
    locale, with reachability and well-formedness as its instances.
  \<^item> \<open>Signal_Legs\<close>, \<open>Signals\<close>: \<open>signals.py\<close>, \<open>session.py\<close> and the contract checks of
    \<open>symbol_resolver.py\<close>. \<open>Signal_Facts\<close> extends the laws to signals and follows their orders, and \<open>Signal_Claims\<close>
    holds their promises: one side of the market, a truthful answer, a harmless repetition, a refusal
    that costs nothing, a claim that is always released.
  \<^item> \<open>Order_Fold\<close>, \<open>Order_Dispatch\<close>: \<open>order_events.py\<close> with the conditional update of
    \<open>strategy_module_db.py\<close>, and \<open>order_dispatch.py\<close>.
  \<^item> \<open>Recovery\<close>, \<open>Recovery_Facts\<close>, \<open>Recovery_Claims\<close>: \<open>recovery.py\<close>; the registry's invariants survive a
    boot, a recovered position holds what its rows say, and a run is read back as it was written.
  \<^item> \<open>Kill_Switch\<close>: the latch, the guard, the monitor, the emergency calls and the reset script.
  \<^item> \<open>Order_Service\<close>, \<open>Order_Batches\<close>, \<open>Action_Center\<close>: the services of single orders, with the decision service
    (\<open>jev_service.py\<close>) and the routing; of split, smart, trigger and basket orders; and the table of pending orders
    with its approval and execution. \<open>Order_Facts\<close> and \<open>Center_Facts\<close> follow the calls they make; \<open>Order_Claims\<close>: nothing
    is sent without its owner's approval, nor twice, a single order needs every permission, a latched switch
    silences the services that ask it, a split adds up, a basket sends each leg once.
  \<^item> \<open>Fund_Manager\<close>, \<open>Fund_Ledger\<close>: \<open>sandbox/fund_manager.py\<close>, a ledger that refines a book of four exact
    figures and conserves cash.
  \<^item> \<open>Sandbox_Desk\<close>, \<open>Sandbox_Orders\<close>: \<open>sandbox/execution_engine.py\<close>, the tick check of
    \<open>websocket_execution_engine.py\<close>, and \<open>order_manager.py\<close>: a user's orders, trades, positions and
    account as one desk. \<open>Sandbox_Facts\<close> shows that every request, cycle and tick is a sequence of
    four moves, and \<open>Sandbox_Claims\<close> what follows over histories: an order fills at most once and within its
    limit, what has ended stays, positions are sums of trades, a fillable order fills.
  \<^item> \<open>Flow_Graph\<close>, \<open>Flow_Validate\<close>: \<open>flow_workflow_validator.py\<close>; \<open>Flow_Graph_Facts\<close> shows its two searches
    exact. \<open>Flow_Run\<close>: \<open>execute_node_chain\<close> and \<open>execute_workflow\<close>. \<open>Flow_Claims\<close>: a run ends within the visit
    limit, a condition answers once, a gate reads every input, an accepted graph is acyclic. A
    node that is neither a condition nor a gate runs once per path that reaches it.

  \<^bold>\<open>Correspondence.\<close> A definition has the name of the function it translates, without a leading
  underscore, and helpers name the part of it they hold. Dictionaries the code uses as records are
  records; those it uses as maps are association lists in insertion order. An exception is a value of
  \<open>pyexc\<close>; a function that can raise returns a sum. Code under a lock is one atomic function.
  Concurrency is an arbitrary sequence of such functions, or an environment that may change a
  row between a read and its conditional update.

  \<^bold>\<open>Bounds.\<close> The conditional update tries eight times, as the code does. Quantities are unbounded
  integers; they go through \<open>float\<close> in several places, so exact statements ask for sizes below
  \<open>2^53\<close>. Amounts are decimals; exact statements ask for whole cents below \<open>10^13\<close>, what a
  \<open>DECIMAL(15,2)\<close> column holds. The cycle search of the validator takes one unit of
  fuel per node, and is shown never to run out; the walk of a workflow recurses on the depth left below
  100 and stops after 500 visits, as the code does. Every other loop is a recursion over a list or over
  the attempts left.

  \<^bold>\<open>Assumed of the outside.\<close> The analyze setting and the stored modes and credentials do not change during one
  request; every answer of a broker, the sandbox, the funds and the decision service may differ from the one before. Databases, broker services, clocks, quotes and \<open>uuid4\<close> are arguments. Where a
  property relies on them it says so: \<open>exact_rules\<close> and \<open>sign_rules\<close> on what a database does with
  amounts of cents, \<open>col_rules\<close> that storing a price keeps order and is idempotent, \<open>inj\<close> on the supply of identifiers.

  \<^bold>\<open>Not modelled.\<close> Logging, audit texts, published events and notifications; the broker adapters, which
  translate to third-party APIs; the web front ends and request schemas; market data,
  analytics, bots, agents and hosted scripts. Of the workflows, what a node's handler does, the
  checks of the values in a node and the timers and alerts that start a run. Of the strategy module, the scheduler, the
  tick subscriptions, the expiry ranks and strikes of the symbol resolver, the views and the webhook front end; of the sandbox, settlement,
  square-off, triggers, and the races of two engines on one order. Of the order services, modifications, cancellations and
  options orders; a race of two approvals inside the database function. Plain queries and table definitions appear as the records they return.
\<close>

end
